(* ===== verification/Prelude.thy ===== *)
theory Prelude
  imports Main "HOL-Library.Word" "HOL-Library.AList" "HOL-Library.Char_ord"
    "HOL-Library.List_Lexorder"
begin

text \<open>
  Shared vocabulary of the development: the machine integers and containers of the Rust
  sources, the results of fallible and of panicking operations, the parts of the Rust standard
  library the sources use on strings, and the generic lemmas about them.

  Strings are byte strings (\<^typ>\<open>string\<close>, one \<^typ>\<open>char\<close> per byte), so \<open>length\<close> is
  \<open>str::len\<close> and the order of \<open>List_Lexorder\<close> is the byte order of \<open>String\<close>. The functions
  that depend on character classes (\<open>trim\<close>, \<open>to_lowercase\<close>, \<open>split_whitespace\<close>) follow the
  ASCII part of their definition.

  A \<open>HashMap\<close> is an association list read with \<^const>\<open>map_of\<close> and changed with
  \<^const>\<open>AList.update\<close> and \<^const>\<open>AList.delete\<close>; a \<open>BTreeMap\<close> is one kept in key order by
  \<open>bt_insert\<close>, so that iterating over it is iterating over the list.
\<close>

subsection \<open>Collections and names\<close>

named_theorems lookup_simps \<open>what a registry returns after an update\<close>
named_theorems contract_simps \<open>definitions of the adapters, unfolded by the contract proofs\<close>

type_synonym u8 = "8 word"
type_synonym u16 = "16 word"
type_synonym u32 = "32 word"
type_synonym u64 = "64 word"
type_synonym bytes = "u8 list"
type_synonym 'v smap = "(string \<times> 'v) list"
type_synonym attrs = "(string \<times> string) list"

subsection \<open>Results and panics\<close>

text \<open>
  A Rust \<open>Result\<close> is a sum with the error on the left. A panic is the value \<open>Panicked\<close> of
  \<open>outcome\<close>: an operation that may panic returns an outcome, so no panic is hidden in an
  unspecified value.
\<close>

datatype 'r outcome = Done 'r | Panicked

fun ok_or :: "'a option \<Rightarrow> 'e \<Rightarrow> 'e + 'a" where
  "ok_or None e = Inl e"
| "ok_or (Some v) e = Inr v"

fun unwrap_or :: "'a option \<Rightarrow> 'a \<Rightarrow> 'a" where
  "unwrap_or None d = d"
| "unwrap_or (Some v) d = v"

fun is_ok :: "'e + 'a \<Rightarrow> bool" where
  "is_ok (Inl e) = False"
| "is_ok (Inr v) = True"

fun map_err :: "('e \<Rightarrow> 'f) \<Rightarrow> 'e + 'a \<Rightarrow> 'f + 'a" where
  "map_err f (Inl e) = Inl (f e)"
| "map_err f (Inr v) = Inr v"

fun and_then :: "'e + 'a \<Rightarrow> ('a \<Rightarrow> 'e + 'b) \<Rightarrow> 'e + 'b" where
  "and_then (Inl e) f = Inl e"
| "and_then (Inr v) f = f v"

lemma ok_or_Inr [simp]: "ok_or x e = Inr v \<longleftrightarrow> x = Some v"
  by (cases x) auto

lemma ok_or_Inl [simp]: "ok_or x e = Inl d \<longleftrightarrow> x = None \<and> d = e"
  by (cases x) auto

lemma and_then_Inr: "and_then x f = Inr v \<longleftrightarrow> (\<exists>u. x = Inr u \<and> f u = Inr v)"
  by (cases x) auto

lemma map_err_Inr [simp]: "map_err f x = Inr v \<longleftrightarrow> x = Inr v"
  by (cases x) auto

lemma outcome_exhaust: "(\<exists>r. x = Done r) \<or> x = Panicked"
  by (cases x) auto

subsection \<open>Time\<close>

text \<open>
  \<open>std::time::Instant\<close> on Linux is a \<open>timespec\<close> with a signed 64-bit second count, and
  \<open>Instant + Duration\<close> panics when the second count overflows. An instant is its nanosecond
  count as an integer, a \<open>Duration\<close> its nanosecond count as a natural number, and \<open>None\<close> is the
  panic.
\<close>

type_synonym instant = int
type_synonym duration = nat

definition nanos_per_sec :: nat where
  "nanos_per_sec = 1000000000"

definition from_secs :: "u64 \<Rightarrow> duration" where
  "from_secs s = unat s * nanos_per_sec"

definition from_millis :: "nat \<Rightarrow> duration" where
  "from_millis ms = ms * 1000000"

definition instant_limit :: int where
  "instant_limit = 2 ^ 63 * int nanos_per_sec"

definition instant_add :: "instant \<Rightarrow> duration \<Rightarrow> instant option" where
  "instant_add t d = (if t + int d < instant_limit then Some (t + int d) else None)"

definition instant_sub :: "instant \<Rightarrow> duration \<Rightarrow> instant option" where
  "instant_sub t d = (if - instant_limit \<le> t - int d then Some (t - int d) else None)"

lemma instant_add_Some [simp]:
  "instant_add t d = Some e \<longleftrightarrow> e = t + int d \<and> t + int d < instant_limit"
  by (auto simp: instant_add_def)

lemma instant_add_None [simp]: "instant_add t d = None \<longleftrightarrow> instant_limit \<le> t + int d"
  by (auto simp: instant_add_def)

lemma from_secs_mono: "s \<le> s' \<Longrightarrow> from_secs s \<le> from_secs s'"
  by (simp add: from_secs_def word_le_nat_alt)

subsection \<open>Registries\<close>

text \<open>Membership of a key, the keys, and the operations of \<open>HashMap\<close> and \<open>BTreeMap\<close>.\<close>

definition has_key :: "('k \<times> 'v) list \<Rightarrow> 'k \<Rightarrow> bool" where
  "has_key m k = (map_of m k \<noteq> None)"

abbreviation keys :: "('k \<times> 'v) list \<Rightarrow> 'k list" where
  "keys m \<equiv> map fst m"

fun bt_insert :: "'k::linorder \<Rightarrow> 'v \<Rightarrow> ('k \<times> 'v) list \<Rightarrow> ('k \<times> 'v) list" where
  "bt_insert k v [] = [(k, v)]"
| "bt_insert k v ((k', v') # m) =
     (if k < k' then (k, v) # (k', v') # m
      else if k = k' then (k, v) # m
      else (k', v') # bt_insert k v m)"

definition bt_from :: "('k::linorder \<times> 'v) list \<Rightarrow> ('k \<times> 'v) list" where
  "bt_from kvs = fold (\<lambda>(k, v). bt_insert k v) kvs []"

definition bt_wf :: "('k::linorder \<times> 'v) list \<Rightarrow> bool" where
  "bt_wf m = (sorted (keys m) \<and> distinct (keys m))"

lemma has_key_iff: "has_key m k \<longleftrightarrow> k \<in> set (keys m)"
  by (induction m) (auto simp: has_key_def)

lemma has_key_update [lookup_simps]: "has_key (AList.update k v m) k' \<longleftrightarrow> k' = k \<or> has_key m k'"
  by (simp add: has_key_def update_conv')

lemma has_key_delete [lookup_simps]: "has_key (AList.delete k m) k' \<longleftrightarrow> k' \<noteq> k \<and> has_key m k'"
  by (simp add: has_key_def delete_conv')

lemma get_update [lookup_simps]:
  "map_of (AList.update k v m) k' = (if k' = k then Some v else map_of m k')"
  by (simp add: update_conv')

lemma get_delete [lookup_simps]:
  "map_of (AList.delete k m) k' = (if k' = k then None else map_of m k')"
  by (simp add: delete_conv')

lemma distinct_keys_update: "distinct (keys m) \<Longrightarrow> distinct (keys (AList.update k v m))"
  by (rule distinct_update)

lemma distinct_keys_delete: "distinct (keys m) \<Longrightarrow> distinct (keys (AList.delete k m))"
  by (rule distinct_delete)

lemma distinct_keys_filter: "distinct (keys m) \<Longrightarrow> distinct (keys (filter P m))"
  by (induction m) auto

lemma map_of_filter:
  "distinct (keys m) \<Longrightarrow>
     map_of (filter P m) k = (case map_of m k of None \<Rightarrow> None | Some v \<Rightarrow> if P (k, v) then Some v else None)"
  by (induction m) (auto split: option.splits simp: map_of_eq_None_iff rev_image_eqI)

lemma map_of_filter_le: "distinct (keys m) \<Longrightarrow> map_of (filter P m) k = Some v \<Longrightarrow> map_of m k = Some v"
  by (auto simp: map_of_filter split: option.splits if_splits)

lemma map_insort_key: "map f (insort_key f x xs) = insort (f x) (map f xs)"
  by (induction xs) auto

lemma map_sort_key: "map f (sort_key f xs) = sort (map f xs)"
  by (induction xs) (simp_all add: map_insort_key)

lemma keys_bt_insert [simp]: "set (keys (bt_insert k v m)) = insert k (set (keys m))"
  by (induction k v m rule: bt_insert.induct) auto

lemma get_bt_insert [lookup_simps]:
  "map_of (bt_insert k v m) k' = (if k' = k then Some v else map_of m k')"
  by (induction k v m rule: bt_insert.induct) auto

lemma sorted_bt_insert: "sorted (keys m) \<Longrightarrow> sorted (keys (bt_insert k v m))"
  by (induction k v m rule: bt_insert.induct) (auto simp flip: set_map)

lemma distinct_bt_insert:
  "sorted (keys m) \<Longrightarrow> distinct (keys m) \<Longrightarrow> distinct (keys (bt_insert k v m))"
proof (induction k v m rule: bt_insert.induct)
  case (2 k v k' v' m)
  have "k \<noteq> k' \<and> k \<notin> set (keys m)" if "k < k'"
    using 2(2) that by fastforce
  moreover have "k' \<notin> set (keys (bt_insert k v m))" if "\<not> k < k'" "k \<noteq> k'"
    unfolding keys_bt_insert using 2(3) that by auto
  ultimately show ?case
    using 2 by auto
qed simp

lemma bt_wf_insert: "bt_wf m \<Longrightarrow> bt_wf (bt_insert k v m)"
  by (simp add: bt_wf_def sorted_bt_insert distinct_bt_insert)

lemma bt_wf_Nil [simp]: "bt_wf []"
  by (simp add: bt_wf_def)

lemma get_bt_from [lookup_simps]: "map_of (bt_from kvs) k = map_of (rev kvs) k"
proof -
  have "map_of (fold (\<lambda>(k, v). bt_insert k v) kvs m) k
      = (case map_of (rev kvs) k of None \<Rightarrow> map_of m k | Some v \<Rightarrow> Some v)" for m
    by (induction kvs arbitrary: m) (auto simp: get_bt_insert map_add_def split: option.splits)
  from this [of "[]"] show ?thesis
    by (simp add: bt_from_def split: option.split)
qed

lemma bt_wf_from: "bt_wf (bt_from kvs)"
proof -
  have "bt_wf m \<Longrightarrow> bt_wf (fold (\<lambda>(k, v). bt_insert k v) kvs m)" for m :: "('a \<times> 'b) list"
    by (induction kvs arbitrary: m) (auto simp: bt_wf_insert split: prod.splits)
  then show ?thesis
    by (simp add: bt_from_def)
qed

end
