(* ===== verification/Rust_Strings.thy ===== *)
theory Rust_Strings
  imports Prelude
begin

text \<open>
  The functions of Rust's \<open>str\<close> and integer parsing and printing that the sources call, as
  executable functions on byte strings, with the lemmas the components use: splitting and joining
  are inverse, printing and parsing a number are inverse, and a parsed number is within its width.
\<close>

subsection \<open>Characters\<close>

definition is_ws :: "char \<Rightarrow> bool" where
  "is_ws c = (c \<in> {CHR '' '', CHR 0x09, CHR 0x0A, CHR 0x0B, CHR 0x0C, CHR 0x0D})"

definition lower_char :: "char \<Rightarrow> char" where
  "lower_char c = (let n = (of_char c :: nat) in if 65 \<le> n \<and> n \<le> 90 then char_of (n + 32) else c)"

definition upper_char :: "char \<Rightarrow> char" where
  "upper_char c = (let n = (of_char c :: nat) in if 97 \<le> n \<and> n \<le> 122 then char_of (n - 32) else c)"

definition to_lower :: "string \<Rightarrow> string" where
  "to_lower s = map lower_char s"

definition to_upper :: "string \<Rightarrow> string" where
  "to_upper s = map upper_char s"

subsection \<open>Trimming and prefixes\<close>

definition trim_start :: "string \<Rightarrow> string" where
  "trim_start s = dropWhile is_ws s"

definition trim_end_matches :: "(char \<Rightarrow> bool) \<Rightarrow> string \<Rightarrow> string" where
  "trim_end_matches p s = rev (dropWhile p (rev s))"

definition trim_matches :: "(char \<Rightarrow> bool) \<Rightarrow> string \<Rightarrow> string" where
  "trim_matches p s = trim_end_matches p (dropWhile p s)"

definition trim :: "string \<Rightarrow> string" where
  "trim s = trim_matches is_ws s"

definition starts_with :: "string \<Rightarrow> string \<Rightarrow> bool" where
  "starts_with s p = (take (length p) s = p)"

definition strip_prefix :: "string \<Rightarrow> string \<Rightarrow> string option" where
  "strip_prefix s p = (if starts_with s p then Some (drop (length p) s) else None)"

definition strip_suffix :: "string \<Rightarrow> string \<Rightarrow> string option" where
  "strip_suffix s p =
     (if length p \<le> length s \<and> drop (length s - length p) s = p
      then Some (take (length s - length p) s) else None)"

fun contains :: "string \<Rightarrow> string \<Rightarrow> bool" where
  "contains [] p = (p = [])"
| "contains (c # s) p = (starts_with (c # s) p \<or> contains s p)"

lemma starts_with_append [simp]: "starts_with (p @ s) p"
  by (simp add: starts_with_def)

lemma strip_prefix_append [simp]: "strip_prefix (p @ s) p = Some s"
  by (simp add: strip_prefix_def)

lemma strip_prefix_Some: "strip_prefix s p = Some r \<longleftrightarrow> s = p @ r"
  by (auto simp: strip_prefix_def starts_with_def split: if_splits) (metis append_take_drop_id)

subsection \<open>Splitting and joining\<close>

fun split_on :: "(char \<Rightarrow> bool) \<Rightarrow> string \<Rightarrow> string list" where
  "split_on p [] = [[]]"
| "split_on p (c # s) =
     (if p c then [] # split_on p s
      else case split_on p s of [] \<Rightarrow> [[c]] | w # ws \<Rightarrow> (c # w) # ws)"

abbreviation split_char :: "char \<Rightarrow> string \<Rightarrow> string list" where
  "split_char d \<equiv> split_on (\<lambda>c. c = d)"

fun join :: "string \<Rightarrow> string list \<Rightarrow> string" where
  "join sep [] = []"
| "join sep [w] = w"
| "join sep (w # ws) = w @ sep @ join sep ws"

fun split_once :: "char \<Rightarrow> string \<Rightarrow> (string \<times> string) option" where
  "split_once d [] = None"
| "split_once d (c # s) =
     (if c = d then Some ([], s)
      else case split_once d s of None \<Rightarrow> None | Some (l, r) \<Rightarrow> Some (c # l, r))"

definition rsplit_once :: "char \<Rightarrow> string \<Rightarrow> (string \<times> string) option" where
  "rsplit_once d s =
     (case split_once d (rev s) of None \<Rightarrow> None | Some (r, l) \<Rightarrow> Some (rev l, rev r))"

definition split_whitespace :: "string \<Rightarrow> string list" where
  "split_whitespace s = filter (\<lambda>w. w \<noteq> []) (split_on is_ws s)"

definition chomp_cr :: "string \<Rightarrow> string" where
  "chomp_cr l = (if l \<noteq> [] \<and> last l = CHR 0x0D then butlast l else l)"

definition lines :: "string \<Rightarrow> string list" where
  "lines s =
     (let ws = split_char (CHR 0x0A) s
      in (if last ws = [] then map chomp_cr (butlast ws) else map chomp_cr (butlast ws) @ [last ws]))"

lemma split_on_nonempty [simp]: "split_on p s \<noteq> []"
  by (induction s) (auto split: list.splits)

lemma join_Cons: "join sep (w # ws) = (if ws = [] then w else w @ sep @ join sep ws)"
  by (cases ws) auto

lemma join_split_char: "join [d] (split_char d s) = s"
proof (induction s)
  case (Cons c s)
  obtain w ws where "split_char d s = w # ws"
    by (cases "split_char d s") auto
  with Cons show ?case
    by (auto simp: join_Cons)
qed simp

lemma split_on_no_sep: "\<forall>c \<in> set s. \<not> p c \<Longrightarrow> split_on p s = [s]"
  by (induction s) auto

lemma split_on_append_sep:
  "p d \<Longrightarrow> \<forall>c \<in> set w. \<not> p c \<Longrightarrow> split_on p (w @ d # s) = w # split_on p s"
  by (induction w) auto

lemma split_char_join:
  assumes "ws \<noteq> []" and "\<forall>w \<in> set ws. d \<notin> set w"
  shows "split_char d (join [d] ws) = ws"
  using assms
proof (induction ws)
  case (Cons w ws)
  show ?case
  proof (cases "ws = []")
    case True
    with Cons.prems show ?thesis using split_on_no_sep [of w "\<lambda>c. c = d"] by auto
  next
    case False
    have "split_char d (w @ d # join [d] ws) = w # split_char d (join [d] ws)"
      using Cons.prems by (intro split_on_append_sep) auto
    with False Cons show ?thesis by (simp add: join_Cons)
  qed
qed simp

lemma split_once_SomeD: "split_once d s = Some (l, r) \<Longrightarrow> s = l @ d # r \<and> d \<notin> set l"
  by (induction s arbitrary: l) (auto split: if_splits option.splits)

lemma split_once_append: "d \<notin> set l \<Longrightarrow> split_once d (l @ d # r) = Some (l, r)"
  by (induction l) auto

lemma split_once_Some: "split_once d s = Some (l, r) \<longleftrightarrow> s = l @ d # r \<and> d \<notin> set l"
  using split_once_SomeD split_once_append by metis

lemma split_once_None: "split_once d s = None \<longleftrightarrow> d \<notin> set s"
  by (induction s) (auto split: option.splits)

lemma rsplit_once_SomeD: "rsplit_once d s = Some (l, r) \<Longrightarrow> s = l @ d # r \<and> d \<notin> set r"
  by (auto simp: rsplit_once_def rev_swap split: option.splits dest!: split_once_SomeD)

lemma rsplit_once_append: "d \<notin> set r \<Longrightarrow> rsplit_once d (l @ d # r) = Some (l, r)"
  using split_once_append [of d "rev r" "rev l"] by (simp add: rsplit_once_def)

lemma rsplit_once_None: "rsplit_once d s = None \<longleftrightarrow> d \<notin> set s"
  using split_once_None [of d "rev s"] by (auto simp: rsplit_once_def split: option.splits)

subsection \<open>Numbers\<close>

text \<open>
  \<open>from_str_radix\<close> accepts an optional leading plus sign and at least one digit, and fails when
  the value leaves the type: the width is the argument \<open>lim\<close>, the first value that does not fit.
\<close>

definition digit_val :: "char \<Rightarrow> nat option" where
  "digit_val c =
     (let n = (of_char c :: nat)
      in if 48 \<le> n \<and> n \<le> 57 then Some (n - 48)
         else if 97 \<le> n \<and> n \<le> 122 then Some (n - 87)
         else if 65 \<le> n \<and> n \<le> 90 then Some (n - 55)
         else None)"

fun parse_digits :: "nat \<Rightarrow> nat \<Rightarrow> string \<Rightarrow> nat option" where
  "parse_digits radix acc [] = Some acc"
| "parse_digits radix acc (c # s) =
     (case digit_val c of
        None \<Rightarrow> None
      | Some d \<Rightarrow> if d < radix then parse_digits radix (acc * radix + d) s else None)"

definition from_str_radix :: "nat \<Rightarrow> nat \<Rightarrow> string \<Rightarrow> nat option" where
  "from_str_radix lim radix s =
     (let ds = (case s of CHR ''+'' # t \<Rightarrow> t | _ \<Rightarrow> s)
      in if ds = [] then None
         else case parse_digits radix 0 ds of
                None \<Rightarrow> None
              | Some n \<Rightarrow> if n < lim then Some n else None)"

definition parse_u16 :: "string \<Rightarrow> u16 option" where
  "parse_u16 s = map_option of_nat (from_str_radix (2 ^ 16) 10 s)"

definition parse_u32 :: "string \<Rightarrow> u32 option" where
  "parse_u32 s = map_option of_nat (from_str_radix (2 ^ 32) 10 s)"

definition parse_u64 :: "string \<Rightarrow> u64 option" where
  "parse_u64 s = map_option of_nat (from_str_radix (2 ^ 64) 10 s)"

definition digit_char :: "nat \<Rightarrow> char" where
  "digit_char d = char_of (if d < 10 then d + 48 else d + 87)"

fun show_radix :: "nat \<Rightarrow> nat \<Rightarrow> string" where
  "show_radix radix n =
     (if radix \<le> 1 \<or> n < radix then [digit_char n]
      else show_radix radix (n div radix) @ [digit_char (n mod radix)])"

declare show_radix.simps [simp del]

abbreviation show_nat :: "nat \<Rightarrow> string" where
  "show_nat \<equiv> show_radix 10"

abbreviation show_word :: "'w::len word \<Rightarrow> string" where
  "show_word w \<equiv> show_nat (unat w)"

definition show_bool :: "bool \<Rightarrow> string" where
  "show_bool b = (if b then ''true'' else ''false'')"

text \<open>\<open>format!("{:04x}")\<close>: lower-case hexadecimal, padded on the left with zeros to a width.\<close>

definition show_hex_padded :: "nat \<Rightarrow> nat \<Rightarrow> string" where
  "show_hex_padded width n =
     (let s = show_radix 16 n in replicate (width - length s) (CHR ''0'') @ s)"

lemma digit_val_digit_char: "d < 36 \<Longrightarrow> digit_val (digit_char d) = Some d"
  by (simp add: digit_val_def digit_char_def)

lemma digit_char_not_plus: "d < 36 \<Longrightarrow> digit_char d \<noteq> CHR ''+''"
  using digit_val_digit_char [of d] by (auto simp: digit_val_def)

lemma show_radix_nonempty [simp]: "show_radix r n \<noteq> []"
  by (subst show_radix.simps) simp

lemma parse_digits_append:
  "parse_digits r a (s @ t) = (case parse_digits r a s of None \<Rightarrow> None | Some b \<Rightarrow> parse_digits r b t)"
  by (induction s arbitrary: a) (auto split: option.splits)

lemma parse_digits_show: "1 < r \<Longrightarrow> r \<le> 36 \<Longrightarrow> parse_digits r 0 (show_radix r n) = Some n"
proof (induction r n rule: show_radix.induct)
  case (1 r n)
  show ?case
  proof (cases "n < r")
    case True
    with 1 show ?thesis
      by (simp add: show_radix.simps [of r n] digit_val_digit_char)
  next
    case False
    then have "parse_digits r 0 (show_radix r (n div r)) = Some (n div r)"
      using 1 by simp
    moreover have "n mod r < 36"
      using 1(2,3) mod_less_divisor [of r n] by linarith
    ultimately show ?thesis
      using False 1(2,3) by (simp add: show_radix.simps [of r n] parse_digits_append digit_val_digit_char)
  qed
qed

lemma show_radix_hd_not_plus: "1 < r \<Longrightarrow> r \<le> 36 \<Longrightarrow> hd (show_radix r n) \<noteq> CHR ''+''"
proof (induction r n rule: show_radix.induct)
  case (1 r n)
  show ?case
  proof (cases "n < r")
    case True
    with 1 show ?thesis
      by (simp add: show_radix.simps [of r n] digit_char_not_plus)
  next
    case False
    then have "hd (show_radix r (n div r)) \<noteq> CHR ''+''"
      using 1 by simp
    with False 1(2) show ?thesis
      by (simp add: show_radix.simps [of r n])
  qed
qed

lemma from_str_radix_digits:
  assumes "s \<noteq> []" and "hd s \<noteq> CHR ''+''"
  shows "from_str_radix lim r s =
    (case parse_digits r 0 s of None \<Rightarrow> None | Some n \<Rightarrow> if n < lim then Some n else None)"
proof -
  have "(case s of CHR ''+'' # t \<Rightarrow> t | _ \<Rightarrow> s) = s"
    using assms by (cases s) (auto split: char.splits bool.splits)
  with assms(1) show ?thesis
    by (simp add: from_str_radix_def Let_def)
qed

lemma from_str_radix_show:
  "1 < r \<Longrightarrow> r \<le> 36 \<Longrightarrow> n < lim \<Longrightarrow> from_str_radix lim r (show_radix r n) = Some n"
  by (simp add: from_str_radix_digits show_radix_hd_not_plus parse_digits_show)

lemma from_str_radix_bound: "from_str_radix lim r s = Some n \<Longrightarrow> n < lim"
  by (auto simp: from_str_radix_def Let_def split: option.splits if_splits)

end
