(* ===== verification/Resource_Model.thy ===== *)
theory Resource_Model
  imports Rust_Strings
begin

text \<open>
  The portable resource model of \<open>nauti-fabric/src/lib.rs\<close>: resources, requests and the
  predicate that matches them, leases, attachments, adapter reports and the fabric's errors with
  their messages. Everything else in the development is stated over these types.
\<close>

subsection \<open>Resources\<close>

datatype resource_kind = Cpu | Gpu | Memory | Storage | Network | Device

datatype resource_state = Available | Unavailable

record resource =
  res_id :: string
  res_kind :: resource_kind
  res_capacity :: u64
  res_unit :: string
  res_node :: string
  res_state :: resource_state
  res_exclusive :: bool
  res_attributes :: attrs

text \<open>\<open>available_parallelism\<close> is what the operating system answers; an error counts as one CPU.\<close>

definition local_cpu :: "u64 option \<Rightarrow> string \<Rightarrow> resource" where
  "local_cpu parallelism node =
     \<lparr>res_id = ''local.cpu.logical'', res_kind = Cpu, res_capacity = unwrap_or parallelism 1,
      res_unit = ''logical-cpu'', res_node = node, res_state = Available, res_exclusive = False,
      res_attributes = [(''topology.scope'', ''host'')]\<rparr>"

definition local_memory :: "string \<Rightarrow> u64 \<Rightarrow> resource" where
  "local_memory node nbytes =
     \<lparr>res_id = ''local.memory'', res_kind = Memory, res_capacity = nbytes,
      res_unit = ''bytes'', res_node = node, res_state = Available, res_exclusive = False,
      res_attributes = [(''topology.scope'', ''host'')]\<rparr>"

subsection \<open>Leases, attachments, reports\<close>

record lease =
  lease_id :: u64
  lease_resource :: string
  lease_owner :: string

record attachment =
  att_resource :: string
  att_lease :: u64
  att_adapter :: string
  att_details :: attrs

record adapter_report =
  rep_name :: string
  rep_scope :: string
  rep_healthy :: bool
  rep_detail :: attrs

text \<open>The default method of the trait: a stateless, always healthy adapter.\<close>

definition default_capability_report :: "string \<Rightarrow> adapter_report" where
  "default_capability_report name =
     \<lparr>rep_name = name, rep_scope = ''unspecified'', rep_healthy = True, rep_detail = []\<rparr>"

subsection \<open>Errors\<close>

datatype fabric_error =
    ResourceNotFound
  | ResourceUnavailable
  | ResourceAlreadyLeased
  | LeaseNotFound
  | AdapterNotFound
  | IncompatibleResourceKind (ik_adapter: string) (ik_expected: resource_kind) (ik_actual: resource_kind)
  | IncompatibleResourceLocality (il_adapter: string) (il_expected: string) (il_actual: string)
  | MissingResourceAttribute string
  | AdapterBackendUnavailable (bu_adapter: string) (bu_reason: string)
  | GuestMemory string

fun kind_debug :: "resource_kind \<Rightarrow> string" where
  "kind_debug Cpu = ''Cpu''"
| "kind_debug Gpu = ''Gpu''"
| "kind_debug Memory = ''Memory''"
| "kind_debug Storage = ''Storage''"
| "kind_debug Network = ''Network''"
| "kind_debug Device = ''Device''"

fun fabric_error_display :: "fabric_error \<Rightarrow> string" where
  "fabric_error_display ResourceNotFound = ''resource does not exist''"
| "fabric_error_display ResourceUnavailable = ''resource is unavailable''"
| "fabric_error_display ResourceAlreadyLeased = ''resource already has an active exclusive lease''"
| "fabric_error_display LeaseNotFound = ''lease does not exist or is not owned by this caller''"
| "fabric_error_display AdapterNotFound = ''adapter does not exist''"
| "fabric_error_display (IncompatibleResourceKind a e k) =
     ''adapter '' @ a @ '' requires '' @ kind_debug e @ '', but resource is '' @ kind_debug k"
| "fabric_error_display (IncompatibleResourceLocality a e l) =
     ''adapter '' @ a @ '' requires a '' @ e @ '' resource, but resource is '' @ l"
| "fabric_error_display (MissingResourceAttribute k) =
     ''resource does not contain required adapter attribute: '' @ k"
| "fabric_error_display (AdapterBackendUnavailable a r) =
     ''adapter '' @ a @ '' backend is unavailable: '' @ r"
| "fabric_error_display (GuestMemory e) = ''guest memory allocation failed: '' @ e"

subsection \<open>Requests\<close>

record resource_request =
  req_kind :: "resource_kind option"
  req_minimum_capacity :: "u64 option"
  req_node :: "string option"
  req_required_attributes :: attrs
  req_exclusive :: bool

definition is_none_or :: "'a option \<Rightarrow> ('a \<Rightarrow> bool) \<Rightarrow> bool" where
  "is_none_or x p = (case x of None \<Rightarrow> True | Some v \<Rightarrow> p v)"

definition request_matches :: "resource_request \<Rightarrow> resource \<Rightarrow> bool" where
  "request_matches q r =
     (res_state r = Available
      \<and> is_none_or (req_kind q) (\<lambda>k. k = res_kind r)
      \<and> is_none_or (req_minimum_capacity q) (\<lambda>c. c \<le> res_capacity r)
      \<and> is_none_or (req_node q) (\<lambda>n. n = res_node r)
      \<and> (\<not> req_exclusive q \<or> res_exclusive r)
      \<and> list_all (\<lambda>(k, v). map_of (res_attributes r) k = Some v) (req_required_attributes q))"

definition default_request :: resource_request where
  "default_request = \<lparr>req_kind = None, req_minimum_capacity = None, req_node = None,
     req_required_attributes = [], req_exclusive = False\<rparr>"

text \<open>One request narrows another when everything it leaves open the other leaves open too.\<close>

definition request_narrows :: "resource_request \<Rightarrow> resource_request \<Rightarrow> bool" where
  "request_narrows q q' =
     ((req_kind q' = None \<or> req_kind q' = req_kind q)
      \<and> (case req_minimum_capacity q' of None \<Rightarrow> True
         | Some c' \<Rightarrow> (case req_minimum_capacity q of None \<Rightarrow> False | Some c \<Rightarrow> c' \<le> c))
      \<and> (req_node q' = None \<or> req_node q' = req_node q)
      \<and> set (req_required_attributes q') \<subseteq> set (req_required_attributes q)
      \<and> (req_exclusive q' \<longrightarrow> req_exclusive q))"

lemma default_request_matches: "request_matches default_request r \<longleftrightarrow> res_state r = Available"
  by (simp add: request_matches_def default_request_def is_none_or_def)

lemma narrower_capacity:
  assumes "request_narrows q q'" and "is_none_or (req_minimum_capacity q) (\<lambda>c. c \<le> (n :: u64))"
  shows "is_none_or (req_minimum_capacity q') (\<lambda>c. c \<le> n)"
  using assms unfolding request_narrows_def is_none_or_def
  by (cases "req_minimum_capacity q"; cases "req_minimum_capacity q'") auto

lemma request_matches_mono:
  assumes n: "request_narrows q q'" and m: "request_matches q r"
  shows "request_matches q' r"
  unfolding request_matches_def
proof (intro conjI)
  show "is_none_or (req_minimum_capacity q') (\<lambda>c. c \<le> res_capacity r)"
    using m by (intro narrower_capacity [OF n]) (simp add: request_matches_def)
  show "list_all (\<lambda>(k, v). map_of (res_attributes r) k = Some v) (req_required_attributes q')"
    using n m unfolding request_narrows_def request_matches_def list_all_iff by blast
  show "is_none_or (req_kind q') (\<lambda>k. k = res_kind r)" "is_none_or (req_node q') (\<lambda>k. k = res_node r)"
    using n m unfolding request_narrows_def request_matches_def is_none_or_def by auto
  show "res_state r = Available" "\<not> req_exclusive q' \<or> res_exclusive r"
    using n m unfolding request_narrows_def request_matches_def by blast+
qed

end
