(* ===== verification/Adapter_Contract.thy ===== *)
theory Adapter_Contract
  imports Resource_Model
begin

text \<open>
  The \<open>ResourceAdapter\<close> trait as a record of operations, and the contract every adapter of the
  repository keeps, as a locale. An adapter object has a state of type \<open>'a\<close> (its \<open>Mutex\<close>-guarded
  map, when it has one), and its effects on the host are effects on a world of type \<open>'w\<close>.
\<close>

record ('a, 'w) adapter_ops =
  ad_name :: "'a \<Rightarrow> string"
  ad_attach :: "'a \<Rightarrow> resource \<Rightarrow> lease \<Rightarrow> 'w \<Rightarrow> (fabric_error + attachment) \<times> 'a \<times> 'w"
  ad_detach :: "'a \<Rightarrow> resource \<Rightarrow> lease \<Rightarrow> 'w \<Rightarrow> (fabric_error + unit) \<times> 'a \<times> 'w"
  ad_report :: "'a \<Rightarrow> 'w \<Rightarrow> adapter_report"

text \<open>The default \<open>detach\<close> of the trait does nothing and succeeds.\<close>

definition default_detach :: "'a \<Rightarrow> resource \<Rightarrow> lease \<Rightarrow> 'w \<Rightarrow> (fabric_error + unit) \<times> 'a \<times> 'w" where
  "default_detach a r l w = (Inr (), a, w)"

text \<open>
  What the fabric relies on: an attachment names the resource, the lease and the adapter it came
  from; an adapter never changes its name, which is its key in the registry; a refused attach
  leaves the adapter as it was; and the report carries the adapter's name.
\<close>

locale adapter_contract =
  fixes ops :: "('a, 'w) adapter_ops"
  assumes attach_names:
      "ad_attach ops a r l w = (Inr att, a', w') \<Longrightarrow>
         att_resource att = res_id r \<and> att_lease att = lease_id l \<and> att_adapter att = ad_name ops a"
    and attach_keeps_name: "ad_attach ops a r l w = (res, a', w') \<Longrightarrow> ad_name ops a' = ad_name ops a"
    and attach_refused: "ad_attach ops a r l w = (Inl e, a', w') \<Longrightarrow> a' = a"
    and detach_keeps_name: "ad_detach ops a r l w = (out, a', w') \<Longrightarrow> ad_name ops a' = ad_name ops a"
    and report_name: "rep_name (ad_report ops a w) = ad_name ops a"

end
