(* ===== verification/Host_Os.thy ===== *)
theory Host_Os
  imports Rust_Strings
begin

text \<open>
  The operating system as the sources see it. A host is a snapshot of what the system calls and the
  programs on the machine answer, and the log of the effects the adapters had on it; the answers
  are arbitrary functions, so a theorem about every host is a theorem about every machine.
\<close>

datatype host_effect =
    MkDir string
  | Spawn string "string list"
  | RunTool string "string list"
  | RemoveFile string

record host =
  h_file :: "string \<Rightarrow> string option"
  h_dir :: "string \<Rightarrow> string + string list"
  h_exists :: "string \<Rightarrow> bool"
  h_is_dir :: "string \<Rightarrow> bool"
  h_link :: "string \<Rightarrow> string option"
  h_canonical :: "string \<Rightarrow> string option"
  h_env :: "string \<Rightarrow> string option"
  h_mkdir :: "string \<Rightarrow> string option"
  h_which :: "string \<Rightarrow> string option"
  h_output :: "string \<Rightarrow> string list \<Rightarrow> (bool \<times> string) option"
  h_clock :: instant
  h_effects :: "host_effect list"

text \<open>
  \<open>h_dir\<close> is \<open>fs::read_dir\<close> (the file names, or the error text), \<open>h_link\<close> \<open>fs::read_link\<close>,
  \<open>h_mkdir\<close> the error of \<open>fs::create_dir_all\<close> if any, and \<open>h_output\<close> the exit status and standard
  output of \<open>Command::output\<close>, if the program could be started.
\<close>

definition effect :: "host_effect \<Rightarrow> host \<Rightarrow> host" where
  "effect e h = h\<lparr>h_effects := h_effects h @ [e]\<rparr>"

text \<open>\<open>Path::join\<close>: an absolute argument replaces the base.\<close>

definition path_join :: "string \<Rightarrow> string \<Rightarrow> string" where
  "path_join base p =
     (if starts_with p ''/'' then p
      else if base = [] \<or> last base = CHR ''/'' then base @ p
      else base @ ''/'' @ p)"

text \<open>\<open>Path::file_name\<close>: the last component, unless it is the root or the parent directory.\<close>

definition file_name :: "string \<Rightarrow> string option" where
  "file_name p =
     (let cs = filter (\<lambda>c. c \<noteq> [] \<and> c \<noteq> ''.'') (split_char (CHR ''/'') p)
      in if cs = [] \<or> last cs = ''..'' then None else Some (last cs))"

definition read_names :: "host \<Rightarrow> string \<Rightarrow> string list" where
  "read_names h d = (case h_dir h d of Inl _ \<Rightarrow> [] | Inr names \<Rightarrow> names)"

lemma effect_frame [simp]:
  "h_file (effect e h) = h_file h" "h_dir (effect e h) = h_dir h" "h_exists (effect e h) = h_exists h"
  "h_env (effect e h) = h_env h" "h_effects (effect e h) = h_effects h @ [e]"
  by (simp_all add: effect_def)

text \<open>A machine with nothing on it, the base of the concrete hosts.\<close>

definition bare_host :: host where
  "bare_host = \<lparr>h_file = (\<lambda>_. None), h_dir = (\<lambda>_. Inl ''not found''), h_exists = (\<lambda>_. False),
     h_is_dir = (\<lambda>_. False), h_link = (\<lambda>_. None), h_canonical = (\<lambda>_. None), h_env = (\<lambda>_. None),
     h_mkdir = (\<lambda>_. None), h_which = (\<lambda>_. None), h_output = (\<lambda>_ _. None), h_clock = 0, h_effects = []\<rparr>"

end
