(* ===== verification/Store.thy ===== *)
theory Store
  imports Adapter_Contract Host_Os
begin

text \<open>
  The fabric store of \<open>store.rs\<close>: the store contract read off a resource, the path a job opens,
  and the adapter that tracks live attachments by lease id.
\<close>

subsection \<open>The store contract\<close>

datatype store_kind = Bind | VirtioFs | Nfs

definition store_kind_parse :: "string \<Rightarrow> fabric_error + store_kind" where
  "store_kind_parse raw =
     (if raw = ''bind'' then Inr Bind
      else if raw = ''virtio-fs'' \<or> raw = ''virtiofs'' \<or> raw = ''fs'' then Inr VirtioFs
      else if raw = ''nfs'' then Inr Nfs
      else Inl (MissingResourceAttribute
             (''store.kind (unknown '' @ raw @ ''; expected bind|virtio-fs|nfs)'')))"

fun store_kind_str :: "store_kind \<Rightarrow> string" where
  "store_kind_str Bind = ''bind''"
| "store_kind_str VirtioFs = ''virtio-fs''"
| "store_kind_str Nfs = ''nfs''"

record store_resolution =
  sr_resource :: string
  sr_kind :: store_kind
  sr_path :: string
  sr_tag :: string
  sr_socket :: "string option"
  sr_nfs_export :: "string option"

definition store_from_resource :: "resource \<Rightarrow> fabric_error + store_resolution" where
  "store_from_resource r =
     (if res_kind r \<noteq> Storage then Inl (IncompatibleResourceKind ''fabric-store'' Storage (res_kind r))
      else case store_kind_parse (unwrap_or (map_of (res_attributes r) ''store.kind'') ''bind'') of
        Inl e \<Rightarrow> Inl e
      | Inr kind \<Rightarrow>
          (case map_of (res_attributes r) ''store.path'' of
             None \<Rightarrow> Inl (MissingResourceAttribute ''store.path'')
           | Some path \<Rightarrow>
               (let tag = unwrap_or (map_of (res_attributes r) ''store.tag'') ''nauti'';
                    socket = map_of (res_attributes r) ''store.socket'';
                    nfs_export = map_of (res_attributes r) ''store.nfs_export''
                in if kind = Nfs \<and> nfs_export = None then Inl (MissingResourceAttribute ''store.nfs_export'')
                   else if kind = VirtioFs \<and> socket = None then Inl (MissingResourceAttribute ''store.socket'')
                   else Inr \<lparr>sr_resource = res_id r, sr_kind = kind, sr_path = path, sr_tag = tag,
                              sr_socket = socket, sr_nfs_export = nfs_export\<rparr>)))"

definition virtio_fs_spec :: "store_resolution \<Rightarrow> string option" where
  "virtio_fs_spec s =
     (case sr_socket s of
        None \<Rightarrow> None
      | Some socket \<Rightarrow>
          if sr_kind s \<noteq> VirtioFs then None
          else Some (''tag='' @ sr_tag s @ '',socket='' @ socket))"

definition job_path :: "store_resolution \<Rightarrow> string" where
  "job_path s =
     (case sr_kind s of
        Nfs \<Rightarrow> unwrap_or (sr_nfs_export s) (sr_path s)
      | Bind \<Rightarrow> sr_path s
      | VirtioFs \<Rightarrow> sr_path s)"

definition default_store_resource :: "string \<Rightarrow> resource" where
  "default_store_resource node =
     \<lparr>res_id = ''local.store.fabric'', res_kind = Storage, res_capacity = 1, res_unit = ''store'',
      res_node = node, res_state = Available, res_exclusive = True,
      res_attributes = bt_from [(''store.kind'', ''bind''), (''store.path'', ''/var/lib/nauti/store''),
        (''store.tag'', ''nauti'')]\<rparr>"

subsection \<open>The adapter\<close>

type_synonym store_live = "(u64 \<times> store_resolution) list"

definition ensure_dir :: "string \<Rightarrow> host \<Rightarrow> (fabric_error + unit) \<times> host" where
  "ensure_dir path h =
     (case h_mkdir h path of
        None \<Rightarrow> (Inr (), effect (MkDir path) h)
      | Some error \<Rightarrow>
          (Inl (AdapterBackendUnavailable ''fabric-store'' (''cannot create '' @ path @ '': '' @ error)), h))"

definition store_attachment :: "store_resolution \<Rightarrow> resource \<Rightarrow> lease \<Rightarrow> attachment" where
  "store_attachment s r l =
     \<lparr>att_resource = res_id r, att_lease = lease_id l, att_adapter = ''fabric-store'',
      att_details = bt_from
        [(''store.kind'', store_kind_str (sr_kind s)), (''store.path'', job_path s),
         (''store.virtio_fs'', unwrap_or (virtio_fs_spec s) []), (''store.tag'', sr_tag s)]\<rparr>"

definition store_attach ::
  "store_live \<Rightarrow> resource \<Rightarrow> lease \<Rightarrow> host \<Rightarrow> (fabric_error + attachment) \<times> store_live \<times> host"
where
  "store_attach live r l h =
     (case store_from_resource r of
        Inl e \<Rightarrow> (Inl e, live, h)
      | Inr s \<Rightarrow>
          (case (if sr_kind s \<noteq> Nfs then ensure_dir (sr_path s) h else (Inr (), h)) of
             (Inl e, h') \<Rightarrow> (Inl e, live, h')
           | (Inr _, h') \<Rightarrow>
               (Inr (store_attachment s r l), AList.update (lease_id l) s live, h')))"

definition store_detach :: "store_live \<Rightarrow> resource \<Rightarrow> lease \<Rightarrow> (fabric_error + unit) \<times> store_live" where
  "store_detach live r l =
     (let removed = AList.delete (lease_id l) live in
      case map_of live (lease_id l) of
        None \<Rightarrow> (Inr (), removed)
      | Some s \<Rightarrow>
          if sr_resource s = res_id r then (Inr (), removed)
          else (Inl LeaseNotFound, AList.update (lease_id l) s removed))"

definition store_report :: "host \<Rightarrow> adapter_report" where
  "store_report h =
     \<lparr>rep_name = ''fabric-store'', rep_scope = ''fabric-store'', rep_healthy = True,
      rep_detail = bt_from
        [(''store.bind'', ''available''), (''store.virtiofsd'', unwrap_or (h_which h ''virtiofsd'') ''missing''),
         (''store.nfs'', ''explicit-attr-only'')]\<rparr>"

subsection \<open>Facts\<close>

lemma store_kind_roundtrip: "store_kind_parse (store_kind_str k) = Inr k"
  by (cases k) (simp_all add: store_kind_parse_def)

lemma store_from_resource_ok:
  assumes "store_from_resource r = Inr s"
  shows "res_kind r = Storage" "sr_resource s = res_id r" "map_of (res_attributes r) ''store.path'' = Some (sr_path s)"
    "sr_kind s = Nfs \<Longrightarrow> sr_nfs_export s \<noteq> None" "sr_kind s = VirtioFs \<Longrightarrow> sr_socket s \<noteq> None"
    "sr_nfs_export s = map_of (res_attributes r) ''store.nfs_export''"
  using assms
  by (auto simp: store_from_resource_def Let_def split: if_splits sum.splits option.splits)

lemma store_attach_ok:
  assumes "store_attach live r l h = (Inr att, live', h')"
  obtains s where "store_from_resource r = Inr s" "att = store_attachment s r l"
    "live' = AList.update (lease_id l) s live"
  using assms by (auto simp: store_attach_def split: sum.splits prod.splits if_splits)

lemma store_attach_refused: "store_attach live r l h = (Inl e, live', h') \<Longrightarrow> live' = live \<and> h' = h"
  by (auto simp: store_attach_def ensure_dir_def split: sum.splits if_splits option.splits)

text \<open>
  Two nodes that registered the same store (the same id, kind and attributes) resolve a job's
  input to the same path.
\<close>

lemma store_resolution_node_independent:
  "store_from_resource (r\<lparr>res_node := n\<rparr>) = store_from_resource r"
  by (auto simp: store_from_resource_def Let_def split: sum.split option.split)

end
