(* ===== verification/Research_Memory.thy ===== *)
theory Research_Memory
  imports Adapter_Contract Host_Os
begin

text \<open>The research memory plane of \<open>memory.rs\<close>: discovered, reported, never attached.\<close>

record research_memory_report =
  rm_cxl_bus :: bool
  rm_cxl_devices :: "string list"
  rm_dax_nodes :: "string list"
  rm_famfs_mounts :: "string list"
  rm_drust_present :: bool
  rm_claimed_as_live_ram :: bool
  rm_notes :: string

definition research_discover :: "host \<Rightarrow> research_memory_report" where
  "research_discover h =
     \<lparr>rm_cxl_bus = h_is_dir h ''/sys/bus/cxl'',
      rm_cxl_devices = (if h_is_dir h ''/sys/bus/cxl'' then read_names h ''/sys/bus/cxl/devices'' else []),
      rm_dax_nodes = map (\<lambda>n. ''/dev/'' @ n) (filter (\<lambda>n. starts_with n ''dax'') (read_names h ''/dev'')),
      rm_famfs_mounts =
        (case h_file h ''/proc/mounts'' of
           None \<Rightarrow> []
         | Some mounts \<Rightarrow> filter (\<lambda>line. contains line ''famfs'') (lines mounts)),
      rm_drust_present = (h_exists h ''/opt/drust'' \<or> h_exists h ''/usr/local/lib/libdrust.so''
        \<or> h_env h ''DRUST_HOME'' \<noteq> None),
      rm_claimed_as_live_ram = False,
      rm_notes = ''Research only. Fabric will not attach these as coherent live memory.''\<rparr>"

definition research_as_resource :: "research_memory_report \<Rightarrow> string \<Rightarrow> resource" where
  "research_as_resource m node =
     \<lparr>res_id = ''local.memory.research'', res_kind = Memory, res_capacity = 0, res_unit = ''research'',
      res_node = node, res_state = Unavailable, res_exclusive = True,
      res_attributes = bt_from
        [(''memory.kind'', ''research''), (''memory.cxl'', show_bool (rm_cxl_bus m)),
         (''memory.dax_count'', show_nat (length (rm_dax_nodes m))),
         (''memory.famfs_count'', show_nat (length (rm_famfs_mounts m))),
         (''memory.drust'', show_bool (rm_drust_present m)), (''memory.claimed'', ''false'')]\<rparr>"

definition research_attach :: "resource \<Rightarrow> lease \<Rightarrow> host \<Rightarrow> fabric_error + attachment" where
  "research_attach r l h =
     (let m = research_discover h in
      Inl (AdapterBackendUnavailable ''memory-research''
        (''refusing live attach of '' @ res_id r @ '' (cxl='' @ show_bool (rm_cxl_bus m)
          @ '' dax='' @ show_nat (length (rm_dax_nodes m)) @ '' famfs='' @ show_nat (length (rm_famfs_mounts m))
          @ '' drust='' @ show_bool (rm_drust_present m) @ ''); research bucket is typed, never claimed'')))"

definition research_report :: "host \<Rightarrow> adapter_report" where
  "research_report h =
     (let m = research_discover h in
      \<lparr>rep_name = ''memory-research'', rep_scope = ''cxl-dax-famfs-drust-research'', rep_healthy = True,
       rep_detail = bt_from
         [(''claimed_as_live_ram'', ''false''), (''cxl_bus'', show_bool (rm_cxl_bus m)),
          (''dax_nodes'', show_nat (length (rm_dax_nodes m))),
          (''famfs_mounts'', show_nat (length (rm_famfs_mounts m))),
          (''drust_present'', show_bool (rm_drust_present m))]\<rparr>)"

end
