(* ===== verification/Gpu_Discovery.thy ===== *)
theory Gpu_Discovery
  imports Resource_Model Host_Os "HOL-Library.Product_Lexorder"
begin

text \<open>
  GPU discovery from sysfs (\<open>gpu/discover.rs\<close>) and the AMD enrichment (\<open>gpu/rocm.rs\<close>). The NVML
  library is third-party code: what \<open>nvml_by_bdf\<close> collects from it is an argument, and so is the
  telemetry of the optional \<open>rocm\<close> feature (\<open>None\<close> when the feature is off). The order in which
  \<open>read_dir\<close> returns the cards is the host's; the result does not depend on it.
\<close>

subsection \<open>Devices\<close>

datatype gpu_vendor = Nvidia | Amd | Intel | Unknown string

fun vendor_from_pci_id :: "u32 \<Rightarrow> gpu_vendor" where
  "vendor_from_pci_id i =
     (if i = 0x10de then Nvidia
      else if i = 0x1002 \<or> i = 0x1022 then Amd
      else if i = 0x8086 then Intel
      else Unknown (''0x'' @ show_hex_padded 4 (unat i)))"

fun vendor_label :: "gpu_vendor \<Rightarrow> string" where
  "vendor_label Nvidia = ''NVIDIA''"
| "vendor_label Amd = ''AMD''"
| "vendor_label Intel = ''Intel''"
| "vendor_label (Unknown s) = s"

record gpu_device =
  gd_stable_id :: string
  gd_vendor :: gpu_vendor
  gd_device_name :: string
  gd_vram_total_bytes :: u64
  gd_vram_used_bytes :: u64
  gd_driver :: string
  gd_drm_card :: "u32 option"
  gd_pci_bdf :: string
  gd_uuid :: "string option"
  gd_nvml_index :: "u32 option"
  gd_temperature_c :: "u32 option"
  gd_utilization_pct :: "u32 option"
  gd_display_only :: bool

type_synonym nvml_row = "string \<times> string \<times> u32 \<times> u64 \<times> u64 \<times> u32 option \<times> u32 option"

subsection \<open>Reading one card\<close>

text \<open>\<open>trim_start_matches("0x")\<close> removes the prefix as often as it occurs.\<close>

function strip_0x :: "string \<Rightarrow> string" where
  "strip_0x s = (if starts_with s ''0x'' then strip_0x (drop 2 s) else s)"
  by auto
termination
proof (relation "measure length", goal_cases)
  case (2 s)
  then show ?case by (cases s) (auto simp: starts_with_def)
qed simp

declare strip_0x.simps [simp del]

definition read_hex :: "host \<Rightarrow> string \<Rightarrow> u32 option" where
  "read_hex h p =
     (case h_file h p of
        None \<Rightarrow> None
      | Some s \<Rightarrow> map_option of_nat (from_str_radix (2 ^ 32) 16 (strip_0x (trim s))))"

definition read_u64 :: "host \<Rightarrow> string \<Rightarrow> u64 option" where
  "read_u64 h p = (case h_file h p of None \<Rightarrow> None | Some s \<Rightarrow> parse_u64 (trim s))"

definition read_u32 :: "host \<Rightarrow> string \<Rightarrow> u32 option" where
  "read_u32 h p = (case h_file h p of None \<Rightarrow> None | Some s \<Rightarrow> parse_u32 (trim s))"

definition link_target_name :: "host \<Rightarrow> string \<Rightarrow> string option" where
  "link_target_name h p = (case h_link h p of None \<Rightarrow> None | Some t \<Rightarrow> file_name t)"

definition uevent_driver :: "string \<Rightarrow> string" where
  "uevent_driver uevent =
     (case find (\<lambda>l. starts_with l ''DRIVER='') (lines uevent) of
        None \<Rightarrow> []
      | Some l \<Rightarrow> drop (length ''DRIVER='') l)"

definition read_drm_card :: "host \<Rightarrow> u32 \<Rightarrow> gpu_device option" where
  "read_drm_card h card_idx =
     (let dev = ''/sys/class/drm/card'' @ show_word card_idx @ ''/device'' in
      if \<not> h_exists h dev then None
      else
        (let vendor_id = unwrap_or (read_hex h (path_join dev ''vendor'')) 0 in
         if vendor_id = 0 then None
         else
           (let vendor = vendor_from_pci_id vendor_id;
                driver = uevent_driver (unwrap_or (h_file h (path_join dev ''uevent'')) []);
                pci_bdf = unwrap_or (link_target_name h dev) [];
                busy_pct = unwrap_or (read_u32 h (path_join dev ''gpu_busy_percent'')) 0
            in Some \<lparr>gd_stable_id = pci_bdf, gd_vendor = vendor,
                 gd_device_name = vendor_label vendor @ '' GPU ('' @ pci_bdf @ '')'',
                 gd_vram_total_bytes = unwrap_or (read_u64 h (path_join dev ''mem_info_vram_total'')) 0,
                 gd_vram_used_bytes = unwrap_or (read_u64 h (path_join dev ''mem_info_vram_used'')) 0,
                 gd_driver = driver, gd_drm_card = Some card_idx, gd_pci_bdf = pci_bdf,
                 gd_uuid = None, gd_nvml_index = None, gd_temperature_c = None,
                 gd_utilization_pct = (if 0 < busy_pct then Some busy_pct else None),
                 gd_display_only = (driver = ''ast'' \<or> driver = ''mgag200'')\<rparr>)))"

subsection \<open>Enrichment\<close>

fun nvml_enrich :: "nvml_row smap \<Rightarrow> gpu_device \<Rightarrow> gpu_device" where
  "nvml_enrich nvml d =
     (if gd_vendor d = Nvidia
      then case map_of nvml (gd_pci_bdf d) of
             None \<Rightarrow> d
           | Some (name, uuid, idx, tot, used, util, temp) \<Rightarrow>
               d\<lparr>gd_device_name := name, gd_uuid := Some uuid, gd_nvml_index := Some idx,
                 gd_vram_total_bytes := tot, gd_vram_used_bytes := used,
                 gd_utilization_pct := util, gd_temperature_c := temp\<rparr>
      else d)"

record amd_telemetry =
  at_product_name :: "string option"
  at_unique_id :: "string option"
  at_vram_total_bytes :: "u64 option"
  at_vram_used_bytes :: "u64 option"
  at_utilization_pct :: "u32 option"
  at_temperature_c :: "u32 option"
  at_source :: string

definition or_keep :: "'a option \<Rightarrow> 'a option \<Rightarrow> 'a option" where
  "or_keep new old = (if new \<noteq> None then new else old)"

definition amd_enrich :: "amd_telemetry smap \<Rightarrow> gpu_device \<Rightarrow> gpu_device" where
  "amd_enrich telemetry d =
     (if gd_vendor d \<noteq> Amd \<or> gd_display_only d then d
      else case map_of telemetry (gd_pci_bdf d) of
             None \<Rightarrow> d
           | Some t \<Rightarrow>
               d\<lparr>gd_device_name := (case at_product_name t of Some n \<Rightarrow> if n \<noteq> [] then n else gd_device_name d
                                      | None \<Rightarrow> gd_device_name d),
                 gd_uuid := or_keep (at_unique_id t) (gd_uuid d),
                 gd_vram_total_bytes := (case at_vram_total_bytes t of Some v \<Rightarrow> if 0 < v then v else gd_vram_total_bytes d
                                           | None \<Rightarrow> gd_vram_total_bytes d),
                 gd_vram_used_bytes := unwrap_or (at_vram_used_bytes t) (gd_vram_used_bytes d),
                 gd_utilization_pct := or_keep (at_utilization_pct t) (gd_utilization_pct d),
                 gd_temperature_c := or_keep (at_temperature_c t) (gd_temperature_c d)\<rparr>)"

definition enrich :: "amd_telemetry smap \<Rightarrow> gpu_device list \<Rightarrow> gpu_device list" where
  "enrich telemetry devices = map (amd_enrich telemetry) devices"

subsection \<open>AMD telemetry from sysfs\<close>

definition is_card_name :: "string \<Rightarrow> bool" where
  "is_card_name name = (starts_with name ''card'' \<and> CHR ''-'' \<notin> set name)"

definition read_nonempty :: "host \<Rightarrow> string \<Rightarrow> string option" where
  "read_nonempty h p =
     (case h_file h p of None \<Rightarrow> None | Some s \<Rightarrow> if trim s = [] then None else Some (trim s))"

definition hwmon_temperature :: "host \<Rightarrow> string \<Rightarrow> u32 option" where
  "hwmon_temperature h dev =
     (case read_names h (path_join dev ''hwmon'') of
        [] \<Rightarrow> None
      | hm # _ \<Rightarrow>
          map_option (\<lambda>milli. of_nat (unat milli div 1000))
            (read_u64 h (path_join (path_join (path_join dev ''hwmon'') hm) ''temp1_input'')))"

definition sysfs_card :: "host \<Rightarrow> string \<Rightarrow> string \<Rightarrow> (string \<times> amd_telemetry) option" where
  "sysfs_card h drm_dir name =
     (if \<not> is_card_name name then None
      else
        (let dev = path_join drm_dir (name @ ''/device'');
             bdf = unwrap_or (link_target_name h dev) [];
             vendor = unwrap_or (read_hex h (path_join dev ''vendor'')) 0
         in if bdf = [] then None
            else if vendor \<noteq> 0x1002 \<and> vendor \<noteq> 0x1022 then None
            else Some (bdf,
              \<lparr>at_product_name = read_nonempty h (path_join dev ''product_name''),
               at_unique_id = read_nonempty h (path_join dev ''unique_id''),
               at_vram_total_bytes = read_u64 h (path_join dev ''mem_info_vram_total''),
               at_vram_used_bytes = read_u64 h (path_join dev ''mem_info_vram_used''),
               at_utilization_pct = None,
               at_temperature_c = hwmon_temperature h dev,
               at_source = ''rocm-sysfs''\<rparr>)))"

definition sysfs_enrichment :: "host \<Rightarrow> string \<Rightarrow> amd_telemetry smap" where
  "sysfs_enrichment h drm_dir = bt_from (List.map_filter (sysfs_card h drm_dir) (read_names h drm_dir))"

definition telemetry_some :: "amd_telemetry \<Rightarrow> bool" where
  "telemetry_some t =
     (at_product_name t \<noteq> None \<or> at_unique_id t \<noteq> None \<or> at_vram_total_bytes t \<noteq> None
      \<or> at_vram_used_bytes t \<noteq> None \<or> at_utilization_pct t \<noteq> None \<or> at_temperature_c t \<noteq> None)"

text \<open>\<open>merge_rocm_smi\<close> is an argument here; \<open>Gpu_Enrichment\<close> defines it.\<close>

definition rocm_collect ::
  "(amd_telemetry smap \<Rightarrow> amd_telemetry smap) \<Rightarrow> host \<Rightarrow> string \<Rightarrow> amd_telemetry smap"
where
  "rocm_collect merge_rocm_smi h drm_dir =
     filter (\<lambda>(_, t). telemetry_some t) (merge_rocm_smi (sysfs_enrichment h drm_dir))"

subsection \<open>Discovery\<close>

definition gpu_rank :: "gpu_device \<Rightarrow> nat" where
  "gpu_rank d =
     (if gd_display_only d then 3
      else case gd_vendor d of Nvidia \<Rightarrow> 0 | Amd \<Rightarrow> 1 | _ \<Rightarrow> 2)"

definition drm_card :: "host \<Rightarrow> string \<Rightarrow> gpu_device option" where
  "drm_card h name =
     (if \<not> is_card_name name then None
      else case parse_u32 (drop (length ''card'') name) of
             None \<Rightarrow> None
           | Some card_idx \<Rightarrow> read_drm_card h card_idx)"

definition gpu_discover ::
  "nvml_row smap \<Rightarrow> amd_telemetry smap option \<Rightarrow> host \<Rightarrow> string + gpu_device list"
where
  "gpu_discover nvml rocm h =
     (if \<not> h_exists h ''/sys/class/drm'' then Inr []
      else case h_dir h ''/sys/class/drm'' of
             Inl e \<Rightarrow> Inl (''cannot read /sys/class/drm: '' @ e)
           | Inr names \<Rightarrow>
               (let amd = (case rocm of None \<Rightarrow> id | Some t \<Rightarrow> amd_enrich t);
                    devices = map (amd \<circ> nvml_enrich nvml) (List.map_filter (drm_card h) names)
                in Inr (sort_key (\<lambda>d. (gpu_rank d, gd_pci_bdf d)) devices)))"

definition group_key :: "gpu_device \<Rightarrow> string" where
  "group_key d = (if gd_display_only d then ''__display_only__'' else vendor_label (gd_vendor d))"

definition grouped :: "gpu_device list \<Rightarrow> (gpu_device list) smap" where
  "grouped devices =
     fold (\<lambda>d groups. bt_insert (group_key d) (unwrap_or (map_of groups (group_key d)) [] @ [d]) groups) devices []"

definition gpu_as_resource :: "string \<Rightarrow> gpu_device \<Rightarrow> resource" where
  "gpu_as_resource node g =
     (let a0 = bt_from
            [(''gpu.stable_id'', gd_stable_id g), (''gpu.vendor'', vendor_label (gd_vendor g)),
             (''gpu.device_name'', gd_device_name g), (''gpu.driver'', gd_driver g),
             (''gpu.pci_bdf'', gd_pci_bdf g), (''gpu.vram_total_bytes'', show_word (gd_vram_total_bytes g)),
             (''gpu.vram_used_bytes'', show_word (gd_vram_used_bytes g))];
          a1 = (case gd_uuid g of None \<Rightarrow> a0 | Some u \<Rightarrow> bt_insert ''gpu.uuid'' u a0);
          a2 = (case gd_nvml_index g of None \<Rightarrow> a1 | Some i \<Rightarrow> bt_insert ''gpu.nvml_index'' (show_word i) a1)
      in \<lparr>res_id = ''local.gpu.'' @ map (\<lambda>c. if c = CHR '':'' \<or> c = CHR ''.'' then CHR ''_'' else c) (gd_stable_id g),
          res_kind = Gpu, res_capacity = gd_vram_total_bytes g, res_unit = ''bytes'', res_node = node,
          res_state = Available, res_exclusive = True, res_attributes = a2\<rparr>)"

definition gpu_as_resources :: "string \<Rightarrow> gpu_device list \<Rightarrow> resource list" where
  "gpu_as_resources node devices = map (gpu_as_resource node) (filter (\<lambda>d. \<not> gd_display_only d) devices)"

definition normalize_bdf :: "string \<Rightarrow> string" where
  "normalize_bdf raw =
     (let t = to_lower (trim raw) in
      if t = [] then []
      else case split_char (CHR '':'') t of
             [domain, bus, slot] \<Rightarrow>
               (if 4 < length domain then drop (length domain - 4) domain else domain) @ '':'' @ bus @ '':'' @ slot
           | _ \<Rightarrow> t)"

subsection \<open>Facts\<close>

lemma amd_enrich_identity [simp]:
  "gd_pci_bdf (amd_enrich t d) = gd_pci_bdf d" "gd_stable_id (amd_enrich t d) = gd_stable_id d"
  "gd_vendor (amd_enrich t d) = gd_vendor d" "gd_display_only (amd_enrich t d) = gd_display_only d"
  by (simp_all add: amd_enrich_def split: option.split)

lemma nvml_enrich_identity [simp]:
  "gd_pci_bdf (nvml_enrich m d) = gd_pci_bdf d" "gd_stable_id (nvml_enrich m d) = gd_stable_id d"
  "gd_vendor (nvml_enrich m d) = gd_vendor d" "gd_display_only (nvml_enrich m d) = gd_display_only d"
  by (simp_all split: option.split prod.split)

lemma read_drm_card_Some:
  assumes "read_drm_card h i = Some d"
  shows "gd_stable_id d = gd_pci_bdf d" "gd_drm_card d = Some i" "gd_uuid d = None"
  using assms by (auto simp: read_drm_card_def Let_def split: if_splits)

text \<open>The attributes the GPU resources of a discovery carry.\<close>

lemma gpu_resource_attribute:
  "map_of (res_attributes (gpu_as_resource node g)) k =
     (if k = ''gpu.nvml_index'' then map_option show_word (gd_nvml_index g)
      else if k = ''gpu.uuid'' then gd_uuid g
      else map_of (rev
            [(''gpu.stable_id'', gd_stable_id g), (''gpu.vendor'', vendor_label (gd_vendor g)),
             (''gpu.device_name'', gd_device_name g), (''gpu.driver'', gd_driver g),
             (''gpu.pci_bdf'', gd_pci_bdf g), (''gpu.vram_total_bytes'', show_word (gd_vram_total_bytes g)),
             (''gpu.vram_used_bytes'', show_word (gd_vram_used_bytes g))]) k)"
  unfolding gpu_as_resource_def Let_def
  by (cases "gd_uuid g"; cases "gd_nvml_index g") (simp_all add: get_bt_from get_bt_insert)

end
