(* ===== verification/Gpu_Adapters.thy ===== *)
theory Gpu_Adapters
  imports Gpu_Discovery Adapter_Contract
begin

text \<open>
  The host-local GPU reservation adapter (\<open>gpu/adapter.rs\<close>) and the adapter half of the remote
  GPU (\<open>gpu/wgpu_remote.rs\<close>).
\<close>

subsection \<open>Host-local reservations\<close>

record gpu_reservation =
  gr_lease_id :: u64
  gr_gpu_id :: string
  gr_attached_at :: instant

definition gpu_local_id :: "resource \<Rightarrow> string option" where
  "gpu_local_id r =
     (case map_of (res_attributes r) ''gpu.uuid'' of
        Some u \<Rightarrow> Some u
      | None \<Rightarrow> map_of (res_attributes r) ''gpu.pci_bus_id'')"

definition copy_attr :: "resource \<Rightarrow> string \<Rightarrow> string \<Rightarrow> attrs \<Rightarrow> attrs" where
  "copy_attr r from to a =
     (case map_of (res_attributes r) from of None \<Rightarrow> a | Some v \<Rightarrow> bt_insert to v a)"

definition gpu_local_details :: "resource \<Rightarrow> string \<Rightarrow> attrs" where
  "gpu_local_details r gpu_id =
     copy_attr r ''gpu.free_memory_bytes'' ''gpu.free_memory_bytes_at_attach''
       (copy_attr r ''gpu.pci_bus_id'' ''gpu.pci_bus_id''
         (copy_attr r ''gpu.name'' ''gpu.name''
           (bt_from [(''gpu.id'', gpu_id), (''gpu.attachment_scope'', ''gpu-host-local''),
             (''gpu.note'', ''host-local reservation; no VFIO passthrough bound''),
             (''adapter.implementation'', ''gpu-local'')])))"

definition gpu_local_attach ::
  "gpu_reservation smap \<Rightarrow> resource \<Rightarrow> lease \<Rightarrow> host \<Rightarrow> (fabric_error + attachment) \<times> gpu_reservation smap"
where
  "gpu_local_attach res r l h =
     (if res_kind r \<noteq> Gpu then (Inl (IncompatibleResourceKind ''gpu-local'' Gpu (res_kind r)), res)
      else case gpu_local_id r of
        None \<Rightarrow> (Inl (MissingResourceAttribute ''gpu.uuid or gpu.pci_bus_id''), res)
      | Some gpu_id \<Rightarrow>
          (let details = gpu_local_details r gpu_id;
               att = (\<lambda>d. \<lparr>att_resource = res_id r, att_lease = lease_id l, att_adapter = ''gpu-local'', att_details = d\<rparr>);
               fresh = (Inr (att details),
                 AList.update (res_id r)
                   \<lparr>gr_lease_id = lease_id l, gr_gpu_id = gpu_id, gr_attached_at = h_clock h\<rparr> res)
           in case map_of res (res_id r) of
                Some existing \<Rightarrow>
                  if gr_lease_id existing = lease_id l
                  then (Inr (att (bt_insert ''gpu.reattach'' ''true'' details)), res)
                  else fresh
              | None \<Rightarrow> fresh))"

definition gpu_local_report ::
  "nvml_row smap \<Rightarrow> amd_telemetry smap option \<Rightarrow> gpu_reservation smap \<Rightarrow> host \<Rightarrow> adapter_report"
where
  "gpu_local_report nvml rocm res h =
     (let gpu_count = (case gpu_discover nvml rocm h of
            Inl _ \<Rightarrow> 0
          | Inr devices \<Rightarrow> length (filter (\<lambda>g. \<not> gd_display_only g) devices))
      in \<lparr>rep_name = ''gpu-local'', rep_scope = ''gpu-host-local'', rep_healthy = True,
          rep_detail = bt_from
            [(''adapter.implementation'', ''gpu-local''),
             (''gpu.attachment_mode'', ''host-local reservation (no hardware binding)''),
             (''gpu.count_live'', show_nat gpu_count),
             (''reservations.current'', show_nat (length res)),
             (''vfio.available'', ''see vmm::vfio adapter if --features vfio is enabled'')]\<rparr>)"

lemma gpu_local_attach_ok:
  assumes "gpu_local_attach res r l h = (Inr att, res')"
  shows "res_kind r = Gpu" "att_resource att = res_id r" "att_lease att = lease_id l" "att_adapter att = ''gpu-local''"
    "\<exists>g. map_of res' (res_id r) = Some g \<and> gr_lease_id g = lease_id l"
  using assms by (auto simp: gpu_local_attach_def Let_def get_update split: if_splits option.splits)

lemma gpu_local_attach_refused: "gpu_local_attach res r l h = (Inl e, res') \<Longrightarrow> res' = res"
  by (auto simp: gpu_local_attach_def Let_def split: if_splits option.splits)

subsection \<open>Remote GPU\<close>

definition wgpu_default_resource :: "string \<Rightarrow> resource" where
  "wgpu_default_resource node =
     \<lparr>res_id = ''local.gpu.wgpu-remote'', res_kind = Gpu, res_capacity = 1, res_unit = ''remote-job'',
      res_node = node, res_state = Available, res_exclusive = True,
      res_attributes = bt_from [(''gpu.transport'', ''tailscale''), (''gpu.protocol'', ''wgpu-remote/1''),
        (''gpu.port'', ''9110'')]\<rparr>"

definition wgpu_attach :: "resource \<Rightarrow> lease \<Rightarrow> fabric_error + attachment" where
  "wgpu_attach r l =
     (if res_kind r \<noteq> Gpu then Inl (IncompatibleResourceKind ''gpu-wgpu-remote'' Gpu (res_kind r))
      else Inr \<lparr>att_resource = res_id r, att_lease = lease_id l, att_adapter = ''gpu-wgpu-remote'',
                att_details = bt_from [(''gpu.transport'', ''tailscale''), (''gpu.protocol'', ''wgpu-remote/1'')]\<rparr>)"

text \<open>The cargo feature \<open>wgpu-remote\<close> is an argument.\<close>

definition wgpu_report :: "bool \<Rightarrow> adapter_report" where
  "wgpu_report feature =
     \<lparr>rep_name = ''gpu-wgpu-remote'', rep_scope = ''gpu-wgpu-remote-tailscale'', rep_healthy = feature,
      rep_detail = bt_from [(''transport'', ''tailscale-cgnat''),
        (''wgpu'', if feature then ''enabled'' else ''feature-off'')]\<rparr>"

text \<open>The overlay check: \<open>100.64.0.0/10\<close>.\<close>

datatype ip_addr = V4 u8 u8 u8 u8 | V6 bytes

fun is_tailscale_ip :: "ip_addr \<Rightarrow> bool" where
  "is_tailscale_ip (V4 a b c d) = (a = 100 \<and> 64 \<le> b \<and> b \<le> 127)"
| "is_tailscale_ip (V6 _) = False"

fun tailscale_v4 :: "u8 \<Rightarrow> u8 \<Rightarrow> u8 \<Rightarrow> u8 \<Rightarrow> ip_addr" where
  "tailscale_v4 a b c d = V4 a b c d"

end
