(* ===== verification/F64.thy ===== *)
theory F64
  imports Complex_Main Rust_Strings
begin

text \<open>
  The \<open>f64\<close> arithmetic the sources use. A finite value is the rational it stands for, and every
  operation computes exactly and rounds to the nearest value with 53 significant bits, ties to
  even, with gradual underflow and overflow to infinity, as IEEE 754 binary64 does. The sign of
  zero is not represented; nothing in the sources depends on it.
\<close>

datatype f64 = NaN | Inf bool | Fin rat

definition pow2 :: "int \<Rightarrow> rat" where
  "pow2 k = (if 0 \<le> k then 2 ^ nat k else 1 / 2 ^ nat (- k))"

text \<open>The number of binary digits of a positive integer.\<close>

function ibits :: "int \<Rightarrow> int" where
  "ibits a = (if a \<le> 0 then 0 else 1 + ibits (a div 2))"
  by auto
termination
  by (relation "measure nat") auto

declare ibits.simps [simp del]

text \<open>The exponent of a positive rational: \<open>ilog2 q = k\<close> when \<open>2^k \<le> q < 2^(k+1)\<close>.\<close>

definition ilog2 :: "rat \<Rightarrow> int" where
  "ilog2 q =
     (let (a, b) = quotient_of q;
          k = ibits a - ibits b
      in if pow2 k \<le> q then k else k - 1)"

definition round_half_even :: "rat \<Rightarrow> int" where
  "round_half_even q =
     (let n = \<lfloor>q\<rfloor>; d = q - of_int n
      in if d < 1 / 2 then n else if 1 / 2 < d then n + 1 else if even n then n else n + 1)"

definition f64_round :: "rat \<Rightarrow> f64" where
  "f64_round q =
     (if q = 0 then Fin 0
      else
        (let e = max (ilog2 \<bar>q\<bar>) (- 1022);
             u = pow2 (e - 52);
             v = of_int (round_half_even (\<bar>q\<bar> / u)) * u
         in if 2 ^ 1024 \<le> v then Inf (q < 0) else Fin (if q < 0 then - v else v)))"

fun f_add :: "f64 \<Rightarrow> f64 \<Rightarrow> f64" where
  "f_add (Fin a) (Fin b) = f64_round (a + b)"
| "f_add (Inf s) (Inf t) = (if s = t then Inf s else NaN)"
| "f_add (Inf s) (Fin b) = Inf s"
| "f_add (Fin a) (Inf t) = Inf t"
| "f_add NaN y = NaN"
| "f_add x NaN = NaN"

fun f_mul :: "f64 \<Rightarrow> f64 \<Rightarrow> f64" where
  "f_mul (Fin a) (Fin b) = f64_round (a * b)"
| "f_mul (Inf s) (Inf t) = Inf (s \<noteq> t)"
| "f_mul (Inf s) (Fin b) = (if b = 0 then NaN else Inf (s \<noteq> (b < 0)))"
| "f_mul (Fin a) (Inf t) = (if a = 0 then NaN else Inf (t \<noteq> (a < 0)))"
| "f_mul NaN y = NaN"
| "f_mul x NaN = NaN"

fun f_le :: "f64 \<Rightarrow> f64 \<Rightarrow> bool" where
  "f_le (Fin a) (Fin b) = (a \<le> b)"
| "f_le (Inf s) (Inf t) = (s \<or> \<not> t)"
| "f_le (Inf s) (Fin b) = s"
| "f_le (Fin a) (Inf t) = (\<not> t)"
| "f_le NaN y = False"
| "f_le x NaN = False"

definition f_lt :: "f64 \<Rightarrow> f64 \<Rightarrow> bool" where
  "f_lt x y = (f_le x y \<and> \<not> f_le y x)"

definition f_of_nat :: "nat \<Rightarrow> f64" where
  "f_of_nat n = f64_round (of_nat n)"

text \<open>The casts \<open>as u64\<close> and \<open>as u32\<close> truncate, saturate, and send NaN to zero.\<close>

fun f_to_word :: "f64 \<Rightarrow> 'w::len word" where
  "f_to_word NaN = 0"
| "f_to_word (Inf neg) = (if neg then 0 else - 1)"
| "f_to_word (Fin q) = of_int (max 0 (min (2 ^ LENGTH('w) - 1) \<lfloor>q\<rfloor>))"

subsection \<open>Parsing\<close>

definition all_digits :: "string \<Rightarrow> nat option" where
  "all_digits s = parse_digits 10 0 s"

text \<open>A decimal mantissa: digits, optionally a point and more digits, at least one digit in all.\<close>

definition parse_mantissa :: "string \<Rightarrow> rat option" where
  "parse_mantissa s =
     (let (whole, frac) = (case split_once (CHR ''.'') s of None \<Rightarrow> (s, []) | Some p \<Rightarrow> p)
      in if whole = [] \<and> frac = [] then None
         else case (all_digits whole, all_digits frac) of
                (Some a, Some b) \<Rightarrow> Some (of_nat a + of_nat b / 10 ^ length frac)
              | _ \<Rightarrow> None)"

definition split_sign :: "string \<Rightarrow> bool \<times> string" where
  "split_sign s = (case s of CHR ''-'' # t \<Rightarrow> (True, t) | CHR ''+'' # t \<Rightarrow> (False, t) | _ \<Rightarrow> (False, s))"

definition parse_exponent :: "string \<Rightarrow> int option" where
  "parse_exponent s =
     (let (neg, ds) = split_sign s
      in if ds = [] then None
         else map_option (\<lambda>n. if neg then - int n else int n) (all_digits ds))"

definition parse_f64 :: "string \<Rightarrow> f64 option" where
  "parse_f64 s =
     (let (neg, t) = split_sign s; low = to_lower t
      in if low = ''inf'' \<or> low = ''infinity'' then Some (Inf neg)
         else if low = ''nan'' then Some NaN
         else
           (let (m, ex) = (case split_once (CHR ''e'') low of None \<Rightarrow> (low, Some 0) | Some (m, x) \<Rightarrow> (m, parse_exponent x))
            in case (parse_mantissa m, ex) of
                 (Some q, Some k) \<Rightarrow>
                   Some (f64_round ((if neg then - 1 else 1) * q
                           * (if 0 \<le> k then 10 ^ nat k else 1 / 10 ^ nat (- k))))
               | _ \<Rightarrow> None))"

subsection \<open>Printing\<close>

text \<open>\<open>{:.d}\<close>: the exact value rounded to \<open>d\<close> decimals, ties to even.\<close>

definition show_scaled :: "nat \<Rightarrow> nat \<Rightarrow> string" where
  "show_scaled d n =
     (let s = show_nat n; padded = replicate (Suc d - length s) (CHR ''0'') @ s; k = length padded - d
      in if d = 0 then padded else take k padded @ ''.'' @ drop k padded)"

fun show_f64_fixed :: "nat \<Rightarrow> f64 \<Rightarrow> string" where
  "show_f64_fixed d NaN = ''NaN''"
| "show_f64_fixed d (Inf neg) = (if neg then ''-inf'' else ''inf'')"
| "show_f64_fixed d (Fin q) =
     (if q < 0 then ''-'' else []) @ show_scaled d (nat (round_half_even (\<bar>q\<bar> * 10 ^ d)))"

text \<open>
  \<open>{}\<close>: the decimal with the fewest digits that rounds to the value, the closest one if there
  are two, written without an exponent. \<open>p\<close> is the decimal exponent of the leading digit.
\<close>

definition pow10 :: "int \<Rightarrow> rat" where
  "pow10 k = (if 0 \<le> k then 10 ^ nat k else 1 / 10 ^ nat (- k))"

definition ilog10 :: "rat \<Rightarrow> int" where
  "ilog10 a =
     (case find (\<lambda>p. pow10 p \<le> a) (map (\<lambda>i. 308 - int i) [0..<633]) of Some p \<Rightarrow> p | None \<Rightarrow> - 324)"

definition shortest :: "rat \<Rightarrow> nat \<Rightarrow> (int \<times> int) option" where
  "shortest a k =
     (let e = ilog10 a - int k + 1; u = pow10 e; m = \<lfloor>a / u\<rfloor>;
          lo_ok = (f64_round (of_int m * u) = Fin a);
          hi_ok = (f64_round (of_int (m + 1) * u) = Fin a)
      in if lo_ok \<and> (\<not> hi_ok \<or> a - of_int m * u \<le> of_int (m + 1) * u - a) then Some (m, e)
         else if hi_ok then Some (m + 1, e)
         else None)"

definition show_decimal :: "int \<times> int \<Rightarrow> string" where
  "show_decimal = (\<lambda>(m, e).
     if 0 \<le> e then show_nat (nat m) @ replicate (nat e) (CHR ''0'')
     else (let s = trim_end_matches (\<lambda>c. c = CHR ''0'') (show_scaled (nat (- e)) (nat m))
           in if s \<noteq> [] \<and> last s = CHR ''.'' then butlast s else s))"

fun show_f64 :: "f64 \<Rightarrow> string" where
  "show_f64 NaN = ''NaN''"
| "show_f64 (Inf neg) = (if neg then ''-inf'' else ''inf'')"
| "show_f64 (Fin q) =
     (if q = 0 then ''0''
      else (if q < 0 then ''-'' else [])
        @ (case List.map_filter (shortest \<bar>q\<bar>) [1..<18] of
             d # _ \<Rightarrow> show_decimal d
           | [] \<Rightarrow> []))"

subsection \<open>Order\<close>

lemma f_le_refl [simp]: "f_le x x \<longleftrightarrow> x \<noteq> NaN"
  by (cases x) auto

lemma f_le_trans: "f_le x y \<Longrightarrow> f_le y z \<Longrightarrow> f_le x z"
  by (cases x; cases y; cases z) auto

lemma f_le_total: "x \<noteq> NaN \<Longrightarrow> y \<noteq> NaN \<Longrightarrow> f_le x y \<or> f_le y x"
  by (cases x; cases y) auto

lemma f_lt_irrefl [simp]: "\<not> f_lt x x"
  by (simp add: f_lt_def)

lemma f_not_lt: "x \<noteq> NaN \<Longrightarrow> y \<noteq> NaN \<Longrightarrow> \<not> f_lt x y \<longleftrightarrow> f_le y x"
  using f_le_total by (auto simp: f_lt_def)

text \<open>The cast of a value in range is its integer part; larger values saturate.\<close>

lemma f_to_word_exact:
  fixes w :: "'w::len word"
  assumes "0 \<le> q" "\<lfloor>q\<rfloor> < 2 ^ LENGTH('w)"
  shows "uint (f_to_word (Fin q) :: 'w word) = \<lfloor>q\<rfloor>"
  using assms by (simp add: uint_word_of_int min_def max_def)

end
