(* ===== verification/Hardware.thy ===== *)
theory Hardware
  imports Gpu_Discovery F64
begin

text \<open>
  The sysfs facts of \<open>hwinfo.rs\<close>: NUMA nodes, network interfaces, RDMA ports and GPU placement,
  read from a host, and the enrichment of the resources they belong to. Every reader takes the
  sysfs root, as in the source. Multiplications of parsed numbers wrap, as in a release build.
\<close>

subsection \<open>Readers\<close>

definition read_trim :: "host \<Rightarrow> string \<Rightarrow> string option" where
  "read_trim h p = map_option trim (h_file h p)"

text \<open>The paths of the entries of a directory, sorted: entries of one directory sort by name.\<close>

definition entries :: "host \<Rightarrow> string \<Rightarrow> (string \<times> string) list" where
  "entries h d = map (\<lambda>n. (n, path_join d n)) (sort (read_names h d))"

definition pci_numa :: "host \<Rightarrow> string \<Rightarrow> string option" where
  "pci_numa h device_dir =
     (case read_trim h (path_join device_dir ''numa_node'') of
        None \<Rightarrow> None
      | Some n \<Rightarrow> if n = ''-1'' then None else Some n)"

fun meminfo_line :: "string \<Rightarrow> u64 \<times> u64 \<Rightarrow> u64 \<times> u64" where
  "meminfo_line line (tot, free) =
     (let parts = split_whitespace line in
      if 4 \<le> length parts
      then
        (let kb = unwrap_or (parse_u64 (parts ! 3)) 0 in
         if parts ! 2 = ''MemTotal:'' then (kb * 1024, free)
         else if parts ! 2 = ''MemFree:'' then (tot, kb * 1024)
         else (tot, free))
      else (tot, free))"

definition node_meminfo :: "host \<Rightarrow> string \<Rightarrow> u64 \<times> u64" where
  "node_meminfo h node_dir =
     fold meminfo_line (lines (unwrap_or (read_trim h (path_join node_dir ''meminfo'')) [])) (0, 0)"

subsection \<open>NUMA\<close>

definition numa_resource :: "host \<Rightarrow> string \<Rightarrow> string \<times> string \<Rightarrow> resource option" where
  "numa_resource h node = (\<lambda>(name, dir).
     (case strip_prefix name ''node'' of
        None \<Rightarrow> None
      | Some digits \<Rightarrow>
          (case parse_u32 digits of
             None \<Rightarrow> None
           | Some index \<Rightarrow>
               (let (tot, free) = node_meminfo h dir
                in Some \<lparr>res_id = ''local.numa.'' @ show_word index, res_kind = Memory,
                     res_capacity = tot, res_unit = ''bytes'', res_node = node, res_state = Available,
                     res_exclusive = False,
                     res_attributes = bt_from
                       [(''numa.node'', show_word index),
                        (''numa.cpulist'', unwrap_or (read_trim h (path_join dir ''cpulist'')) []),
                        (''numa.free_bytes'', show_word free)]\<rparr>))))"

definition numa_resources :: "host \<Rightarrow> string \<Rightarrow> string \<Rightarrow> resource list" where
  "numa_resources h sys node =
     List.map_filter (numa_resource h node) (entries h (path_join sys ''devices/system/node''))"

subsection \<open>Network interfaces\<close>

definition rdma_by_netdev :: "host \<Rightarrow> string \<Rightarrow> (string \<times> string) smap" where
  "rdma_by_netdev h sys =
     bt_from (concat (map
       (\<lambda>(name, dev). map (\<lambda>(netdev, _). (netdev, (name, ''1''))) (entries h (path_join dev ''device/net'')))
       (entries h (path_join sys ''class/infiniband''))))"

definition insert_some :: "string \<Rightarrow> string option \<Rightarrow> attrs \<Rightarrow> attrs" where
  "insert_some k v a = (case v of None \<Rightarrow> a | Some x \<Rightarrow> bt_insert k x a)"

text \<open>A positive \<open>i64\<close>: the sign is optional, zero and negative speeds are ignored.\<close>

definition parse_positive_i64 :: "string \<Rightarrow> nat option" where
  "parse_positive_i64 s =
     (case from_str_radix (2 ^ 63) 10 s of
        None \<Rightarrow> None
      | Some n \<Rightarrow> if 0 < n then Some n else None)"

definition net_speed :: "host \<Rightarrow> string \<Rightarrow> nat option" where
  "net_speed h dir =
     (case read_trim h (path_join dir ''speed'') of None \<Rightarrow> None | Some s \<Rightarrow> parse_positive_i64 s)"

definition net_device_attrs :: "host \<Rightarrow> string \<Rightarrow> attrs \<Rightarrow> attrs" where
  "net_device_attrs h device a =
     (if h_exists h device
      then insert_some ''net.numa_node'' (pci_numa h device)
             (insert_some ''net.driver'' (link_target_name h (path_join device ''driver''))
               (insert_some ''net.pci_bdf''
                 (case h_canonical h device of None \<Rightarrow> None | Some p \<Rightarrow> file_name p) a))
      else bt_insert ''net.virtual'' ''true'' a)"

definition enrich_interface ::
  "host \<Rightarrow> string \<Rightarrow> (string list) smap \<Rightarrow> (string \<times> string) smap \<Rightarrow> string \<Rightarrow> resource \<Rightarrow> resource"
where
  "enrich_interface h dir ipv4 rdma iface r =
     (let a1 = insert_some ''net.operstate'' (read_trim h (path_join dir ''operstate'')) (res_attributes r);
          r2 = (case net_speed h dir of
                  None \<Rightarrow> r\<lparr>res_attributes := a1\<rparr>
                | Some mbps \<Rightarrow> r\<lparr>res_attributes := bt_insert ''net.speed_mbps'' (show_nat mbps) a1,
                    res_capacity := of_nat mbps * 1000000, res_unit := ''bits/s''\<rparr>);
          a3 = insert_some ''net.mtu'' (read_trim h (path_join dir ''mtu'')) (res_attributes r2);
          a4 = net_device_attrs h (path_join dir ''device'') a3;
          a5 = insert_some ''net.ipv4'' (map_option (join '','') (map_of ipv4 iface)) a4;
          a6 = insert_some ''net.rdma_device'' (map_option fst (map_of rdma iface)) a5
      in r2\<lparr>res_attributes := a6\<rparr>)"

definition enrich_network :: "host \<Rightarrow> string \<Rightarrow> resource list \<Rightarrow> (string list) smap \<Rightarrow> resource list" where
  "enrich_network h sys resources ipv4 =
     (let rdma = rdma_by_netdev h sys in
      map (\<lambda>r. if res_kind r \<noteq> Network then r
               else case map_of (res_attributes r) ''interface'' of
                      None \<Rightarrow> r
                    | Some iface \<Rightarrow>
                        (let dir = path_join (path_join sys ''class/net'') iface
                         in if h_exists h dir then enrich_interface h dir ipv4 rdma iface r else r))
        resources)"

subsection \<open>RDMA ports\<close>

definition rdma_transport :: "string \<Rightarrow> string" where
  "rdma_transport name =
     (if starts_with name ''roce'' \<or> starts_with name ''bnxt_re'' \<or> starts_with name ''mlx'' then ''roce''
      else if starts_with name ''iw'' \<or> starts_with name ''irdma'' then ''iwarp''
      else if starts_with name ''ib'' \<or> starts_with name ''hfi'' then ''infiniband''
      else ''unknown'')"

definition rate_bits :: "string \<Rightarrow> u64" where
  "rate_bits rate =
     (case split_whitespace rate of
        [] \<Rightarrow> 0
      | v # _ \<Rightarrow> (case parse_f64 v of None \<Rightarrow> 0 | Some g \<Rightarrow> f_to_word (f_mul g (Fin 1000000000))))"

definition rdma_port_resource ::
  "host \<Rightarrow> string \<Rightarrow> string \<Rightarrow> string \<Rightarrow> string list \<Rightarrow> string \<times> string \<Rightarrow> resource"
where
  "rdma_port_resource h node name device netdevs = (\<lambda>(port_num, port).
     (let state = unwrap_or (read_trim h (path_join port ''state'')) [];
          rate = unwrap_or (read_trim h (path_join port ''rate'')) [];
          a0 = bt_from
            [(''rdma.device'', name), (''rdma.port'', port_num),
             (''rdma.state'', trim (last (split_char (CHR '':'') state))), (''rdma.rate'', rate),
             (''rdma.link_layer'', unwrap_or (read_trim h (path_join port ''link_layer'')) []),
             (''rdma.transport'', rdma_transport name)];
          a1 = insert_some ''rdma.netdev'' (case netdevs of [] \<Rightarrow> None | n # _ \<Rightarrow> Some n) a0;
          a2 = insert_some ''rdma.numa_node'' (pci_numa h device) a1;
          a3 = insert_some ''rdma.driver'' (link_target_name h (path_join device ''driver'')) a2;
          a4 = insert_some ''rdma.gid0'' (read_trim h (path_join port ''gids/0'')) a3
      in \<lparr>res_id = ''local.rdma.'' @ name @ ''.'' @ port_num, res_kind = Network,
          res_capacity = rate_bits rate, res_unit = ''bits/s'', res_node = node,
          res_state = (if contains state ''ACTIVE'' then Available else Unavailable),
          res_exclusive = True, res_attributes = a4\<rparr>))"

definition rdma_resources :: "host \<Rightarrow> string \<Rightarrow> string \<Rightarrow> resource list" where
  "rdma_resources h sys node =
     concat (map
       (\<lambda>(name, dev).
          (let device = path_join dev ''device'';
               netdevs = map fst (entries h (path_join device ''net''))
           in map (rdma_port_resource h node name device netdevs) (entries h (path_join dev ''ports''))))
       (entries h (path_join sys ''class/infiniband'')))"

subsection \<open>GPU placement and interface addresses\<close>

definition enrich_gpu_numa :: "host \<Rightarrow> string \<Rightarrow> resource list \<Rightarrow> resource list" where
  "enrich_gpu_numa h sys resources =
     map (\<lambda>r. if res_kind r \<noteq> Gpu then r
              else case map_of (res_attributes r) ''gpu.pci_bdf'' of
                     None \<Rightarrow> r
                   | Some bdf \<Rightarrow>
                       r\<lparr>res_attributes := insert_some ''gpu.numa_node''
                           (pci_numa h (path_join (path_join sys ''bus/pci/devices'') bdf)) (res_attributes r)\<rparr>)
       resources"

fun position :: "string \<Rightarrow> string list \<Rightarrow> nat option" where
  "position w [] = None"
| "position w (x # xs) = (if x = w then Some 0 else map_option Suc (position w xs))"

definition nth_opt :: "'a list \<Rightarrow> nat \<Rightarrow> 'a option" where
  "nth_opt xs i = (if i < length xs then Some (xs ! i) else None)"

definition ip_line :: "string \<Rightarrow> (string list) smap \<Rightarrow> (string list) smap" where
  "ip_line line out =
     (let parts = split_whitespace line in
      case (nth_opt parts 1, position ''inet'' parts) of
        (Some iface, Some pos) \<Rightarrow>
          (case nth_opt parts (pos + 1) of
             None \<Rightarrow> out
           | Some addr \<Rightarrow>
               (let k = trim_end_matches (\<lambda>c. c = CHR '':'') iface
                in bt_insert k (unwrap_or (map_of out k) [] @ [addr]) out))
      | _ \<Rightarrow> out)"

definition ipv4_by_interface :: "host \<Rightarrow> (string list) smap" where
  "ipv4_by_interface h =
     (case h_output h ''ip'' [''-4'', ''-o'', ''addr'', ''show''] of
        None \<Rightarrow> []
      | Some (_, stdout) \<Rightarrow> fold ip_line (lines stdout) [])"

definition discover_hardware :: "host \<Rightarrow> string \<Rightarrow> resource list \<Rightarrow> resource list" where
  "discover_hardware h node resources =
     (let sys = ''/sys'' in
      enrich_gpu_numa h sys (enrich_network h sys resources (ipv4_by_interface h))
        @ numa_resources h sys node @ rdma_resources h sys node)"

subsection \<open>The RDMA adapter\<close>

definition roce_v2_gid_index :: "host \<Rightarrow> string \<Rightarrow> string \<Rightarrow> string \<Rightarrow> string option" where
  "roce_v2_gid_index h sys device port =
     (let port_dir = path_join (path_join (path_join (path_join sys ''class/infiniband'') device) ''ports'') port;
          indices = sort (List.map_filter (\<lambda>(n, _). parse_u32 n) (entries h (path_join port_dir ''gids'')))
      in find (\<lambda>i. unwrap_or (read_trim h (path_join (path_join port_dir ''gid_attrs/types'') i)) [] = ''RoCE v2''
                 \<and> starts_with (unwrap_or (read_trim h (path_join (path_join port_dir ''gids'') i)) [])
                     ''0000:0000:0000:0000:0000:ffff:'')
           (map show_word indices))"

definition rdma_attach :: "string \<Rightarrow> resource \<Rightarrow> lease \<Rightarrow> host \<Rightarrow> fabric_error + attachment" where
  "rdma_attach sys r l h =
     (if \<not> starts_with (res_id r) ''local.rdma.'' then Inl (MissingResourceAttribute ''rdma.device'')
      else case map_of (res_attributes r) ''rdma.device'' of
        None \<Rightarrow> Inl (MissingResourceAttribute ''rdma.device'')
      | Some device \<Rightarrow>
          (let port = unwrap_or (map_of (res_attributes r) ''rdma.port'') ''1'' in
           case find (\<lambda>p. res_id p = res_id r) (rdma_resources h sys (res_node r)) of
             None \<Rightarrow> Inl (AdapterBackendUnavailable ''rdma''
                       (device @ '' port '' @ port @ '' no longer in /sys/class/infiniband''))
           | Some live \<Rightarrow>
               if res_state live \<noteq> Available
               then Inl (AdapterBackendUnavailable ''rdma''
                      (device @ '' port '' @ port @ '' is '' @ unwrap_or (map_of (res_attributes live) ''rdma.state'') []))
               else
                 (let d0 = bt_insert ''attachment.scope'' ''rdma-port'' (res_attributes live);
                      d1 = insert_some ''rdma.roce_v2_gid_index'' (roce_v2_gid_index h sys device port) d0;
                      d2 = insert_some ''rdma.ipv4''
                             (case map_of (res_attributes live) ''rdma.netdev'' of
                                None \<Rightarrow> None
                              | Some netdev \<Rightarrow> map_option (join '','') (map_of (ipv4_by_interface h) netdev)) d1
                  in Inr \<lparr>att_resource = res_id r, att_lease = lease_id l, att_adapter = ''rdma'', att_details = d2\<rparr>)))"

definition rdma_report :: "string \<Rightarrow> host \<Rightarrow> adapter_report" where
  "rdma_report sys h =
     (let ports = rdma_resources h sys ''local'';
          active = map (\<lambda>r. unwrap_or (map_of (res_attributes r) ''rdma.device'') [] @ '':''
                             @ unwrap_or (map_of (res_attributes r) ''rdma.rate'') [])
                     (filter (\<lambda>r. res_state r = Available) ports)
      in \<lparr>rep_name = ''rdma'', rep_scope = ''rdma-roce-iwarp-ib'', rep_healthy = (active \<noteq> []),
          rep_detail = bt_from
            [(''rdma.ports'', show_nat (length ports)),
             (''rdma.active'', if active = [] then ''none'' else join '','' active)]\<rparr>)"

end
