(* ===== verification/Fabric.thy ===== *)
theory Fabric
  imports Adapter_Contract
begin

text \<open>
  The control plane of \<open>nauti-fabric/src/lib.rs\<close>: the registries of \<open>Fabric\<close> and one function
  per method. Each \<open>Mutex\<close> or \<open>RwLock\<close> field is a field of the record; the lease lock also has a
  poison flag, since \<open>Instant::now() + ttl\<close> can panic while it is held and every later
  \<open>lock().expect(..)\<close> then panics too. Every textual \<open>Instant::now()\<close> is an argument.

  The functions are the methods as one caller sees them; \<open>Fabric_Concurrency\<close> splits them at
  their lock boundaries.
\<close>

subsection \<open>State\<close>

record active_lease =
  al_lease :: lease
  al_expires_at :: instant

record refresh_report =
  rr_added :: "string list"
  rr_removed :: "string list"
  rr_blocked_by_lease :: "string list"

record 'a fabric =
  resources :: "resource smap"
  leases :: "active_lease smap"
  leases_poisoned :: bool
  adapters :: "'a smap"
  attachments :: "string smap"
  heartbeats :: "instant smap"
  next_lease_id :: u64

definition default_fabric :: "'a fabric" where
  "default_fabric = \<lparr>resources = [], leases = [], leases_poisoned = False, adapters = [],
     attachments = [], heartbeats = [], next_lease_id = 0\<rparr>"

subsection \<open>Registration\<close>

definition register :: "resource \<Rightarrow> 'a fabric \<Rightarrow> 'a fabric" where
  "register r F = F\<lparr>resources := AList.update (res_id r) r (resources F)\<rparr>"

definition resource :: "string \<Rightarrow> 'a fabric \<Rightarrow> resource option" where
  "resource rid F = map_of (resources F) rid"

definition list_resources :: "'a fabric \<Rightarrow> resource list" where
  "list_resources F = sort_key res_id (map snd (resources F))"

definition unregister :: "string \<Rightarrow> 'a fabric \<Rightarrow> (fabric_error + bool) outcome \<times> 'a fabric" where
  "unregister rid F =
     (if leases_poisoned F then (Panicked, F)
      else if has_key (leases F) rid then (Done (Inl ResourceAlreadyLeased), F)
      else (Done (Inr (has_key (resources F) rid)),
            F\<lparr>resources := AList.delete rid (resources F)\<rparr>))"

definition register_adapter :: "('a, 'w) adapter_ops \<Rightarrow> 'a \<Rightarrow> 'a fabric \<Rightarrow> 'a fabric" where
  "register_adapter ops a F = F\<lparr>adapters := AList.update (ad_name ops a) a (adapters F)\<rparr>"

definition adapter_reports :: "('a, 'w) adapter_ops \<Rightarrow> 'a fabric \<Rightarrow> 'w \<Rightarrow> adapter_report list" where
  "adapter_reports ops F w = sort_key rep_name (map (\<lambda>(_, a). ad_report ops a w) (adapters F))"

subsection \<open>Refresh\<close>

text \<open>
  The second half of \<open>refresh_local\<close>, from the freshly discovered resources on: diff the ids, add
  what is new, then unregister what is gone unless it is leased.
\<close>

fun refresh_remove ::
  "string list \<Rightarrow> string list \<Rightarrow> string list \<Rightarrow> 'a fabric \<Rightarrow> (string list \<times> string list) outcome \<times> 'a fabric"
where
  "refresh_remove [] removed blocked F = (Done (removed, blocked), F)"
| "refresh_remove (rid # rids) removed blocked F =
     (case unregister rid F of
        (Panicked, F') \<Rightarrow> (Panicked, F')
      | (Done (Inr True), F') \<Rightarrow> refresh_remove rids (removed @ [rid]) blocked F'
      | (Done (Inr False), F') \<Rightarrow> refresh_remove rids removed blocked F'
      | (Done (Inl ResourceAlreadyLeased), F') \<Rightarrow> refresh_remove rids removed (blocked @ [rid]) F'
      | (Done (Inl e), F') \<Rightarrow> refresh_remove rids removed blocked F')"

definition refresh_with :: "resource list \<Rightarrow> 'a fabric \<Rightarrow> refresh_report outcome \<times> 'a fabric" where
  "refresh_with new_resources F =
     (let new_ids = sort (remdups (map res_id new_resources));
          current_ids = sort (remdups (keys (resources F)));
          added = filter (\<lambda>i. i \<notin> set current_ids) new_ids;
          gone = filter (\<lambda>i. i \<notin> set new_ids) current_ids;
          F1 = fold (\<lambda>r G. if res_id r \<in> set added then register r G else G) new_resources F
      in case refresh_remove gone [] [] F1 of
           (Panicked, F2) \<Rightarrow> (Panicked, F2)
         | (Done (removed, blocked), F2) \<Rightarrow>
             (Done \<lparr>rr_added = added, rr_removed = removed, rr_blocked_by_lease = blocked\<rparr>, F2))"

subsection \<open>Leases\<close>

definition prune :: "instant \<Rightarrow> active_lease smap \<Rightarrow> active_lease smap" where
  "prune now ls = filter (\<lambda>(_, al). now < al_expires_at al) ls"

definition lease_exclusive ::
  "string \<Rightarrow> string \<Rightarrow> duration \<Rightarrow> instant \<Rightarrow> instant \<Rightarrow> 'a fabric
     \<Rightarrow> (fabric_error + lease) outcome \<times> 'a fabric"
where
  "lease_exclusive rid owner ttl now now' F =
     (case resource rid F of
        None \<Rightarrow> (Done (Inl ResourceNotFound), F)
      | Some r \<Rightarrow>
          if res_state r \<noteq> Available then (Done (Inl ResourceUnavailable), F)
          else if \<not> res_exclusive r then (Done (Inl ResourceUnavailable), F)
          else if leases_poisoned F then (Panicked, F)
          else
            (let ls = prune now (leases F)
             in if has_key ls rid then (Done (Inl ResourceAlreadyLeased), F\<lparr>leases := ls\<rparr>)
                else
                  (let l = \<lparr>lease_id = next_lease_id F + 1, lease_resource = rid, lease_owner = owner\<rparr>;
                       F1 = F\<lparr>leases := ls, next_lease_id := next_lease_id F + 1\<rparr>
                   in case instant_add now' ttl of
                        None \<Rightarrow> (Panicked, F1\<lparr>leases_poisoned := True\<rparr>)
                      | Some e \<Rightarrow>
                          (Done (Inr l),
                           F1\<lparr>leases := AList.update rid \<lparr>al_lease = l, al_expires_at = e\<rparr> ls\<rparr>))))"

definition find_available :: "resource_request \<Rightarrow> 'a fabric \<Rightarrow> resource list outcome" where
  "find_available q F =
     (if leases_poisoned F then Panicked
      else Done (filter (\<lambda>r. request_matches q r
                          \<and> (\<not> res_exclusive r \<or> \<not> has_key (leases F) (res_id r)))
                   (map snd (resources F))))"

text \<open>The lease that is recorded for the presented lease's resource, when it has the same id.\<close>

definition holds :: "lease \<Rightarrow> 'a fabric \<Rightarrow> bool" where
  "holds l F =
     (case map_of (leases F) (lease_resource l) of
        None \<Rightarrow> False
      | Some al \<Rightarrow> lease_id (al_lease al) = lease_id l)"

definition authorized :: "instant \<Rightarrow> lease \<Rightarrow> 'a fabric \<Rightarrow> bool" where
  "authorized now l F =
     (case map_of (leases F) (lease_resource l) of
        None \<Rightarrow> False
      | Some al \<Rightarrow> lease_id (al_lease al) = lease_id l \<and> now < al_expires_at al)"

definition attach ::
  "('a, 'w) adapter_ops \<Rightarrow> string \<Rightarrow> lease \<Rightarrow> instant \<Rightarrow> 'a fabric \<Rightarrow> 'w
     \<Rightarrow> (fabric_error + attachment) outcome \<times> 'a fabric \<times> 'w"
where
  "attach ops adapter_name l now F w =
     (case resource (lease_resource l) F of
        None \<Rightarrow> (Done (Inl ResourceNotFound), F, w)
      | Some r \<Rightarrow>
          if leases_poisoned F then (Panicked, F, w)
          else if \<not> authorized now l F then (Done (Inl LeaseNotFound), F, w)
          else
            (case map_of (adapters F) adapter_name of
               None \<Rightarrow> (Done (Inl AdapterNotFound), F, w)
             | Some a \<Rightarrow>
                 (case ad_attach ops a r l w of
                    (Inl e, a', w') \<Rightarrow>
                      (Done (Inl e), F\<lparr>adapters := AList.update adapter_name a' (adapters F)\<rparr>, w')
                  | (Inr att, a', w') \<Rightarrow>
                      (Done (Inr att),
                       F\<lparr>adapters := AList.update adapter_name a' (adapters F),
                         attachments := AList.update (lease_resource l) adapter_name (attachments F)\<rparr>,
                       w'))))"

text \<open>
  \<open>release\<close> takes the lease lock twice. Between the two sections it forgets the attachment and
  lets the adapter that made it detach; an adapter that refuses ends the release there.
\<close>

definition release_detach ::
  "('a, 'w) adapter_ops \<Rightarrow> lease \<Rightarrow> 'a fabric \<Rightarrow> 'w \<Rightarrow> (fabric_error + unit) \<times> 'a fabric \<times> 'w"
where
  "release_detach ops l F w =
     (let F1 = F\<lparr>attachments := AList.delete (lease_resource l) (attachments F)\<rparr>
      in case map_of (attachments F) (lease_resource l) of
           None \<Rightarrow> (Inr (), F1, w)
         | Some adapter_name \<Rightarrow>
             (case resource (lease_resource l) F of
                None \<Rightarrow> (Inr (), F1, w)
              | Some r \<Rightarrow>
                  (case map_of (adapters F) adapter_name of
                     None \<Rightarrow> (Inr (), F1, w)
                   | Some a \<Rightarrow>
                       (case ad_detach ops a r l w of
                          (out, a', w') \<Rightarrow>
                            (out, F1\<lparr>adapters := AList.update adapter_name a' (adapters F)\<rparr>, w')))))"

definition release_finish :: "lease \<Rightarrow> 'a fabric \<Rightarrow> (fabric_error + unit) \<times> 'a fabric" where
  "release_finish l F =
     (if holds l F
      then (Inr (), F\<lparr>leases := AList.delete (lease_resource l) (leases F)\<rparr>)
      else (Inl LeaseNotFound, F))"

definition release ::
  "('a, 'w) adapter_ops \<Rightarrow> lease \<Rightarrow> 'a fabric \<Rightarrow> 'w \<Rightarrow> (fabric_error + unit) outcome \<times> 'a fabric \<times> 'w"
where
  "release ops l F w =
     (if leases_poisoned F then (Panicked, F, w)
      else if \<not> holds l F then (Done (Inl LeaseNotFound), F, w)
      else
        (case release_detach ops l F w of
           (Inl e, F1, w1) \<Rightarrow> (Done (Inl e), F1, w1)
         | (Inr _, F1, w1) \<Rightarrow>
             (case release_finish l F1 of (res, F2) \<Rightarrow> (Done res, F2, w1))))"

definition renew_lease ::
  "lease \<Rightarrow> duration \<Rightarrow> instant \<Rightarrow> instant \<Rightarrow> 'a fabric \<Rightarrow> (fabric_error + lease) outcome \<times> 'a fabric"
where
  "renew_lease l ttl now now' F =
     (if leases_poisoned F then (Panicked, F)
      else
        (let ls = prune now (leases F); F1 = F\<lparr>leases := ls\<rparr>
         in case map_of ls (lease_resource l) of
              None \<Rightarrow> (Done (Inl LeaseNotFound), F1)
            | Some al \<Rightarrow>
                if lease_id (al_lease al) \<noteq> lease_id l then (Done (Inl LeaseNotFound), F1)
                else
                  (case instant_add now' ttl of
                     None \<Rightarrow> (Panicked, F1\<lparr>leases_poisoned := True\<rparr>)
                   | Some e \<Rightarrow>
                       (Done (Inr (al_lease al)),
                        F1\<lparr>leases := AList.update (lease_resource l) (al\<lparr>al_expires_at := e\<rparr>) ls\<rparr>))))"

subsection \<open>Liveness\<close>

definition heartbeat :: "string \<Rightarrow> instant \<Rightarrow> 'a fabric \<Rightarrow> 'a fabric" where
  "heartbeat node now F = F\<lparr>heartbeats := AList.update node now (heartbeats F)\<rparr>"

fun unregister_all :: "string list \<Rightarrow> 'a fabric \<Rightarrow> unit outcome \<times> 'a fabric" where
  "unregister_all [] F = (Done (), F)"
| "unregister_all (rid # rids) F =
     (case unregister rid F of
        (Panicked, F') \<Rightarrow> (Panicked, F')
      | (Done _, F') \<Rightarrow> unregister_all rids F')"

definition stale_nodes :: "instant \<Rightarrow> 'a fabric \<Rightarrow> string list" where
  "stale_nodes cutoff F = map fst (filter (\<lambda>(_, seen). seen < cutoff) (heartbeats F))"

definition owned_by :: "string list \<Rightarrow> 'a fabric \<Rightarrow> string list" where
  "owned_by nodes F = map fst (filter (\<lambda>(_, r). res_node r \<in> set nodes) (resources F))"

definition evict_stale_nodes ::
  "duration \<Rightarrow> instant \<Rightarrow> 'a fabric \<Rightarrow> string list outcome \<times> 'a fabric"
where
  "evict_stale_nodes older_than now F =
     (case instant_sub now older_than of
        None \<Rightarrow> (Panicked, F)
      | Some cutoff \<Rightarrow>
          (let stale = stale_nodes cutoff F;
               F1 = F\<lparr>heartbeats := fold AList.delete stale (heartbeats F)\<rparr>
           in if stale = [] then (Done [], F1)
              else case unregister_all (owned_by stale F1) F1 of
                     (Panicked, F2) \<Rightarrow> (Panicked, F2)
                   | (Done _, F2) \<Rightarrow> (Done stale, F2)))"

subsection \<open>Guest memory\<close>

text \<open>\<open>GuestMemoryMmap::from_ranges\<close> of the \<open>vm-memory\<close> crate is an argument.\<close>

definition allocate_guest_memory ::
  "((u64 \<times> u64) list \<Rightarrow> string + 'm) \<Rightarrow> u64 \<Rightarrow> fabric_error + 'm"
where
  "allocate_guest_memory from_ranges nbytes = map_err GuestMemory (from_ranges [(0, nbytes)])"

end
