(* ===== verification/Fabric_Invariant.thy ===== *)
theory Fabric_Invariant
  imports Fabric
begin

text \<open>
  Well-formedness of the registries and its preservation. A well-formed fabric has one entry per
  key in every registry, files each resource under its own id, each lease under the resource it
  is for, each adapter under its own name, and has no lease on a resource it does not know.

  The operations that call an adapter keep it because of the adapter contract; their lemmas stand
  in the context of \<open>adapter_contract\<close>.
\<close>

subsection \<open>The invariant\<close>

definition resources_wf :: "resource smap \<Rightarrow> bool" where
  "resources_wf m = (distinct (keys m) \<and> list_all (\<lambda>(k, r). res_id r = k) m)"

definition leases_wf :: "string list \<Rightarrow> active_lease smap \<Rightarrow> bool" where
  "leases_wf rids m =
     (distinct (keys m)
      \<and> list_all (\<lambda>(k, al). lease_resource (al_lease al) = k \<and> k \<in> set rids) m)"

definition adapters_wf :: "('a, 'w) adapter_ops \<Rightarrow> 'a smap \<Rightarrow> bool" where
  "adapters_wf ops m = (distinct (keys m) \<and> list_all (\<lambda>(k, a). ad_name ops a = k) m)"

definition fabric_wf :: "('a, 'w) adapter_ops \<Rightarrow> 'a fabric \<Rightarrow> bool" where
  "fabric_wf ops F =
     (resources_wf (resources F) \<and> leases_wf (keys (resources F)) (leases F)
      \<and> adapters_wf ops (adapters F) \<and> distinct (keys (attachments F)) \<and> distinct (keys (heartbeats F)))"

lemma fabric_wfI:
  assumes "resources_wf (resources F)" "leases_wf (keys (resources F)) (leases F)"
    "adapters_wf ops (adapters F)" "distinct (keys (attachments F))" "distinct (keys (heartbeats F))"
  shows "fabric_wf ops F"
  using assms by (simp add: fabric_wf_def)

lemma fabric_wfD:
  assumes "fabric_wf ops F"
  shows "resources_wf (resources F)" "leases_wf (keys (resources F)) (leases F)"
    "adapters_wf ops (adapters F)" "distinct (keys (attachments F))" "distinct (keys (heartbeats F))"
  using assms by (simp_all add: fabric_wf_def)

subsection \<open>Registries\<close>

lemma list_all_update:
  "list_all P m \<Longrightarrow> P (k, v) \<Longrightarrow> list_all P (AList.update k v m)"
  by (induction m) auto

lemma list_all_delete: "list_all P m \<Longrightarrow> list_all P (AList.delete k m)"
  by (induction m) auto

lemma list_all_filter: "list_all P m \<Longrightarrow> list_all P (filter Q m)"
  by (induction m) auto

lemma set_keys_update: "set (keys (AList.update k v m)) = insert k (set (keys m))"
  using update_keys [of k v m] by (auto simp: image_iff)

lemma set_keys_delete: "set (keys (AList.delete k m)) = set (keys m) - {k}"
  using delete_keys [of k m] by simp

lemma resources_wf_update:
  "resources_wf m \<Longrightarrow> res_id r = k \<Longrightarrow> resources_wf (AList.update k r m)"
  by (simp add: resources_wf_def distinct_keys_update list_all_update)

lemma resources_wf_delete: "resources_wf m \<Longrightarrow> resources_wf (AList.delete k m)"
  by (simp add: resources_wf_def distinct_keys_delete list_all_delete)

lemma resources_wf_get: "resources_wf m \<Longrightarrow> map_of m k = Some r \<Longrightarrow> res_id r = k"
  unfolding resources_wf_def by (auto simp: list_all_iff dest!: map_of_SomeD)

lemma leases_wf_update:
  assumes "leases_wf rids m" "lease_resource (al_lease al) = k" "k \<in> set rids"
  shows "leases_wf rids (AList.update k al m)"
  using assms by (simp add: leases_wf_def distinct_keys_update list_all_update)

lemma leases_wf_delete: "leases_wf rids m \<Longrightarrow> leases_wf rids (AList.delete k m)"
  by (simp add: leases_wf_def distinct_keys_delete list_all_delete)

lemma leases_wf_prune: "leases_wf rids m \<Longrightarrow> leases_wf rids (prune now m)"
  by (simp add: leases_wf_def prune_def distinct_keys_filter list_all_filter)

lemma leases_wf_mono: "leases_wf rids m \<Longrightarrow> set rids \<subseteq> set rids' \<Longrightarrow> leases_wf rids' m"
  unfolding leases_wf_def list_all_iff by auto

lemma leases_wf_drop:
  "leases_wf rids m \<Longrightarrow> \<not> has_key m k \<Longrightarrow> set rids' = set rids - {k} \<Longrightarrow> leases_wf rids' m"
  unfolding leases_wf_def list_all_iff has_key_iff by (force simp: image_iff)

lemma leases_wf_get:
  "leases_wf rids m \<Longrightarrow> map_of m k = Some al \<Longrightarrow> lease_resource (al_lease al) = k \<and> k \<in> set rids"
  unfolding leases_wf_def by (auto simp: list_all_iff dest!: map_of_SomeD)

lemma map_of_prune:
  "distinct (keys m) \<Longrightarrow> map_of (prune now m) k = Some al
     \<longleftrightarrow> map_of m k = Some al \<and> now < al_expires_at al"
  unfolding prune_def by (cases "map_of m k") (simp_all add: map_of_filter del: map_of_eq_Some_iff, blast)

lemma has_key_prune:
  "distinct (keys m) \<Longrightarrow> has_key (prune now m) k
     \<longleftrightarrow> (\<exists>al. map_of m k = Some al \<and> now < al_expires_at al)"
  using map_of_prune [of m now k] by (auto simp: has_key_def)

lemma prune_prune: "now \<le> now' \<Longrightarrow> prune now' (prune now m) = prune now' m"
  by (auto simp: prune_def intro!: filter_cong)

subsection \<open>Operations that call no adapter\<close>

lemma fabric_wf_default: "fabric_wf ops default_fabric"
  by (simp add: fabric_wf_def default_fabric_def resources_wf_def leases_wf_def adapters_wf_def)

lemma fabric_wf_register: "fabric_wf ops F \<Longrightarrow> fabric_wf ops (register r F)"
  unfolding fabric_wf_def register_def
  using leases_wf_mono [of "keys (resources F)" "leases F" "keys (AList.update (res_id r) r (resources F))"]
  by (simp add: resources_wf_update set_keys_update [unfolded set_map] subset_insertI)

lemma fabric_wf_unregister: "fabric_wf ops F \<Longrightarrow> fabric_wf ops (snd (unregister rid F))"
  unfolding fabric_wf_def unregister_def
  using leases_wf_drop [of "keys (resources F)" "leases F" rid "keys (AList.delete rid (resources F))",
      OF _ _ set_keys_delete]
  by (simp add: resources_wf_delete)

lemma fabric_wf_leases:
  "fabric_wf ops F \<Longrightarrow> leases_wf (keys (resources F)) ls \<Longrightarrow> fabric_wf ops (F\<lparr>leases := ls\<rparr>)"
  by (simp add: fabric_wf_def)

lemma fabric_wf_frame [simp]:
  "fabric_wf ops (F\<lparr>leases_poisoned := b\<rparr>) = fabric_wf ops F"
  "fabric_wf ops (F\<lparr>next_lease_id := n\<rparr>) = fabric_wf ops F"
  by (simp_all add: fabric_wf_def)

lemma fabric_wf_heartbeat: "fabric_wf ops F \<Longrightarrow> fabric_wf ops (heartbeat node now F)"
  by (simp add: fabric_wf_def heartbeat_def distinct_keys_update)

lemma fabric_wf_lease_exclusive:
  assumes wf: "fabric_wf ops F"
  shows "fabric_wf ops (snd (lease_exclusive rid owner ttl now now' F))"
proof (cases "resource rid F")
  case None
  then show ?thesis using wf by (simp add: lease_exclusive_def)
next
  case (Some r)
  then have "rid \<in> set (keys (resources F))"
    by (auto simp: resource_def dest!: map_of_SomeD intro: image_eqI [rotated])
  moreover have "leases_wf (keys (resources F)) (prune now (leases F))"
    using wf by (intro leases_wf_prune) (rule fabric_wfD)
  ultimately show ?thesis
    using wf Some
    by (simp add: lease_exclusive_def Let_def fabric_wf_leases leases_wf_update split: option.split)
qed

lemma fabric_wf_renew_lease:
  assumes wf: "fabric_wf ops F"
  shows "fabric_wf ops (snd (renew_lease l ttl now now' F))"
proof -
  have "leases_wf (keys (resources F)) (prune now (leases F))"
    using wf by (intro leases_wf_prune) (rule fabric_wfD)
  note ls = this leases_wf_get [OF this]
  then show ?thesis
    using wf
    by (simp add: renew_lease_def Let_def fabric_wf_leases leases_wf_update split: option.split)
qed

lemma fabric_wf_unregister_all: "fabric_wf ops F \<Longrightarrow> fabric_wf ops (snd (unregister_all rids F))"
proof (induction rids arbitrary: F)
  case (Cons rid rids)
  then show ?case
    using fabric_wf_unregister [OF Cons.prems, of rid] by (auto split: prod.splits outcome.splits)
qed simp

lemma distinct_fold_delete:
  "distinct (keys m) \<Longrightarrow> distinct (keys (fold AList.delete ks m))"
  by (induction ks arbitrary: m) (auto simp: distinct_keys_delete)

lemma fabric_wf_evict:
  assumes wf: "fabric_wf ops F"
  shows "fabric_wf ops (snd (evict_stale_nodes older_than now F))"
proof -
  have "fabric_wf ops (F\<lparr>heartbeats := fold AList.delete ks (heartbeats F)\<rparr>)" for ks
    using wf by (simp add: fabric_wf_def distinct_fold_delete)
  note F1 = this this [THEN fabric_wf_unregister_all]
  then show ?thesis
    using wf unfolding evict_stale_nodes_def Let_def
    by (simp add: case_prod_beta split: option.split outcome.split)
qed

lemma refresh_remove_Cons:
  "refresh_remove (rid # rids) removed blocked F =
     (if leases_poisoned F then (Panicked, F)
      else if has_key (leases F) rid then refresh_remove rids removed (blocked @ [rid]) F
      else refresh_remove rids (if has_key (resources F) rid then removed @ [rid] else removed) blocked
             (F\<lparr>resources := AList.delete rid (resources F)\<rparr>))"
  by (simp add: unregister_def split: bool.split)

lemma fabric_wf_refresh_remove:
  "fabric_wf ops F \<Longrightarrow> fabric_wf ops (snd (refresh_remove rids removed blocked F))"
proof (induction rids arbitrary: removed blocked F)
  case (Cons rid rids)
  then show ?case
    using fabric_wf_unregister [OF Cons.prems, of rid]
    by (auto simp: refresh_remove_Cons unregister_def simp del: refresh_remove.simps split: if_splits)
qed simp

lemma fabric_wf_refresh_with:
  assumes "fabric_wf ops F"
  shows "fabric_wf ops (snd (refresh_with rs F))"
proof -
  have "fabric_wf ops G \<Longrightarrow> fabric_wf ops (fold (\<lambda>r G. if P r then register r G else G) rs G)" for P G
    by (induction rs arbitrary: G) (auto simp: fabric_wf_register)
  from fabric_wf_refresh_remove [OF this [OF assms]] show ?thesis
    unfolding refresh_with_def Let_def by (simp add: case_prod_beta split: outcome.split)
qed

subsection \<open>Operations that call an adapter\<close>

lemma adapters_wf_update:
  "adapters_wf ops m \<Longrightarrow> ad_name ops a = k \<Longrightarrow> adapters_wf ops (AList.update k a m)"
  by (simp add: adapters_wf_def distinct_keys_update list_all_update)

lemma adapters_wf_get: "adapters_wf ops m \<Longrightarrow> map_of m k = Some a \<Longrightarrow> ad_name ops a = k"
  unfolding adapters_wf_def by (auto simp: list_all_iff dest!: map_of_SomeD)

lemma fabric_wf_register_adapter: "fabric_wf ops F \<Longrightarrow> fabric_wf ops (register_adapter ops a F)"
  by (simp add: fabric_wf_def register_adapter_def adapters_wf_update)

lemma fabric_wf_adapters:
  "fabric_wf ops F \<Longrightarrow> adapters_wf ops m \<Longrightarrow> fabric_wf ops (F\<lparr>adapters := m\<rparr>)"
  by (simp add: fabric_wf_def)

lemma fabric_wf_attachments:
  "fabric_wf ops F \<Longrightarrow> distinct (keys m) \<Longrightarrow> fabric_wf ops (F\<lparr>attachments := m\<rparr>)"
  by (simp add: fabric_wf_def)

lemma fabric_wf_release_finish: "fabric_wf ops F \<Longrightarrow> fabric_wf ops (snd (release_finish l F))"
  unfolding release_finish_def
  by (simp add: fabric_wf_leases fabric_wfD(2) leases_wf_delete)

text \<open>
  An attach that succeeded presented an unexpired lease on a registered resource, and returned what
  the adapter of that name made of it.
\<close>

lemma attach_success:
  assumes "attach ops n l now F w = (Done (Inr att), F', w')"
  obtains r a a' where "resource (lease_resource l) F = Some r" "authorized now l F"
    "map_of (adapters F) n = Some a" "ad_attach ops a r l w = (Inr att, a', w')"
    "F' = F\<lparr>adapters := AList.update n a' (adapters F),
            attachments := AList.update (lease_resource l) n (attachments F)\<rparr>"
  using assms unfolding attach_def
  by (auto split: option.splits if_splits prod.splits sum.splits)

context adapter_contract
begin

lemma adapters_wf_attach:
  assumes "adapters_wf ops m" "map_of m n = Some a" "ad_attach ops a r l w = (res, a', w')"
  shows "adapters_wf ops (AList.update n a' m)"
  using assms attach_keeps_name adapters_wf_get [OF assms(1,2)] by (metis adapters_wf_update)

lemma adapters_wf_detach:
  assumes "adapters_wf ops m" "map_of m n = Some a" "ad_detach ops a r l w = (res, a', w')"
  shows "adapters_wf ops (AList.update n a' m)"
  using assms detach_keeps_name adapters_wf_get [OF assms(1,2)] by (metis adapters_wf_update)

lemma fabric_wf_attach:
  assumes wf: "fabric_wf ops F"
  shows "fabric_wf ops (fst (snd (attach ops n l now F w)))"
proof -
  note ad = adapters_wf_attach [OF fabric_wfD(3) [OF wf]]
  have "distinct (keys (AList.update k v (attachments F)))" for k v
    using wf by (intro distinct_keys_update) (rule fabric_wfD)
  then show ?thesis
    using wf ad unfolding attach_def
    by (auto intro!: fabric_wf_adapters fabric_wf_attachments split: option.split prod.split sum.split)
qed

lemma fabric_wf_release_detach:
  assumes wf: "fabric_wf ops F"
  shows "fabric_wf ops (fst (snd (release_detach ops l F w)))"
proof -
  note ad = adapters_wf_detach [OF fabric_wfD(3) [OF wf]]
  have "distinct (keys (AList.delete k (attachments F)))" for k
    using wf by (intro distinct_keys_delete) (rule fabric_wfD)
  then show ?thesis
    using wf ad unfolding release_detach_def Let_def
    by (auto intro!: fabric_wf_adapters fabric_wf_attachments split: option.split prod.split)
qed

lemma fabric_wf_release:
  assumes wf: "fabric_wf ops F"
  shows "fabric_wf ops (fst (snd (release ops l F w)))"
  using wf fabric_wf_release_detach [OF wf, of l w] fabric_wf_release_finish [of ops _ l]
  unfolding release_def by (simp add: case_prod_beta split: sum.split)

text \<open>
  In a well-formed fabric the attachment returned names the leased resource, the lease and the
  adapter it was asked of.
\<close>

lemma attach_describes:
  assumes wf: "fabric_wf ops F" and at: "attach ops n l now F w = (Done (Inr att), F', w')"
  shows "att_resource att = lease_resource l \<and> att_lease att = lease_id l \<and> att_adapter att = n"
proof -
  obtain r a a' where r: "resource (lease_resource l) F = Some r" and a: "map_of (adapters F) n = Some a"
    and ok: "ad_attach ops a r l w = (Inr att, a', w')"
    using at by (rule attach_success)
  have "res_id r = lease_resource l"
    using r resources_wf_get [OF fabric_wfD(1) [OF wf]] by (simp add: resource_def)
  moreover have "ad_name ops a = n"
    by (rule adapters_wf_get [OF fabric_wfD(3) [OF wf] a])
  ultimately show ?thesis
    using attach_names [OF ok] by simp
qed

lemma adapter_reports_keyed:
  assumes "fabric_wf ops F"
  shows "map rep_name (adapter_reports ops F w) = sort (keys (adapters F))"
proof -
  have "map rep_name (map (\<lambda>(_, a). ad_report ops a w) (adapters F)) = keys (adapters F)"
    using fabric_wfD(3) [OF assms] unfolding adapters_wf_def list_all_iff
    by (auto simp: report_name)
  then show ?thesis
    by (simp only: adapter_reports_def map_sort_key)
qed

end

end
