(* ===== verification/Adapters.thy ===== *)
theory Adapters
  imports Store Research_Memory Gpu_Adapters Hardware Fabric_Invariant
begin

text \<open>
  The adapters an agent registers, as one sum type: the value is the object behind
  \<open>Arc<dyn ResourceAdapter>\<close> and its constructor the concrete type, so the dispatch of the trait's
  methods is a case distinction. The adapter contract is discharged here for all of them.
\<close>

subsection \<open>Stateless adapters\<close>

definition local_proof_attach :: "resource \<Rightarrow> lease \<Rightarrow> fabric_error + attachment" where
  "local_proof_attach r l =
     (if res_id r \<noteq> lease_resource l then Inl ResourceNotFound
      else Inr \<lparr>att_resource = res_id r, att_lease = lease_id l, att_adapter = ''local-proof'', att_details = []\<rparr>)"

definition attachment_of :: "resource \<Rightarrow> lease \<Rightarrow> string \<Rightarrow> attrs \<Rightarrow> attachment" where
  "attachment_of r l adapter details =
     \<lparr>att_resource = res_id r, att_lease = lease_id l, att_adapter = adapter, att_details = details\<rparr>"

definition local_attach :: "resource \<Rightarrow> lease \<Rightarrow> fabric_error + attachment" where
  "local_attach r l =
     (if res_node r \<noteq> ''local''
      then Inl (IncompatibleResourceLocality ''local-resource'' ''local'' (res_node r))
      else Inr (attachment_of r l ''local-resource'' [(''attachment.scope'', ''local'')]))"

definition local_report :: adapter_report where
  "local_report = \<lparr>rep_name = ''local-resource'', rep_scope = ''local-host'', rep_healthy = True,
     rep_detail = [(''resource.locality'', ''local'')]\<rparr>"

definition network_attach :: "resource \<Rightarrow> lease \<Rightarrow> fabric_error + attachment" where
  "network_attach r l =
     (if res_node r = ''local''
      then Inl (IncompatibleResourceLocality ''network-resource'' ''remote'' ''local'')
      else case map_of (res_attributes r) ''network.endpoint'' of
        None \<Rightarrow> Inl (MissingResourceAttribute ''network.endpoint'')
      | Some endpoint \<Rightarrow>
          (case map_of (res_attributes r) ''network.protocol'' of
             None \<Rightarrow> Inl (MissingResourceAttribute ''network.protocol'')
           | Some protocol \<Rightarrow>
               Inr (attachment_of r l ''network-resource''
                 (bt_from [(''attachment.scope'', ''network''), (''endpoint'', endpoint), (''protocol'', protocol)]))))"

definition network_report :: adapter_report where
  "network_report = \<lparr>rep_name = ''network-resource'', rep_scope = ''remote-descriptor'', rep_healthy = True,
     rep_detail = [(''resource.locality'', ''remote'')]\<rparr>"

subsection \<open>The registered adapters\<close>

datatype nauti_adapter =
    LocalProofAdapter
  | LocalResourceAdapter
  | NetworkResourceAdapter
  | FabricStoreAdapter (store_live: store_live)
  | GpuLocalAdapter (reservations: "gpu_reservation smap")
  | WgpuRemoteAdapter (wgpu_feature: bool)
  | ResearchMemoryAdapter
  | RdmaAdapter (rdma_sys: string)

fun nauti_name :: "nauti_adapter \<Rightarrow> string" where
  "nauti_name LocalProofAdapter = ''local-proof''"
| "nauti_name LocalResourceAdapter = ''local-resource''"
| "nauti_name NetworkResourceAdapter = ''network-resource''"
| "nauti_name (FabricStoreAdapter _) = ''fabric-store''"
| "nauti_name (GpuLocalAdapter _) = ''gpu-local''"
| "nauti_name (WgpuRemoteAdapter _) = ''gpu-wgpu-remote''"
| "nauti_name ResearchMemoryAdapter = ''memory-research''"
| "nauti_name (RdmaAdapter _) = ''rdma''"

fun nauti_attach ::
  "nauti_adapter \<Rightarrow> resource \<Rightarrow> lease \<Rightarrow> host \<Rightarrow> (fabric_error + attachment) \<times> nauti_adapter \<times> host"
where
  "nauti_attach LocalProofAdapter r l h = (local_proof_attach r l, LocalProofAdapter, h)"
| "nauti_attach LocalResourceAdapter r l h = (local_attach r l, LocalResourceAdapter, h)"
| "nauti_attach NetworkResourceAdapter r l h = (network_attach r l, NetworkResourceAdapter, h)"
| "nauti_attach (FabricStoreAdapter live) r l h =
     (case store_attach live r l h of (out, live', h') \<Rightarrow> (out, FabricStoreAdapter live', h'))"
| "nauti_attach (GpuLocalAdapter res) r l h =
     (case gpu_local_attach res r l h of (out, res') \<Rightarrow> (out, GpuLocalAdapter res', h))"
| "nauti_attach (WgpuRemoteAdapter f) r l h = (wgpu_attach r l, WgpuRemoteAdapter f, h)"
| "nauti_attach ResearchMemoryAdapter r l h = (research_attach r l h, ResearchMemoryAdapter, h)"
| "nauti_attach (RdmaAdapter sys) r l h = (rdma_attach sys r l h, RdmaAdapter sys, h)"

text \<open>Only the store overrides \<open>detach\<close>; every other adapter has the trait's default.\<close>

fun nauti_detach ::
  "nauti_adapter \<Rightarrow> resource \<Rightarrow> lease \<Rightarrow> host \<Rightarrow> (fabric_error + unit) \<times> nauti_adapter \<times> host"
where
  "nauti_detach (FabricStoreAdapter live) r l h =
     (case store_detach live r l of (out, live') \<Rightarrow> (out, FabricStoreAdapter live', h))"
| "nauti_detach a r l h = default_detach a r l h"

fun nauti_report ::
  "nvml_row smap \<Rightarrow> amd_telemetry smap option \<Rightarrow> nauti_adapter \<Rightarrow> host \<Rightarrow> adapter_report"
where
  "nauti_report nvml rocm LocalProofAdapter h = default_capability_report ''local-proof''"
| "nauti_report nvml rocm LocalResourceAdapter h = local_report"
| "nauti_report nvml rocm NetworkResourceAdapter h = network_report"
| "nauti_report nvml rocm (FabricStoreAdapter live) h = store_report h"
| "nauti_report nvml rocm (GpuLocalAdapter res) h = gpu_local_report nvml rocm res h"
| "nauti_report nvml rocm (WgpuRemoteAdapter f) h = wgpu_report f"
| "nauti_report nvml rocm ResearchMemoryAdapter h = research_report h"
| "nauti_report nvml rocm (RdmaAdapter sys) h = rdma_report sys h"

definition nauti_ops ::
  "nvml_row smap \<Rightarrow> amd_telemetry smap option \<Rightarrow> (nauti_adapter, host) adapter_ops"
where
  "nauti_ops nvml rocm = \<lparr>ad_name = nauti_name, ad_attach = nauti_attach, ad_detach = nauti_detach,
     ad_report = nauti_report nvml rocm\<rparr>"

lemma nauti_ops_simps [simp]:
  "ad_name (nauti_ops nvml rocm) = nauti_name" "ad_attach (nauti_ops nvml rocm) = nauti_attach"
  "ad_detach (nauti_ops nvml rocm) = nauti_detach" "ad_report (nauti_ops nvml rocm) = nauti_report nvml rocm"
  by (simp_all add: nauti_ops_def)

subsection \<open>The contract\<close>

lemmas stateless_attach_defs [contract_simps] =
  local_proof_attach_def local_attach_def network_attach_def attachment_of_def wgpu_attach_def
  research_attach_def rdma_attach_def

lemma nauti_attach_names:
  assumes "nauti_attach a r l h = (Inr att, a', h')"
  shows "att_resource att = res_id r \<and> att_lease att = lease_id l \<and> att_adapter att = nauti_name a"
proof (cases a)
  case (FabricStoreAdapter live)
  then obtain live'' where "store_attach live r l h = (Inr att, live'', h')"
    using assms by (auto split: prod.splits)
  then show ?thesis
    using FabricStoreAdapter by (auto elim!: store_attach_ok simp: store_attachment_def)
next
  case (GpuLocalAdapter res)
  then obtain res'' where "gpu_local_attach res r l h = (Inr att, res'')"
    using assms by (auto split: prod.splits)
  from gpu_local_attach_ok [OF this] GpuLocalAdapter show ?thesis by simp
qed (use assms in \<open>auto simp: contract_simps Let_def split: if_splits option.splits\<close>)

lemma nauti_attach_name: "nauti_attach a r l h = (out, a', h') \<Longrightarrow> nauti_name a' = nauti_name a"
  by (cases a) (auto split: prod.splits)

lemma nauti_attach_refused: "nauti_attach a r l h = (Inl e, a', h') \<Longrightarrow> a' = a \<and> h' = h"
  by (cases a) (auto split: prod.splits dest: store_attach_refused gpu_local_attach_refused)

lemma nauti_detach_name: "nauti_detach a r l h = (out, a', h') \<Longrightarrow> nauti_name a' = nauti_name a"
  by (cases a) (auto simp: default_detach_def split: prod.splits)

lemma nauti_report_name: "rep_name (nauti_report nvml rocm a h) = nauti_name a"
  by (cases a) (simp_all add: default_capability_report_def local_report_def network_report_def
      store_report_def gpu_local_report_def wgpu_report_def research_report_def rdma_report_def Let_def)

interpretation nauti: adapter_contract "nauti_ops nvml rocm"
  by unfold_locales
    (auto dest: nauti_attach_names nauti_attach_name nauti_attach_refused nauti_detach_name
      simp: nauti_report_name)

end
