(* ===== verification/Fabric_History.thy ===== *)
theory Fabric_History
  imports Fabric_Invariant
begin

text \<open>
  Executions of the fabric. A history is any sequence of method calls on a fresh fabric, with the
  clock moving forward, arbitrary adapters and an arbitrary world at each call; its log records
  what callers were told about leases. The promise a log makes for a lease id is the expiry of the
  latest grant or renewal, until a release. The main results tie the lease table to the log: a
  promise is kept until it expires, and whatever is in the table was promised.
\<close>

subsection \<open>Operations and logs\<close>

datatype 'a fabric_op =
    OpRegister resource
  | OpUnregister string
  | OpRegisterAdapter 'a
  | OpRefresh "resource list"
  | OpLease string string duration
  | OpAttach string lease
  | OpRelease lease
  | OpRenew lease duration
  | OpHeartbeat string
  | OpEvict duration

datatype event = Granted lease instant | Renewed lease instant | Released lease | Quiet

fun exec :: "('a, 'w) adapter_ops \<Rightarrow> 'a fabric_op \<Rightarrow> instant \<Rightarrow> instant \<Rightarrow> 'w \<Rightarrow> 'a fabric \<Rightarrow> event \<times> 'a fabric"
where
  "exec ops (OpRegister r) now now' w F = (Quiet, register r F)"
| "exec ops (OpUnregister rid) now now' w F = (Quiet, snd (unregister rid F))"
| "exec ops (OpRegisterAdapter a) now now' w F = (Quiet, register_adapter ops a F)"
| "exec ops (OpRefresh rs) now now' w F = (Quiet, snd (refresh_with rs F))"
| "exec ops (OpLease rid owner ttl) now now' w F =
     (case lease_exclusive rid owner ttl now now' F of
        (Done (Inr l), F') \<Rightarrow> (Granted l (now' + int ttl), F')
      | (_, F') \<Rightarrow> (Quiet, F'))"
| "exec ops (OpAttach n l) now now' w F = (Quiet, fst (snd (attach ops n l now F w)))"
| "exec ops (OpRelease l) now now' w F =
     (case release ops l F w of
        (Done (Inr _), F', _) \<Rightarrow> (Released l, F')
      | (_, F', _) \<Rightarrow> (Quiet, F'))"
| "exec ops (OpRenew l ttl) now now' w F =
     (case renew_lease l ttl now now' F of
        (Done (Inr l'), F') \<Rightarrow> (Renewed l' (now' + int ttl), F')
      | (_, F') \<Rightarrow> (Quiet, F'))"
| "exec ops (OpHeartbeat node) now now' w F = (Quiet, heartbeat node now F)"
| "exec ops (OpEvict older_than) now now' w F = (Quiet, snd (evict_stale_nodes older_than now F))"

inductive history :: "('a, 'w) adapter_ops \<Rightarrow> instant \<Rightarrow> 'a fabric \<Rightarrow> event list \<Rightarrow> bool"
  for ops where
  history_start: "history ops t default_fabric []"
| history_step:
    "history ops t F log \<Longrightarrow> t \<le> now \<Longrightarrow> now \<le> now' \<Longrightarrow> exec ops op now now' w F = (ev, F')
       \<Longrightarrow> history ops now' F' (ev # log)"

text \<open>Logs are newest first. What the log promises for a lease id:\<close>

fun promised :: "event list \<Rightarrow> u64 \<Rightarrow> instant option" where
  "promised [] i = None"
| "promised (Granted l e # log) i = (if lease_id l = i then Some e else promised log i)"
| "promised (Renewed l e # log) i = (if lease_id l = i then Some e else promised log i)"
| "promised (Released l # log) i = (if lease_id l = i then None else promised log i)"
| "promised (Quiet # log) i = promised log i"

definition granted :: "event list \<Rightarrow> lease \<Rightarrow> bool" where
  "granted log l = (\<exists>e. Granted l e \<in> set log)"

lemma granted_Cons [simp]:
  "granted (Granted l' e # log) l \<longleftrightarrow> l = l' \<or> granted log l"
  "granted (Renewed l' e # log) l \<longleftrightarrow> granted log l"
  "granted (Released l' # log) l \<longleftrightarrow> granted log l"
  "granted (Quiet # log) l \<longleftrightarrow> granted log l"
  "\<not> granted [] l"
  by (auto simp: granted_def)

subsection \<open>Moves of the lease table\<close>

text \<open>Each method, whatever it answers, makes one of six moves of the lease table and the counter.\<close>

inductive lease_move ::
  "instant \<Rightarrow> active_lease smap \<Rightarrow> u64 \<Rightarrow> event \<Rightarrow> active_lease smap \<Rightarrow> u64 \<Rightarrow> bool"
  for now ls n where
  stay: "lease_move now ls n Quiet ls n"
| pruned: "lease_move now ls n Quiet (prune now ls) n"
| burnt: "lease_move now ls n Quiet (prune now ls) (n + 1)"
| grant: "\<not> has_key (prune now ls) rid \<Longrightarrow> l = \<lparr>lease_id = n + 1, lease_resource = rid, lease_owner = owner\<rparr>
    \<Longrightarrow> lease_move now ls n (Granted l e)
          (AList.update rid \<lparr>al_lease = l, al_expires_at = e\<rparr> (prune now ls)) (n + 1)"
| renew: "map_of (prune now ls) rid = Some al
    \<Longrightarrow> lease_move now ls n (Renewed (al_lease al) e)
          (AList.update rid (al\<lparr>al_expires_at := e\<rparr>) (prune now ls)) n"
| drop: "map_of ls (lease_resource l) = Some al \<Longrightarrow> lease_id (al_lease al) = lease_id l
    \<Longrightarrow> lease_move now ls n (Released l) (AList.delete (lease_resource l) ls) n"

text \<open>The methods that leave the lease table and the counter alone.\<close>

definition same_leases :: "'a fabric \<Rightarrow> 'a fabric \<Rightarrow> bool" where
  "same_leases F F' = (leases F' = leases F \<and> next_lease_id F' = next_lease_id F)"

lemma same_leases_unregister: "same_leases F (snd (unregister rid F))"
  by (simp add: same_leases_def unregister_def)

lemma same_leases_trans: "same_leases F G \<Longrightarrow> same_leases G H \<Longrightarrow> same_leases F H"
  by (simp add: same_leases_def)

lemma same_leases_unregister_all: "same_leases F (snd (unregister_all rids F))"
proof (induction rids arbitrary: F)
  case (Cons rid rids)
  then show ?case
    using same_leases_trans [OF same_leases_unregister Cons.IH] same_leases_unregister [of F rid]
    by (simp add: case_prod_beta split: outcome.split)
qed (simp add: same_leases_def)

lemma same_leases_evict: "same_leases F (snd (evict_stale_nodes older_than now F))"
proof -
  have "same_leases F (snd (unregister_all rids (F\<lparr>heartbeats := h\<rparr>)))" for rids h
    by (rule same_leases_trans [OF _ same_leases_unregister_all]) (simp add: same_leases_def)
  moreover have "same_leases F F" "same_leases F (F\<lparr>heartbeats := h\<rparr>)" for h
    by (simp_all add: same_leases_def)
  ultimately show ?thesis
    unfolding evict_stale_nodes_def Let_def by (simp add: case_prod_beta split: option.split outcome.split)
qed

lemma same_leases_refresh_remove: "same_leases F (snd (refresh_remove rids removed blocked F))"
proof (induction rids arbitrary: removed blocked F)
  case (Cons rid rids)
  then show ?case
    by (auto simp: refresh_remove_Cons same_leases_def simp del: refresh_remove.simps(2))
qed (simp add: same_leases_def)

lemma same_leases_refresh_with: "same_leases F (snd (refresh_with rs F))"
proof -
  have "same_leases F (fold (\<lambda>r G. if P r then register r G else G) rs F)" for P
    by (induction rs arbitrary: F) (auto simp: same_leases_def register_def)
  from same_leases_trans [OF this same_leases_refresh_remove] show ?thesis
    unfolding refresh_with_def Let_def by (simp add: case_prod_beta split: outcome.split)
qed

lemma same_leases_attach: "same_leases F (fst (snd (attach ops n l now F w)))"
  unfolding attach_def same_leases_def by (simp split: option.split prod.split sum.split)

lemma same_leases_release_detach: "same_leases F (fst (snd (release_detach ops l F w)))"
  unfolding release_detach_def same_leases_def Let_def by (simp split: option.split prod.split)

lemmas same_leases_ops = same_leases_unregister same_leases_evict same_leases_refresh_with
  same_leases_attach same_leases_release_detach

lemma move_lease:
  "exec ops (OpLease rid owner ttl) now now' w F = (ev, F') \<Longrightarrow>
     lease_move now (leases F) (next_lease_id F) ev (leases F') (next_lease_id F')"
  by (auto simp: lease_exclusive_def Let_def split: option.splits if_splits intro: lease_move.intros)

lemma move_renew:
  "exec ops (OpRenew l ttl) now now' w F = (ev, F') \<Longrightarrow>
     lease_move now (leases F) (next_lease_id F) ev (leases F') (next_lease_id F')"
  by (auto simp: renew_lease_def Let_def split: option.splits if_splits intro: lease_move.intros)

lemma move_release:
  assumes "exec ops (OpRelease l) now now' w F = (ev, F')"
  shows "lease_move now (leases F) (next_lease_id F) ev (leases F') (next_lease_id F')"
proof -
  obtain out F1 w1 where d: "release_detach ops l F w = (out, F1, w1)"
    by (cases "release_detach ops l F w") auto
  then have same: "leases F1 = leases F" "next_lease_id F1 = next_lease_id F"
    using same_leases_release_detach [of F ops l w] by (simp_all add: same_leases_def)
  show ?thesis
  proof (cases "\<not> leases_poisoned F \<and> holds l F \<and> is_ok out")
    case True
    then have "release ops l F w = (Done (Inr ()), F1\<lparr>leases := AList.delete (lease_resource l) (leases F)\<rparr>, w1)"
      using d same by (cases out) (simp_all add: release_def release_finish_def holds_def)
    moreover obtain al where "map_of (leases F) (lease_resource l) = Some al" "lease_id (al_lease al) = lease_id l"
      using True unfolding holds_def by (cases "map_of (leases F) (lease_resource l)") auto
    ultimately show ?thesis
      using assms same by (auto intro: lease_move.drop)
  next
    case False
    then have "ev = Quiet \<and> same_leases F F'"
      using assms d same by (cases out) (auto simp: release_def same_leases_def split: if_splits)
    then show ?thesis
      by (auto simp: same_leases_def intro: stay)
  qed
qed

lemma move_exec:
  assumes "exec ops op now now' w F = (ev, F')"
  shows "lease_move now (leases F) (next_lease_id F) ev (leases F') (next_lease_id F')"
proof -
  note still = same_leases_ops [unfolded same_leases_def]
  show ?thesis
  proof (cases op)
    case (OpLease rid owner ttl)
    show ?thesis by (rule move_lease [OF assms [unfolded OpLease]])
  next
    case (OpRenew l ttl)
    show ?thesis by (rule move_renew [OF assms [unfolded OpRenew]])
  next
    case (OpRelease l)
    show ?thesis by (rule move_release [OF assms [unfolded OpRelease]])
  qed (use assms in \<open>auto simp: still stay register_def register_adapter_def heartbeat_def\<close>)
qed

subsection \<open>The lease table and the log agree\<close>

definition ledger :: "instant \<Rightarrow> active_lease smap \<Rightarrow> u64 \<Rightarrow> event list \<Rightarrow> bool" where
  "ledger t ls n log \<longleftrightarrow>
     distinct (keys ls) \<and> unat n \<le> length log
     \<and> (\<forall>l. granted log l \<longrightarrow> 0 < unat (lease_id l) \<and> unat (lease_id l) \<le> unat n)
     \<and> (\<forall>l l'. granted log l \<longrightarrow> granted log l' \<longrightarrow> lease_id l = lease_id l' \<longrightarrow> l = l')
     \<and> (\<forall>k al. map_of ls k = Some al \<longrightarrow>
           lease_resource (al_lease al) = k \<and> granted log (al_lease al)
           \<and> promised log (lease_id (al_lease al)) = Some (al_expires_at al))
     \<and> (\<forall>l e. granted log l \<longrightarrow> promised log (lease_id l) = Some e \<longrightarrow> t < e \<longrightarrow>
           map_of ls (lease_resource l) = Some \<lparr>al_lease = l, al_expires_at = e\<rparr>)"

lemma ledgerD:
  assumes "ledger t ls n log"
  shows "distinct (keys ls)" "unat n \<le> length log"
    "granted log l \<Longrightarrow> 0 < unat (lease_id l)" "granted log l \<Longrightarrow> unat (lease_id l) \<le> unat n"
    "granted log l \<Longrightarrow> granted log l' \<Longrightarrow> lease_id l = lease_id l' \<Longrightarrow> l = l'"
    "map_of ls k = Some al \<Longrightarrow> lease_resource (al_lease al) = k"
    "map_of ls k = Some al \<Longrightarrow> granted log (al_lease al)"
    "map_of ls k = Some al \<Longrightarrow> promised log (lease_id (al_lease al)) = Some (al_expires_at al)"
    "granted log l \<Longrightarrow> promised log (lease_id l) = Some e \<Longrightarrow> t < e \<Longrightarrow>
       map_of ls (lease_resource l) = Some \<lparr>al_lease = l, al_expires_at = e\<rparr>"
  using assms unfolding ledger_def by blast+

lemma ledgerI:
  assumes "distinct (keys ls)" "unat n \<le> length log"
    "\<And>l. granted log l \<Longrightarrow> 0 < unat (lease_id l)" "\<And>l. granted log l \<Longrightarrow> unat (lease_id l) \<le> unat n"
    "\<And>l l'. granted log l \<Longrightarrow> granted log l' \<Longrightarrow> lease_id l = lease_id l' \<Longrightarrow> l = l'"
    "\<And>k al. map_of ls k = Some al \<Longrightarrow> lease_resource (al_lease al) = k \<and> granted log (al_lease al)
       \<and> promised log (lease_id (al_lease al)) = Some (al_expires_at al)"
    "\<And>l e. granted log l \<Longrightarrow> promised log (lease_id l) = Some e \<Longrightarrow> t < e \<Longrightarrow>
       map_of ls (lease_resource l) = Some \<lparr>al_lease = l, al_expires_at = e\<rparr>"
  shows "ledger t ls n log"
  using assms unfolding ledger_def by blast

lemma ledger_start: "ledger t [] 0 []"
  by (simp add: ledger_def)

lemma ledger_later:
  assumes "ledger t ls n log" "t \<le> t'"
  shows "ledger t' ls n (Quiet # log)"
  using ledgerD [OF assms(1)] assms(2) unfolding ledger_def
  by (intro conjI allI impI) (simp_all add: le_SucI)

lemma distinct_prune: "distinct (keys ls) \<Longrightarrow> distinct (keys (prune now ls))"
  by (simp add: prune_def distinct_keys_filter)

lemma ledger_prune:
  assumes "ledger t ls n log" "t \<le> now"
  shows "ledger now (prune now ls) n log"
proof -
  note L = ledgerD [OF assms(1)]
  show ?thesis
    using L(2-9) assms(2) unfolding ledger_def
    by (intro conjI allI impI)
      (auto simp: map_of_prune [OF L(1)] distinct_prune [OF L(1)] simp del: map_of_eq_Some_iff)
qed

lemma unat_suc: "unat (n :: u64) < 2 ^ 64 - 1 \<Longrightarrow> unat (n + 1) = unat n + 1"
  by (simp add: unat_word_ariths)

text \<open>An id burnt by a grant that panicked is never handed out.\<close>

lemma ledger_burn:
  assumes "ledger t ls n log" "length log < 2 ^ 64 - 1"
  shows "ledger t ls (n + 1) (Quiet # log)"
proof -
  note L = ledgerD [OF assms(1)]
  have n: "unat (n + 1) = unat n + 1"
    using L(2) assms(2) by (intro unat_suc) simp
  show ?thesis
    using L(2-9) n unfolding ledger_def
    by (intro conjI allI impI) (simp_all add: L(1) le_SucI)
qed

lemma ledger_grant:
  assumes I: "ledger t ls n log" and len: "length log < 2 ^ 64 - 1" and free: "\<not> has_key ls rid"
    and l: "l = \<lparr>lease_id = n + 1, lease_resource = rid, lease_owner = owner\<rparr>"
  shows "ledger t (AList.update rid \<lparr>al_lease = l, al_expires_at = e\<rparr> ls) (n + 1) (Granted l e # log)"
proof -
  note L = ledgerD [OF I]
  have n: "unat (n + 1) = unat n + 1"
    using L(2) len by (intro unat_suc) simp
  have fresh: "lease_id l' \<noteq> n + 1" if "granted log l'" for l'
    using L(4) [OF that] n by auto
  show ?thesis
  proof (rule ledgerI)
    fix l' e' assume g: "granted (Granted l e # log) l'"
      and p: "promised (Granted l e # log) (lease_id l') = Some e'" and "t < e'"
    show "map_of (AList.update rid \<lparr>al_lease = l, al_expires_at = e\<rparr> ls) (lease_resource l')
            = Some \<lparr>al_lease = l', al_expires_at = e'\<rparr>"
    proof (cases "l' = l")
      case False
      then have "granted log l'" "promised log (lease_id l') = Some e'"
        using g p fresh [of l'] l by (auto split: if_splits)
      note live = L(9) [OF this \<open>t < e'\<close>]
      then have "lease_resource l' \<noteq> rid"
        using free by (auto simp: has_key_def)
      with live show ?thesis by (simp add: get_update)
    qed (use p l in \<open>simp add: get_update\<close>)
  next
    fix k al assume "map_of (AList.update rid \<lparr>al_lease = l, al_expires_at = e\<rparr> ls) k = Some al"
    then show "lease_resource (al_lease al) = k \<and> granted (Granted l e # log) (al_lease al)
        \<and> promised (Granted l e # log) (lease_id (al_lease al)) = Some (al_expires_at al)"
      using L(6-8) [of k al] fresh [of "al_lease al"] l by (auto simp: get_update split: if_splits)
  next
    fix l' assume "granted (Granted l e # log) l'"
    then show "0 < unat (lease_id l')" "unat (lease_id l') \<le> unat (n + 1)"
      using L(3,4) [of l'] n l by auto
  next
    fix l' l'' assume "granted (Granted l e # log) l'" "granted (Granted l e # log) l''" "lease_id l' = lease_id l''"
    then show "l' = l''"
      using L(5) [of l' l''] fresh [of l'] fresh [of l''] l by auto
  qed (use L(2) n distinct_keys_update [OF L(1)] in simp_all)
qed

lemma ledger_renew:
  assumes I: "ledger t ls n log" and al: "map_of ls rid = Some al"
  shows "ledger t (AList.update rid (al\<lparr>al_expires_at := e\<rparr>) ls) n (Renewed (al_lease al) e # log)"
proof -
  note L = ledgerD [OF I]
  note rid = L(6) [OF al]
  have other: "lease_id (al_lease al') \<noteq> lease_id (al_lease al)" if "map_of ls k = Some al'" "k \<noteq> rid" for k al'
    using L(5) [OF L(7) [OF that(1)] L(7) [OF al]] L(6) [OF that(1)] rid that(2) by auto
  show ?thesis
  proof (rule ledgerI)
    fix l e' assume g: "granted (Renewed (al_lease al) e # log) l"
      and p: "promised (Renewed (al_lease al) e # log) (lease_id l) = Some e'" and "t < e'"
    show "map_of (AList.update rid (al\<lparr>al_expires_at := e\<rparr>) ls) (lease_resource l)
            = Some \<lparr>al_lease = l, al_expires_at = e'\<rparr>"
    proof (cases "lease_id l = lease_id (al_lease al)")
      case True
      then have "l = al_lease al" using g L(5) L(7) [OF al] by simp
      then show ?thesis using p rid by (simp add: get_update)
    next
      case False
      then have live: "map_of ls (lease_resource l) = Some \<lparr>al_lease = l, al_expires_at = e'\<rparr>"
        using g p \<open>t < e'\<close> L(9) by simp
      then have "lease_resource l \<noteq> rid" using False al by auto
      with live show ?thesis by (simp add: get_update)
    qed
  next
    fix k al' assume new: "map_of (AList.update rid (al\<lparr>al_expires_at := e\<rparr>) ls) k = Some al'"
    show "lease_resource (al_lease al') = k \<and> granted (Renewed (al_lease al) e # log) (al_lease al')
        \<and> promised (Renewed (al_lease al) e # log) (lease_id (al_lease al')) = Some (al_expires_at al')"
    proof (cases "k = rid")
      case True
      with new have "al' = al\<lparr>al_expires_at := e\<rparr>" by (simp add: get_update)
      then show ?thesis using L(7) [OF al] rid True by simp
    next
      case False
      with new have "map_of ls k = Some al'" by (simp add: get_update)
      from L(6-8) [OF this] other [OF this False] show ?thesis by simp
    qed
  qed (use L(2-5) distinct_keys_update [OF L(1)] in \<open>simp_all add: le_SucI\<close>)
qed

lemma ledger_drop:
  assumes I: "ledger t ls n log" and al: "map_of ls (lease_resource l) = Some al"
    and i: "lease_id (al_lease al) = lease_id l"
  shows "ledger t (AList.delete (lease_resource l) ls) n (Released l # log)"
proof -
  note L = ledgerD [OF I]
  have other: "lease_id (al_lease al') \<noteq> lease_id l" if "map_of ls k = Some al'" "k \<noteq> lease_resource l" for k al'
    using L(5) [OF L(7) [OF that(1)] L(7) [OF al]] L(6) [OF that(1)] L(6) [OF al] that(2) i by auto
  show ?thesis
  proof (rule ledgerI)
    fix l' e' assume g: "granted (Released l # log) l'"
      and p: "promised (Released l # log) (lease_id l') = Some e'" and "t < e'"
    then have ne: "lease_id l' \<noteq> lease_id l"
      and live: "map_of ls (lease_resource l') = Some \<lparr>al_lease = l', al_expires_at = e'\<rparr>"
      using L(9) by (auto split: if_splits)
    then have "lease_resource l' \<noteq> lease_resource l" using al i by auto
    with live show "map_of (AList.delete (lease_resource l) ls) (lease_resource l')
        = Some \<lparr>al_lease = l', al_expires_at = e'\<rparr>"
      by (simp add: get_delete)
  next
    fix k al' assume "map_of (AList.delete (lease_resource l) ls) k = Some al'"
    then show "lease_resource (al_lease al') = k \<and> granted (Released l # log) (al_lease al')
        \<and> promised (Released l # log) (lease_id (al_lease al')) = Some (al_expires_at al')"
      using L(6-8) [of k al'] other [of k al'] by (auto simp: get_delete split: if_splits)
  qed (use L(2-5) distinct_keys_delete [OF L(1)] in \<open>simp_all add: le_SucI\<close>)
qed

lemma ledger_move:
  assumes "lease_move now ls n ev ls' n'" "ledger t ls n log" "t \<le> now" "length log < 2 ^ 64 - 1"
  shows "ledger now ls' n' (ev # log)"
  using assms
proof (cases rule: lease_move.cases)
  case stay then show ?thesis using assms ledger_later by blast
next
  case pruned then show ?thesis using assms ledger_later ledger_prune by blast
next
  case burnt then show ?thesis using assms ledger_burn ledger_prune by blast
next
  case grant then show ?thesis using assms ledger_grant ledger_prune by blast
next
  case renew then show ?thesis using assms ledger_renew ledger_prune by blast
next
  case (drop l al)
  then have "ledger t ls' n' (ev # log)" using assms ledger_drop by blast
  then show ?thesis using assms(3) unfolding ledger_def by auto
qed

lemma ledger_weaken: "ledger t ls n log \<Longrightarrow> t \<le> t' \<Longrightarrow> ledger t' ls n log"
  unfolding ledger_def by auto

lemma history_ledger:
  "history ops t F log \<Longrightarrow> length log < 2 ^ 64 \<Longrightarrow> ledger t (leases F) (next_lease_id F) log"
proof (induction rule: history.induct)
  case (history_start t)
  show ?case by (simp add: default_fabric_def ledger_start)
next
  case (history_step t F log now now' op w ev F')
  from history_step have "ledger t (leases F) (next_lease_id F) log" by simp
  from ledger_move [OF move_exec [OF history_step(4)] this] history_step
  show ?case by (auto intro: ledger_weaken)
qed

end
