(* ===== verification/Fabric_Behaviour.thy ===== *)
theory Fabric_Behaviour
  imports Fabric_History
begin

text \<open>
  What the fabric's methods do. The lease methods refine a small specification of a lease table
  that drops a lease the moment it expires: the code prunes lazily, inside \<open>lease_exclusive\<close> and
  \<open>renew_lease\<close> only, and the refinement shows that callers of the lease methods cannot tell.
  Refresh and eviction are given in closed form.
\<close>

subsection \<open>A lease table without expired leases\<close>

type_synonym lease_table = "string \<rightharpoonup> lease \<times> instant"

definition spec_tick :: "instant \<Rightarrow> lease_table \<Rightarrow> lease_table" where
  "spec_tick now T = (\<lambda>k. case T k of None \<Rightarrow> None | Some (l, e) \<Rightarrow> if now < e then Some (l, e) else None)"

definition spec_lease :: "instant \<Rightarrow> lease \<Rightarrow> instant \<Rightarrow> lease_table \<Rightarrow> (fabric_error + lease) \<times> lease_table" where
  "spec_lease now l e T =
     (case T (lease_resource l) of
        Some _ \<Rightarrow> (Inl ResourceAlreadyLeased, T)
      | None \<Rightarrow> (Inr l, spec_tick now (T(lease_resource l \<mapsto> (l, e)))))"

definition spec_renew :: "instant \<Rightarrow> lease \<Rightarrow> instant \<Rightarrow> lease_table \<Rightarrow> (fabric_error + lease) \<times> lease_table" where
  "spec_renew now l e T =
     (case T (lease_resource l) of
        Some (l', _) \<Rightarrow>
          if lease_id l' = lease_id l then (Inr l', spec_tick now (T(lease_resource l \<mapsto> (l', e))))
          else (Inl LeaseNotFound, T)
      | None \<Rightarrow> (Inl LeaseNotFound, T))"

definition spec_attach :: "lease \<Rightarrow> lease_table \<Rightarrow> bool" where
  "spec_attach l T = (case T (lease_resource l) of Some (l', _) \<Rightarrow> lease_id l' = lease_id l | None \<Rightarrow> False)"

text \<open>The abstraction: the leases of the fabric that are unexpired at a time.\<close>

definition live :: "instant \<Rightarrow> active_lease smap \<Rightarrow> lease_table" where
  "live now ls =
     (\<lambda>k. case map_of ls k of
            None \<Rightarrow> None
          | Some al \<Rightarrow> if now < al_expires_at al then Some (al_lease al, al_expires_at al) else None)"

lemma live_tick: "now \<le> now' \<Longrightarrow> spec_tick now' (live now ls) = live now' ls"
  by (rule ext) (simp add: spec_tick_def live_def split: option.split)

lemma live_prune: "distinct (keys ls) \<Longrightarrow> live now (prune now ls) = live now ls"
  unfolding live_def prune_def by (rule ext) (simp add: map_of_filter split: option.split)

lemma has_key_prune_live: "distinct (keys ls) \<Longrightarrow> has_key (prune now ls) k \<longleftrightarrow> live now ls k \<noteq> None"
  unfolding has_key_prune live_def by (auto split: option.splits simp del: map_of_eq_Some_iff)

lemma map_of_prune_live:
  assumes "distinct (keys ls)"
  shows "live now ls k = map_option (\<lambda>al. (al_lease al, al_expires_at al)) (map_of (prune now ls) k)"
  unfolding live_def prune_def using assms by (simp add: map_of_filter split: option.split)

lemma live_update:
  "live now (AList.update k al ls)
     = spec_tick now ((live now ls)(k \<mapsto> (al_lease al, al_expires_at al)))"
  by (rule ext) (simp add: live_def spec_tick_def get_update split: option.split)

lemma authorized_live: "authorized now l F \<longleftrightarrow> spec_attach l (live now (leases F))"
  by (simp add: authorized_def spec_attach_def live_def split: option.split)

definition leasable :: "string \<Rightarrow> 'a fabric \<Rightarrow> bool" where
  "leasable rid F =
     (case resource rid F of None \<Rightarrow> False | Some r \<Rightarrow> res_state r = Available \<and> res_exclusive r)"

lemma lease_exclusive_leasable:
  assumes "leasable rid F" "\<not> leases_poisoned F"
  shows "lease_exclusive rid owner ttl now now' F =
     (let ls = prune now (leases F); n = next_lease_id F + 1;
          l = \<lparr>lease_id = n, lease_resource = rid, lease_owner = owner\<rparr>
      in if has_key ls rid then (Done (Inl ResourceAlreadyLeased), F\<lparr>leases := ls\<rparr>)
         else case instant_add now' ttl of
                None \<Rightarrow> (Panicked, F\<lparr>leases := ls, next_lease_id := n, leases_poisoned := True\<rparr>)
              | Some e \<Rightarrow> (Done (Inr l),
                  F\<lparr>leases := AList.update rid \<lparr>al_lease = l, al_expires_at = e\<rparr> ls, next_lease_id := n\<rparr>))"
  using assms by (auto simp: leasable_def lease_exclusive_def Let_def split: option.splits)

lemma lease_refines:
  assumes "distinct (keys (leases F))" "leasable rid F" "\<not> leases_poisoned F"
    and "now' + int ttl < instant_limit"
    and "l = \<lparr>lease_id = next_lease_id F + 1, lease_resource = rid, lease_owner = owner\<rparr>"
    and "lease_exclusive rid owner ttl now now' F = (out, F')"
  shows "(out, live now (leases F')) = apfst Done (spec_lease now l (now' + int ttl) (live now (leases F)))"
proof (cases "has_key (prune now (leases F)) rid")
  case True
  then show ?thesis
    using assms has_key_prune_live [OF assms(1), of now rid]
    by (auto simp: lease_exclusive_leasable Let_def spec_lease_def live_prune)
next
  case False
  then have "live now (leases F) rid = None"
    using has_key_prune_live [OF assms(1), of now rid] by (cases "live now (leases F) rid") simp_all
  then show ?thesis
    using assms False
    by (auto simp: lease_exclusive_leasable Let_def spec_lease_def live_prune live_update instant_add_def)
qed

lemma renew_refines:
  assumes "distinct (keys (leases F))" "\<not> leases_poisoned F" and "now' + int ttl < instant_limit"
    and "renew_lease l ttl now now' F = (out, F')"
  shows "(out, live now (leases F')) = apfst Done (spec_renew now l (now' + int ttl) (live now (leases F)))"
proof (cases "map_of (prune now (leases F)) (lease_resource l)")
  case None
  then show ?thesis
    using assms map_of_prune_live [OF assms(1), of now "lease_resource l"]
    by (auto simp: renew_lease_def Let_def spec_renew_def live_prune)
next
  case (Some al)
  then show ?thesis
    using assms map_of_prune_live [OF assms(1), of now "lease_resource l"]
    by (auto simp: renew_lease_def Let_def spec_renew_def live_prune live_update instant_add_def split: if_splits)
qed

subsection \<open>Refresh and eviction in closed form\<close>

definition without_unleased :: "string list \<Rightarrow> 'a fabric \<Rightarrow> 'a fabric" where
  "without_unleased rids F =
     F\<lparr>resources := filter (\<lambda>(k, _). k \<notin> set rids \<or> has_key (leases F) k) (resources F)\<rparr>"

lemma without_unleased_Nil [simp]: "without_unleased [] F = F"
  by (simp add: without_unleased_def)

lemma without_unleased_Cons_leased:
  "has_key (leases F) rid \<Longrightarrow> without_unleased (rid # rids) F = without_unleased rids F"
  unfolding without_unleased_def by (auto intro!: arg_cong [of _ _ "\<lambda>m. F\<lparr>resources := m\<rparr>"] filter_cong)

lemma without_unleased_Cons_free:
  "\<not> has_key (leases F) rid \<Longrightarrow>
     without_unleased (rid # rids) F = without_unleased rids (F\<lparr>resources := AList.delete rid (resources F)\<rparr>)"
  unfolding without_unleased_def
  by (auto simp: AList.delete_eq filter_filter intro!: arg_cong [of _ _ "\<lambda>m. F\<lparr>resources := m\<rparr>"] filter_cong)

lemma unregister_all_closed:
  "\<not> leases_poisoned F \<Longrightarrow> unregister_all rids F = (Done (), without_unleased rids F)"
proof (induction rids arbitrary: F)
  case (Cons rid rids)
  then show ?case
    by (cases "has_key (leases F) rid")
      (simp_all add: unregister_def without_unleased_Cons_leased without_unleased_Cons_free)
qed simp

lemma refresh_remove_closed:
  assumes "\<not> leases_poisoned F" "distinct rids" "set rids \<subseteq> set (keys (resources F))"
  shows "refresh_remove rids removed blocked F =
    (Done (removed @ filter (\<lambda>i. \<not> has_key (leases F) i) rids, blocked @ filter (has_key (leases F)) rids),
     without_unleased rids F)"
  using assms
proof (induction rids arbitrary: removed blocked F)
  case (Cons rid rids)
  have "set rids \<subseteq> set (keys (AList.delete rid (resources F)))"
    using Cons.prems unfolding set_keys_delete by auto
  then show ?case
    using Cons
    by (cases "has_key (leases F) rid")
      (simp_all add: refresh_remove_Cons without_unleased_Cons_leased without_unleased_Cons_free has_key_iff
         [of "resources F"] del: refresh_remove.simps)
qed simp

definition register_new :: "resource list \<Rightarrow> string list \<Rightarrow> 'a fabric \<Rightarrow> 'a fabric" where
  "register_new rs added F = fold (\<lambda>r G. if res_id r \<in> set added then register r G else G) rs F"

lemma register_new_simps [simp]:
  "register_new [] added F = F"
  "register_new (r # rs) added F = register_new rs added (if res_id r \<in> set added then register r F else F)"
  by (simp_all add: register_new_def)

lemma register_new_frame [simp]:
  "leases (register_new rs added F) = leases F"
  "leases_poisoned (register_new rs added F) = leases_poisoned F"
  "heartbeats (register_new rs added F) = heartbeats F"
  by (induction rs arbitrary: F) (simp_all add: register_def)

lemma register_new_keys: "set (keys (resources F)) \<subseteq> set (keys (resources (register_new rs added F)))"
proof (induction rs arbitrary: F)
  case (Cons r rs)
  have "set (keys (resources F)) \<subseteq> set (keys (resources (register r F)))"
    unfolding register_def by (simp add: set_keys_update [unfolded set_map] subset_insertI)
  then show ?case
    using Cons.IH [of F] Cons.IH [of "register r F"] by (auto simp del: set_map)
qed simp

lemma register_new_distinct:
  "distinct (keys (resources F)) \<Longrightarrow> distinct (keys (resources (register_new rs added F)))"
  by (induction rs arbitrary: F) (auto simp: register_def distinct_keys_update)

text \<open>When an id is discovered twice, the later description is the one registered.\<close>

lemma register_new_get:
  "map_of (resources (register_new rs added F)) k =
     (case find (\<lambda>r. res_id r = k) (rev rs) of
        Some r \<Rightarrow> if k \<in> set added then Some r else map_of (resources F) k
      | None \<Rightarrow> map_of (resources F) k)"
proof (induction rs arbitrary: F)
  case (Cons r rs)
  have "find P (xs @ [x]) = (case find P xs of Some y \<Rightarrow> Some y | None \<Rightarrow> if P x then Some x else None)"
    for P and xs :: "resource list" and x
    by (induction xs) auto
  then show ?case
    using Cons by (auto simp: register_def get_update split: option.splits)
qed simp

lemma set_sort_remdups [simp]: "set (sort (remdups xs)) = set xs" "distinct (sort (remdups xs))"
  by simp_all

text \<open>
  The report and the effect of a refresh. A resource that is already registered keeps its old
  description, even when the rediscovered one differs.
\<close>

definition gone_ids :: "resource list \<Rightarrow> 'a fabric \<Rightarrow> string list" where
  "gone_ids rs F = filter (\<lambda>i. i \<notin> res_id ` set rs) (sort (remdups (keys (resources F))))"

definition new_ids :: "resource list \<Rightarrow> 'a fabric \<Rightarrow> string list" where
  "new_ids rs F = filter (\<lambda>i. \<not> has_key (resources F) i) (sort (remdups (map res_id rs)))"

lemma refresh_with_closed:
  assumes "\<not> leases_poisoned F"
  shows "refresh_with rs F =
    (Done \<lparr>rr_added = new_ids rs F,
           rr_removed = filter (\<lambda>i. \<not> has_key (leases F) i) (gone_ids rs F),
           rr_blocked_by_lease = filter (has_key (leases F)) (gone_ids rs F)\<rparr>,
     without_unleased (gone_ids rs F) (register_new rs (new_ids rs F) F))"
proof -
  have "set (gone_ids rs F) \<subseteq> set (keys (resources (register_new rs (new_ids rs F) F)))"
    using register_new_keys [of F rs "new_ids rs F"] by (auto simp: gone_ids_def)
  moreover have "distinct (gone_ids rs F)"
    by (simp add: gone_ids_def)
  moreover have "filter (\<lambda>i. i \<notin> set (sort (remdups (map res_id rs)))) (sort (remdups (keys (resources F)))) = gone_ids rs F"
    "filter (\<lambda>i. i \<notin> set (sort (remdups (keys (resources F))))) (sort (remdups (map res_id rs))) = new_ids rs F"
    unfolding gone_ids_def new_ids_def has_key_iff by (simp_all add: image_image)
  ultimately show ?thesis
    using assms unfolding refresh_with_def Let_def register_new_def [symmetric]
    by (simp add: refresh_remove_closed)
qed

lemma map_of_without_unleased:
  assumes "distinct (keys (resources F))"
  shows "map_of (resources (without_unleased rids F)) k
     = (if k \<in> set rids \<and> \<not> has_key (leases F) k then None else map_of (resources F) k)"
  unfolding without_unleased_def by (simp add: map_of_filter [OF assms] split: option.split)

lemma evict_closed:
  assumes "\<not> leases_poisoned F" "- instant_limit \<le> now - int older_than"
  shows "evict_stale_nodes older_than now F =
    (Done (stale_nodes (now - int older_than) F),
     without_unleased (owned_by (stale_nodes (now - int older_than) F) F)
       (F\<lparr>heartbeats := fold AList.delete (stale_nodes (now - int older_than) F) (heartbeats F)\<rparr>))"
  using assms
  by (auto simp: evict_stale_nodes_def instant_sub_def Let_def unregister_all_closed owned_by_def)

lemma map_of_fold_delete: "map_of (fold AList.delete ks m) k = (if k \<in> set ks then None else map_of m k)"
  by (induction ks arbitrary: m) (auto simp: get_delete)

lemma stale_nodes_iff:
  assumes "distinct (keys (heartbeats F))"
  shows "n \<in> set (stale_nodes cutoff F) \<longleftrightarrow> (\<exists>seen. map_of (heartbeats F) n = Some seen \<and> seen < cutoff)"
  unfolding stale_nodes_def using assms by force

lemma owned_by_iff:
  assumes "distinct (keys (resources F))"
  shows "k \<in> set (owned_by ns F) \<longleftrightarrow> (\<exists>r. map_of (resources F) k = Some r \<and> res_node r \<in> set ns)"
  unfolding owned_by_def using assms by force

end
