(* ===== verification/Inventory.thy ===== *)
theory Inventory
  imports Adapters Fabric_Behaviour
begin

text \<open>
  The host inventory and the two methods of \<open>Fabric\<close> that register it: \<open>HostInventory::discover\<close>,
  \<open>discover_local\<close> and \<open>refresh_local\<close>. What the \<open>sysinfo\<close> crate reports about the machine is a
  record of values.
\<close>

record disk_info =
  di_name :: string
  di_mount_point :: string
  di_total_space :: u64
  di_available_space :: u64

record sys_info =
  si_parallelism :: "u64 option"
  si_total_memory :: u64
  si_disks :: "disk_info list"
  si_networks :: "(string \<times> string) list"

definition disk_resource :: "string \<Rightarrow> nat \<times> disk_info \<Rightarrow> resource" where
  "disk_resource node = (\<lambda>(index, disk).
     \<lparr>res_id = ''local.storage.'' @ show_nat index, res_kind = Storage, res_capacity = di_total_space disk,
      res_unit = ''bytes'', res_node = node, res_state = Available, res_exclusive = False,
      res_attributes = bt_from
        [(''name'', di_name disk), (''mount_point'', di_mount_point disk),
         (''available_bytes'', show_word (di_available_space disk))]\<rparr>)"

definition network_resource :: "string \<Rightarrow> string \<times> string \<Rightarrow> resource" where
  "network_resource node = (\<lambda>(name, mac).
     \<lparr>res_id = ''local.network.'' @ name, res_kind = Network, res_capacity = 0,
      res_unit = ''unknown-bandwidth'', res_node = node, res_state = Available, res_exclusive = False,
      res_attributes = bt_from [(''interface'', name), (''mac_address'', mac)]\<rparr>)"

definition host_inventory :: "sys_info \<Rightarrow> host \<Rightarrow> string \<Rightarrow> resource list" where
  "host_inventory si h node =
     [local_cpu (si_parallelism si) node, local_memory node (si_total_memory si)]
     @ map (disk_resource node) (List.enumerate 0 (si_disks si))
     @ [default_store_resource node, wgpu_default_resource node,
        research_as_resource (research_discover h) node]
     @ map (network_resource node) (si_networks si)"

definition node_for_resources :: "host \<Rightarrow> string" where
  "node_for_resources h =
     (case h_env h ''NAUTI_NODE'' of
        Some n \<Rightarrow> n
      | None \<Rightarrow> (case h_env h ''HOSTNAME'' of Some n \<Rightarrow> n | None \<Rightarrow> ''local''))"

definition discovered ::
  "sys_info \<Rightarrow> (string + gpu_device list) \<Rightarrow> host \<Rightarrow> string \<Rightarrow> string \<Rightarrow> resource list"
where
  "discovered si gpus h node gpu_node =
     discover_hardware h node
       (host_inventory si h node @ (case gpus of Inl _ \<Rightarrow> [] | Inr ds \<Rightarrow> gpu_as_resources gpu_node ds))"

definition discover_local ::
  "sys_info \<Rightarrow> nvml_row smap \<Rightarrow> amd_telemetry smap option \<Rightarrow> host \<Rightarrow> string \<Rightarrow> 'a fabric \<Rightarrow> resource list \<times> 'a fabric"
where
  "discover_local si nvml rocm h node F =
     (let rs = discovered si (gpu_discover nvml rocm h) h node (node_for_resources h)
      in (rs, fold register rs F))"

definition refresh_local ::
  "sys_info \<Rightarrow> nvml_row smap \<Rightarrow> amd_telemetry smap option \<Rightarrow> host \<Rightarrow> string \<Rightarrow> 'a fabric
     \<Rightarrow> refresh_report outcome \<times> 'a fabric"
where
  "refresh_local si nvml rocm h node F =
     refresh_with (discovered si (gpu_discover nvml rocm h) h node node) F"

subsection \<open>The research memory is never leased\<close>

lemma research_is_unavailable:
  "res_state (research_as_resource m node) = Unavailable" "res_kind (research_as_resource m node) = Memory"
  by (simp_all add: research_as_resource_def)

lemma unavailable_never_leased:
  assumes "resource rid F = Some r" "res_state r = Unavailable"
  shows "lease_exclusive rid owner ttl now now' F = (Done (Inl ResourceUnavailable), F)"
  using assms by (simp add: lease_exclusive_def)

text \<open>The ids of an inventory do not depend on the node name it is taken under.\<close>

lemma map_res_id_enrich_network: "map res_id (enrich_network h sys rs ip) = map res_id rs"
  unfolding enrich_network_def Let_def
  by (auto simp: enrich_interface_def Let_def split: option.splits)

lemma map_res_id_enrich_gpu: "map res_id (enrich_gpu_numa h sys rs) = map res_id rs"
  unfolding enrich_gpu_numa_def by (auto split: option.splits)

lemma gpu_as_resources_ids: "map res_id (gpu_as_resources n ds) = map res_id (gpu_as_resources m ds)"
  by (simp add: gpu_as_resources_def gpu_as_resource_def Let_def)

lemma discovered_ids:
  "map res_id (discovered si gpus h node g) = map res_id (discovered si gpus h node g')"
proof -
  have "map res_id (case gpus of Inl _ \<Rightarrow> [] | Inr ds \<Rightarrow> gpu_as_resources g ds)
      = map res_id (case gpus of Inl _ \<Rightarrow> [] | Inr ds \<Rightarrow> gpu_as_resources g' ds)"
    using gpu_as_resources_ids by (auto split: sum.split)
  then show ?thesis
    by (simp add: discovered_def discover_hardware_def Let_def map_res_id_enrich_gpu map_res_id_enrich_network)
qed

lemma fold_register_keys: "set (keys (resources (fold register rs F))) = res_id ` set rs \<union> set (keys (resources F))"
proof (induction rs arbitrary: F)
  case (Cons r rs)
  have "set (keys (resources (register r F))) = insert (res_id r) (set (keys (resources F)))"
    unfolding register_def by (simp add: set_keys_update [unfolded set_map])
  then show ?case
    using Cons by (auto simp del: set_map)
qed simp

lemma fold_register_leases: "leases_poisoned (fold register rs F) = leases_poisoned F"
  by (induction rs arbitrary: F) (simp_all add: register_def)

text \<open>A refresh on an unchanged machine right after the discovery changes nothing.\<close>

lemma register_new_none: "register_new rs [] F = F"
  by (induction rs arbitrary: F) auto

lemma refresh_same_ids:
  assumes "\<not> leases_poisoned F" "res_id ` set rs = set (keys (resources F))"
  shows "refresh_with rs F = (Done \<lparr>rr_added = [], rr_removed = [], rr_blocked_by_lease = []\<rparr>, F)"
proof -
  have "new_ids rs F = []"
    using assms(2) by (auto simp: new_ids_def has_key_iff filter_empty_conv)
  moreover have "gone_ids rs F = []"
    using assms(2) by (auto simp: gone_ids_def filter_empty_conv)
  ultimately show ?thesis
    by (simp add: refresh_with_closed [OF assms(1)] register_new_none)
qed

lemma refresh_after_discover:
  assumes "discover_local si nvml rocm h node default_fabric = (rs, F)"
  shows "refresh_local si nvml rocm h node F
    = (Done \<lparr>rr_added = [], rr_removed = [], rr_blocked_by_lease = []\<rparr>, F)"
proof -
  let ?g = "gpu_discover nvml rocm h"
  have F: "F = fold register (discovered si ?g h node (node_for_resources h)) default_fabric"
    using assms by (auto simp: discover_local_def Let_def)
  have "\<not> leases_poisoned F"
    by (simp add: F fold_register_leases default_fabric_def)
  moreover have "res_id ` set (discovered si ?g h node node)
      = res_id ` set (discovered si ?g h node (node_for_resources h))"
    using arg_cong [OF discovered_ids [of si ?g h node node "node_for_resources h"], of set] by simp
  ultimately show ?thesis
    unfolding refresh_local_def
    by (intro refresh_same_ids) (simp_all add: F fold_register_keys [unfolded set_map] default_fabric_def)
qed

end
