(* ===== verification/Fabric_Properties.thy ===== *)
theory Fabric_Properties
  imports Inventory
begin

text \<open>
  The properties of the fabric with the adapters of the repository: executions of any length over
  arbitrary machines, and the contract of each method. The concrete run \<open>demo\<close> below, a GPU that
  is registered, leased and renewed, is where the properties are shown to apply.
\<close>

subsection \<open>A concrete run\<close>

abbreviation demo_ops :: "(nauti_adapter, host) adapter_ops" where
  "demo_ops \<equiv> nauti_ops [] None"

definition demo_gpu :: resource where
  "demo_gpu = \<lparr>res_id = ''g'', res_kind = Gpu, res_capacity = 8, res_unit = ''bytes'', res_node = ''n'',
     res_state = Available, res_exclusive = True, res_attributes = [(''gpu.uuid'', ''u'')]\<rparr>"

definition demo_lease :: lease where
  "demo_lease = \<lparr>lease_id = 1, lease_resource = ''g'', lease_owner = ''o''\<rparr>"

definition demo_registered :: "nauti_adapter fabric" where
  "demo_registered = register_adapter demo_ops (GpuLocalAdapter []) (register demo_gpu default_fabric)"

definition demo_leased :: "nauti_adapter fabric" where
  "demo_leased = demo_registered\<lparr>leases := [(''g'', \<lparr>al_lease = demo_lease, al_expires_at = 105\<rparr>)], next_lease_id := 1\<rparr>"

definition demo_log :: "event list" where
  "demo_log = [Granted demo_lease 105, Quiet, Quiet]"

lemmas demo_defs = demo_gpu_def demo_lease_def demo_registered_def demo_leased_def demo_log_def
  default_fabric_def register_def register_adapter_def

lemma demo_lease_exclusive: "lease_exclusive ''g'' ''o'' 100 5 5 demo_registered = (Done (Inr demo_lease), demo_leased)"
  by (simp add: demo_defs lease_exclusive_def resource_def prune_def has_key_def instant_add_def
      instant_limit_def nanos_per_sec_def Let_def)

lemma demo_history: "history demo_ops 5 demo_leased demo_log"
proof -
  have "history demo_ops 0 (register demo_gpu default_fabric) [Quiet]"
    by (rule history_step [OF history_start [of _ 0], where op = "OpRegister demo_gpu" and w = bare_host and now = 0]) auto
  then have "history demo_ops 0 demo_registered [Quiet, Quiet]"
    by (rule history_step [where op = "OpRegisterAdapter (GpuLocalAdapter [])" and w = bare_host and now = 0])
      (auto simp: demo_registered_def)
  then show ?thesis
    unfolding demo_log_def
    by (rule history_step [where op = "OpLease ''g'' ''o'' 100" and w = bare_host and now = 5])
      (auto simp: demo_lease_exclusive)
qed

lemma demo_promise: "granted demo_log demo_lease" "promised demo_log (lease_id demo_lease) = Some 105"
  by (simp_all add: demo_log_def)

subsection \<open>Promises\<close>

text \<open>C1. A lease that was granted stays in force until the expiry its holder was last told, unless it
  is released: at every time before that expiry it is the lease recorded for its resource, and
  presenting it is accepted. This holds after any sequence of calls, failed and panicking ones
  included, as long as fewer than \<open>2^64\<close> calls have been made.\<close>

theorem lease_promise_kept:
  assumes "history ops t F evs" and "length evs < 2 ^ 64"
    and "granted evs l" and "promised evs (lease_id l) = Some e" and "t < e"
  shows "map_of (leases F) (lease_resource l) = Some \<lparr>al_lease = l, al_expires_at = e\<rparr> \<and> authorized t l F"
  using ledgerD(9) [OF history_ledger [OF assms(1,2)] assms(3-5)] assms(5)
  by (simp add: authorized_def)

theorem lease_promise_kept_witness:
  "map_of (leases demo_leased) (lease_resource demo_lease) = Some \<lparr>al_lease = demo_lease, al_expires_at = 105\<rparr>
     \<and> authorized 5 demo_lease demo_leased"
  by (rule lease_promise_kept [OF demo_history _ demo_promise]) (simp_all add: demo_log_def)

text \<open>C2. Mutual exclusion: while one lease on a resource is promised to its holder, the promise of
  every other lease on that resource has run out.\<close>

theorem leases_mutually_exclusive:
  assumes "history ops t F evs" and "length evs < 2 ^ 64"
    and "granted evs l" "promised evs (lease_id l) = Some e" "t < e"
    and "granted evs l'" "promised evs (lease_id l') = Some e'"
    and "lease_resource l' = lease_resource l" "l' \<noteq> l"
  shows "e' \<le> t"
proof (rule ccontr)
  assume "\<not> e' \<le> t"
  note live = ledgerD(9) [OF history_ledger [OF assms(1,2)]]
  from live [OF assms(3-5)] live [OF assms(6,7)] \<open>\<not> e' \<le> t\<close> assms(8,9) show False
    by simp
qed

definition demo_lease2 :: lease where
  "demo_lease2 = \<lparr>lease_id = 2, lease_resource = ''g'', lease_owner = ''p''\<rparr>"

definition demo_leased2 :: "nauti_adapter fabric" where
  "demo_leased2 = demo_registered\<lparr>leases := [(''g'', \<lparr>al_lease = demo_lease2, al_expires_at = 205\<rparr>)], next_lease_id := 2\<rparr>"

lemma demo_lease_again: "lease_exclusive ''g'' ''p'' 100 105 105 demo_leased = (Done (Inr demo_lease2), demo_leased2)"
  by (simp add: demo_defs demo_lease2_def demo_leased2_def lease_exclusive_def resource_def prune_def
      has_key_def instant_add_def instant_limit_def nanos_per_sec_def Let_def)

lemma demo_history2: "history demo_ops 105 demo_leased2 (Granted demo_lease2 205 # demo_log)"
  by (rule history_step [OF demo_history, where op = "OpLease ''g'' ''p'' 100" and w = bare_host and now = 105])
    (auto simp: demo_lease_again)

theorem leases_mutually_exclusive_witness:
  "promised (Granted demo_lease2 205 # demo_log) (lease_id demo_lease) = Some 105 \<and> (105 :: instant) \<le> 105"
proof -
  have p: "promised (Granted demo_lease2 205 # demo_log) (lease_id demo_lease) = Some 105"
    by (simp add: demo_lease2_def demo_log_def demo_lease_def)
  have "(105 :: instant) \<le> 105"
    by (rule leases_mutually_exclusive [OF demo_history2, of demo_lease2 205 demo_lease])
      (simp_all add: demo_lease2_def demo_log_def demo_lease_def)
  with p show ?thesis by simp
qed

text \<open>C6. Nothing is in the lease table that was not granted: an attach that succeeds
  presented the id of a lease that was granted for that resource, and whose latest promise has not
  run out.\<close>

theorem attach_needs_a_promise:
  assumes "history ops t F evs" and "length evs < 2 ^ 64"
    and "attach ops n l now F w = (Done (Inr att), F', w')"
  shows "\<exists>l' e. granted evs l' \<and> lease_id l' = lease_id l \<and> lease_resource l' = lease_resource l
     \<and> promised evs (lease_id l) = Some e \<and> now < e"
proof -
  obtain r where "authorized now l F"
    using assms(3) by (rule attach_success)
  then obtain al where al: "map_of (leases F) (lease_resource l) = Some al" "lease_id (al_lease al) = lease_id l"
      "now < al_expires_at al"
    by (auto simp: authorized_def split: option.splits)
  from ledgerD(6-8) [OF history_ledger [OF assms(1,2)] al(1)] al show ?thesis
    by (intro exI [of _ "al_lease al"] exI [of _ "al_expires_at al"]) simp
qed

lemma demo_attach:
  "\<exists>att F' w'. attach demo_ops ''gpu-local'' demo_lease 6 demo_leased bare_host = (Done (Inr att), F', w')"
  by (simp add: attach_def demo_defs resource_def authorized_def gpu_local_attach_def gpu_local_id_def
      bare_host_def Let_def)

theorem attach_needs_a_promise_witness:
  "\<exists>l' e. granted demo_log l' \<and> lease_id l' = lease_id demo_lease \<and> lease_resource l' = lease_resource demo_lease
     \<and> promised demo_log (lease_id demo_lease) = Some e \<and> 6 < e"
proof -
  obtain att F' w' where "attach demo_ops ''gpu-local'' demo_lease 6 demo_leased bare_host = (Done (Inr att), F', w')"
    using demo_attach by blast
  from attach_needs_a_promise [OF demo_history _ this] show ?thesis
    by (simp add: demo_log_def)
qed

text \<open>Lease ids are never reused: a new lease has a larger id than every lease granted before.\<close>

theorem lease_ids_increase:
  assumes "history ops t F evs" and "length evs < 2 ^ 64 - 1"
    and "lease_exclusive rid owner ttl now now' F = (Done (Inr l), F')" and "granted evs l'"
  shows "lease_id l' < lease_id l"
proof -
  note L = ledgerD [OF history_ledger [OF assms(1)]]
  have "unat (next_lease_id F) < 2 ^ 64 - 1"
    using L(2) assms(2) by simp
  then have "unat (next_lease_id F + 1) = unat (next_lease_id F) + 1"
    by (rule unat_suc)
  moreover have "lease_id l = next_lease_id F + 1"
    using assms(3) by (auto simp: lease_exclusive_def Let_def split: option.splits if_splits)
  moreover have "unat (lease_id l') \<le> unat (next_lease_id F)"
    using L(4) assms(2,4) by simp
  ultimately show ?thesis
    by (simp add: word_less_nat_alt)
qed

theorem lease_ids_increase_witness: "lease_id demo_lease < lease_id demo_lease2"
  by (rule lease_ids_increase [OF demo_history _ demo_lease_again demo_promise(1)]) (simp add: demo_log_def)

subsection \<open>Well-formedness\<close>

lemma nauti_exec_wf:
  assumes "exec (nauti_ops nvml rocm) op now now' w F = (ev, F')" "fabric_wf (nauti_ops nvml rocm) F"
  shows "fabric_wf (nauti_ops nvml rocm) F'"
  using assms
proof (cases op)
  case (OpLease rid owner ttl)
  with assms fabric_wf_lease_exclusive [OF assms(2), of rid owner ttl now now'] show ?thesis
    by (auto split: prod.splits outcome.splits sum.splits)
next
  case (OpRenew l ttl)
  with assms fabric_wf_renew_lease [OF assms(2), of l ttl now now'] show ?thesis
    by (auto split: prod.splits outcome.splits sum.splits)
next
  case (OpRelease l)
  with assms nauti.fabric_wf_release [OF assms(2), of l w] show ?thesis
    by (auto split: prod.splits outcome.splits sum.splits)
qed (auto intro: fabric_wf_register fabric_wf_unregister fabric_wf_register_adapter fabric_wf_refresh_with
      nauti.fabric_wf_attach fabric_wf_heartbeat fabric_wf_evict)



text \<open>An attachment describes what it was asked for: the leased resource, the lease that was
  presented and the adapter that was named; the fabric then remembers that adapter for the
  release.\<close>

theorem attachment_describes_request:
  assumes "history (nauti_ops nvml rocm) t F evs"
    and "attach (nauti_ops nvml rocm) n l now F h = (Done (Inr att), F', h')"
  shows "att_resource att = lease_resource l \<and> att_lease att = lease_id l \<and> att_adapter att = n
     \<and> map_of (attachments F') (lease_resource l) = Some n"
proof -
  have "fabric_wf (nauti_ops nvml rocm) F"
    using assms(1) by (induction rule: history.induct) (simp add: fabric_wf_default, blast intro: nauti_exec_wf)
  moreover have "map_of (attachments F') (lease_resource l) = Some n"
    using assms(2) by (elim attach_success) (simp add: get_update)
  ultimately show ?thesis
    using nauti.attach_describes [OF _ assms(2)] by simp
qed

theorem attachment_describes_request_witness:
  "\<exists>att F' h'. attach demo_ops ''gpu-local'' demo_lease 6 demo_leased bare_host = (Done (Inr att), F', h')
     \<and> att_resource att = ''g'' \<and> att_lease att = 1 \<and> att_adapter att = ''gpu-local''
     \<and> map_of (attachments F') ''g'' = Some ''gpu-local''"
proof -
  obtain att F' h' where a: "attach demo_ops ''gpu-local'' demo_lease 6 demo_leased bare_host = (Done (Inr att), F', h')"
    using demo_attach by blast
  from attachment_describes_request [OF demo_history a] a show ?thesis
    by (auto simp: demo_lease_def)
qed

subsection \<open>Refinement of the lease table\<close>

text \<open>C8. Leasing refines the specification without expired leases: whatever stale entries the table
  still holds, a lease of an available, exclusive resource answers and changes the unexpired
  leases exactly as the specification does.\<close>

theorem lease_exclusive_refines_spec:
  assumes "distinct (keys (leases F))" "leasable rid F" "\<not> leases_poisoned F"
    and "now' + int ttl < instant_limit"
    and "lease_exclusive rid owner ttl now now' F = (out, F')"
  shows "(out, live now (leases F')) =
     apfst Done (spec_lease now \<lparr>lease_id = next_lease_id F + 1, lease_resource = rid, lease_owner = owner\<rparr>
       (now' + int ttl) (live now (leases F)))"
  using lease_refines [OF assms(1-4) refl assms(5)] .

theorem lease_exclusive_refines_spec_witness:
  "(Done (Inr demo_lease2), live 105 (leases demo_leased2)) =
     apfst Done (spec_lease 105 demo_lease2 205 (live 105 (leases demo_leased)))"
  using lease_exclusive_refines_spec [OF _ _ _ _ demo_lease_again]
  by (simp add: demo_defs demo_lease2_def leasable_def resource_def instant_limit_def nanos_per_sec_def)

text \<open>C9. Renewing refines the specification in the same way: only the exact unexpired lease is
  renewed, its id is kept, and the new expiry is the ttl from now.\<close>

theorem renew_lease_refines_spec:
  assumes "distinct (keys (leases F))" "\<not> leases_poisoned F" and "now' + int ttl < instant_limit"
    and "renew_lease l ttl now now' F = (out, F')"
  shows "(out, live now (leases F')) = apfst Done (spec_renew now l (now' + int ttl) (live now (leases F)))"
  by (rule renew_refines [OF assms])

lemma demo_renew: "renew_lease demo_lease 50 200 200 demo_leased2 = (Done (Inl LeaseNotFound), demo_leased2)"
  by (simp add: demo_defs demo_lease2_def demo_leased2_def renew_lease_def prune_def Let_def)

theorem renew_lease_refines_spec_witness:
  "(Done (Inl LeaseNotFound), live 200 (leases demo_leased2)) =
     apfst Done (spec_renew 200 demo_lease 250 (live 200 (leases demo_leased2)))"
  using renew_lease_refines_spec [OF _ _ _ demo_renew]
  by (simp add: demo_defs demo_leased2_def instant_limit_def nanos_per_sec_def)

subsection \<open>Refresh and eviction\<close>



text \<open>Eviction removes the nodes whose last heartbeat is older than the limit, forgets their
  heartbeats, and unregisters exactly the resources they own that have no lease recorded; no other
  resource and no lease is touched.\<close>

theorem evict_removes_stale_nodes:
  assumes "fabric_wf ops F" "\<not> leases_poisoned F"
    and "evict_stale_nodes older_than now F = (Done stale, F')"
  shows "(\<forall>n. n \<in> set stale \<longleftrightarrow> (\<exists>seen. map_of (heartbeats F) n = Some seen \<and> seen < now - int older_than))
     \<and> (\<forall>n. map_of (heartbeats F') n = (if n \<in> set stale then None else map_of (heartbeats F) n))
     \<and> leases F' = leases F
     \<and> (\<forall>k. map_of (resources F') k =
           (case map_of (resources F) k of
              None \<Rightarrow> None
            | Some r \<Rightarrow> if res_node r \<in> set stale \<and> \<not> has_key (leases F) k then None else Some r))"
proof -
  have lim: "- instant_limit \<le> now - int older_than"
    using assms(3) by (auto simp: evict_stale_nodes_def instant_sub_def split: if_splits)
  have d: "distinct (keys (heartbeats F))" "distinct (keys (resources F))"
    using fabric_wfD [OF assms(1)] by (simp_all add: resources_wf_def)
  have stale: "stale = stale_nodes (now - int older_than) F"
    and F': "F' = without_unleased (owned_by stale F) (F\<lparr>heartbeats := fold AList.delete stale (heartbeats F)\<rparr>)"
    using assms(3) by (auto simp: evict_closed [OF assms(2) lim])
  have "map_of (resources F') k = (case map_of (resources F) k of None \<Rightarrow> None
      | Some r \<Rightarrow> if res_node r \<in> set stale \<and> \<not> has_key (leases F) k then None else Some r)" for k
    unfolding F' using d(2) owned_by_iff [OF d(2), of k stale]
    by (subst map_of_without_unleased) (auto split: option.split simp del: map_of_eq_Some_iff)
  then show ?thesis
    unfolding F' using stale stale_nodes_iff [OF d(1)]
    by (auto simp: without_unleased_def map_of_fold_delete)
qed

theorem evict_removes_stale_nodes_witness:
  "map_of (resources (snd (evict_stale_nodes 10 100 (heartbeat ''n'' 50 demo_registered)))) ''g'' = None"
proof -
  let ?F = "heartbeat ''n'' 50 demo_registered"
  have wf: "fabric_wf demo_ops ?F" "\<not> leases_poisoned ?F"
    unfolding demo_registered_def
    by (simp_all add: fabric_wf_heartbeat fabric_wf_register_adapter fabric_wf_register fabric_wf_default)
      (simp add: heartbeat_def register_adapter_def register_def default_fabric_def)
  have e: "evict_stale_nodes 10 100 ?F = (Done [''n''], snd (evict_stale_nodes 10 100 ?F))"
    by (simp add: evict_stale_nodes_def stale_nodes_def owned_by_def unregister_def instant_sub_def
        instant_limit_def nanos_per_sec_def heartbeat_def demo_defs has_key_def)
  from evict_removes_stale_nodes [OF wf e] show ?thesis
    by (simp add: heartbeat_def demo_defs has_key_def)
qed

text \<open>A refresh on an unchanged machine right after the first discovery adds nothing, removes
  nothing and leaves the fabric as it is.\<close>

theorem refresh_after_discovery_is_idle:
  assumes "discover_local si nvml rocm h node default_fabric = (rs, F)"
  shows "refresh_local si nvml rocm h node F
    = (Done \<lparr>rr_added = [], rr_removed = [], rr_blocked_by_lease = []\<rparr>, F)"
  by (rule refresh_after_discover [OF assms])

theorem refresh_after_discovery_is_idle_witness:
  "fst (refresh_local \<lparr>si_parallelism = None, si_total_memory = 1, si_disks = [], si_networks = [(''e'', ''m'')]\<rparr> []
      None bare_host ''n'' (snd (discover_local \<lparr>si_parallelism = None, si_total_memory = 1, si_disks = [],
        si_networks = [(''e'', ''m'')]\<rparr> [] None bare_host ''n'' default_fabric)))
    = Done \<lparr>rr_added = [], rr_removed = [], rr_blocked_by_lease = []\<rparr>"
  by (subst refresh_after_discovery_is_idle [OF prod.collapse [symmetric]]) simp

subsection \<open>Searching\<close>

text \<open>A search returns exactly the registered resources that match the request and are not
  exclusive or have no entry in the lease table. An entry counts even when its lease has expired,
  until a lease or a renewal prunes it.\<close>

theorem find_available_exact:
  assumes "fabric_wf ops F" "find_available q F = Done rs"
  shows "r \<in> set rs \<longleftrightarrow>
     map_of (resources F) (res_id r) = Some r \<and> request_matches q r
     \<and> (res_exclusive r \<longrightarrow> \<not> has_key (leases F) (res_id r))"
proof -
  have wf: "distinct (keys (resources F))" "\<forall>(k, r) \<in> set (resources F). res_id r = k"
    using fabric_wfD(1) [OF assms(1)] by (auto simp: resources_wf_def list_all_iff)
  then have "r \<in> set (map snd (resources F)) \<longleftrightarrow> map_of (resources F) (res_id r) = Some r"
    by (force simp: image_iff)
  then show ?thesis
    using assms(2) by (auto simp: find_available_def simp del: set_map split: if_splits)
qed

theorem find_available_exact_witness:
  "find_available default_request demo_registered = Done [demo_gpu]
     \<and> map_of (resources demo_registered) (res_id demo_gpu) = Some demo_gpu"
proof -
  have wf: "fabric_wf demo_ops demo_registered"
    by (simp add: fabric_wf_def demo_defs resources_wf_def leases_wf_def adapters_wf_def)
  have f: "find_available default_request demo_registered = Done [demo_gpu]"
    by (simp add: find_available_def demo_defs default_request_matches has_key_def)
  from find_available_exact [OF wf f, of demo_gpu] f show ?thesis
    by simp
qed

lemma expired_not_pruned:
  "distinct (keys ls) \<Longrightarrow> map_of ls k = Some al \<Longrightarrow> al_expires_at al \<le> now \<Longrightarrow> \<not> has_key (prune now ls) k"
  by (auto simp: has_key_prune simp del: map_of_eq_Some_iff)

text \<open>An expired lease that has not been pruned still hides and pins its resource: the resource
  can be leased again at once, yet no search lists it and it cannot be unregistered.\<close>

theorem expired_lease_hides_resource:
  assumes "fabric_wf ops F" "\<not> leases_poisoned F" "leasable rid F" "now' + int ttl < instant_limit"
    and "map_of (leases F) rid = Some al" "al_expires_at al \<le> now"
  shows "fst (lease_exclusive rid owner ttl now now' F)
       = Done (Inr \<lparr>lease_id = next_lease_id F + 1, lease_resource = rid, lease_owner = owner\<rparr>)
     \<and> (case find_available q F of Done rs \<Rightarrow> rid \<notin> res_id ` set rs | Panicked \<Rightarrow> True)
     \<and> unregister rid F = (Done (Inl ResourceAlreadyLeased), F)"
proof -
  have wf: "distinct (keys (leases F))" "\<forall>(k, r) \<in> set (resources F). res_id r = k" "distinct (keys (resources F))"
    using fabric_wfD(1,2) [OF assms(1)] by (auto simp: leases_wf_def resources_wf_def list_all_iff)
  have hk: "has_key (leases F) rid"
    using assms(5) by (simp add: has_key_def)
  have excl: "res_exclusive r" if "(k, r) \<in> set (resources F)" "res_id r = rid" for k r
  proof -
    have "map_of (resources F) rid = Some r" using that wf by (auto intro: map_of_is_SomeI)
    then show ?thesis using assms(3) by (simp add: leasable_def resource_def)
  qed
  show ?thesis
    using assms(2,4) hk excl expired_not_pruned [OF wf(1) assms(5,6)]
    by (auto simp: lease_exclusive_leasable [OF assms(3,2)] Let_def instant_add_def unregister_def find_available_def)
qed

theorem expired_lease_hides_resource_witness:
  "fst (lease_exclusive ''g'' ''p'' 100 105 105 demo_leased) = Done (Inr demo_lease2)
     \<and> find_available default_request demo_leased = Done []
     \<and> unregister ''g'' demo_leased = (Done (Inl ResourceAlreadyLeased), demo_leased)"
proof -
  have "fabric_wf demo_ops demo_leased"
    by (simp add: fabric_wf_def demo_defs resources_wf_def leases_wf_def adapters_wf_def)
  from expired_lease_hides_resource [OF this, of "''g''" 105 100 "\<lparr>al_lease = demo_lease, al_expires_at = 105\<rparr>" 105
      "''p''" default_request]
  have "fst (lease_exclusive ''g'' ''p'' 100 105 105 demo_leased) = Done (Inr demo_lease2)
     \<and> unregister ''g'' demo_leased = (Done (Inl ResourceAlreadyLeased), demo_leased)"
    by (simp add: demo_defs demo_lease2_def leasable_def resource_def instant_limit_def nanos_per_sec_def)
  moreover have "find_available default_request demo_leased = Done []"
    by (simp add: demo_defs find_available_def default_request_matches has_key_def)
  ultimately show ?thesis by simp
qed

subsection \<open>Panics\<close>

text \<open>C34. A ttl that takes the clock past the range of \<open>Instant\<close> panics inside \<open>lease_exclusive\<close>
  while the lease lock is held. The lock is then poisoned for good: from that state on every
  search, lease of an available exclusive resource, release, renewal and unregistration panics,
  and so does an attach to a registered resource.\<close>

theorem huge_ttl_poisons_the_fabric:
  assumes "leasable rid F" "\<not> leases_poisoned F" "\<not> has_key (prune now (leases F)) rid"
    and "instant_limit \<le> now' + int ttl" and "lease_exclusive rid owner ttl now now' F = (out, F')"
  shows "out = Panicked
     \<and> find_available q F' = Panicked
     \<and> (leasable rid' F' \<longrightarrow> fst (lease_exclusive rid' owner' ttl' t t' F') = Panicked)
     \<and> fst (release ops l F' w) = Panicked
     \<and> fst (renew_lease l ttl' t t' F') = Panicked
     \<and> fst (unregister rid' F') = Panicked
     \<and> (has_key (resources F') (lease_resource l) \<longrightarrow> fst (attach ops n l t F' w) = Panicked)"
proof -
  have F': "F' = F\<lparr>leases := prune now (leases F), next_lease_id := next_lease_id F + 1, leases_poisoned := True\<rparr>"
    and out: "out = Panicked"
    using assms by (simp_all add: lease_exclusive_leasable Let_def instant_add_def)
  have p: "leases_poisoned F'" by (simp add: F')
  have "fst (lease_exclusive rid' owner' ttl' t t' F') = Panicked" if "leasable rid' F'"
    using that p by (auto simp: leasable_def lease_exclusive_def split: option.splits)
  moreover have "fst (attach ops n l t F' w) = Panicked" if "has_key (resources F') (lease_resource l)"
    using that p by (auto simp: has_key_def attach_def resource_def)
  ultimately show ?thesis
    using out p by (simp add: find_available_def release_def renew_lease_def unregister_def)
qed

theorem huge_ttl_poisons_the_fabric_witness:
  "let F' = snd (lease_exclusive ''g'' ''o'' (from_secs 0xFFFFFFFFFFFFFFFF) 5 5 demo_registered)
   in find_available default_request F' = Panicked \<and> fst (renew_lease demo_lease 9 6 6 F') = Panicked"
proof -
  have a: "leasable ''g'' demo_registered" and b: "\<not> leases_poisoned demo_registered"
    and c: "\<not> has_key (prune 5 (leases demo_registered)) ''g''"
    by (simp_all add: demo_defs leasable_def resource_def prune_def has_key_def)
  have d: "instant_limit \<le> 5 + int (from_secs 0xFFFFFFFFFFFFFFFF)"
    by (simp add: from_secs_def instant_limit_def nanos_per_sec_def)
  note all = huge_ttl_poisons_the_fabric [OF a b c d prod.collapse [symmetric],
      where l = demo_lease and ops = demo_ops and w = bare_host and q = default_request
        and ttl' = 9 and t = 6 and t' = 6 and owner = "''o''"]
  from all show ?thesis
    by (simp add: Let_def)
qed

subsection \<open>Release\<close>

text \<open>A release that succeeds ends the lease: the resource can be leased again in that state, the
  lease can no longer be attached or renewed at any later time, and the attachment is forgotten.\<close>

theorem release_frees_the_resource:
  assumes "fabric_wf ops F" and "release ops l F w = (Done (Inr ()), F', w')"
  shows "\<not> has_key (leases F') (lease_resource l) \<and> \<not> has_key (attachments F') (lease_resource l)
     \<and> resources F' = resources F \<and> \<not> authorized t l F'
     \<and> (leasable (lease_resource l) F \<longrightarrow> now' + int ttl < instant_limit \<longrightarrow>
          (\<exists>l' F''. lease_exclusive (lease_resource l) owner ttl now now' F' = (Done (Inr l'), F'')))"
proof -
  obtain out F1 w1 where d: "release_detach ops l F w = (out, F1, w1)"
    by (cases "release_detach ops l F w") auto
  then have F1: "leases F1 = leases F" "resources F1 = resources F"
      "attachments F1 = AList.delete (lease_resource l) (attachments F)" "leases_poisoned F1 = leases_poisoned F"
    by (auto simp: release_detach_def Let_def split: option.splits prod.splits)
  have F': "F' = F1\<lparr>leases := AList.delete (lease_resource l) (leases F)\<rparr>" and np: "\<not> leases_poisoned F"
    using assms(2) d F1 by (auto simp: release_def release_finish_def split: if_splits sum.splits)
  have free: "\<not> has_key (prune now (leases F')) (lease_resource l)" "\<not> has_key (leases F') (lease_resource l)"
    using fabric_wfD(2) [OF assms(1)]
    by (simp_all add: F' has_key_prune distinct_keys_delete leases_wf_def get_delete has_key_delete)
  have "\<exists>l' F''. lease_exclusive (lease_resource l) owner ttl now now' F' = (Done (Inr l'), F'')"
    if "leasable (lease_resource l) F" "now' + int ttl < instant_limit"
  proof -
    have "leasable (lease_resource l) F'" "\<not> leases_poisoned F'"
      using that np F1 by (simp_all add: F' leasable_def resource_def)
    then show ?thesis
      using free that by (simp add: lease_exclusive_leasable Let_def instant_add_def)
  qed
  then show ?thesis
    using free(2) by (auto simp: F' F1 has_key_delete authorized_def get_delete)
qed

lemma demo_release: "release demo_ops demo_lease demo_leased bare_host
    = (Done (Inr ()), demo_leased\<lparr>leases := []\<rparr>, bare_host)"
  by (simp add: release_def holds_def release_detach_def release_finish_def demo_defs Let_def)

theorem release_frees_the_resource_witness:
  "\<not> authorized 6 demo_lease (demo_leased\<lparr>leases := []\<rparr>)
     \<and> (\<exists>l' F''. lease_exclusive ''g'' ''p'' 10 6 6 (demo_leased\<lparr>leases := []\<rparr>) = (Done (Inr l'), F''))"
proof -
  have "fabric_wf demo_ops demo_leased"
    by (simp add: fabric_wf_def demo_defs resources_wf_def leases_wf_def adapters_wf_def)
  from release_frees_the_resource [OF this demo_release, of 6 6 10 "''p''" 6]
  show ?thesis
    by (simp add: demo_defs leasable_def resource_def instant_limit_def nanos_per_sec_def)
qed

text \<open>The owner of a lease is not checked: a release is decided by the resource and the id alone,
  so anyone who presents the two releases the lease, whatever owner they name.\<close>

theorem release_ignores_the_owner:
  assumes "holds l F" "\<not> leases_poisoned F" "map_of (attachments F) (lease_resource l) = None"
  shows "fst (release ops (l\<lparr>lease_owner := thief\<rparr>) F w) = Done (Inr ())"
  using assms by (simp add: release_def holds_def release_detach_def release_finish_def Let_def split: option.splits)

theorem release_ignores_the_owner_witness:
  "fst (release demo_ops (demo_lease\<lparr>lease_owner := ''thief''\<rparr>) demo_leased bare_host) = Done (Inr ())"
  by (rule release_ignores_the_owner) (simp_all add: holds_def demo_defs)

subsection \<open>Stores\<close>

text \<open>Attaching a store and releasing the lease undo each other: after the release the store
  adapter tracks no attachment for the lease, every other attachment is as it was, and the job was
  given the path the store resource declares.\<close>

theorem store_attach_release_roundtrip:
  assumes "fabric_wf (nauti_ops nvml rocm) F"
    and "map_of (adapters F) ''fabric-store'' = Some (FabricStoreAdapter m)"
    and "attach (nauti_ops nvml rocm) ''fabric-store'' l now F h = (Done (Inr att), F1, h1)"
  shows "\<exists>F2 m' s r. release (nauti_ops nvml rocm) l F1 h1 = (Done (Inr ()), F2, h1)
     \<and> map_of (adapters F2) ''fabric-store'' = Some (FabricStoreAdapter m')
     \<and> (\<forall>i. map_of m' i = (if i = lease_id l then None else map_of m i))
     \<and> resource (lease_resource l) F = Some r \<and> store_from_resource r = Inr s
     \<and> map_of (att_details att) ''store.path'' = Some (job_path s)"
proof -
  obtain r a a' where r: "resource (lease_resource l) F = Some r" and auth: "authorized now l F"
    and a: "map_of (adapters F) ''fabric-store'' = Some a" and at: "nauti_attach a r l h = (Inr att, a', h1)"
    and F1: "F1 = F\<lparr>adapters := AList.update ''fabric-store'' a' (adapters F),
            attachments := AList.update (lease_resource l) ''fabric-store'' (attachments F)\<rparr>"
    using assms(3) by (rule attach_success) simp
  from a assms(2) have "a = FabricStoreAdapter m" by simp
  with at obtain m1 where sa: "store_attach m r l h = (Inr att, m1, h1)" and a': "a' = FabricStoreAdapter m1"
    by (auto split: prod.splits)
  obtain s where s: "store_from_resource r = Inr s" and att: "att = store_attachment s r l"
    and m1: "m1 = AList.update (lease_id l) s m"
    using sa by (rule store_attach_ok)
  have np: "\<not> leases_poisoned F"
    using assms(3) r by (auto simp: attach_def split: if_splits)
  have h: "holds l F" using auth by (auto simp: authorized_def holds_def split: option.splits)
  let ?F2 = "F1\<lparr>attachments := AList.delete (lease_resource l) (attachments F1),
      adapters := AList.update ''fabric-store'' (FabricStoreAdapter (AList.delete (lease_id l) m1)) (adapters F1),
      leases := AList.delete (lease_resource l) (leases F1)\<rparr>"
  have det: "nauti_detach a' r l h1 = (Inr (), FabricStoreAdapter (AList.delete (lease_id l) m1), h1)"
    using store_from_resource_ok(2) [OF s] by (simp add: a' store_detach_def m1 get_update Let_def)
  have "release (nauti_ops nvml rocm) l F1 h1 = (Done (Inr ()), ?F2, h1)"
    using np h r det
    by (simp add: release_def holds_def release_detach_def release_finish_def F1 get_update resource_def Let_def)
  moreover have "map_of (att_details att) ''store.path'' = Some (job_path s)"
    by (simp add: att store_attachment_def get_bt_from)
  ultimately show ?thesis
    using r s by (intro exI [of _ ?F2] exI [of _ "AList.delete (lease_id l) m1"] exI [of _ s] exI [of _ r])
      (simp add: F1 get_update get_delete m1)
qed

definition demo_store_lease :: lease where
  "demo_store_lease = \<lparr>lease_id = 1, lease_resource = ''local.store.fabric'', lease_owner = ''o''\<rparr>"

definition demo_store :: "nauti_adapter fabric" where
  "demo_store = register_adapter demo_ops (FabricStoreAdapter [])
     (register (default_store_resource ''n'') default_fabric)
     \<lparr>leases := [(''local.store.fabric'', \<lparr>al_lease = demo_store_lease, al_expires_at = 105\<rparr>)], next_lease_id := 1\<rparr>"

theorem store_attach_release_roundtrip_witness:
  "\<exists>att F1 h1 F2 m' s r. attach demo_ops ''fabric-store'' demo_store_lease 6 demo_store bare_host = (Done (Inr att), F1, h1)
     \<and> release demo_ops demo_store_lease F1 h1 = (Done (Inr ()), F2, h1)
     \<and> map_of (adapters F2) ''fabric-store'' = Some (FabricStoreAdapter m')
     \<and> (\<forall>i. map_of m' i = (if i = lease_id demo_store_lease then None else map_of [] i))
     \<and> resource (lease_resource demo_store_lease) demo_store = Some r \<and> store_from_resource r = Inr s
     \<and> map_of (att_details att) ''store.path'' = Some (job_path s)"
proof -
  have wf: "fabric_wf demo_ops demo_store"
    by (simp add: demo_store_def demo_store_lease_def fabric_wf_def demo_defs resources_wf_def leases_wf_def
        adapters_wf_def default_store_resource_def)
  have ad: "map_of (adapters demo_store) ''fabric-store'' = Some (FabricStoreAdapter [])"
    by (simp add: demo_store_def register_adapter_def register_def default_fabric_def)
  have "\<exists>att F1 h1. attach demo_ops ''fabric-store'' demo_store_lease 6 demo_store bare_host = (Done (Inr att), F1, h1)"
    by (simp add: attach_def demo_store_def demo_store_lease_def demo_defs resource_def authorized_def
        default_store_resource_def store_attach_def store_from_resource_def store_kind_parse_def get_bt_from
        ensure_dir_def bare_host_def Let_def)
  then obtain att F1 h1 where at: "attach demo_ops ''fabric-store'' demo_store_lease 6 demo_store bare_host = (Done (Inr att), F1, h1)"
    by blast
  from store_attach_release_roundtrip [OF wf ad at] at show ?thesis by blast
qed

subsection \<open>GPU reservations\<close>

text \<open>A GPU that discovery found without a UUID cannot be attached through the host-local adapter:
  discovery publishes the PCI address as \<open>gpu.pci_bdf\<close>, the adapter looks for \<open>gpu.pci_bus_id\<close>.\<close>

theorem discovered_gpu_without_uuid_is_refused:
  assumes "gd_uuid g = None"
  shows "gpu_local_attach res (gpu_as_resource node g) l h
     = (Inl (MissingResourceAttribute ''gpu.uuid or gpu.pci_bus_id''), res)
   \<and> map_of (res_attributes (gpu_as_resource node g)) ''gpu.pci_bdf'' = Some (gd_pci_bdf g)"
proof -
  have "gpu_local_id (gpu_as_resource node g) = None"
    by (simp add: gpu_local_id_def gpu_resource_attribute assms)
  moreover have "res_kind (gpu_as_resource node g) = Gpu"
    by (simp add: gpu_as_resource_def Let_def)
  ultimately show ?thesis
    by (simp add: gpu_local_attach_def gpu_resource_attribute)
qed

definition demo_amd :: gpu_device where
  "demo_amd = \<lparr>gd_stable_id = ''0000:03:00.0'', gd_vendor = Amd, gd_device_name = ''AMD GPU'',
     gd_vram_total_bytes = 8, gd_vram_used_bytes = 0, gd_driver = ''amdgpu'', gd_drm_card = Some 0,
     gd_pci_bdf = ''0000:03:00.0'', gd_uuid = None, gd_nvml_index = None, gd_temperature_c = None,
     gd_utilization_pct = None, gd_display_only = False\<rparr>"

theorem discovered_gpu_without_uuid_is_refused_witness:
  "fst (gpu_local_attach [] (gpu_as_resource ''n'' demo_amd) demo_lease bare_host)
     = Inl (MissingResourceAttribute ''gpu.uuid or gpu.pci_bus_id'')"
  using discovered_gpu_without_uuid_is_refused [of demo_amd] by (simp add: demo_amd_def)

text \<open>Attaching a reserved GPU again under the same lease keeps the reservation and is reported as
  a re-attach; a different lease takes the reservation over.\<close>

lemma gpu_reservation_reattach:
  assumes "gpu_local_attach res r l h = (Inr att, res')"
  shows "\<exists>att2. gpu_local_attach res' r l h2 = (Inr att2, res') \<and> map_of (att_details att2) ''gpu.reattach'' = Some ''true''"
    and "lease_id l2 \<noteq> lease_id l \<Longrightarrow> \<exists>att2 res2 g. gpu_local_attach res' r l2 h2 = (Inr att2, res2)
       \<and> map_of res2 (res_id r) = Some g \<and> gr_lease_id g = lease_id l2"
proof -
  obtain g where g: "map_of res' (res_id r) = Some g" "gr_lease_id g = lease_id l"
    using gpu_local_attach_ok(5) [OF assms] by blast
  obtain i where i: "gpu_local_id r = Some i" and k: "res_kind r = Gpu"
    using assms by (auto simp: gpu_local_attach_def split: if_splits option.splits)
  show "\<exists>att2. gpu_local_attach res' r l h2 = (Inr att2, res') \<and> map_of (att_details att2) ''gpu.reattach'' = Some ''true''"
    using g i k by (simp add: gpu_local_attach_def Let_def get_bt_insert)
  show "\<exists>att2 res2 g. gpu_local_attach res' r l2 h2 = (Inr att2, res2)
       \<and> map_of res2 (res_id r) = Some g \<and> gr_lease_id g = lease_id l2" if "lease_id l2 \<noteq> lease_id l"
    using g i k that by (auto simp: gpu_local_attach_def Let_def get_update)
qed

end
