(* ===== verification/Fabric_Concurrency.thy ===== *)
theory Fabric_Concurrency
  imports Fabric_Properties
begin

text \<open>
  The fabric shared by threads. Every method of \<open>lib.rs\<close> is a sequence of critical sections, each
  of them atomic under the locks it takes; \<open>attach\<close> keeps the lease lock from its check to its
  end. A task is what a thread still has to do, \<open>advance\<close> runs its next section, and an
  interleaving is any schedule of any number of threads. Promises to lease holders survive every
  schedule; the registry and attachment records do not, since \<open>unregister\<close> and \<open>release\<close> let go
  of the lease lock between their check and their effect. Calls that read only are left out, and
  \<open>evict_stale_nodes\<close> and \<open>refresh_local\<close> appear as the calls of \<open>unregister\<close> and \<open>register\<close> they
  make.
\<close>

subsection \<open>Critical sections\<close>

definition lease_look :: "string \<Rightarrow> 'a fabric \<Rightarrow> fabric_error + unit" where
  "lease_look rid F =
     (case resource rid F of
        None \<Rightarrow> Inl ResourceNotFound
      | Some r \<Rightarrow>
          if res_state r \<noteq> Available then Inl ResourceUnavailable
          else if \<not> res_exclusive r then Inl ResourceUnavailable
          else Inr ())"

definition lease_commit ::
  "string \<Rightarrow> string \<Rightarrow> duration \<Rightarrow> instant \<Rightarrow> instant \<Rightarrow> 'a fabric \<Rightarrow> (fabric_error + lease) outcome \<times> 'a fabric"
where
  "lease_commit rid owner ttl now now' F =
     (if leases_poisoned F then (Panicked, F)
      else
        (let ls = prune now (leases F)
         in if has_key ls rid then (Done (Inl ResourceAlreadyLeased), F\<lparr>leases := ls\<rparr>)
            else
              (let l = \<lparr>lease_id = next_lease_id F + 1, lease_resource = rid, lease_owner = owner\<rparr>;
                   F1 = F\<lparr>leases := ls, next_lease_id := next_lease_id F + 1\<rparr>
               in case instant_add now' ttl of
                    None \<Rightarrow> (Panicked, F1\<lparr>leases_poisoned := True\<rparr>)
                  | Some e \<Rightarrow> (Done (Inr l), F1\<lparr>leases := AList.update rid \<lparr>al_lease = l, al_expires_at = e\<rparr> ls\<rparr>))))"

definition unregister_check :: "string \<Rightarrow> 'a fabric \<Rightarrow> (fabric_error + unit) outcome" where
  "unregister_check rid F =
     (if leases_poisoned F then Panicked
      else if has_key (leases F) rid then Done (Inl ResourceAlreadyLeased)
      else Done (Inr ()))"

definition unregister_remove :: "string \<Rightarrow> 'a fabric \<Rightarrow> bool \<times> 'a fabric" where
  "unregister_remove rid F = (has_key (resources F) rid, F\<lparr>resources := AList.delete rid (resources F)\<rparr>)"

text \<open>Run without interruption, the sections are the methods.\<close>

lemma lease_exclusive_sections:
  "lease_exclusive rid owner ttl now now' F =
     (case lease_look rid F of Inl e \<Rightarrow> (Done (Inl e), F) | Inr _ \<Rightarrow> lease_commit rid owner ttl now now' F)"
  by (simp add: lease_exclusive_def lease_look_def lease_commit_def split: option.split)

lemma unregister_sections:
  "unregister rid F =
     (case unregister_check rid F of
        Panicked \<Rightarrow> (Panicked, F)
      | Done (Inl e) \<Rightarrow> (Done (Inl e), F)
      | Done (Inr _) \<Rightarrow> (case unregister_remove rid F of (b, F') \<Rightarrow> (Done (Inr b), F')))"
  by (simp add: unregister_def unregister_check_def unregister_remove_def)

subsection \<open>Tasks\<close>

datatype 'a task =
    CallRegister resource
  | CallRegisterAdapter 'a
  | CallHeartbeat string
  | LeaseLook string string duration
  | LeaseCommit string string duration
  | RenewCommit lease duration
  | UnregisterCheck string
  | UnregisterRemove string
  | AttachLook string lease
  | AttachCheck string lease resource
  | AttachCall string lease resource
  | AttachRecord string lease
  | ReleaseCheck lease
  | ReleaseTake lease
  | ReleaseLook string lease
  | ReleaseCall string lease resource
  | ReleaseFinish lease

fun takes_lease_lock :: "'a task \<Rightarrow> bool" where
  "takes_lease_lock (LeaseCommit _ _ _) = True"
| "takes_lease_lock (RenewCommit _ _) = True"
| "takes_lease_lock (UnregisterCheck _) = True"
| "takes_lease_lock (AttachCheck _ _ _) = True"
| "takes_lease_lock (ReleaseCheck _) = True"
| "takes_lease_lock (ReleaseFinish _) = True"
| "takes_lease_lock _ = False"

fun keeps_lease_lock :: "'a task \<Rightarrow> bool" where
  "keeps_lease_lock (AttachCall _ _ _) = True"
| "keeps_lease_lock (AttachRecord _ _) = True"
| "keeps_lease_lock _ = False"

text \<open>The next section of a task: what callers learn about leases, what is left to do, the fabric.\<close>

fun advance ::
  "('a, 'w) adapter_ops \<Rightarrow> instant \<Rightarrow> instant \<Rightarrow> 'w \<Rightarrow> 'a task \<Rightarrow> 'a fabric \<Rightarrow> event \<times> 'a task option \<times> 'a fabric"
where
  "advance ops now now' w (CallRegister r) F = (Quiet, None, register r F)"
| "advance ops now now' w (CallRegisterAdapter a) F = (Quiet, None, register_adapter ops a F)"
| "advance ops now now' w (CallHeartbeat node) F = (Quiet, None, heartbeat node now F)"
| "advance ops now now' w (LeaseLook rid owner ttl) F =
     (Quiet, case lease_look rid F of Inl _ \<Rightarrow> None | Inr _ \<Rightarrow> Some (LeaseCommit rid owner ttl), F)"
| "advance ops now now' w (LeaseCommit rid owner ttl) F =
     (case lease_commit rid owner ttl now now' F of
        (Done (Inr l), F') \<Rightarrow> (Granted l (now' + int ttl), None, F')
      | (_, F') \<Rightarrow> (Quiet, None, F'))"
| "advance ops now now' w (RenewCommit l ttl) F =
     (case renew_lease l ttl now now' F of
        (Done (Inr l'), F') \<Rightarrow> (Renewed l' (now' + int ttl), None, F')
      | (_, F') \<Rightarrow> (Quiet, None, F'))"
| "advance ops now now' w (UnregisterCheck rid) F =
     (Quiet, case unregister_check rid F of Done (Inr _) \<Rightarrow> Some (UnregisterRemove rid) | _ \<Rightarrow> None, F)"
| "advance ops now now' w (UnregisterRemove rid) F = (Quiet, None, snd (unregister_remove rid F))"
| "advance ops now now' w (AttachLook n l) F =
     (Quiet, case resource (lease_resource l) F of None \<Rightarrow> None | Some r \<Rightarrow> Some (AttachCheck n l r), F)"
| "advance ops now now' w (AttachCheck n l r) F =
     (Quiet, if \<not> leases_poisoned F \<and> authorized now l F then Some (AttachCall n l r) else None, F)"
| "advance ops now now' w (AttachCall n l r) F =
     (case map_of (adapters F) n of
        None \<Rightarrow> (Quiet, None, F)
      | Some a \<Rightarrow>
          (case ad_attach ops a r l w of
             (out, a', _) \<Rightarrow>
               (Quiet, if is_ok out then Some (AttachRecord n l) else None,
                F\<lparr>adapters := AList.update n a' (adapters F)\<rparr>)))"
| "advance ops now now' w (AttachRecord n l) F =
     (Quiet, None, F\<lparr>attachments := AList.update (lease_resource l) n (attachments F)\<rparr>)"
| "advance ops now now' w (ReleaseCheck l) F =
     (Quiet, if \<not> leases_poisoned F \<and> holds l F then Some (ReleaseTake l) else None, F)"
| "advance ops now now' w (ReleaseTake l) F =
     (Quiet,
      case map_of (attachments F) (lease_resource l) of
        None \<Rightarrow> Some (ReleaseFinish l)
      | Some n \<Rightarrow> Some (ReleaseLook n l),
      F\<lparr>attachments := AList.delete (lease_resource l) (attachments F)\<rparr>)"
| "advance ops now now' w (ReleaseLook n l) F =
     (Quiet,
      case resource (lease_resource l) F of
        None \<Rightarrow> Some (ReleaseFinish l)
      | Some r \<Rightarrow> Some (ReleaseCall n l r),
      F)"
| "advance ops now now' w (ReleaseCall n l r) F =
     (case map_of (adapters F) n of
        None \<Rightarrow> (Quiet, Some (ReleaseFinish l), F)
      | Some a \<Rightarrow>
          (case ad_detach ops a r l w of
             (out, a', _) \<Rightarrow>
               (Quiet, if is_ok out then Some (ReleaseFinish l) else None,
                F\<lparr>adapters := AList.update n a' (adapters F)\<rparr>)))"
| "advance ops now now' w (ReleaseFinish l) F =
     (if leases_poisoned F then (Quiet, None, F)
      else case release_finish l F of
             (Inr _, F') \<Rightarrow> (Released l, None, F')
           | (Inl _, F') \<Rightarrow> (Quiet, None, F'))"

subsection \<open>Interleavings\<close>

type_synonym 'a threads = "(nat \<times> 'a task) list"

definition may_run :: "'a threads \<Rightarrow> nat \<Rightarrow> 'a task \<Rightarrow> bool" where
  "may_run ts i tk = (takes_lease_lock tk \<longrightarrow> list_all (\<lambda>(j, other). j = i \<or> \<not> keeps_lease_lock other) ts)"

fun leave :: "nat \<Rightarrow> 'a task option \<Rightarrow> 'a threads \<Rightarrow> 'a threads" where
  "leave i None ts = AList.delete i ts"
| "leave i (Some tk) ts = AList.update i tk ts"

fun entry_point :: "'a task \<Rightarrow> bool" where
  "entry_point (CallRegister _) = True"
| "entry_point (CallRegisterAdapter _) = True"
| "entry_point (CallHeartbeat _) = True"
| "entry_point (LeaseLook _ _ _) = True"
| "entry_point (RenewCommit _ _) = True"
| "entry_point (UnregisterCheck _) = True"
| "entry_point (AttachLook _ _) = True"
| "entry_point (ReleaseCheck _) = True"
| "entry_point _ = False"

inductive interleaving ::
  "('a, 'w) adapter_ops \<Rightarrow> instant \<Rightarrow> 'a threads \<Rightarrow> 'a fabric \<Rightarrow> event list \<Rightarrow> bool"
  for ops where
  idle: "interleaving ops t [] default_fabric []"
| call: "interleaving ops t ts F evs \<Longrightarrow> map_of ts i = None \<Longrightarrow> entry_point tk
    \<Longrightarrow> interleaving ops t (AList.update i tk ts) F evs"
| run: "interleaving ops t ts F evs \<Longrightarrow> t \<le> now \<Longrightarrow> now \<le> now' \<Longrightarrow> map_of ts i = Some tk \<Longrightarrow> may_run ts i tk
    \<Longrightarrow> advance ops now now' w tk F = (ev, tk', F') \<Longrightarrow> interleaving ops now' (leave i tk' ts) F' (ev # evs)"

text \<open>A task that runs alone does to the fabric what its method does; no method has more than five sections.\<close>

primrec alone :: "('a, 'w) adapter_ops \<Rightarrow> instant \<Rightarrow> instant \<Rightarrow> 'w \<Rightarrow> nat \<Rightarrow> 'a task \<Rightarrow> 'a fabric \<Rightarrow> 'a fabric" where
  "alone ops now now' w 0 tk F = F"
| "alone ops now now' w (Suc n) tk F =
     (case advance ops now now' w tk F of
        (_, None, F') \<Rightarrow> F'
      | (_, Some tk', F') \<Rightarrow> alone ops now now' w n tk' F')"

lemma lease_alone: "alone ops now now' w 2 (LeaseLook rid owner ttl) F = snd (lease_exclusive rid owner ttl now now' F)"
  by (simp add: numeral_eq_Suc lease_exclusive_sections split: sum.split prod.split outcome.split)

lemma unregister_alone: "alone ops now now' w 2 (UnregisterCheck rid) F = snd (unregister rid F)"
  by (simp add: numeral_eq_Suc unregister_sections split: sum.split prod.split outcome.split)

lemma attach_alone: "alone ops now now' w 4 (AttachLook n l) F = fst (snd (attach ops n l now F w))"
  by (auto simp: numeral_eq_Suc attach_def split: option.split sum.split prod.split)

lemma release_alone: "alone ops now now' w 5 (ReleaseCheck l) F = fst (snd (release ops l F w))"
proof (cases "\<not> leases_poisoned F \<and> holds l F")
  case True
  note steps = numeral_eq_Suc release_def release_detach_def release_finish_def holds_def resource_def
  show ?thesis
  proof (cases "map_of (attachments F) (lease_resource l)")
    case None
    then show ?thesis using True by (simp add: steps)
  next
    case attached: (Some n)
    show ?thesis
    proof (cases "map_of (resources F) (lease_resource l)")
      case None
      then show ?thesis using True attached by (simp add: steps)
    next
      case res: (Some r)
      show ?thesis
      proof (cases "map_of (adapters F) n")
        case None
        then show ?thesis using True attached res by (simp add: steps)
      next
        case (Some a)
        obtain out a' w' where d: "ad_detach ops a r l w = (out, a', w')"
          by (cases "ad_detach ops a r l w") auto
        show ?thesis
          by (cases out) (use True attached res Some d in \<open>simp_all add: steps\<close>)
      qed
    qed
  qed
qed (auto simp: numeral_eq_Suc release_def)

subsection \<open>Promises survive every schedule\<close>

lemma move_advance:
  assumes "advance ops now now' w tk F = (ev, tk', F')"
  shows "lease_move now (leases F) (next_lease_id F) ev (leases F') (next_lease_id F')"
proof (cases tk)
  case (LeaseCommit rid owner ttl)
  then show ?thesis
    using assms by (auto simp: lease_commit_def Let_def split: option.splits if_splits intro: lease_move.intros)
next
  case (RenewCommit l ttl)
  then have "exec ops (OpRenew l ttl) now now' w F = (ev, F')"
    using assms by (auto split: prod.splits outcome.splits sum.splits)
  then show ?thesis by (rule move_renew)
next
  case (ReleaseFinish l)
  then show ?thesis
    using assms
    by (auto simp: release_finish_def holds_def split: if_splits option.splits intro: lease_move.intros)
qed (use assms in \<open>auto simp: register_def register_adapter_def heartbeat_def unregister_remove_def
       split: option.splits prod.splits intro: lease_move.stay\<close>)

lemma interleaving_ledger:
  "interleaving ops t ts F evs \<Longrightarrow> length evs < 2 ^ 64 \<Longrightarrow> ledger t (leases F) (next_lease_id F) evs"
proof (induction rule: interleaving.induct)
  case (idle t)
  show ?case by (simp add: default_fabric_def ledger_start)
next
  case (run t ts F evs now now' i tk w ev tk' F')
  from run have "ledger t (leases F) (next_lease_id F) evs" by simp
  from ledger_move [OF move_advance [OF run(6)] this] run
  show ?case by (auto intro: ledger_weaken)
qed simp

subsection \<open>Schedules\<close>

text \<open>Concrete schedules: a thread calls a method, or runs its next section at some time.\<close>

datatype 'a choice = Enter nat "'a task" | Step nat instant

fun schedule ::
  "('a, 'w) adapter_ops \<Rightarrow> 'w \<Rightarrow> 'a choice list \<Rightarrow> instant \<times> 'a threads \<times> 'a fabric \<times> event list
     \<Rightarrow> (instant \<times> 'a threads \<times> 'a fabric \<times> event list) option"
where
  "schedule ops w [] S = Some S"
| "schedule ops w (Enter i tk # cs) (t, ts, F, evs) =
     (if has_key ts i \<or> \<not> entry_point tk then None
      else schedule ops w cs (t, AList.update i tk ts, F, evs))"
| "schedule ops w (Step i now # cs) (t, ts, F, evs) =
     (case map_of ts i of
        None \<Rightarrow> None
      | Some tk \<Rightarrow>
          if now < t \<or> \<not> may_run ts i tk then None
          else case advance ops now now w tk F of
                 (ev, tk', F') \<Rightarrow> schedule ops w cs (now, leave i tk' ts, F', ev # evs))"

lemma schedule_interleaving:
  "schedule ops w cs (t, ts, F, evs) = Some (t', ts', F', evs') \<Longrightarrow> interleaving ops t ts F evs
     \<Longrightarrow> interleaving ops t' ts' F' evs'"
proof (induction ops w cs "(t, ts, F, evs)" arbitrary: t ts F evs rule: schedule.induct)
  case (2 ops w i tk cs t ts F evs)
  then show ?case by (auto simp: has_key_def split: if_splits intro: interleaving.call)
next
  case (3 ops w i now cs t ts F evs)
  then obtain tk ev tk' F1 where a: "map_of ts i = Some tk" "t \<le> now" "may_run ts i tk"
      "advance ops now now w tk F = (ev, tk', F1)"
      "schedule ops w cs (now, leave i tk' ts, F1, ev # evs) = Some (t', ts', F', evs')"
    by (auto split: option.splits if_splits prod.splits)
  have "interleaving ops now (leave i tk' ts) F1 (ev # evs)"
    by (rule interleaving.run [OF 3(3) a(2) order_refl a(1,3,4)])
  with 3(1) [OF a(1) _ a(4) [symmetric] refl a(5)] a(2,3) show ?case by simp
qed simp

lemmas schedule_reaches = schedule_interleaving [OF _ interleaving.idle]

definition demo_setup :: "nauti_adapter choice list" where
  "demo_setup = [Enter 0 (CallRegister demo_gpu), Step 0 0, Enter 0 (CallRegisterAdapter (GpuLocalAdapter [])), Step 0 0]"

text \<open>Thread 0 leases the GPU while thread 1 unregisters it.\<close>

definition demo_race :: "nauti_adapter choice list" where
  "demo_race = demo_setup @ [Enter 0 (LeaseLook ''g'' ''o'' 100), Enter 1 (UnregisterCheck ''g''),
     Step 0 1, Step 1 2, Step 0 5, Step 1 6]"

text \<open>Thread 1 starts to release lease 1 and is slow; the lease expires, thread 0 leases and attaches
  the GPU.\<close>

definition demo_slow_release :: "nauti_adapter choice list" where
  "demo_slow_release = demo_setup @ [Enter 0 (LeaseLook ''g'' ''o'' 100), Step 0 5, Step 0 5,
     Enter 1 (ReleaseCheck demo_lease), Step 1 6,
     Enter 0 (LeaseLook ''g'' ''p'' 100), Step 0 110, Step 0 110,
     Enter 0 (AttachLook ''gpu-local'' demo_lease2), Step 0 111, Step 0 111, Step 0 111, Step 0 111]"

lemmas demo_schedule_defs = demo_defs demo_lease2_def demo_setup_def has_key_def may_run_def lease_look_def
  lease_commit_def unregister_check_def unregister_remove_def resource_def prune_def instant_add_def instant_limit_def
  nanos_per_sec_def authorized_def holds_def gpu_local_attach_def gpu_local_id_def Let_def

lemma demo_race_runs:
  "\<exists>F. schedule demo_ops bare_host demo_race (0, [], default_fabric, [])
       = Some (6, [], F, [Quiet, Granted demo_lease 105, Quiet, Quiet, Quiet, Quiet]) \<and> resource ''g'' F = None"
  by (simp add: demo_race_def demo_schedule_defs)

lemma demo_slow_release_runs:
  "\<exists>F. schedule demo_ops bare_host demo_slow_release (0, [], default_fabric, [])
       = Some (111, [(1, ReleaseTake demo_lease)], F,
           Quiet # Quiet # Quiet # Quiet # Granted demo_lease2 210 # Quiet # Quiet # Granted demo_lease 105 # Quiet # Quiet # [Quiet])
     \<and> map_of (attachments F) ''g'' = Some ''gpu-local'' \<and> \<not> holds demo_lease F \<and> authorized 111 demo_lease2 F"
  by (simp add: demo_slow_release_def demo_schedule_defs)

subsection \<open>Properties of the shared fabric\<close>

text \<open>C3. Threads cannot take a promised lease away: under every schedule of critical sections, of any
  number of threads, a granted lease is the recorded lease of its resource, and presenting it is
  accepted, until the expiry its holder was last told or its release, as long as fewer than \<open>2^64\<close>
  sections have run.\<close>

theorem promise_survives_every_schedule:
  assumes "interleaving ops t ts F evs" and "length evs < 2 ^ 64"
    and "granted evs l" and "promised evs (lease_id l) = Some e" and "t < e"
  shows "map_of (leases F) (lease_resource l) = Some \<lparr>al_lease = l, al_expires_at = e\<rparr> \<and> authorized t l F"
  using ledgerD(9) [OF interleaving_ledger [OF assms(1,2)] assms(3-5)] assms(5)
  by (simp add: authorized_def)

theorem promise_survives_every_schedule_witness:
  "\<exists>ts F evs. interleaving demo_ops 111 ts F evs \<and> granted evs demo_lease2 \<and> authorized 111 demo_lease2 F"
proof -
  obtain F evs where "schedule demo_ops bare_host demo_slow_release (0, [], default_fabric, [])
       = Some (111, [(1, ReleaseTake demo_lease)], F, evs)"
    and evs: "evs = Quiet # Quiet # Quiet # Quiet # Granted demo_lease2 210 # Quiet # Quiet # Granted demo_lease 105 # Quiet # Quiet # [Quiet]"
    using demo_slow_release_runs by blast
  then have i: "interleaving demo_ops 111 [(1, ReleaseTake demo_lease)] F evs"
    by (intro schedule_reaches)
  have "granted evs demo_lease2" "promised evs (lease_id demo_lease2) = Some 210" "length evs < 2 ^ 64"
    unfolding evs by simp_all
  with promise_survives_every_schedule [OF i this(3,1,2)] i show ?thesis by auto
qed

text \<open>C32. A lease can be orphaned: two threads can reach a state in which a lease is promised and recorded,
  and its resource is not registered any more. Run one after the other the same calls cannot.\<close>

theorem unregister_races_with_lease:
  "\<exists>F evs. interleaving demo_ops 6 [] F evs \<and> granted evs demo_lease
     \<and> promised evs (lease_id demo_lease) = Some 105 \<and> has_key (leases F) ''g'' \<and> \<not> has_key (resources F) ''g''"
proof -
  obtain F where r: "schedule demo_ops bare_host demo_race (0, [], default_fabric, [])
       = Some (6, [], F, [Quiet, Granted demo_lease 105, Quiet, Quiet, Quiet, Quiet])" "resource ''g'' F = None"
    using demo_race_runs by blast
  note i = schedule_reaches [OF r(1)]
  have "map_of (leases F) ''g'' = Some \<lparr>al_lease = demo_lease, al_expires_at = 105\<rparr>"
    using ledgerD(9) [OF interleaving_ledger [OF i], of demo_lease 105] by (simp add: demo_lease_def)
  then show ?thesis
    using i r(2) by (intro exI [of _ F] exI [of _ "[Quiet, Granted demo_lease 105, Quiet, Quiet, Quiet, Quiet]"])
      (simp add: has_key_def resource_def)
qed

text \<open>C33. A slow release can take another lease's attachment: when the lease to be released was replaced
  between the check and the next section, that section forgets the attachment of the lease that is
  now in force, so that its own release will not detach it; the slow release then fails and the
  lease table is untouched.\<close>

theorem slow_release_forgets_another_attachment:
  assumes "interleaving ops t ts F evs" and "map_of ts i = Some (ReleaseTake l)"
    and "map_of (attachments F) (lease_resource l) = Some n" and "\<not> holds l F"
  shows "\<exists>ts' F'. interleaving ops t ts' F' (Quiet # evs) \<and> map_of (attachments F') (lease_resource l) = None
     \<and> leases F' = leases F \<and> fst (release_finish l F') = Inl LeaseNotFound"
proof -
  let ?F = "F\<lparr>attachments := AList.delete (lease_resource l) (attachments F)\<rparr>"
  have "interleaving ops t (leave i (Some (ReleaseLook n l)) ts) ?F (Quiet # evs)"
    by (rule interleaving.run [OF assms(1) order_refl order_refl assms(2), where w = w for w])
      (simp_all add: may_run_def assms(3))
  then show ?thesis
    using assms(4) by (intro exI [of _ "leave i (Some (ReleaseLook n l)) ts"] exI [of _ ?F])
      (simp add: get_delete release_finish_def holds_def)
qed

theorem slow_release_forgets_another_attachment_witness:
  "\<exists>(F :: nauti_adapter fabric). authorized 111 demo_lease2 F \<and> map_of (attachments F) ''g'' = Some ''gpu-local''
     \<and> (\<exists>ts' F' evs. interleaving demo_ops 111 ts' F' evs \<and> map_of (attachments F') ''g'' = None \<and> leases F' = leases F)"
proof -
  obtain F evs where s: "schedule demo_ops bare_host demo_slow_release (0, [], default_fabric, [])
       = Some (111, [(1, ReleaseTake demo_lease)], F, evs)"
    and F: "map_of (attachments F) ''g'' = Some ''gpu-local''" "\<not> holds demo_lease F" "authorized 111 demo_lease2 F"
    using demo_slow_release_runs by blast
  have g: "lease_resource demo_lease = ''g''"
    by (simp add: demo_lease_def)
  obtain ts' F' where "interleaving demo_ops 111 ts' F' (Quiet # evs)" "map_of (attachments F') ''g'' = None"
      "leases F' = leases F"
    using slow_release_forgets_another_attachment [OF schedule_reaches [OF s], of 1 demo_lease "''gpu-local''"] F(1,2)
    unfolding g by auto
  with F show ?thesis by blast
qed

subsection \<open>Progress\<close>

text \<open>The sections a task has left, at most.\<close>

fun sections_left :: "'a task \<Rightarrow> nat" where
  "sections_left (LeaseLook _ _ _) = 2"
| "sections_left (UnregisterCheck _) = 2"
| "sections_left (AttachLook _ _) = 4"
| "sections_left (AttachCheck _ _ _) = 3"
| "sections_left (AttachCall _ _ _) = 2"
| "sections_left (ReleaseCheck _) = 5"
| "sections_left (ReleaseTake _) = 4"
| "sections_left (ReleaseLook _ _) = 3"
| "sections_left (ReleaseCall _ _ _) = 2"
| "sections_left _ = 1"

lemma advance_shortens: "advance ops now now' w tk F = (ev, Some tk', F') \<Longrightarrow> sections_left tk' < sections_left tk"
  by (cases tk) (auto split: option.splits sum.splits outcome.splits prod.splits if_splits)

lemma sections_left_pos: "0 < sections_left tk"
  by (cases tk) auto

definition work_left :: "'a threads \<Rightarrow> nat" where
  "work_left ts = sum_list (map (\<lambda>(_, tk). sections_left tk) ts)"

lemma work_left_delete_le: "work_left (AList.delete i ts) \<le> work_left ts"
  unfolding work_left_def AList.delete_eq by (induction ts) auto

lemma work_left_Cons: "work_left ((j, tk) # ts) = sections_left tk + work_left ts"
  by (simp add: work_left_def)

lemma work_left_delete: "map_of ts i = Some tk \<Longrightarrow> work_left (AList.delete i ts) < work_left ts"
proof (induction ts)
  case (Cons jt ts)
  obtain j tk' where jt: "jt = (j, tk')" by (cases jt)
  show ?case
  proof (cases "j = i")
    case True
    then show ?thesis
      using work_left_delete_le [of i ts] sections_left_pos [of tk'] by (simp add: jt work_left_Cons)
  qed (use Cons in \<open>simp add: jt work_left_Cons\<close>)
qed simp

lemma work_left_update:
  "map_of ts i = Some tk \<Longrightarrow> sections_left tk' < sections_left tk \<Longrightarrow> work_left (AList.update i tk' ts) < work_left ts"
  by (induction ts) (auto simp: work_left_def split: if_splits)

lemma interleaving_distinct: "interleaving ops t ts F evs \<Longrightarrow> distinct (keys ts)"
proof (induction rule: interleaving.induct)
  case (run t ts F evs now now' i tk w ev tk' F')
  then show ?case by (cases tk') (simp_all add: distinct_keys_delete distinct_keys_update)
qed (simp_all add: distinct_keys_update)

lemma some_thread_may_run:
  assumes "ts \<noteq> []" "distinct (keys ts)"
  obtains i tk where "map_of ts i = Some tk" "may_run ts i tk"
proof (cases "\<exists>i tk. map_of ts i = Some tk \<and> keeps_lease_lock tk")
  case True
  then obtain i tk where i: "map_of ts i = Some tk" "keeps_lease_lock tk" by blast
  then have "\<not> takes_lease_lock tk" by (cases tk) auto
  then show ?thesis
    using that [OF i(1)] by (simp add: may_run_def)
next
  case False
  obtain i tk ts' where ts: "ts = (i, tk) # ts'" using assms(1) by (cases ts) auto
  have "\<not> keeps_lease_lock other" if "(j, other) \<in> set ts" for j other
    using False that map_of_is_SomeI [OF assms(2) that] by blast
  then show ?thesis
    using that [of i tk] ts by (auto simp: may_run_def list_all_iff)
qed

text \<open>No schedule gets stuck: from every state that threads can reach, the calls that are under way can
  all be run to their end, within as many sections as they have left, without any time passing.\<close>

theorem every_call_can_finish:
  assumes "interleaving ops t ts F evs"
  shows "\<exists>F' more. length more \<le> work_left ts \<and> interleaving ops t [] F' (more @ evs)"
  using assms
proof (induction "work_left ts" arbitrary: ts F evs rule: less_induct)
  case less
  show ?case
  proof (cases "ts = []")
    case False
    then obtain i tk where i: "map_of ts i = Some tk" "may_run ts i tk"
      using interleaving_distinct [OF less(2)] by (rule some_thread_may_run)
    obtain ev tk' F1 where a: "advance ops t t undefined tk F = (ev, tk', F1)"
      by (cases "advance ops t t undefined tk F") auto
    have l: "work_left (leave i tk' ts) < work_left ts"
      using a i(1) by (cases tk') (auto simp: work_left_delete intro: work_left_update advance_shortens)
    from less(1) [OF l interleaving.run [OF less(2) order_refl order_refl i a]] obtain F' more where
      m: "length more \<le> work_left (leave i tk' ts)" "interleaving ops t [] F' (more @ ev # evs)" by blast
    then show ?thesis
      using l by (intro exI [of _ F'] exI [of _ "more @ [ev]"]) simp
  qed (use less(2) in \<open>intro exI [of _ F] exI [of _ "[]"], simp\<close>)
qed

theorem every_call_can_finish_witness:
  "\<exists>ts F evs F' more. interleaving demo_ops 111 ts F evs \<and> ts \<noteq> [] \<and> interleaving demo_ops 111 [] F' (more @ evs)"
proof -
  obtain F evs where "schedule demo_ops bare_host demo_slow_release (0, [], default_fabric, [])
       = Some (111, [(1, ReleaseTake demo_lease)], F, evs)"
    using demo_slow_release_runs by blast
  note i = schedule_reaches [OF this]
  with every_call_can_finish [OF i] show ?thesis by blast
qed


end
