(* ===== verification/Rpc_Auth.thy ===== *)
theory Rpc_Auth
  imports Resource_Model
begin

text \<open>
  The requests of the agent RPC and the authorization layer in front of it (\<open>rpc_auth.rs\<close>, the
  request type of \<open>rpc.rs\<close>, and the \<open>Debug\<close> formats its messages use). The four providers are one
  sum type, the object behind \<open>Arc<dyn AuthProvider>\<close>.
\<close>

subsection \<open>Requests\<close>

datatype rpc_request =
    Ping
  | ReqInventory
  | ReqFindAvailable resource_request
  | LeaseExclusive (rq_resource: string) (rq_owner: string) (rq_ttl_secs: u64)
  | Attach (rq_adapter: string) (rq_lease: lease)
  | Release lease
  | LeaseRenew lease u64
  | Heartbeat string

datatype rpc_error = RpcError (rpc_message: string)

datatype rpc_response =
    Pong
  | RespInventory "resource list"
  | RespFindAvailable "resource list"
  | Leased lease
  | Attached attachment
  | RespReleased
  | RespError rpc_error

subsection \<open>Debug formats\<close>

text \<open>\<open>{:?}\<close> of a \<open>str\<close>: quotes, with the escapes of the ASCII range.\<close>

definition escape_char :: "char \<Rightarrow> string" where
  "escape_char c =
     (let n = (of_char c :: nat) in
      if c = CHR 0x22 then [CHR 0x5C, CHR 0x22]
      else if c = CHR 0x5C then [CHR 0x5C, CHR 0x5C]
      else if n = 10 then [CHR 0x5C, CHR ''n'']
      else if n = 13 then [CHR 0x5C, CHR ''r'']
      else if n = 9 then [CHR 0x5C, CHR ''t'']
      else if n = 0 then [CHR 0x5C, CHR ''0'']
      else if n < 32 \<or> n = 127 then [CHR 0x5C, CHR ''u'', CHR ''{''] @ show_radix 16 n @ ''}''
      else [c])"

definition str_debug :: "string \<Rightarrow> string" where
  "str_debug s = [CHR 0x22] @ concat (map escape_char s) @ [CHR 0x22]"

text \<open>\<open>{:?}\<close> of a \<open>Duration\<close>: the largest unit, with the fraction and no trailing zeros.\<close>

definition with_fraction :: "nat \<Rightarrow> nat \<Rightarrow> nat \<Rightarrow> string" where
  "with_fraction whole frac digits =
     (let f = show_nat frac;
          padded = replicate (digits - length f) (CHR ''0'') @ f;
          trimmed = trim_end_matches (\<lambda>c. c = CHR ''0'') padded
      in if frac = 0 then show_nat whole else show_nat whole @ ''.'' @ trimmed)"

definition duration_debug :: "duration \<Rightarrow> string" where
  "duration_debug d =
     (if nanos_per_sec \<le> d then with_fraction (d div nanos_per_sec) (d mod nanos_per_sec) 9 @ ''s''
      else if 1000000 \<le> d then with_fraction (d div 1000000) (d mod 1000000) 6 @ ''ms''
      else if 1000 \<le> d then with_fraction (d div 1000) (d mod 1000) 3 @ [CHR 0xC2, CHR 0xB5] @ ''s''
      else if d = 0 then ''0ns'' else show_nat d @ ''ns'')"

subsection \<open>Rejections\<close>

record request_context =
  rc_remote_endpoint_id :: string
  rc_local_endpoint_id :: string

datatype auth_rejection =
    PolicyViolation string
  | NotConfigured string string
  | InvalidCredential string

fun auth_rejection_display :: "auth_rejection \<Rightarrow> string" where
  "auth_rejection_display (PolicyViolation reason) = ''policy violation: '' @ reason"
| "auth_rejection_display (NotConfigured adapter hint) = adapter @ '' not configured: '' @ hint"
| "auth_rejection_display (InvalidCredential reason) = ''invalid credential: '' @ reason"

definition rpc_error_of_auth :: "auth_rejection \<Rightarrow> rpc_error" where
  "rpc_error_of_auth e = RpcError (auth_rejection_display e)"

subsection \<open>Providers\<close>

datatype auth_provider =
    NoAuth
  | TtlBound (ttl_min: duration) (ttl_max: duration)
  | OAuth2Bearer (jwks_url: "string option") (audience: "string option")
  | SharedSecret (token: "string option")

definition default_ttl_bound :: auth_provider where
  "default_ttl_bound = TtlBound (from_secs 1) (from_secs 3600)"

fun auth_name :: "auth_provider \<Rightarrow> string" where
  "auth_name NoAuth = ''none''"
| "auth_name (TtlBound _ _) = ''ttl-bound''"
| "auth_name (OAuth2Bearer _ _) = ''oauth2-bearer''"
| "auth_name (SharedSecret _) = ''shared-secret''"

fun ttl_authorize :: "duration \<Rightarrow> duration \<Rightarrow> rpc_request \<Rightarrow> auth_rejection + unit" where
  "ttl_authorize lo hi (LeaseExclusive rid owner ttl_secs) =
     (let ttl = from_secs ttl_secs in
      if ttl < lo
      then Inl (PolicyViolation (''lease ttl '' @ duration_debug ttl @ '' for owner '' @ str_debug owner
             @ '' is below minimum '' @ duration_debug lo))
      else if hi < ttl
      then Inl (PolicyViolation (''lease ttl '' @ duration_debug ttl @ '' for owner '' @ str_debug owner
             @ '' exceeds maximum '' @ duration_debug hi))
      else Inr ())"
| "ttl_authorize lo hi _ = Inr ()"

definition oauth2_hint :: "string option \<Rightarrow> string option \<Rightarrow> string" where
  "oauth2_hint url aud =
     (case (url, aud) of
        (None, _) \<Rightarrow> ''set [auth] jwks_url in nauti-agent.toml''
      | (_, None) \<Rightarrow> ''set [auth] oauth.audience in nauti-agent.toml''
      | (Some _, Some _) \<Rightarrow> ''token validation not yet implemented; this is a documented stub'')"

definition shared_secret_hint :: "string option \<Rightarrow> string" where
  "shared_secret_hint tok =
     (case tok of
        None \<Rightarrow> ''set [auth] shared_secret.file in nauti-agent.toml''
      | Some _ \<Rightarrow> ''header check not yet implemented; needs X-Nauti-Token on RpcRequest'')"

fun authorize :: "auth_provider \<Rightarrow> request_context \<Rightarrow> rpc_request \<Rightarrow> auth_rejection + unit" where
  "authorize NoAuth ctx req = Inr ()"
| "authorize (TtlBound lo hi) ctx req = ttl_authorize lo hi req"
| "authorize (OAuth2Bearer url aud) ctx req = Inl (NotConfigured ''oauth2-bearer'' (oauth2_hint url aud))"
| "authorize (SharedSecret tok) ctx req = Inl (NotConfigured ''shared-secret'' (shared_secret_hint tok))"

subsection \<open>Facts\<close>

lemma authorize_ttl:
  "authorize (TtlBound lo hi) ctx (LeaseExclusive rid owner secs) = Inr () \<longleftrightarrow>
     lo \<le> from_secs secs \<and> from_secs secs \<le> hi"
  by (auto simp: Let_def)

lemma authorize_ttl_other:
  "(\<And>rid owner secs. req \<noteq> LeaseExclusive rid owner secs) \<Longrightarrow> authorize (TtlBound lo hi) ctx req = Inr ()"
  by (cases req) auto

lemma stub_rejects:
  "authorize (OAuth2Bearer url aud) ctx req \<noteq> Inr ()" "authorize (SharedSecret tok) ctx req \<noteq> Inr ()"
  by simp_all

end
