(* ===== verification/Rpc.thy ===== *)
theory Rpc
  imports Rpc_Auth Fabric_Properties
begin

text \<open>
  The agent RPC of \<open>rpc.rs\<close>: frames with a little-endian length, the dispatch of a request to the
  fabric, and the accept loop with the authorization in front of it. \<open>serde_json\<close> is third-party
  code: encoding and decoding are arguments of the functions that use them, and where a property
  needs it, that a value decodes from its own encoding is a hypothesis. The receiving half of a
  stream is the bytes that arrive and how the stream ends.
\<close>

unbundle bit_operations_syntax

subsection \<open>Frames\<close>

definition max_frame_bytes :: u32 where
  "max_frame_bytes = 16 * 1024 * 1024"

definition u32_to_le_bytes :: "u32 \<Rightarrow> bytes" where
  "u32_to_le_bytes n = map (\<lambda>i. ucast (drop_bit (8 * i) n)) [0, 1, 2, 3]"

fun u32_from_le_bytes :: "bytes \<Rightarrow> u32" where
  "u32_from_le_bytes [] = 0"
| "u32_from_le_bytes (b # bs) = ucast b OR push_bit 8 (u32_from_le_bytes bs)"

datatype rpc_transport_error =
    Io string
  | FrameTooLarge u32
  | ConnectionClosed
  | Json string
  | Iroh string

datatype stream_end = Eof | Broken string

record recv_stream =
  rs_bytes :: bytes
  rs_end :: stream_end

text \<open>\<open>read_exact\<close>: the bytes asked for, or the reason the stream ended before them.\<close>

definition read_exact :: "nat \<Rightarrow> recv_stream \<Rightarrow> (stream_end + bytes) \<times> recv_stream" where
  "read_exact n s =
     (if n \<le> length (rs_bytes s)
      then (Inr (take n (rs_bytes s)), s\<lparr>rs_bytes := drop n (rs_bytes s)\<rparr>)
      else (Inl (rs_end s), s\<lparr>rs_bytes := []\<rparr>))"

fun io_error :: "stream_end \<Rightarrow> rpc_transport_error" where
  "io_error Eof = Io ''early eof''"
| "io_error (Broken e) = Io e"

definition write_frame :: "('v \<Rightarrow> string + bytes) \<Rightarrow> 'v \<Rightarrow> rpc_transport_error + bytes" where
  "write_frame to_vec v =
     (case to_vec v of
        Inl e \<Rightarrow> Inl (Json e)
      | Inr payload \<Rightarrow>
          if 2 ^ 32 \<le> length payload then Inl (FrameTooLarge (- 1))
          else Inr (u32_to_le_bytes (of_nat (length payload)) @ payload))"

definition read_frame :: "(bytes \<Rightarrow> string + 'v) \<Rightarrow> recv_stream \<Rightarrow> (rpc_transport_error + 'v) \<times> recv_stream" where
  "read_frame from_slice s =
     (case read_exact 4 s of
        (Inl Eof, s1) \<Rightarrow> (Inl ConnectionClosed, s1)
      | (Inl (Broken e), s1) \<Rightarrow> (Inl (Io e), s1)
      | (Inr header, s1) \<Rightarrow>
          (let len = u32_from_le_bytes header in
           if max_frame_bytes < len then (Inl (FrameTooLarge len), s1)
           else case read_exact (unat len) s1 of
                  (Inl e, s2) \<Rightarrow> (Inl (io_error e), s2)
                | (Inr buf, s2) \<Rightarrow> (map_err Json (from_slice buf), s2)))"

subsection \<open>Dispatch\<close>

definition rpc_error_of_fabric :: "fabric_error \<Rightarrow> rpc_error" where
  "rpc_error_of_fabric e = RpcError (fabric_error_display e)"

fun response_of :: "('v \<Rightarrow> rpc_response) \<Rightarrow> fabric_error + 'v \<Rightarrow> rpc_response" where
  "response_of ok (Inr v) = ok v"
| "response_of ok (Inl e) = RespError (rpc_error_of_fabric e)"

fun map_outcome :: "('a \<Rightarrow> 'b) \<Rightarrow> 'a outcome \<Rightarrow> 'b outcome" where
  "map_outcome f (Done v) = Done (f v)"
| "map_outcome f Panicked = Panicked"

fun dispatch ::
  "('a, 'w) adapter_ops \<Rightarrow> instant \<Rightarrow> instant \<Rightarrow> rpc_request \<Rightarrow> 'a fabric \<Rightarrow> 'w
     \<Rightarrow> rpc_response outcome \<times> 'a fabric \<times> 'w"
where
  "dispatch ops now now' Ping F w = (Done Pong, F, w)"
| "dispatch ops now now' ReqInventory F w = (Done (RespInventory (list_resources F)), F, w)"
| "dispatch ops now now' (ReqFindAvailable q) F w = (map_outcome RespFindAvailable (find_available q F), F, w)"
| "dispatch ops now now' (LeaseExclusive rid owner ttl_secs) F w =
     (case lease_exclusive rid owner (from_secs ttl_secs) now now' F of
        (out, F') \<Rightarrow> (map_outcome (response_of Leased) out, F', w))"
| "dispatch ops now now' (Attach adapter l) F w =
     (case attach ops adapter l now F w of
        (out, F', w') \<Rightarrow> (map_outcome (response_of Attached) out, F', w'))"
| "dispatch ops now now' (Release l) F w =
     (case release ops l F w of
        (out, F', w') \<Rightarrow> (map_outcome (response_of (\<lambda>_. RespReleased)) out, F', w'))"
| "dispatch ops now now' (LeaseRenew l ttl_secs) F w =
     (case renew_lease l (from_secs ttl_secs) now now' F of
        (out, F') \<Rightarrow> (map_outcome (response_of Leased) out, F', w))"
| "dispatch ops now now' (Heartbeat node) F w = (Done Pong, heartbeat node now F, w)"

subsection \<open>The accept loop\<close>

definition handle ::
  "('a, 'w) adapter_ops \<Rightarrow> auth_provider \<Rightarrow> request_context \<Rightarrow> instant \<Rightarrow> instant \<Rightarrow> rpc_request \<Rightarrow> 'a fabric \<Rightarrow> 'w
     \<Rightarrow> rpc_response outcome \<times> 'a fabric \<times> 'w"
where
  "handle ops auth ctx now now' req F w =
     (case authorize auth ctx req of
        Inr _ \<Rightarrow> dispatch ops now now' req F w
      | Inl rejection \<Rightarrow> (Done (RespError (rpc_error_of_auth rejection)), F, w))"

text \<open>
  What the loop of \<open>FabricAgent::accept\<close> needs from outside: the codec, the clock readings of the
  n-th request, whether the peer closed the connection when a read fails, and whether the n-th
  write fails.
\<close>

record accept_env =
  ae_from_slice :: "bytes \<Rightarrow> string + rpc_request"
  ae_to_vec :: "rpc_response \<Rightarrow> string + bytes"
  ae_clock :: "nat \<Rightarrow> instant \<times> instant"
  ae_app_closed :: bool
  ae_write_error :: "nat \<Rightarrow> string option"

definition send_response :: "accept_env \<Rightarrow> nat \<Rightarrow> rpc_response \<Rightarrow> rpc_transport_error + bytes" where
  "send_response env i resp =
     (case write_frame (ae_to_vec env) resp of
        Inl e \<Rightarrow> Inl e
      | Inr frame \<Rightarrow> (case ae_write_error env i of Some e \<Rightarrow> Inl (Io e) | None \<Rightarrow> Inr frame))"

lemma read_exact_shrinks: "read_exact n s = (Inr b, s') \<Longrightarrow> length (rs_bytes s') + n = length (rs_bytes s)"
  by (auto simp: read_exact_def split: if_splits)

lemma read_frame_shrinks: "read_frame from_slice s = (Inr v, s') \<Longrightarrow> length (rs_bytes s') < length (rs_bytes s)"
  by (auto simp: read_frame_def Let_def split: prod.splits sum.splits stream_end.splits if_splits
      dest!: read_exact_shrinks)

function accept_loop ::
  "accept_env \<Rightarrow> ('a, 'w) adapter_ops \<Rightarrow> auth_provider \<Rightarrow> request_context \<Rightarrow> nat \<Rightarrow> recv_stream \<Rightarrow> bytes
     \<Rightarrow> 'a fabric \<Rightarrow> 'w \<Rightarrow> (rpc_transport_error + unit) outcome \<times> bytes \<times> 'a fabric \<times> 'w"
where
  "accept_loop env ops auth ctx i recv sent F w =
     (case read_frame (ae_from_slice env) recv of
        (Inl ConnectionClosed, _) \<Rightarrow> (Done (Inr ()), sent, F, w)
      | (Inl e, _) \<Rightarrow> (if ae_app_closed env then (Done (Inr ()), sent, F, w) else (Done (Inl e), sent, F, w))
      | (Inr req, recv') \<Rightarrow>
          (case handle ops auth ctx (fst (ae_clock env i)) (snd (ae_clock env i)) req F w of
             (Panicked, F', w') \<Rightarrow> (Panicked, sent, F', w')
           | (Done resp, F', w') \<Rightarrow>
               (case send_response env i resp of
                  Inl e \<Rightarrow> (Done (Inl e), sent, F', w')
                | Inr frame \<Rightarrow> accept_loop env ops auth ctx (i + 1) recv' (sent @ frame) F' w')))"
  by pat_completeness auto
termination
  by (relation "measure (\<lambda>(env, ops, auth, ctx, i, recv, sent, F, w). length (rs_bytes recv))")
    (auto dest!: sym [of "(_, _)"] read_frame_shrinks)

declare accept_loop.simps [simp del]

subsection \<open>Reachable addresses\<close>

fun is_direct_ip :: "ip_addr \<Rightarrow> bool" where
  "is_direct_ip (V4 a b c d) = (a = 10 \<or> (a = 192 \<and> b = 168) \<or> (a = 100 \<and> 64 \<le> b \<and> b < 128))"
| "is_direct_ip (V6 _) = False"

datatype transport_addr = IpAddr ip_addr u16 | OtherAddr string

record endpoint_addr =
  ea_id :: string
  ea_addrs :: "transport_addr list"

fun is_direct :: "transport_addr \<Rightarrow> bool" where
  "is_direct (IpAddr ip _) = is_direct_ip ip"
| "is_direct (OtherAddr _) = False"

definition prefer_direct :: "endpoint_addr \<Rightarrow> endpoint_addr" where
  "prefer_direct a =
     (let direct = filter is_direct (ea_addrs a)
      in if direct = [] then a else \<lparr>ea_id = ea_id a, ea_addrs = direct\<rparr>)"

subsection \<open>Frame lemmas\<close>

lemma length_u32_to_le_bytes [simp]: "length (u32_to_le_bytes n) = 4"
  by (simp add: u32_to_le_bytes_def)

lemma u32_le_roundtrip: "u32_from_le_bytes (u32_to_le_bytes n) = n"
  unfolding u32_to_le_bytes_def
proof (rule bit_word_eqI, goal_cases)
  case (1 k)
  consider "k < 8" | "8 \<le> k" "k < 16" | "16 \<le> k" "k < 24" | "24 \<le> k"
    by linarith
  then show ?case
    using 1 by cases (auto simp: bit_simps)
qed

lemma read_exact_append [simp]:
  "length p = n \<Longrightarrow> read_exact n \<lparr>rs_bytes = p @ rest, rs_end = e\<rparr> = (Inr p, \<lparr>rs_bytes = rest, rs_end = e\<rparr>)"
  by (simp add: read_exact_def)

lemma unat_of_nat_len: "n < 2 ^ 32 \<Longrightarrow> unat (of_nat n :: u32) = n"
  by (simp add: unat_of_nat)

lemma max_frame_unat: "unat max_frame_bytes = 16777216"
  by (simp add: max_frame_bytes_def)

lemma write_then_read:
  assumes "write_frame to_vec v = Inr frame" "to_vec v = Inr payload" "length payload \<le> unat max_frame_bytes"
  shows "read_frame from_slice \<lparr>rs_bytes = frame @ rest, rs_end = e\<rparr>
    = (map_err Json (from_slice payload), \<lparr>rs_bytes = rest, rs_end = e\<rparr>)"
proof -
  have frame: "frame = u32_to_le_bytes (of_nat (length payload)) @ payload"
    using assms(1,2) by (auto simp: write_frame_def split: if_splits)
  have small: "length payload < 2 ^ 32"
    using assms(3) by (simp add: max_frame_unat)
  have "\<not> max_frame_bytes < of_nat (length payload)"
    using assms(3) by (simp add: word_less_nat_alt unat_of_nat_len [OF small])
  then show ?thesis
    using small by (simp add: read_frame_def frame u32_le_roundtrip Let_def unat_of_nat_len)
qed

lemma read_nothing: "read_frame from_slice \<lparr>rs_bytes = [], rs_end = Eof\<rparr> = (Inl ConnectionClosed, \<lparr>rs_bytes = [], rs_end = Eof\<rparr>)"
  by (simp add: read_frame_def read_exact_def)

end
