(* ===== verification/Config.thy ===== *)
theory Config
  imports Rpc_Auth Host_Os
begin

text \<open>
  The agent configuration (\<open>config.rs\<close>). The TOML parser is third-party code and an argument; what
  \<open>serde\<close> fills in for a missing key and what \<open>#[derive(Default)]\<close> gives are both written out,
  since they differ. The cargo features are a record of flags.
\<close>

record features =
  feat_auth_ttl :: bool
  feat_auth_oauth :: bool
  feat_auth_shared_secret :: bool
  feat_vfio :: bool
  feat_cloud_hypervisor :: bool

record fabric_config =
  fc_auto_refresh_interval :: u64

record ttl_config =
  tc_min_secs :: u64
  tc_max_secs :: u64

record oauth2_config =
  oc_jwks_url :: "string option"
  oc_audience :: "string option"
  oc_client_secrets_file :: "string option"

record shared_secret_config =
  sc_file :: "string option"

record auth_config =
  ac_method :: string
  ac_ttl :: ttl_config
  ac_oauth2 :: oauth2_config
  ac_shared_secret :: shared_secret_config

record vfio_config =
  vc_exclude_vendors :: "string option"
  vc_exclude_iommu_groups :: "string option"
  vc_auto_bind :: bool

record cloud_hypervisor_config =
  cc_binary :: string
  cc_socket_dir :: string
  cc_kernel :: "string option"
  cc_rootfs :: "string option"
  cc_vcpus :: u32
  cc_memory_mib :: u32

record agent_config =
  cfg_node :: string
  cfg_fabric :: fabric_config
  cfg_auth :: auth_config
  cfg_vfio :: vfio_config
  cfg_cloud_hypervisor :: cloud_hypervisor_config

subsection \<open>Defaults\<close>

text \<open>The functions \<open>serde\<close> calls for a key that is missing from a table that is present.\<close>

definition default_node :: string where "default_node = ''local''"
definition default_auth_method :: string where "default_auth_method = ''none''"
definition default_ttl_min :: u64 where "default_ttl_min = 1"
definition default_ttl_max :: u64 where "default_ttl_max = 3600"
definition default_ch_binary :: string where "default_ch_binary = ''/usr/bin/cloud-hypervisor''"
definition default_ch_socket_dir :: string where "default_ch_socket_dir = ''/var/run/nauti''"
definition default_vcpus :: u32 where "default_vcpus = 1"
definition default_memory_mib :: u32 where "default_memory_mib = 512"

text \<open>The derived \<open>Default\<close> of each struct: zero, empty or absent in every field.\<close>

definition fabric_config_default :: fabric_config where
  "fabric_config_default = \<lparr>fc_auto_refresh_interval = 0\<rparr>"

definition ttl_config_default :: ttl_config where
  "ttl_config_default = \<lparr>tc_min_secs = 0, tc_max_secs = 0\<rparr>"

definition oauth2_config_default :: oauth2_config where
  "oauth2_config_default = \<lparr>oc_jwks_url = None, oc_audience = None, oc_client_secrets_file = None\<rparr>"

definition shared_secret_config_default :: shared_secret_config where
  "shared_secret_config_default = \<lparr>sc_file = None\<rparr>"

definition auth_config_default :: auth_config where
  "auth_config_default = \<lparr>ac_method = default_auth_method, ac_ttl = ttl_config_default,
     ac_oauth2 = oauth2_config_default, ac_shared_secret = shared_secret_config_default\<rparr>"

definition vfio_config_default :: vfio_config where
  "vfio_config_default = \<lparr>vc_exclude_vendors = None, vc_exclude_iommu_groups = None, vc_auto_bind = False\<rparr>"

definition cloud_hypervisor_config_default :: cloud_hypervisor_config where
  "cloud_hypervisor_config_default = \<lparr>cc_binary = [], cc_socket_dir = [], cc_kernel = None, cc_rootfs = None,
     cc_vcpus = 0, cc_memory_mib = 0\<rparr>"

definition agent_config_default :: agent_config where
  "agent_config_default = \<lparr>cfg_node = [], cfg_fabric = fabric_config_default, cfg_auth = auth_config_default,
     cfg_vfio = vfio_config_default, cfg_cloud_hypervisor = cloud_hypervisor_config_default\<rparr>"

text \<open>
  What deserializing an \<open>[auth]\<close> table gives, from the values of its keys: the serde default
  function of \<open>method\<close>, the derived default of an absent subtable, the serde default functions
  of the keys an existing \<open>[auth.ttl]\<close> leaves out.
\<close>

definition ttl_config_of_table :: "u64 option \<times> u64 option \<Rightarrow> ttl_config" where
  "ttl_config_of_table t = \<lparr>tc_min_secs = unwrap_or (fst t) default_ttl_min, tc_max_secs = unwrap_or (snd t) default_ttl_max\<rparr>"

definition auth_config_of_table ::
  "string option \<Rightarrow> (u64 option \<times> u64 option) option \<Rightarrow> oauth2_config option \<Rightarrow> shared_secret_config option \<Rightarrow> auth_config"
where
  "auth_config_of_table meth ttl oauth2 secret =
     \<lparr>ac_method = unwrap_or meth default_auth_method,
      ac_ttl = (case ttl of None \<Rightarrow> ttl_config_default | Some t \<Rightarrow> ttl_config_of_table t),
      ac_oauth2 = unwrap_or oauth2 oauth2_config_default,
      ac_shared_secret = unwrap_or secret shared_secret_config_default\<rparr>"

subsection \<open>Loading\<close>

datatype config_error =
    ConfigNotFound string
  | ConfigUnreadable string
  | InvalidToml string
  | InvalidValue string
  | FeatureNotEnabled string

definition from_file :: "(string \<Rightarrow> string + agent_config) \<Rightarrow> host \<Rightarrow> string \<Rightarrow> config_error + agent_config" where
  "from_file toml_from_str h path =
     (if \<not> h_exists h path then Inr agent_config_default
      else case h_file h path of
        None \<Rightarrow> Inl (ConfigUnreadable path)
      | Some txt \<Rightarrow> map_err InvalidToml (toml_from_str txt))"

definition load :: "(string \<Rightarrow> string + agent_config) \<Rightarrow> host \<Rightarrow> config_error + agent_config" where
  "load toml_from_str h =
     from_file toml_from_str h (unwrap_or (h_env h ''NAUTI_AGENT_CONFIG'') ''/etc/nauti/agent.toml'')"

definition warn_if :: "bool \<Rightarrow> string \<Rightarrow> string list" where
  "warn_if b msg = (if b then [msg] else [])"

definition feature_warning :: "string \<Rightarrow> string \<Rightarrow> string" where
  "feature_warning meth feature =
     ''auth method '' @ [CHR 0x27] @ meth @ [CHR 0x27] @ '' selected but --features '' @ feature
       @ '' is not enabled; falling back to '' @ [CHR 0x27] @ ''none'' @ [CHR 0x27]"

definition validate :: "features \<Rightarrow> agent_config \<Rightarrow> string list" where
  "validate ft c =
     warn_if (ac_method (cfg_auth c) = ''ttl'' \<and> \<not> feat_auth_ttl ft)
       (feature_warning ''ttl'' ''auth-ttl'')
     @ warn_if (ac_method (cfg_auth c) = ''oauth2'' \<and> \<not> feat_auth_oauth ft)
       (feature_warning ''oauth2'' ''auth-oauth'')
     @ warn_if (ac_method (cfg_auth c) = ''shared-secret'' \<and> \<not> feat_auth_shared_secret ft)
       (feature_warning ''shared-secret'' ''auth-shared-secret'')
     @ warn_if (0 < fc_auto_refresh_interval (cfg_fabric c))
       ''fabric.auto_refresh_interval is set but not yet implemented in agent loop''
     @ warn_if (feat_vfio ft \<and> vc_auto_bind (cfg_vfio c))
       ''vfio.auto_bind is experimental; requires root and driverctl installed''
     @ warn_if (feat_cloud_hypervisor ft
         \<and> (cc_kernel (cfg_cloud_hypervisor c) = None \<or> cc_rootfs (cfg_cloud_hypervisor c) = None))
       ''cloud_hypervisor.kernel and rootfs should be set for VM launch to work''"

definition build_auth_provider :: "features \<Rightarrow> host \<Rightarrow> agent_config \<Rightarrow> auth_provider" where
  "build_auth_provider ft h c =
     (let a = cfg_auth c in
      if ac_method a = ''ttl''
      then if feat_auth_ttl ft
           then TtlBound (from_secs (tc_min_secs (ac_ttl a))) (from_secs (tc_max_secs (ac_ttl a)))
           else NoAuth
      else if ac_method a = ''oauth2''
      then if feat_auth_oauth ft then OAuth2Bearer (oc_jwks_url (ac_oauth2 a)) (oc_audience (ac_oauth2 a)) else NoAuth
      else if ac_method a = ''shared-secret''
      then if feat_auth_shared_secret ft
           then SharedSecret (map_option (\<lambda>p. trim (unwrap_or (h_file h p) [])) (sc_file (ac_shared_secret a)))
           else NoAuth
      else NoAuth)"

subsection \<open>Properties\<close>

text \<open>The provider that runs is the one the configuration names, provided its feature is
  compiled in; in every other case the agent runs without authorization, and when a known method
  was named the validation says so.\<close>

theorem provider_is_the_configured_one:
  "auth_name (build_auth_provider ft h c) =
     (if ac_method (cfg_auth c) = ''ttl'' \<and> feat_auth_ttl ft then ''ttl-bound''
      else if ac_method (cfg_auth c) = ''oauth2'' \<and> feat_auth_oauth ft then ''oauth2-bearer''
      else if ac_method (cfg_auth c) = ''shared-secret'' \<and> feat_auth_shared_secret ft then ''shared-secret''
      else ''none'')
   \<and> (ac_method (cfg_auth c) \<in> {''ttl'', ''oauth2'', ''shared-secret''} \<and> build_auth_provider ft h c = NoAuth
        \<longrightarrow> validate ft c \<noteq> [])"
  by (auto simp: build_auth_provider_def validate_def warn_if_def Let_def split: if_splits)

definition no_features :: features where
  "no_features = \<lparr>feat_auth_ttl = False, feat_auth_oauth = False, feat_auth_shared_secret = False,
     feat_vfio = False, feat_cloud_hypervisor = False\<rparr>"

definition demo_ttl_config :: agent_config where
  "demo_ttl_config = agent_config_default\<lparr>cfg_auth := auth_config_of_table (Some ''ttl'') None None None\<rparr>"

theorem provider_is_the_configured_one_witness: "validate no_features demo_ttl_config \<noteq> []"
  using provider_is_the_configured_one [of no_features bare_host demo_ttl_config]
  by (simp add: build_auth_provider_def no_features_def demo_ttl_config_def auth_config_of_table_def Let_def)

text \<open>A configuration that selects the ttl method without an \<open>[auth.ttl]\<close> table refuses every lease
  with a positive ttl, since the absent table is the derived default with both bounds zero; with an
  empty table the bounds are one second and one hour.\<close>

theorem ttl_without_table_refuses_leases:
  assumes "feat_auth_ttl ft" "cfg_auth c = auth_config_of_table (Some ''ttl'') ttl oauth2 secret" "0 < secs"
  shows "(ttl = None \<longrightarrow> authorize (build_auth_provider ft h c) ctx (LeaseExclusive rid owner secs) \<noteq> Inr ())
     \<and> (ttl = Some (None, None) \<longrightarrow>
          (authorize (build_auth_provider ft h c) ctx (LeaseExclusive rid owner secs) = Inr () \<longleftrightarrow> secs \<le> 3600))"
proof -
  have "0 < from_secs secs" "1 \<le> unat secs"
    using assms(3) by (simp_all add: from_secs_def nanos_per_sec_def word_less_nat_alt)
  moreover have "secs \<le> 3600 \<longleftrightarrow> unat secs \<le> 3600"
    by (simp add: word_le_nat_alt)
  ultimately show ?thesis
    using assms(1,2)
    by (auto simp: build_auth_provider_def Let_def auth_config_of_table_def ttl_config_default_def
        ttl_config_of_table_def default_ttl_min_def default_ttl_max_def from_secs_def nanos_per_sec_def
        simp del: ttl_authorize.simps authorize.simps simp flip: One_nat_def)
      (auto simp: Let_def from_secs_def nanos_per_sec_def split: if_splits)
qed

theorem ttl_without_table_refuses_leases_witness:
  "authorize (build_auth_provider (no_features\<lparr>feat_auth_ttl := True\<rparr>) bare_host demo_ttl_config)
     \<lparr>rc_remote_endpoint_id = ''r'', rc_local_endpoint_id = ''l''\<rparr> (LeaseExclusive ''g'' ''o'' 60) \<noteq> Inr ()"
  using ttl_without_table_refuses_leases [of "no_features\<lparr>feat_auth_ttl := True\<rparr>" demo_ttl_config None None None 60]
  by (simp add: demo_ttl_config_def)

end
