(* ===== verification/Rpc_Properties.thy ===== *)
theory Rpc_Properties
  imports Rpc Config
begin

text \<open>Properties of the agent RPC: framing, the accept loop, and what authorization guarantees.\<close>

subsection \<open>Framing\<close>

text \<open>C28. A value written as a frame is read back from the front of the stream, and exactly its bytes
  are consumed, provided its encoding is at most 16 MiB and decodes to it.\<close>

theorem frame_roundtrip:
  assumes "to_vec v = Inr payload" "from_slice payload = Inr v" "length payload \<le> unat max_frame_bytes"
  shows "\<exists>frame. write_frame to_vec v = Inr frame \<and> length frame = length payload + 4
     \<and> read_frame from_slice \<lparr>rs_bytes = frame @ rest, rs_end = e\<rparr> = (Inr v, \<lparr>rs_bytes = rest, rs_end = e\<rparr>)"
proof -
  have "length payload < 2 ^ 32"
    using assms(3) by (simp add: max_frame_unat)
  then have w: "write_frame to_vec v = Inr (u32_to_le_bytes (of_nat (length payload)) @ payload)"
    using assms(1) by (simp add: write_frame_def)
  from write_then_read [OF w assms(1,3), of from_slice rest e] w assms(2) show ?thesis
    by simp
qed

theorem frame_roundtrip_witness:
  "\<exists>frame. write_frame Inr [1, 2, 3 :: u8] = Inr frame \<and> length frame = 7
     \<and> read_frame Inr \<lparr>rs_bytes = frame @ [9], rs_end = Eof\<rparr> = (Inr [1, 2, 3], \<lparr>rs_bytes = [9], rs_end = Eof\<rparr>)"
  using frame_roundtrip [of Inr "[1, 2, 3 :: u8]" "[1, 2, 3]" Inr "[9]" Eof] by (simp add: max_frame_unat)

text \<open>The two ends disagree about the size of a frame: a payload between 16 MiB and 4 GiB is
  written without complaint and refused by every reader.\<close>

theorem oversized_frame_is_written_then_refused:
  assumes "to_vec v = Inr payload" "unat max_frame_bytes < length payload" "length payload < 2 ^ 32"
  shows "\<exists>frame. write_frame to_vec v = Inr frame
     \<and> fst (read_frame from_slice \<lparr>rs_bytes = frame @ rest, rs_end = e\<rparr>) = Inl (FrameTooLarge (of_nat (length payload)))"
proof -
  have "max_frame_bytes < of_nat (length payload)"
    using assms(2) by (simp add: word_less_nat_alt unat_of_nat_len [OF assms(3)])
  then show ?thesis
    using assms by (simp add: write_frame_def read_frame_def u32_le_roundtrip Let_def)
qed

theorem oversized_frame_is_written_then_refused_witness:
  "\<exists>frame. write_frame Inr (replicate 16777217 (0 :: u8)) = Inr frame
     \<and> fst (read_frame Inr \<lparr>rs_bytes = frame @ [], rs_end = Eof\<rparr>
         :: (rpc_transport_error + bytes) \<times> recv_stream) = Inl (FrameTooLarge 16777217)"
  using oversized_frame_is_written_then_refused [of Inr "replicate 16777217 (0 :: u8)" "replicate 16777217 0" Inr "[]" Eof]
  by (simp add: max_frame_unat)

subsection \<open>The accept loop\<close>

fun handle_all ::
  "('a, 'w) adapter_ops \<Rightarrow> auth_provider \<Rightarrow> request_context \<Rightarrow> (nat \<Rightarrow> instant \<times> instant) \<Rightarrow> nat \<Rightarrow> rpc_request list
     \<Rightarrow> 'a fabric \<Rightarrow> 'w \<Rightarrow> (rpc_response list \<times> 'a fabric \<times> 'w) option"
where
  "handle_all ops auth ctx clk i [] F w = Some ([], F, w)"
| "handle_all ops auth ctx clk i (req # reqs) F w =
     (case handle ops auth ctx (fst (clk i)) (snd (clk i)) req F w of
        (Panicked, _, _) \<Rightarrow> None
      | (Done resp, F', w') \<Rightarrow>
          (case handle_all ops auth ctx clk (i + 1) reqs F' w' of
             None \<Rightarrow> None
           | Some (resps, F'', w'') \<Rightarrow> Some (resp # resps, F'', w'')))"

definition encodes :: "(bytes \<Rightarrow> string + 'v) \<Rightarrow> 'v \<Rightarrow> bytes \<Rightarrow> bool" where
  "encodes from_slice v frame \<longleftrightarrow>
     (\<exists>payload. frame = u32_to_le_bytes (of_nat (length payload)) @ payload
        \<and> length payload \<le> unat max_frame_bytes \<and> from_slice payload = Inr v)"

lemma read_encoded:
  assumes "encodes from_slice v frame"
  shows "read_frame from_slice \<lparr>rs_bytes = frame @ rest, rs_end = e\<rparr> = (Inr v, \<lparr>rs_bytes = rest, rs_end = e\<rparr>)"
proof -
  obtain p where p: "frame = u32_to_le_bytes (of_nat (length p)) @ p" "length p \<le> unat max_frame_bytes"
    "from_slice p = Inr v"
    using assms by (auto simp: encodes_def)
  then have "write_frame (\<lambda>_ :: unit. Inr p) () = Inr frame"
    by (simp add: write_frame_def max_frame_unat)
  from write_then_read [OF this refl p(2), of from_slice rest e] p(3) show ?thesis
    by simp
qed

lemma accept_loop_serves:
  assumes "\<And>j. ae_write_error env j = None"
  shows "list_all2 (encodes (ae_from_slice env)) reqs frames \<Longrightarrow>
     handle_all ops auth ctx (ae_clock env) i reqs F w = Some (resps, F', w') \<Longrightarrow>
     list_all2 (\<lambda>r f. write_frame (ae_to_vec env) r = Inr f) resps out \<Longrightarrow>
     accept_loop env ops auth ctx i \<lparr>rs_bytes = concat frames, rs_end = Eof\<rparr> sent F w
       = (Done (Inr ()), sent @ concat out, F', w')"
proof (induction reqs arbitrary: i frames resps out sent F w)
  case Nil
  then show ?case
    by (subst accept_loop.simps) (simp add: read_nothing)
next
  case (Cons req reqs)
  obtain f fs where f: "frames = f # fs" "encodes (ae_from_slice env) req f" "list_all2 (encodes (ae_from_slice env)) reqs fs"
    using Cons.prems(1) by (auto simp: list_all2_Cons1)
  obtain resp F1 w1 resps' where
    h: "handle ops auth ctx (fst (ae_clock env i)) (snd (ae_clock env i)) req F w = (Done resp, F1, w1)"
    and rest: "handle_all ops auth ctx (ae_clock env) (i + 1) reqs F1 w1 = Some (resps', F', w')"
    and resps: "resps = resp # resps'"
    using Cons.prems(2) by (auto split: prod.splits outcome.splits option.splits)
  obtain o1 os where o: "out = o1 # os" "write_frame (ae_to_vec env) resp = Inr o1"
      "list_all2 (\<lambda>r f. write_frame (ae_to_vec env) r = Inr f) resps' os"
    using Cons.prems(3) resps by (auto simp: list_all2_Cons1)
  have "accept_loop env ops auth ctx i \<lparr>rs_bytes = concat frames, rs_end = Eof\<rparr> sent F w
      = accept_loop env ops auth ctx (i + 1) \<lparr>rs_bytes = concat fs, rs_end = Eof\<rparr> (sent @ o1) F1 w1"
    by (subst accept_loop.simps) (simp add: f(1) read_encoded [OF f(2)] h send_response_def o(2) assms)
  with Cons.IH [OF f(3) rest o(3), of "sent @ o1"] show ?case
    by (simp add: o(1))
qed

text \<open>C14. The agent serves a stream of requests in order: it authorizes and dispatches them one after
  the other on the fabric, answers each with one frame, and ends when the peer does.\<close>

theorem accept_serves_in_order:
  assumes "list_all2 (encodes (ae_from_slice env)) reqs frames"
    and "handle_all ops auth ctx (ae_clock env) 0 reqs F w = Some (resps, F', w')"
    and "list_all2 (\<lambda>r f. write_frame (ae_to_vec env) r = Inr f) resps out"
    and "\<And>j. ae_write_error env j = None"
  shows "accept_loop env ops auth ctx 0 \<lparr>rs_bytes = concat frames, rs_end = Eof\<rparr> [] F w
     = (Done (Inr ()), concat out, F', w')"
  using accept_loop_serves [OF assms(4,1-3), of "[]"] by simp

definition demo_ctx :: request_context where
  "demo_ctx = \<lparr>rc_remote_endpoint_id = ''r'', rc_local_endpoint_id = ''l''\<rparr>"

definition demo_env :: accept_env where
  "demo_env = \<lparr>ae_from_slice = (\<lambda>b. if b = [1] then Inr Ping else if b = [2] then Inr (LeaseExclusive ''g'' ''o'' 1)
       else Inl ''bad''),
     ae_to_vec = (\<lambda>r. case r of Pong \<Rightarrow> Inr [7] | Leased _ \<Rightarrow> Inr [8] | _ \<Rightarrow> Inr []),
     ae_clock = (\<lambda>i. (int i, int i)), ae_app_closed = False, ae_write_error = (\<lambda>_. None)\<rparr>"

theorem accept_serves_in_order_witness:
  "fst (accept_loop demo_env demo_ops NoAuth demo_ctx 0 \<lparr>rs_bytes = [1, 0, 0, 0, 1, 1, 0, 0, 0, 2], rs_end = Eof\<rparr> []
      demo_registered bare_host) = Done (Inr ())
   \<and> fst (snd (accept_loop demo_env demo_ops NoAuth demo_ctx 0 \<lparr>rs_bytes = [1, 0, 0, 0, 1, 1, 0, 0, 0, 2], rs_end = Eof\<rparr> []
      demo_registered bare_host)) = [1, 0, 0, 0, 7, 1, 0, 0, 0, 8]"
proof -
  let ?reqs = "[Ping, LeaseExclusive ''g'' ''o'' 1]"
  let ?frames = "[[1, 0, 0, 0, 1], [1, 0, 0, 0, 2]] :: bytes list"
  have le: "u32_to_le_bytes 1 = [1, 0, 0, 0]"
    by (simp add: u32_to_le_bytes_def)
  have e: "encodes f v [1, 0, 0, 0, b]" if "f [b] = Inr v" for f :: "bytes \<Rightarrow> string + rpc_request" and v b
    unfolding encodes_def using that by (intro exI [of _ "[b]"]) (simp add: le max_frame_unat)
  have enc: "list_all2 (encodes (ae_from_slice demo_env)) ?reqs ?frames"
    by (simp add: e demo_env_def)
  have "\<exists>F' w' l. handle_all demo_ops NoAuth demo_ctx (ae_clock demo_env) 0 ?reqs demo_registered bare_host
      = Some ([Pong, Leased l], F', w')"
    by (simp add: handle_def demo_env_def lease_exclusive_def demo_defs resource_def prune_def has_key_def
        instant_add_def instant_limit_def nanos_per_sec_def from_secs_def Let_def)
  then obtain F' w' l where h: "handle_all demo_ops NoAuth demo_ctx (ae_clock demo_env) 0 ?reqs demo_registered bare_host
      = Some ([Pong, Leased l], F', w')" by blast
  have "list_all2 (\<lambda>r f. write_frame (ae_to_vec demo_env) r = Inr f) [Pong, Leased l] [[1, 0, 0, 0, 7], [1, 0, 0, 0, 8]]"
    by (simp add: write_frame_def demo_env_def le)
  from accept_serves_in_order [OF enc h this] show ?thesis
    by (simp add: demo_env_def)
qed

subsection \<open>Authorization\<close>

lemma handle_rejected:
  "authorize auth ctx req = Inl e \<Longrightarrow>
     handle ops auth ctx now now' req F w = (Done (RespError (rpc_error_of_auth e)), F, w)"
  by (simp add: handle_def)

lemma accept_loop_rejecting:
  assumes "\<And>req. \<exists>e. authorize auth ctx req = Inl e"
  shows "\<exists>res out. accept_loop env ops auth ctx i recv sent F w = (Done res, out, F, w)"
  using assms
proof (induction env ops auth ctx i recv sent F w rule: accept_loop.induct)
  case (1 env ops auth ctx i recv sent F w)
  obtain rf recv' where rf: "read_frame (ae_from_slice env) recv = (rf, recv')"
    by (cases "read_frame (ae_from_slice env) recv")
  show ?case
  proof (cases rf)
    case (Inl e)
    then show ?thesis
      by (cases e) (subst accept_loop.simps, simp add: rf)+
  next
    case (Inr req)
    obtain e where "authorize auth ctx req = Inl e" using 1(2) by blast
    note h = handle_rejected [OF this, of ops "fst (ae_clock env i)" "snd (ae_clock env i)" F w]
    show ?thesis
    proof (cases "send_response env i (RespError (rpc_error_of_auth e))")
      case (Inl e')
      then show ?thesis by (subst accept_loop.simps) (simp add: rf Inr h)
    next
      case (Inr frame)
      have "\<exists>res out. accept_loop env ops auth ctx (i + 1) recv' (sent @ frame) F w = (Done res, out, F, w)"
        by (rule 1(1) [OF rf [symmetric] \<open>rf = Inr req\<close> h [symmetric] refl refl Inr 1(2)])
      then show ?thesis by (subst accept_loop.simps) (simp add: rf \<open>rf = Inr req\<close> h Inr)
    qed
  qed
qed

text \<open>C17. A provider that is not finished fails closed: an agent configured with the OAuth2 or the
  shared-secret provider never changes the fabric or the machine, whatever bytes a peer sends, and
  never panics.\<close>

theorem stub_providers_fail_closed:
  assumes "auth = OAuth2Bearer url aud \<or> auth = SharedSecret tok"
  shows "\<exists>res out. accept_loop env ops auth ctx 0 recv [] F w = (Done res, out, F, w)"
  by (rule accept_loop_rejecting) (use assms in auto)

theorem stub_providers_fail_closed_witness:
  "\<exists>res out. accept_loop demo_env demo_ops (SharedSecret None) demo_ctx 0
     \<lparr>rs_bytes = [1, 0, 0, 0, 2], rs_end = Eof\<rparr> [] demo_registered bare_host = (Done res, out, demo_registered, bare_host)"
  by (rule stub_providers_fail_closed [of _ None None None]) simp

text \<open>C30. Under the ttl policy a lease request cannot bring the lease lock down: as long as the clock
  plus the maximum ttl is representable it never panics on a healthy fabric, and every lease it
  grants expires within the configured window.\<close>

theorem ttl_policy_bounds_leases:
  assumes "\<not> leases_poisoned F" "now' + int hi < instant_limit"
    and "handle ops (TtlBound lo hi) ctx now now' (LeaseExclusive rid owner secs) F w = (out, F', w')"
  shows "out \<noteq> Panicked \<and> \<not> leases_poisoned F'
     \<and> (\<forall>l. out = Done (Leased l) \<longrightarrow>
          (\<exists>al. map_of (leases F') rid = Some al \<and> al_lease al = l
             \<and> now' + int lo \<le> al_expires_at al \<and> al_expires_at al \<le> now' + int hi))"
proof (cases "authorize (TtlBound lo hi) ctx (LeaseExclusive rid owner secs)")
  case (Inl e)
  then show ?thesis
    using assms by (auto simp: handle_def simp del: authorize.simps)
next
  case (Inr u)
  then have ttl: "lo \<le> from_secs secs" "from_secs secs \<le> hi"
    using authorize_ttl [of lo hi ctx rid owner secs] by simp_all
  then have "now' + int (from_secs secs) < instant_limit"
    using assms(2) by linarith
  then show ?thesis
    using assms(1,3) Inr ttl
    by (auto simp: handle_def lease_exclusive_def Let_def instant_add_def get_update simp del: authorize.simps
        split: option.splits if_splits)
qed

theorem ttl_policy_bounds_leases_witness:
  "let (out, F', w') = handle demo_ops default_ttl_bound demo_ctx 5 5 (LeaseExclusive ''g'' ''o'' 60) demo_registered bare_host
   in out \<noteq> Panicked \<and> \<not> leases_poisoned F'"
proof -
  obtain out F' w' where h: "handle demo_ops (TtlBound (from_secs 1) (from_secs 3600)) demo_ctx 5 5
      (LeaseExclusive ''g'' ''o'' 60) demo_registered bare_host = (out, F', w')"
    by (rule prod_cases3)
  have "\<not> leases_poisoned demo_registered" "5 + int (from_secs 3600) < instant_limit"
    by (simp_all add: demo_defs from_secs_def instant_limit_def nanos_per_sec_def)
  from ttl_policy_bounds_leases [OF this h] h show ?thesis
    by (simp add: default_ttl_bound_def)
qed

text \<open>The ttl policy does not look at renewals: the holder of a live lease can renew it with a ttl
  that panics and poisons the lease lock, whatever the configured bounds are.\<close>

theorem ttl_policy_ignores_renewals:
  assumes "\<not> leases_poisoned F" "authorized now l F" "distinct (keys (leases F))"
    and "instant_limit \<le> now' + int (from_secs secs)"
  shows "fst (handle ops (TtlBound lo hi) ctx now now' (LeaseRenew l secs) F w) = Panicked
     \<and> leases_poisoned (fst (snd (handle ops (TtlBound lo hi) ctx now now' (LeaseRenew l secs) F w)))"
proof -
  obtain al where "map_of (leases F) (lease_resource l) = Some al" "lease_id (al_lease al) = lease_id l"
      "now < al_expires_at al"
    using assms(2) by (auto simp: authorized_def split: option.splits)
  then have "map_of (prune now (leases F)) (lease_resource l) = Some al"
    by (simp add: map_of_prune [OF assms(3)])
  then show ?thesis
    using assms \<open>lease_id (al_lease al) = lease_id l\<close>
    by (simp add: handle_def renew_lease_def Let_def instant_add_def)
qed

theorem ttl_policy_ignores_renewals_witness:
  "fst (handle demo_ops default_ttl_bound demo_ctx 6 6 (LeaseRenew demo_lease 0xFFFFFFFFFFFFFFFF) demo_leased bare_host) = Panicked"
  unfolding default_ttl_bound_def
  using ttl_policy_ignores_renewals [of demo_leased 6 demo_lease 6 "0xFFFFFFFFFFFFFFFF" demo_ops "from_secs 1" "from_secs 3600"
      demo_ctx bare_host]
  by (simp add: demo_defs authorized_def from_secs_def instant_limit_def nanos_per_sec_def)

end
