(* ===== verification/Agent_Server.thy ===== *)
theory Agent_Server
  imports Rpc Fabric_Concurrency
begin

text \<open>
  The agent as it runs: any number of RPC connections, each with an accept loop of its own, served
  at the same time against one fabric (\<open>FabricAgent::accept\<close> of \<open>rpc.rs\<close> over the methods of
  \<open>lib.rs\<close>). A connection reads a frame, asks the auth provider, runs the method's critical sections
  one at a time, and writes the answer; between any two of these steps other connections may take
  theirs. The theory composes \<open>Rpc\<close> with \<open>Fabric_Concurrency\<close>: a run of the server is an interleaving
  of fabric calls, and the accept loop of one connection is a run of the server.
\<close>

subsection \<open>Connections\<close>

text \<open>The calls a request makes: a connection that waits for a frame, lists the resources, looks for
  available ones, is inside a method (with what it will answer as far as that is known), writes its
  answer, or has ended.\<close>

datatype 'a conn_state =
    Waiting
  | Listing
  | Finding resource_request
  | InCall "'a task" rpc_response
  | Writing rpc_response
  | Ended "(rpc_transport_error + unit) outcome"

text \<open>\<open>cn_answers\<close> is the history of what was answered; the peer sees it as \<open>cn_sent\<close>.\<close>

record 'a conn =
  cn_env :: accept_env
  cn_ctx :: request_context
  cn_count :: nat
  cn_recv :: recv_stream
  cn_answers :: "rpc_response list"
  cn_sent :: bytes
  cn_state :: "'a conn_state"

definition new_conn :: "accept_env \<Rightarrow> request_context \<Rightarrow> recv_stream \<Rightarrow> 'a conn" where
  "new_conn env ctx recv = \<lparr>cn_env = env, cn_ctx = ctx, cn_count = 0, cn_recv = recv, cn_answers = [], cn_sent = [],
     cn_state = Waiting\<rparr>"

text \<open>What \<open>dispatch\<close> calls for a request.\<close>

fun first_step :: "rpc_request \<Rightarrow> 'a conn_state" where
  "first_step Ping = Writing Pong"
| "first_step ReqInventory = Listing"
| "first_step (ReqFindAvailable q) = Finding q"
| "first_step (LeaseExclusive rid owner ttl_secs) = InCall (LeaseLook rid owner (from_secs ttl_secs)) Pong"
| "first_step (Attach adapter l) = InCall (AttachLook adapter l) Pong"
| "first_step (Release l) = InCall (ReleaseCheck l) RespReleased"
| "first_step (LeaseRenew l ttl_secs) = InCall (RenewCommit l (from_secs ttl_secs)) Pong"
| "first_step (Heartbeat node) = InCall (CallHeartbeat node) Pong"

definition receive :: "auth_provider \<Rightarrow> 'a conn \<Rightarrow> 'a conn" where
  "receive auth c =
     (case read_frame (ae_from_slice (cn_env c)) (cn_recv c) of
        (Inl ConnectionClosed, _) \<Rightarrow> c\<lparr>cn_state := Ended (Done (Inr ()))\<rparr>
      | (Inl e, _) \<Rightarrow> c\<lparr>cn_state := Ended (Done (if ae_app_closed (cn_env c) then Inr () else Inl e))\<rparr>
      | (Inr req, recv') \<Rightarrow>
          c\<lparr>cn_recv := recv',
            cn_state := (case authorize auth (cn_ctx c) req of
                           Inl rejection \<Rightarrow> Writing (RespError (rpc_error_of_auth rejection))
                         | Inr _ \<Rightarrow> first_step req)\<rparr>)"

definition transmit :: "rpc_response \<Rightarrow> 'a conn \<Rightarrow> 'a conn" where
  "transmit resp c =
     (case send_response (cn_env c) (cn_count c) resp of
        Inl e \<Rightarrow> c\<lparr>cn_state := Ended (Done (Inl e))\<rparr>
      | Inr frame \<Rightarrow> c\<lparr>cn_count := cn_count c + 1, cn_answers := cn_answers c @ [resp], cn_sent := cn_sent c @ frame,
                       cn_state := Waiting\<rparr>)"

text \<open>The steps that leave the fabric alone; a panic ends the connection's task.\<close>

definition talk :: "auth_provider \<Rightarrow> 'a fabric \<Rightarrow> 'a conn \<Rightarrow> 'a conn" where
  "talk auth F c =
     (case cn_state c of
        Waiting \<Rightarrow> receive auth c
      | Listing \<Rightarrow> c\<lparr>cn_state := Writing (RespInventory (list_resources F))\<rparr>
      | Finding q \<Rightarrow>
          c\<lparr>cn_state := (case find_available q F of
                           Panicked \<Rightarrow> Ended Panicked | Done rs \<Rightarrow> Writing (RespFindAvailable rs))\<rparr>
      | Writing resp \<Rightarrow> transmit resp c
      | _ \<Rightarrow> c)"

text \<open>What the method answers if this section is its last one, or what is known of it so far.\<close>

fun answer ::
  "('a, 'w) adapter_ops \<Rightarrow> instant \<Rightarrow> instant \<Rightarrow> 'w \<Rightarrow> 'a task \<Rightarrow> rpc_response \<Rightarrow> 'a fabric \<Rightarrow> rpc_response outcome"
where
  "answer ops now now' w (LeaseLook rid owner ttl) resp F = Done (response_of (\<lambda>_. resp) (lease_look rid F))"
| "answer ops now now' w (LeaseCommit rid owner ttl) resp F =
     map_outcome (response_of Leased) (fst (lease_commit rid owner ttl now now' F))"
| "answer ops now now' w (RenewCommit l ttl) resp F =
     map_outcome (response_of Leased) (fst (renew_lease l ttl now now' F))"
| "answer ops now now' w (AttachLook n l) resp F =
     Done (response_of (\<lambda>_. resp) (ok_or (resource (lease_resource l) F) ResourceNotFound))"
| "answer ops now now' w (AttachCheck n l r) resp F =
     (if leases_poisoned F then Panicked
      else Done (if authorized now l F then resp else RespError (rpc_error_of_fabric LeaseNotFound)))"
| "answer ops now now' w (AttachCall n l r) resp F =
     Done (case map_of (adapters F) n of
             None \<Rightarrow> RespError (rpc_error_of_fabric AdapterNotFound)
           | Some a \<Rightarrow> response_of Attached (fst (ad_attach ops a r l w)))"
| "answer ops now now' w (ReleaseCheck l) resp F =
     (if leases_poisoned F then Panicked
      else Done (if holds l F then resp else RespError (rpc_error_of_fabric LeaseNotFound)))"
| "answer ops now now' w (ReleaseCall n l r) resp F =
     Done (case map_of (adapters F) n of
             None \<Rightarrow> resp
           | Some a \<Rightarrow> response_of (\<lambda>_. resp) (fst (ad_detach ops a r l w)))"
| "answer ops now now' w (ReleaseFinish l) resp F =
     (if leases_poisoned F then Panicked else Done (response_of (\<lambda>_. RespReleased) (fst (release_finish l F))))"
| "answer ops now now' w tk resp F = Done resp"

definition after_section :: "rpc_response outcome \<Rightarrow> 'a task option \<Rightarrow> 'a conn_state" where
  "after_section ans tk' =
     (case ans of
        Panicked \<Rightarrow> Ended Panicked
      | Done resp \<Rightarrow> (case tk' of None \<Rightarrow> Writing resp | Some tk \<Rightarrow> InCall tk resp))"

subsection \<open>The server\<close>

type_synonym 'a conns = "(nat \<times> 'a conn) list"

fun in_call :: "'a conn_state \<Rightarrow> 'a task option" where
  "in_call (InCall tk _) = Some tk"
| "in_call _ = None"

definition lock_is_free :: "'a conns \<Rightarrow> nat \<Rightarrow> bool" where
  "lock_is_free cs i = list_all (\<lambda>(j, c). j = i \<or> (case in_call (cn_state c) of None \<Rightarrow> True | Some tk \<Rightarrow> \<not> keeps_lease_lock tk)) cs"

fun needs_lease_lock :: "'a conn_state \<Rightarrow> bool" where
  "needs_lease_lock (Finding _) = True"
| "needs_lease_lock (InCall tk _) = takes_lease_lock tk"
| "needs_lease_lock _ = False"

definition may_step :: "'a conns \<Rightarrow> nat \<Rightarrow> 'a conn \<Rightarrow> bool" where
  "may_step cs i c = (needs_lease_lock (cn_state c) \<longrightarrow> lock_is_free cs i)"

text \<open>The agent sets its fabric up, then serves: peers connect, connections take their steps.\<close>

inductive serving ::
  "('a, 'w) adapter_ops \<Rightarrow> auth_provider \<Rightarrow> instant \<Rightarrow> 'a conns \<Rightarrow> 'a fabric \<Rightarrow> event list \<Rightarrow> bool"
  for ops auth where
  sv_start: "interleaving ops t [] F evs \<Longrightarrow> serving ops auth t [] F evs"
| sv_accept: "serving ops auth t cs F evs \<Longrightarrow> map_of cs i = None
    \<Longrightarrow> serving ops auth t (AList.update i (new_conn env ctx recv) cs) F evs"
| sv_talk: "serving ops auth t cs F evs \<Longrightarrow> map_of cs i = Some c \<Longrightarrow> may_step cs i c \<Longrightarrow> in_call (cn_state c) = None
    \<Longrightarrow> serving ops auth t (AList.update i (talk auth F c) cs) F evs"
| sv_section: "serving ops auth t cs F evs \<Longrightarrow> t \<le> now \<Longrightarrow> now \<le> now' \<Longrightarrow> map_of cs i = Some c \<Longrightarrow> may_step cs i c
    \<Longrightarrow> cn_state c = InCall tk resp \<Longrightarrow> advance ops now now' w tk F = (ev, tk', F')
    \<Longrightarrow> serving ops auth now'
          (AList.update i (c\<lparr>cn_state := after_section (answer ops now now' w tk resp F) tk'\<rparr>) cs) F' (ev # evs)"

inductive_cases serving_elim: "serving ops auth t cs F evs"

subsection \<open>A run of the server is an interleaving of fabric calls\<close>

definition running :: "'a conns \<Rightarrow> nat \<Rightarrow> 'a task option" where
  "running cs i = (case map_of cs i of None \<Rightarrow> None | Some c \<Rightarrow> in_call (cn_state c))"

lemma running_update: "running (AList.update i c cs) j = (if j = i then in_call (cn_state c) else running cs j)"
  by (simp add: running_def get_update)

lemma running_Some: "map_of cs i = Some c \<Longrightarrow> running cs i = in_call (cn_state c)"
  by (simp add: running_def)

lemma serving_distinct: "serving ops auth t cs F evs \<Longrightarrow> distinct (keys cs)"
  by (induction rule: serving.induct) (simp_all add: distinct_keys_update)

lemma first_step_enters: "in_call (first_step req) = Some tk \<Longrightarrow> entry_point tk"
  by (cases req) auto

lemma talk_enters:
  "in_call (cn_state c) = None \<Longrightarrow> in_call (cn_state (talk auth F c)) = Some tk \<Longrightarrow> entry_point tk"
  by (auto simp: talk_def receive_def transmit_def
      split: conn_state.splits prod.splits sum.splits rpc_transport_error.splits outcome.splits dest: first_step_enters)

lemma panic_is_last: "answer ops now now' w tk resp F = Panicked \<Longrightarrow> fst (snd (advance ops now now' w tk F)) = None"
  by (cases tk) (auto split: prod.splits sum.splits outcome.splits)

lemma in_call_after:
  "advance ops now now' w tk F = (ev, tk', F') \<Longrightarrow> in_call (after_section (answer ops now now' w tk resp F) tk') = tk'"
  using panic_is_last [of ops now now' w tk resp F]
  by (auto simp: after_section_def split: outcome.split option.split)

lemma may_run_threads:
  assumes "distinct (keys ts)"
  shows "may_run ts i tk \<longleftrightarrow>
     (takes_lease_lock tk \<longrightarrow> (\<forall>j other. map_of ts j = Some other \<longrightarrow> j = i \<or> \<not> keeps_lease_lock other))"
  using assms by (auto simp: may_run_def list_all_iff map_of_eq_Some_iff)

lemma lock_is_free_running:
  assumes "distinct (keys cs)"
  shows "lock_is_free cs i \<longleftrightarrow> (\<forall>j other. running cs j = Some other \<longrightarrow> j = i \<or> \<not> keeps_lease_lock other)"
  using assms by (fastforce simp: lock_is_free_def running_def list_all_iff map_of_eq_Some_iff split: option.splits)

text \<open>The threads of the interleaving are the connections that are inside a method.\<close>

definition same_calls :: "'a threads \<Rightarrow> 'a conns \<Rightarrow> bool" where
  "same_calls ts cs \<longleftrightarrow> map_of ts = running cs"

lemma same_calls_leave:
  "same_calls ts cs \<Longrightarrow> distinct (keys ts) \<Longrightarrow> in_call (cn_state c) = tk' \<Longrightarrow> same_calls (leave i tk' ts) (AList.update i c cs)"
  by (cases tk') (auto simp: same_calls_def fun_eq_iff running_update get_delete get_update)

lemma may_run_step:
  assumes "same_calls ts cs" "distinct (keys ts)" "distinct (keys cs)" "map_of cs i = Some c" "may_step cs i c"
    and "cn_state c = InCall tk resp"
  shows "map_of ts i = Some tk \<and> may_run ts i tk"
  using assms lock_is_free_running [OF assms(3), of i]
  by (simp add: same_calls_def running_Some may_run_threads [OF assms(2)] may_step_def)

lemma serving_simulates:
  "serving ops auth t cs F evs \<Longrightarrow> \<exists>ts. interleaving ops t ts F evs \<and> same_calls ts cs"
proof (induction rule: serving.induct)
  case (sv_start t F evs)
  then show ?case by (intro exI [of _ "[]"]) (simp add: same_calls_def fun_eq_iff running_def)
next
  case (sv_accept t cs F evs i env ctx recv)
  then obtain ts where ts: "interleaving ops t ts F evs" "same_calls ts cs" by blast
  moreover have "same_calls ts (AList.update i (new_conn env ctx recv) cs)"
    using ts(2) sv_accept.hyps(2) by (auto simp: same_calls_def fun_eq_iff new_conn_def running_def get_update)
  ultimately show ?case by blast
next
  case (sv_talk t cs F evs i c)
  then obtain ts where ts: "interleaving ops t ts F evs" "same_calls ts cs" by blast
  have none: "map_of ts i = None"
    using ts(2) sv_talk.hyps(2,4) by (simp add: same_calls_def running_Some)
  show ?case
  proof (cases "in_call (cn_state (talk auth F c))")
    case None
    then have "same_calls ts (AList.update i (talk auth F c) cs)"
      using ts(2) none by (auto simp: same_calls_def fun_eq_iff running_update)
    with ts(1) show ?thesis by blast
  next
    case (Some tk)
    have "interleaving ops t (AList.update i tk ts) F evs"
      by (rule interleaving.call [OF ts(1) none talk_enters [OF sv_talk.hyps(4) Some]])
    moreover have "same_calls (AList.update i tk ts) (AList.update i (talk auth F c) cs)"
      using ts(2) Some by (auto simp: same_calls_def fun_eq_iff running_update get_update)
    ultimately show ?thesis by blast
  qed
next
  case (sv_section t cs F evs now now' i c tk resp w ev tk' F')
  then obtain ts where ts: "interleaving ops t ts F evs" "same_calls ts cs" by blast
  note d = interleaving_distinct [OF ts(1)] serving_distinct [OF sv_section.hyps(1)]
  have run: "map_of ts i = Some tk" "may_run ts i tk"
    using may_run_step [OF ts(2) d sv_section.hyps(4-6)] by simp_all
  have "interleaving ops now' (leave i tk' ts) F' (ev # evs)"
    by (rule interleaving.run [OF ts(1) sv_section.hyps(2,3) run sv_section.hyps(7)])
  moreover have "same_calls (leave i tk' ts)
      (AList.update i (c\<lparr>cn_state := after_section (answer ops now now' w tk resp F) tk'\<rparr>) cs)"
    by (rule same_calls_leave [OF ts(2) d(1)]) (simp add: in_call_after [OF sv_section.hyps(7)])
  ultimately show ?case by blast
qed

lemma serving_ledger:
  "serving ops auth t cs F evs \<Longrightarrow> length evs < 2 ^ 64 \<Longrightarrow> ledger t (leases F) (next_lease_id F) evs"
  using serving_simulates interleaving_ledger by metis

subsection \<open>What peers are told was granted\<close>

fun pending_answer :: "'a conn_state \<Rightarrow> rpc_response option" where
  "pending_answer (Writing resp) = Some resp"
| "pending_answer (InCall _ resp) = Some resp"
| "pending_answer _ = None"

definition told :: "'a conn \<Rightarrow> rpc_response \<Rightarrow> bool" where
  "told c resp \<longleftrightarrow> resp \<in> set (cn_answers c) \<or> pending_answer (cn_state c) = Some resp"

lemma first_step_pending: "pending_answer (first_step req) = Some resp \<Longrightarrow> resp \<noteq> Leased l"
  by (cases req) auto

lemma talk_tells: "told (talk auth F c) (Leased l) \<Longrightarrow> told c (Leased l)"
  by (auto simp: told_def talk_def receive_def transmit_def dest: first_step_pending
      split: conn_state.splits prod.splits sum.splits rpc_transport_error.splits outcome.splits)

lemma after_section_pending:
  "pending_answer (after_section ans tk') = Some resp \<Longrightarrow> ans = Done resp"
  by (auto simp: after_section_def split: outcome.splits option.splits)

lemma response_of_Leased: "response_of f x = Leased l \<longleftrightarrow> (\<exists>v. x = Inr v \<and> f v = Leased l)"
  by (cases x) auto

lemma map_outcome_Done: "map_outcome f x = Done y \<longleftrightarrow> (\<exists>v. x = Done v \<and> f v = y)"
  by (cases x) auto

text \<open>A section that answers with a lease has granted it, or renewed the recorded one.\<close>

lemma answer_leased:
  assumes "advance ops now now' w tk F = (ev, tk', F')" "answer ops now now' w tk resp F = Done (Leased l)"
    and "resp \<noteq> Leased l"
  shows "(\<exists>e. ev = Granted l e) \<or> (\<exists>k al. map_of (prune now (leases F)) k = Some al \<and> al_lease al = l)"
proof (cases tk)
  case (LeaseCommit rid owner ttl)
  then show ?thesis
    using assms by (auto simp: map_outcome_Done response_of_Leased prod_eq_iff split: prod.splits)
next
  case (RenewCommit l0 ttl)
  then obtain F1 where "renew_lease l0 ttl now now' F = (Done (Inr l), F1)"
    using assms by (auto simp: map_outcome_Done response_of_Leased prod_eq_iff)
  then show ?thesis
    by (auto simp: renew_lease_def Let_def split: if_splits option.splits)
qed (use assms in \<open>auto simp: response_of_Leased split: if_splits option.splits\<close>)

lemma granted_mono: "granted evs l \<Longrightarrow> granted (ev # evs) l"
  by (auto simp: granted_def)

lemma told_leases_granted:
  "serving ops auth t cs F evs \<Longrightarrow> length evs < 2 ^ 64 \<Longrightarrow> map_of cs i = Some c \<Longrightarrow> told c (Leased l) \<Longrightarrow> granted evs l"
proof (induction arbitrary: i c rule: serving.induct)
  case (sv_accept t cs F evs j env ctx recv)
  then show ?case
    by (auto simp: get_update told_def new_conn_def split: if_splits)
next
  case (sv_talk t cs F evs j c0)
  then show ?case
    by (auto simp: get_update split: if_splits dest: talk_tells)
next
  case (sv_section t cs F evs now now' j c0 tk resp w ev tk' F')
  have len: "length evs < 2 ^ 64" using sv_section.prems(1) by simp
  show ?case
  proof (cases "i = j")
    case False
    then have "map_of cs i = Some c" using sv_section.prems(2) by (simp add: get_update)
    then show ?thesis using sv_section.IH [OF len] sv_section.prems(3) granted_mono by metis
  next
    case True
    then have c: "c = c0\<lparr>cn_state := after_section (answer ops now now' w tk resp F) tk'\<rparr>"
      using sv_section.prems(2) by (simp add: get_update)
    show ?thesis
    proof (cases "told c0 (Leased l)")
      case True
      then show ?thesis using sv_section.IH [OF len sv_section.hyps(4)] granted_mono by metis
    next
      case False
      then have ans: "answer ops now now' w tk resp F = Done (Leased l)" "resp \<noteq> Leased l"
        using sv_section.prems(3) sv_section.hyps(6) unfolding c told_def by (auto dest: after_section_pending)
      note led = serving_ledger [OF sv_section.hyps(1) len]
      from answer_leased [OF sv_section.hyps(7) ans]
      show ?thesis
      proof (elim disjE exE conjE)
        fix e assume "ev = Granted l e"
        then show ?thesis by (simp add: granted_def exI [of _ e])
      next
        fix k al assume k: "map_of (prune now (leases F)) k = Some al" "al_lease al = l"
        then have "map_of (leases F) k = Some al"
          using led by (simp add: map_of_prune ledger_def split: option.splits if_splits)
        then show ?thesis using led k(2) by (auto simp: ledger_def intro: granted_mono)
      qed
    qed
  qed
qed simp

subsection \<open>One connection served alone\<close>

text \<open>A method run without interruption: its answer, and what it leaves.\<close>

fun section_world :: "('a, 'w) adapter_ops \<Rightarrow> 'a task \<Rightarrow> 'a fabric \<Rightarrow> 'w \<Rightarrow> 'w" where
  "section_world ops (AttachCall n l r) F w =
     (case map_of (adapters F) n of None \<Rightarrow> w | Some a \<Rightarrow> snd (snd (ad_attach ops a r l w)))"
| "section_world ops (ReleaseCall n l r) F w =
     (case map_of (adapters F) n of None \<Rightarrow> w | Some a \<Rightarrow> snd (snd (ad_detach ops a r l w)))"
| "section_world ops _ F w = w"

primrec answer_alone ::
  "('a, 'w) adapter_ops \<Rightarrow> instant \<Rightarrow> instant \<Rightarrow> nat \<Rightarrow> 'a task \<Rightarrow> rpc_response \<Rightarrow> 'a fabric \<Rightarrow> 'w
     \<Rightarrow> rpc_response outcome \<times> 'a fabric \<times> 'w"
where
  "answer_alone ops now now' 0 tk resp F w = (Done resp, F, w)"
| "answer_alone ops now now' (Suc n) tk resp F w =
     (case advance ops now now' w tk F of
        (_, tk', F') \<Rightarrow>
          (case (answer ops now now' w tk resp F, tk') of
             (Done resp', Some tk2) \<Rightarrow> answer_alone ops now now' n tk2 resp' F' (section_world ops tk F w)
           | (ans, _) \<Rightarrow> (ans, F', section_world ops tk F w)))"

lemma lease_answers:
  "answer_alone ops now now' 5 (LeaseLook rid owner ttl) resp F w =
     (case lease_exclusive rid owner ttl now now' F of (out, F') \<Rightarrow> (map_outcome (response_of Leased) out, F', w))"
  by (auto simp: numeral_eq_Suc lease_exclusive_sections split: sum.split prod.split outcome.split)

lemma renew_answers:
  "answer_alone ops now now' 5 (RenewCommit l ttl) resp F w =
     (case renew_lease l ttl now now' F of (out, F') \<Rightarrow> (map_outcome (response_of Leased) out, F', w))"
  by (auto simp: numeral_eq_Suc split: sum.split prod.split outcome.split)

lemma attach_answers:
  "answer_alone ops now now' 5 (AttachLook n l) resp F w =
     (case attach ops n l now F w of (out, F', w') \<Rightarrow> (map_outcome (response_of Attached) out, F', w'))"
  by (auto simp: numeral_eq_Suc attach_def split: option.split sum.split prod.split)

lemma release_answers:
  "answer_alone ops now now' 5 (ReleaseCheck l) RespReleased F w =
     (case release ops l F w of (out, F', w') \<Rightarrow> (map_outcome (response_of (\<lambda>_. RespReleased)) out, F', w'))"
proof (cases "\<not> leases_poisoned F \<and> holds l F")
  case True
  note steps = numeral_eq_Suc release_def release_detach_def release_finish_def holds_def resource_def
  show ?thesis
  proof (cases "map_of (attachments F) (lease_resource l)")
    case None
    then show ?thesis using True by (simp add: steps)
  next
    case attached: (Some n)
    show ?thesis
    proof (cases "map_of (resources F) (lease_resource l)")
      case None
      then show ?thesis using True attached by (simp add: steps)
    next
      case res: (Some r)
      show ?thesis
      proof (cases "map_of (adapters F) n")
        case None
        then show ?thesis using True attached res by (simp add: steps)
      next
        case (Some a)
        obtain out a' w' where d: "ad_detach ops a r l w = (out, a', w')"
          by (cases "ad_detach ops a r l w") auto
        show ?thesis
          by (cases out) (use True attached res Some d in \<open>simp_all add: steps\<close>)
      qed
    qed
  qed
qed (auto simp: numeral_eq_Suc release_def)

lemma heartbeat_answers:
  "answer_alone ops now now' 5 (CallHeartbeat node) resp F w = (Done resp, heartbeat node now F, w)"
  by (simp add: numeral_eq_Suc)

text \<open>The sections of a request, run without interruption, are \<open>dispatch\<close>.\<close>

lemma dispatch_answers:
  "first_step req = InCall tk resp \<Longrightarrow> answer_alone ops now now' 5 tk resp F w = dispatch ops now now' req F w"
  by (cases req) (auto simp: lease_answers renew_answers attach_answers release_answers heartbeat_answers
      split: prod.split simp del: answer_alone.simps)

text \<open>The second clock reading only matters in the last section.\<close>

lemma advance_continues:
  "advance ops now now' w tk F = (ev, Some tk2, F') \<Longrightarrow> advance ops now now w tk F = (ev, Some tk2, F')"
  by (cases tk) (auto split: prod.splits sum.splits outcome.splits if_splits)

lemma answer_continues:
  "advance ops now now' w tk F = (ev, Some tk2, F') \<Longrightarrow> answer ops now now' w tk resp F = answer ops now now w tk resp F"
  by (cases tk) (auto split: prod.splits sum.splits outcome.splits if_splits)

lemma in_call_Some: "in_call s = Some tk \<longleftrightarrow> (\<exists>resp. s = InCall tk resp)"
  by (cases s) auto

definition answered :: "rpc_response outcome \<Rightarrow> 'a conn_state" where
  "answered out = (case out of Done resp \<Rightarrow> Writing resp | Panicked \<Rightarrow> Ended Panicked)"

definition alone_in :: "'a conns \<Rightarrow> nat \<Rightarrow> bool" where
  "alone_in cs i \<longleftrightarrow> list_all (\<lambda>(j, c). j = i \<or> in_call (cn_state c) = None) cs"

lemma alone_may_step: "alone_in cs i \<Longrightarrow> may_step cs i c"
  by (auto simp: alone_in_def may_step_def lock_is_free_def list_all_iff)

lemma alone_update: "alone_in cs i \<Longrightarrow> alone_in (AList.update i c cs) i"
  by (induction cs) (auto simp: alone_in_def)

lemma alone_serves:
  assumes "sections_left tk \<le> n" "serving ops auth t cs F evs" "t \<le> now" "now \<le> now'"
    and "map_of cs i = Some c" "cn_state c = InCall tk resp" "alone_in cs i"
    and "answer_alone ops now now' n tk resp F w = (out, F', w')"
  shows "\<exists>t' more. t' \<le> now' \<and> serving ops auth t' (AList.update i (c\<lparr>cn_state := answered out\<rparr>) cs) F' (more @ evs)"
  using assms
proof (induction n arbitrary: tk resp F w cs c evs t)
  case 0
  then show ?case using sections_left_pos [of tk] by simp
next
  case (Suc n)
  obtain ev tk' F1 where adv: "advance ops now now' w tk F = (ev, tk', F1)"
    by (rule prod_cases3)
  note may = alone_may_step [OF Suc.prems(7), of c]
  show ?case
  proof (cases tk')
    case None
    then have out: "answer ops now now' w tk resp F = out" "F' = F1"
      using Suc.prems(8) adv by (auto split: outcome.splits)
    have "after_section (answer ops now now' w tk resp F) tk' = answered out"
      unfolding out None by (simp add: after_section_def answered_def split: outcome.split)
    with serving.sv_section [OF Suc.prems(2-5) may Suc.prems(6) adv] show ?thesis
      unfolding out by (intro exI [of _ now'] exI [of _ "[ev]"]) simp
  next
    case (Some tk2)
    note cont = advance_continues [OF adv [unfolded Some]] answer_continues [OF adv [unfolded Some]]
    obtain resp' where ans: "answer ops now now w tk resp F = Done resp'"
      using panic_is_last [of ops now now w tk resp F] cont(1) by (cases "answer ops now now w tk resp F") auto
    let ?c = "c\<lparr>cn_state := InCall tk2 resp'\<rparr>"
    have step: "serving ops auth now (AList.update i ?c cs) F1 (ev # evs)"
      using serving.sv_section [OF Suc.prems(2,3) order_refl Suc.prems(5) may Suc.prems(6) cont(1)] ans
      by (simp add: after_section_def)
    have "sections_left tk2 \<le> n"
      using advance_shortens [OF adv [unfolded Some]] Suc.prems(1) by simp
    moreover have "answer_alone ops now now' n tk2 resp' F1 (section_world ops tk F w) = (out, F', w')"
      using Suc.prems(8) adv Some ans cont(2) by simp
    ultimately obtain t' more where "t' \<le> now'"
        "serving ops auth t' (AList.update i (?c\<lparr>cn_state := answered out\<rparr>) (AList.update i ?c cs)) F' (more @ ev # evs)"
      using Suc.IH [OF _ step order_refl Suc.prems(4)] alone_update [OF Suc.prems(7)] by (force simp: get_update)
    then show ?thesis
      by (intro exI [of _ t'] exI [of _ "more @ [ev]"]) simp
  qed
qed

lemma sections_left_le: "sections_left tk \<le> 5"
  by (cases tk) auto

text \<open>One request: from the frame to the answer that is to be written.\<close>

lemma handle_served:
  fixes c :: "'a conn"
  assumes "serving ops auth t cs F evs" "t \<le> now" "now \<le> now'"
    and "map_of cs i = Some c" "cn_state c = Waiting" "alone_in cs i"
    and "read_frame (ae_from_slice (cn_env c)) (cn_recv c) = (Inr req, recv')"
    and "handle ops auth (cn_ctx c) now now' req F w = (out, F', w')"
  shows "\<exists>t' more. t' \<le> now'
     \<and> serving ops auth t' (AList.update i (c\<lparr>cn_recv := recv', cn_state := answered out\<rparr>) cs) F' (more @ evs)"
proof -
  let ?c = "talk auth F c"
  have talk: "serving ops auth t (AList.update i ?c cs) F evs"
    by (rule serving.sv_talk [OF assms(1,4) alone_may_step [OF assms(6)]]) (simp add: assms(5))
  note alone = alone_update [OF assms(6), of ?c]
  show ?thesis
  proof (cases "authorize auth (cn_ctx c) req")
    case (Inl rejection)
    then have "out = Done (RespError (rpc_error_of_auth rejection))" "F' = F"
      using assms(8) by (auto simp: handle_def)
    with talk Inl show ?thesis
      using assms(2,3) by (intro exI [of _ t] exI [of _ "[]"]) (simp add: talk_def receive_def assms(5,7) answered_def)
  next
    case (Inr u)
    then have d: "dispatch ops now now' req F w = (out, F', w')"
      using assms(8) by (simp add: handle_def)
    have c: "?c = c\<lparr>cn_recv := recv', cn_state := first_step req\<rparr>"
      using Inr by (simp add: talk_def receive_def assms(5,7))
    show ?thesis
    proof (cases "in_call (first_step req :: 'a conn_state)")
      case (Some tk)
      then obtain resp where fs: "(first_step req :: 'a conn_state) = InCall tk resp" by (auto simp: in_call_Some)
      have "map_of (AList.update i ?c cs) i = Some ?c" "cn_state ?c = InCall tk resp"
        by (simp_all add: get_update c fs)
      from alone_serves [OF sections_left_le talk assms(2,3) this alone dispatch_answers [OF fs, THEN trans, OF d]]
      show ?thesis by (simp add: c)
    next
      case None
      have more: "serving ops auth t (AList.update i (talk auth F ?c) cs) F evs"
        using serving.sv_talk [OF talk _ alone_may_step [OF alone], of ?c] None by (simp add: get_update c)
      show ?thesis
      proof (cases req)
        case Ping
        then have "out = Done Pong" "F' = F" using d by auto
        with Ping talk assms(2,3) show ?thesis
          by (intro exI [of _ t] exI [of _ "[]"]) (simp add: c answered_def)
      next
        case ReqInventory
        then have "out = Done (RespInventory (list_resources F))" "F' = F" using d by auto
        with ReqInventory more assms(2,3) show ?thesis
          by (intro exI [of _ t] exI [of _ "[]"]) (simp add: c answered_def, simp add: talk_def)
      next
        case (ReqFindAvailable q)
        then have "out = map_outcome RespFindAvailable (find_available q F)" "F' = F" using d by auto
        with ReqFindAvailable more assms(2,3) show ?thesis
          by (intro exI [of _ t] exI [of _ "[]"]) (simp add: c answered_def, simp add: talk_def split: outcome.splits)
      qed (use None in simp_all)
    qed
  qed
qed

text \<open>A whole connection. The clock of a connection's requests moves forward from \<open>t\<close> on.\<close>

definition clock_from :: "instant \<Rightarrow> nat \<Rightarrow> (nat \<Rightarrow> instant \<times> instant) \<Rightarrow> bool" where
  "clock_from t n clk \<longleftrightarrow>
     t \<le> fst (clk n) \<and> (\<forall>k. n \<le> k \<longrightarrow> fst (clk k) \<le> snd (clk k) \<and> snd (clk k) \<le> fst (clk (k + 1)))"

lemma clock_from_next: "clock_from t n clk \<Longrightarrow> t' \<le> snd (clk n) \<Longrightarrow> clock_from t' (n + 1) clk"
  by (fastforce simp: clock_from_def)

text \<open>One round of the loop: a frame is read, the request handled, the answer written.\<close>

lemma round_served:
  assumes "serving ops auth t cs F evs" "t \<le> now" "now \<le> now'"
    and "map_of cs i = Some c" "cn_state c = Waiting" "alone_in cs i"
    and "read_frame (ae_from_slice (cn_env c)) (cn_recv c) = (Inr req, recv')"
    and "handle ops auth (cn_ctx c) now now' req F w = (Done resp, F', w')"
  shows "\<exists>t' more. t' \<le> now'
     \<and> serving ops auth t' (AList.update i (transmit resp (c\<lparr>cn_recv := recv', cn_state := Writing resp\<rparr>)) cs) F' (more @ evs)"
proof -
  let ?c1 = "c\<lparr>cn_recv := recv', cn_state := Writing resp\<rparr>"
  obtain t1 more where s1: "t1 \<le> now'" "serving ops auth t1 (AList.update i ?c1 cs) F' (more @ evs)"
    using handle_served [OF assms] by (auto simp: answered_def)
  have "serving ops auth t1 (AList.update i (talk auth F' ?c1) (AList.update i ?c1 cs)) F' (more @ evs)"
    by (rule serving.sv_talk [OF s1(2) _ alone_may_step [OF alone_update [OF assms(6)]]]) (simp_all add: get_update)
  with s1(1) show ?thesis
    by (intro exI [of _ t1] exI [of _ more]) (simp add: talk_def)
qed

lemma connection_served:
  assumes "serving ops auth t cs F evs" "map_of cs i = Some c" "cn_state c = Waiting" "alone_in cs i"
    and "clock_from t (cn_count c) (ae_clock (cn_env c))"
    and "accept_loop (cn_env c) ops auth (cn_ctx c) (cn_count c) (cn_recv c) (cn_sent c) F w = (out, sent, F', w')"
  shows "\<exists>t' c' more. serving ops auth t' (AList.update i c' cs) F' (more @ evs)
     \<and> cn_state c' = Ended out \<and> cn_sent c' = sent"
  using assms
proof (induction "length (rs_bytes (cn_recv c))" arbitrary: c cs t F evs w rule: less_induct)
  case less
  let ?env = "cn_env c" let ?clk = "ae_clock (cn_env c) (cn_count c)"
  note loop = trans [OF accept_loop.simps [symmetric] less.prems(6)]
  obtain rd recv' where rd: "read_frame (ae_from_slice ?env) (cn_recv c) = (rd, recv')"
    by (cases "read_frame (ae_from_slice ?env) (cn_recv c)")
  show ?case
  proof (cases rd)
    case (Inl e)
    then have "cn_state (talk auth F c) = Ended out \<and> cn_sent (talk auth F c) = sent \<and> F' = F"
      using loop rd less.prems(3)
      by (auto simp: talk_def receive_def split: rpc_transport_error.splits if_splits)
    moreover have "serving ops auth t (AList.update i (talk auth F c) cs) F evs"
      by (rule serving.sv_talk [OF less.prems(1,2) alone_may_step [OF less.prems(4)]]) (simp add: less.prems(3))
    ultimately show ?thesis
      by (intro exI [of _ t] exI [of _ "talk auth F c"] exI [of _ "[]"]) simp
  next
    case (Inr req)
    note rd = rd [unfolded Inr]
    obtain ans F1 w1 where h: "handle ops auth (cn_ctx c) (fst ?clk) (snd ?clk) req F w = (ans, F1, w1)"
      by (rule prod_cases3)
    have clk: "t \<le> fst ?clk" "fst ?clk \<le> snd ?clk"
      using less.prems(5) by (simp_all add: clock_from_def)
    show ?thesis
    proof (cases ans)
      case Panicked
      then have "out = Panicked \<and> sent = cn_sent c \<and> F' = F1"
        using loop rd h by auto
      with handle_served [OF less.prems(1) clk less.prems(2-4) rd h] Panicked show ?thesis
        by (force simp: answered_def)
    next
      case (Done resp)
      let ?c2 = "transmit resp (c\<lparr>cn_recv := recv', cn_state := Writing resp\<rparr>)"
      obtain t1 more where s2: "t1 \<le> snd ?clk" "serving ops auth t1 (AList.update i ?c2 cs) F1 (more @ evs)"
        using round_served [OF less.prems(1) clk less.prems(2-4) rd h [unfolded Done]] by blast
      show ?thesis
      proof (cases "send_response ?env (cn_count c) resp")
        case (Inl e)
        then have "out = Done (Inl e) \<and> sent = cn_sent c \<and> F' = F1"
          using loop rd h Done by auto
        with s2(2) Inl show ?thesis
          by (intro exI [of _ t1] exI [of _ ?c2] exI [of _ more]) (simp add: transmit_def)
      next
        case (Inr frame)
        have c2: "cn_env ?c2 = ?env" "cn_ctx ?c2 = cn_ctx c" "cn_count ?c2 = cn_count c + 1" "cn_recv ?c2 = recv'"
            "cn_sent ?c2 = cn_sent c @ frame" "cn_state ?c2 = Waiting"
          by (simp_all add: transmit_def Inr)
        have loop2: "accept_loop (cn_env ?c2) ops auth (cn_ctx ?c2) (cn_count ?c2) (cn_recv ?c2) (cn_sent ?c2) F1 w1
            = (out, sent, F', w')"
          unfolding c2 using loop rd h Done Inr by simp
        have "length (rs_bytes (cn_recv ?c2)) < length (rs_bytes (cn_recv c))"
          unfolding c2 by (rule read_frame_shrinks [OF rd])
        from less.hyps [OF this s2(2) _ c2(6) alone_update [OF less.prems(4)]
            clock_from_next [OF less.prems(5) s2(1), folded c2(1,3)] loop2]
        show ?thesis
          by (simp add: get_update) (metis append.assoc)
      qed
    qed
  qed
qed

end
