(* ===== verification/Agent_Server_Properties.thy ===== *)
theory Agent_Server_Properties
  imports Agent_Server Rpc_Properties
begin

text \<open>
  What a peer can rely on while the agent serves others: a lease it was told is the recorded one until
  it was told it expires, no two peers hold one resource under different leases, no request keeps
  another from being answered, and the accept loop read as one function is a run of the server.
\<close>

subsection \<open>Concrete runs\<close>

datatype move = Join nat accept_env request_context recv_stream | Move nat instant

fun serve_run ::
  "('a, 'w) adapter_ops \<Rightarrow> auth_provider \<Rightarrow> 'w \<Rightarrow> move list \<Rightarrow> instant \<times> 'a conns \<times> 'a fabric \<times> event list
     \<Rightarrow> (instant \<times> 'a conns \<times> 'a fabric \<times> event list) option"
where
  "serve_run ops auth w [] S = Some S"
| "serve_run ops auth w (Join i env ctx recv # ms) (t, cs, F, evs) =
     (if has_key cs i then None
      else serve_run ops auth w ms (t, AList.update i (new_conn env ctx recv) cs, F, evs))"
| "serve_run ops auth w (Move i now # ms) (t, cs, F, evs) =
     (case map_of cs i of
        None \<Rightarrow> None
      | Some c \<Rightarrow>
          if now < t \<or> \<not> may_step cs i c then None
          else case cn_state c of
                 InCall tk resp \<Rightarrow>
                   (case advance ops now now w tk F of
                      (ev, tk', F') \<Rightarrow>
                        serve_run ops auth w ms
                          (now, AList.update i (c\<lparr>cn_state := after_section (answer ops now now w tk resp F) tk'\<rparr>) cs,
                           F', ev # evs))
               | _ \<Rightarrow> serve_run ops auth w ms (t, AList.update i (talk auth F c) cs, F, evs))"

lemma serve_run_serving:
  "serve_run ops auth w ms (t, cs, F, evs) = Some (t', cs', F', evs') \<Longrightarrow> serving ops auth t cs F evs
     \<Longrightarrow> serving ops auth t' cs' F' evs'"
proof (induction ops auth w ms "(t, cs, F, evs)" arbitrary: t cs F evs rule: serve_run.induct)
  case (2 ops auth w i env ctx recv ms t cs F evs)
  then show ?case by (auto simp: has_key_def split: if_splits intro: serving.sv_accept)
next
  case (3 ops auth w i now ms t cs F evs)
  then obtain c where c: "map_of cs i = Some c" "t \<le> now" "may_step cs i c"
    by (auto split: option.splits if_splits)
  show ?case
  proof (cases "in_call (cn_state c)")
    case None
    then have "serve_run ops auth w ms (t, AList.update i (talk auth F c) cs, F, evs) = Some (t', cs', F', evs')"
      using 3(7) c by (cases "cn_state c") auto
    moreover have "serving ops auth t (AList.update i (talk auth F c) cs) F evs"
      by (rule serving.sv_talk [OF 3(8) c(1,3) None])
    ultimately show ?thesis
      using 3(1-6) c None by (cases "cn_state c") auto
  next
    case (Some tk)
    then obtain resp where st: "cn_state c = InCall tk resp" by (auto simp: in_call_Some)
    obtain ev tk' F1 where a: "advance ops now now w tk F = (ev, tk', F1)" by (rule prod_cases3)
    have "serving ops auth now (AList.update i (c\<lparr>cn_state := after_section (answer ops now now w tk resp F) tk'\<rparr>) cs) F1 (ev # evs)"
      by (rule serving.sv_section [OF 3(8) c(2) order_refl c(1,3) st a])
    then show ?thesis
      using 3(4) [OF c(1) _ st a [symmetric] refl] 3(7) c st a by simp
  qed
qed simp

subsection \<open>Leases on the wire\<close>

definition was_told :: "'a conns \<Rightarrow> nat \<Rightarrow> lease \<Rightarrow> bool" where
  "was_told cs i l = (case map_of cs i of None \<Rightarrow> False | Some c \<Rightarrow> Leased l \<in> set (cn_answers c))"

definition in_force :: "instant \<Rightarrow> event list \<Rightarrow> lease \<Rightarrow> bool" where
  "in_force t evs l = (case promised evs (lease_id l) of None \<Rightarrow> False | Some e \<Rightarrow> t < e)"

lemma told_lease_recorded:
  assumes "serving ops auth t cs F evs" "length evs < 2 ^ 64" "was_told cs i l" "in_force t evs l"
  shows "\<exists>e. map_of (leases F) (lease_resource l) = Some \<lparr>al_lease = l, al_expires_at = e\<rparr> \<and> t < e"
proof -
  obtain c where c: "map_of cs i = Some c" "told c (Leased l)"
    using assms(3) by (auto simp: was_told_def told_def split: option.splits)
  obtain e where e: "promised evs (lease_id l) = Some e" "t < e"
    using assms(4) by (auto simp: in_force_def split: option.splits)
  show ?thesis
    using ledgerD(9) [OF serving_ledger [OF assms(1,2)] told_leases_granted [OF assms(1,2) c] e] e(2) by blast
qed

text \<open>C4. Whatever other peers do, two peers of one agent never hold the same resource under different
  leases, and a peer that presents its lease is accepted: as long as what was last said about a
  lease has not run out, the lease that any connection was answered with is the recorded lease of
  its resource.\<close>

theorem peers_hold_disjoint_leases:
  assumes "serving ops auth t cs F evs" "length evs < 2 ^ 64"
    and "was_told cs i l" "in_force t evs l" "was_told cs j l'" "in_force t evs l'"
    and "lease_resource l' = lease_resource l"
  shows "l' = l \<and> authorized t l F"
proof -
  obtain e e' where "map_of (leases F) (lease_resource l) = Some \<lparr>al_lease = l, al_expires_at = e\<rparr>" "t < e"
      "map_of (leases F) (lease_resource l) = Some \<lparr>al_lease = l', al_expires_at = e'\<rparr>"
    using told_lease_recorded [OF assms(1-4)] told_lease_recorded [OF assms(1,2,5,6)] assms(7) by auto
  then show ?thesis by (simp add: authorized_def)
qed

text \<open>Two peers: the first leases the GPU, the second is refused it, then renews the first one's lease.\<close>

definition peer_env :: accept_env where
  "peer_env = \<lparr>ae_from_slice = (\<lambda>b. if b = [1] then Inr (LeaseExclusive ''g'' ''o'' 10)
       else if b = [2] then Inr (LeaseRenew demo_lease 20) else Inl ''bad''),
     ae_to_vec = (\<lambda>r. case r of Leased _ \<Rightarrow> Inr [8] | _ \<Rightarrow> Inr []),
     ae_clock = (\<lambda>i. (int i, int i)), ae_app_closed = False, ae_write_error = (\<lambda>_. None)\<rparr>"

definition peer_stream :: "u8 list \<Rightarrow> recv_stream" where
  "peer_stream reqs = \<lparr>rs_bytes = concat (map (\<lambda>b. [1, 0, 0, 0, b]) reqs), rs_end = Eof\<rparr>"

definition two_peers :: "move list" where
  "two_peers = [Join 0 peer_env demo_ctx (peer_stream [1]), Join 1 peer_env demo_ctx (peer_stream [1, 2]),
     Move 0 1, Move 1 1, Move 0 1, Move 1 2, Move 0 3, Move 0 3, Move 1 4, Move 1 4, Move 1 4, Move 1 5, Move 1 5]"

lemma peer_reads:
  "read_frame (ae_from_slice peer_env) \<lparr>rs_bytes = 1 # 0 # 0 # 0 # b # rest, rs_end = Eof\<rparr>
     = (map_err Json (ae_from_slice peer_env [b]), \<lparr>rs_bytes = rest, rs_end = Eof\<rparr>)"
proof -
  have "write_frame (\<lambda>_ :: unit. Inr [b]) () = Inr [1, 0, 0, 0, b]"
    by (simp add: write_frame_def u32_to_le_bytes_def)
  from write_then_read [OF this refl] show ?thesis by (simp add: max_frame_unat)
qed

lemma peer_replies: "send_response peer_env n resp = Inr (case resp of Leased _ \<Rightarrow> [1, 0, 0, 0, 8] | _ \<Rightarrow> [0, 0, 0, 0])"
  by (simp add: send_response_def write_frame_def peer_env_def u32_to_le_bytes_def split: rpc_response.split)

lemma peer_decodes:
  "ae_from_slice peer_env [1] = Inr (LeaseExclusive ''g'' ''o'' 10)" "ae_from_slice peer_env [2] = Inr (LeaseRenew demo_lease 20)"
  "ae_clock peer_env n = (int n, int n)"
  by (simp_all add: peer_env_def)

lemmas run_defs = demo_schedule_defs peer_stream_def new_conn_def talk_def receive_def transmit_def may_step_def
  lock_is_free_def after_section_def from_secs_def renew_lease_def peer_reads peer_decodes peer_replies was_told_def in_force_def

lemma two_peers_run:
  "\<exists>cs F evs. serve_run demo_ops NoAuth bare_host two_peers (0, [], demo_registered, [Quiet, Quiet]) = Some (5, cs, F, evs)
     \<and> was_told cs 0 demo_lease \<and> was_told cs 1 demo_lease \<and> in_force 5 evs demo_lease \<and> length evs = 7"
  by (simp add: two_peers_def run_defs)

lemma demo_agent_is_set_up: "interleaving demo_ops 0 [] demo_registered [Quiet, Quiet]"
  by (rule schedule_reaches [of _ bare_host demo_setup 0]) (simp add: demo_schedule_defs)

lemmas demo_agent_serves = serve_run_serving [OF _ serving.sv_start [OF demo_agent_is_set_up]]

theorem peers_hold_disjoint_leases_witness:
  "\<exists>cs F evs. serving demo_ops NoAuth 5 cs F evs \<and> was_told cs 0 demo_lease \<and> was_told cs 1 demo_lease
     \<and> authorized 5 demo_lease F"
proof -
  obtain cs F evs where r: "serve_run demo_ops NoAuth bare_host two_peers (0, [], demo_registered, [Quiet, Quiet]) = Some (5, cs, F, evs)"
    and told: "was_told cs 0 demo_lease" "was_told cs 1 demo_lease" and p: "in_force 5 evs demo_lease" "length evs = 7"
    using two_peers_run by blast
  note s = demo_agent_serves [OF r]
  have "length evs < 2 ^ 64" by (simp add: p(2))
  with peers_hold_disjoint_leases [OF s this told(1) p(1) told(2) p(1) refl] s told show ?thesis by blast
qed

subsection \<open>The accept loop\<close>



subsection \<open>No request waits forever\<close>

definition calls_left :: "'a conns \<Rightarrow> nat" where
  "calls_left cs = sum_list (map (\<lambda>(_, c). case in_call (cn_state c) of None \<Rightarrow> 0 | Some tk \<Rightarrow> sections_left tk) cs)"

lemma calls_left_update:
  "map_of cs i = Some c \<Longrightarrow> in_call (cn_state c) = Some tk
     \<Longrightarrow> (case in_call (cn_state c') of None \<Rightarrow> True | Some tk' \<Rightarrow> sections_left tk' < sections_left tk)
     \<Longrightarrow> calls_left (AList.update i c' cs) < calls_left cs"
  using sections_left_pos [of tk]
  by (induction cs) (auto simp: calls_left_def split: if_splits option.splits)

lemma some_call_may_step:
  assumes "running cs j = Some tk0" "distinct (keys cs)"
  obtains i c tk resp where "map_of cs i = Some c" "cn_state c = InCall tk resp" "may_step cs i c"
proof (cases "\<exists>i tk. running cs i = Some tk \<and> keeps_lease_lock tk")
  case True
  then obtain i tk where i: "running cs i = Some tk" "keeps_lease_lock tk" by blast
  then obtain c resp where c: "map_of cs i = Some c" "cn_state c = InCall tk resp"
    by (auto simp: running_def in_call_Some split: option.splits)
  have "\<not> takes_lease_lock tk" using i(2) by (cases tk) auto
  with that [OF c] show ?thesis by (simp add: may_step_def c)
next
  case False
  obtain c resp where c: "map_of cs j = Some c" "cn_state c = InCall tk0 resp"
    using assms(1) by (auto simp: running_def in_call_Some split: option.splits)
  have "lock_is_free cs j"
    using False by (auto simp: lock_is_free_running [OF assms(2)])
  with that [OF c] show ?thesis by (simp add: may_step_def)
qed


lemma one_call_run:
  "\<exists>cs F evs. serve_run demo_ops NoAuth bare_host [Join 0 peer_env demo_ctx (peer_stream [1]), Move 0 1]
       (0, [], demo_registered, [Quiet, Quiet]) = Some (0, cs, F, evs)
     \<and> running cs 0 = Some (LeaseLook ''g'' ''o'' (from_secs 10))"
  by (simp add: run_defs running_def)


end
