(* ===== verification/Plan.thy ===== *)
theory Plan
  imports F64 Rpc_Auth
begin

text \<open>
  Fleet planning (\<open>plan.rs\<close>): asks, fragments and typed refusals, the fleet view with its latency
  matrix, the two planners behind the \<open>FleetPlanner\<close> trait, and the decision order of the head.
  \<open>serde_json\<close> is third-party code: a JSON value is a datatype with its constructors, and the
  derived deserializers of \<open>SlotView\<close> and \<open>LatencyMatrix\<close> are arguments.
\<close>

subsection \<open>JSON values\<close>

datatype json =
    JNull
  | JBool bool
  | JNum f64
  | JStr string
  | JArr "json list"
  | JObj "(string \<times> json) list"

text \<open>Indexing a value by a key gives null when it is not an object or has no such key.\<close>

fun j_get :: "json \<Rightarrow> string \<Rightarrow> json option" where
  "j_get (JObj m) k = map_of m k"
| "j_get _ k = None"

definition j_index :: "json \<Rightarrow> string \<Rightarrow> json" where
  "j_index v k = unwrap_or (j_get v k) JNull"

fun j_as_object :: "json \<Rightarrow> (string \<times> json) list option" where
  "j_as_object (JObj m) = Some m"
| "j_as_object _ = None"

fun j_as_array :: "json \<Rightarrow> json list option" where
  "j_as_array (JArr l) = Some l"
| "j_as_array _ = None"

fun j_as_str :: "json \<Rightarrow> string option" where
  "j_as_str (JStr s) = Some s"
| "j_as_str _ = None"

fun j_as_f64 :: "json \<Rightarrow> f64 option" where
  "j_as_f64 (JNum x) = Some x"
| "j_as_f64 _ = None"

fun j_as_bool :: "json \<Rightarrow> bool option" where
  "j_as_bool (JBool b) = Some b"
| "j_as_bool _ = None"

subsection \<open>Asks, fragments, refusals\<close>

record plan_request =
  pr_node_id :: string
  pr_role :: string
  pr_local_snapshot :: json

definition plan_request_new :: "string \<Rightarrow> string \<Rightarrow> plan_request" where
  "plan_request_new node role = \<lparr>pr_node_id = node, pr_role = role, pr_local_snapshot = JNull\<rparr>"

record plan_fragment =
  pf_node_id :: string
  pf_role :: string
  pf_host_key :: string
  pf_slot :: string
  pf_model_id :: string
  pf_reason :: string
  pf_resource_id :: "string option"
  pf_rtt_ms :: "f64 option"

datatype plan_reject =
    UnknownRole string
  | EscalateNowhere "string option"
  | MissingField string
  | HeadUnreachable string
  | BadResponse u16 string string
  | UnknownPlanner string
  | BadHeadUrl string

fun plan_reject_display :: "plan_reject \<Rightarrow> string" where
  "plan_reject_display (UnknownRole role) = ''bad-enum: unknown role '' @ str_debug role"
| "plan_reject_display (EscalateNowhere c) = ''escalate-nowhere: '' @ unwrap_or c ''no constraint recorded''"
| "plan_reject_display (MissingField f) = ''missing-field: '' @ f"
| "plan_reject_display (HeadUnreachable d) = ''backend-down: head unreachable: '' @ d"
| "plan_reject_display (BadResponse status tok d) = tok @ '': HTTP '' @ show_word status @ '': '' @ d"
| "plan_reject_display (UnknownPlanner k) =
     ''bad-enum: unknown planner kind '' @ str_debug k @ ''; expected one of monolithic, federated''"
| "plan_reject_display (BadHeadUrl d) = ''bad-enum: unusable head url: '' @ d"

fun reason_token :: "plan_reject \<Rightarrow> string" where
  "reason_token (UnknownRole _) = ''bad-enum''"
| "reason_token (EscalateNowhere _) = ''escalate-nowhere''"
| "reason_token (MissingField _) = ''missing-field''"
| "reason_token (HeadUnreachable _) = ''backend-down''"
| "reason_token (BadResponse _ tok _) = tok"
| "reason_token (UnknownPlanner _) = ''bad-enum''"
| "reason_token (BadHeadUrl _) = ''bad-enum''"

fun reject_http_status :: "plan_reject \<Rightarrow> u16 option" where
  "reject_http_status (UnknownRole _) = Some 404"
| "reject_http_status (EscalateNowhere _) = Some 403"
| "reject_http_status (MissingField _) = Some 422"
| "reject_http_status (BadResponse status _ _) = Some status"
| "reject_http_status _ = None"

subsection \<open>The fleet view\<close>

record slot_view =
  sv_slot :: string
  sv_model_id :: string
  sv_roles :: "string list"
  sv_healthy :: bool
  sv_free_mb :: f64
  sv_resource_id :: "string option"

definition serves :: "slot_view \<Rightarrow> string \<Rightarrow> bool" where
  "serves s role =
     (if \<not> sv_healthy s then False
      else if sv_roles s = [] then sv_model_id s \<noteq> []
      else role \<in> set (sv_roles s))"

record host_view =
  hv_slots :: "slot_view list"
  hv_locked :: bool

type_synonym latency_matrix = "((f64 option) smap) smap"

definition rtt_ms :: "latency_matrix \<Rightarrow> string \<Rightarrow> string \<Rightarrow> f64 option" where
  "rtt_ms m src dst =
     (case map_of m src of
        None \<Rightarrow> None
      | Some row \<Rightarrow> (case map_of row dst of None \<Rightarrow> None | Some v \<Rightarrow> v))"

definition view_row :: "json \<Rightarrow> (f64 option) smap" where
  "view_row value =
     bt_from (List.map_filter
       (\<lambda>node. map_option (\<lambda>t. (t, j_as_f64 (j_index (j_index node ''rpc_rtt_ms'') ''median''))) (j_as_str (j_index node ''node'')))
       (unwrap_or (j_as_array (j_index value ''nodes'')) []))"

text \<open>A \<open>nauti_fleet_view\<close>: the row of the node the view was taken from.\<close>

definition latency_from_view :: "json \<Rightarrow> latency_matrix" where
  "latency_from_view value =
     (let src = unwrap_or (j_as_str (j_index value ''from'')) [];
          row = view_row value
      in if src = [] then [] else if row = [] then [] else [(src, row)])"

definition latency_from_json :: "(json \<Rightarrow> latency_matrix option) \<Rightarrow> json \<Rightarrow> latency_matrix" where
  "latency_from_json from_value value =
     (case from_value value of
        Some m \<Rightarrow> if m \<noteq> [] then m else latency_from_view value
      | None \<Rightarrow> latency_from_view value)"

definition latency_mb_per_ms :: f64 where
  "latency_mb_per_ms = Fin 512"

definition f_neg :: "f64 \<Rightarrow> f64" where
  "f_neg x = (case x of NaN \<Rightarrow> NaN | Inf s \<Rightarrow> Inf (\<not> s) | Fin q \<Rightarrow> Fin (- q))"

definition fleet_score :: "f64 \<Rightarrow> f64 option \<Rightarrow> f64" where
  "fleet_score free_mb rtt =
     (case rtt of
        Some ms \<Rightarrow> f_add free_mb (f_neg (f_mul latency_mb_per_ms ms))
      | None \<Rightarrow> free_mb)"

record fleet_view =
  fv_hosts :: "host_view smap"
  fv_latency :: latency_matrix

definition slot_items :: "json \<Rightarrow> (string \<times> json) list" where
  "slot_items v =
     (case v of
        JArr l \<Rightarrow> map (\<lambda>(i, x). (show_nat i, x)) (List.enumerate 0 l)
      | JObj m \<Rightarrow> m
      | _ \<Rightarrow> [])"

definition slot_from_item :: "(json \<Rightarrow> slot_view option) \<Rightarrow> string \<times> json \<Rightarrow> slot_view option" where
  "slot_from_item from_value = (\<lambda>(key, item).
     map_option (\<lambda>s. if sv_slot s = [] then s\<lparr>sv_slot := key\<rparr> else s) (from_value item))"

definition host_from_json :: "(json \<Rightarrow> slot_view option) \<Rightarrow> json \<Rightarrow> (string \<times> json) list \<Rightarrow> host_view" where
  "host_from_json from_value host_value host_info =
     \<lparr>hv_slots = List.map_filter (slot_from_item from_value)
        (slot_items (unwrap_or (map_of host_info ''slots'') host_value)),
      hv_locked = unwrap_or (case map_of host_info ''locked'' of None \<Rightarrow> None | Some v \<Rightarrow> j_as_bool v) False\<rparr>"

fun find_map :: "('a \<Rightarrow> 'b option) \<Rightarrow> 'a list \<Rightarrow> 'b option" where
  "find_map f [] = None"
| "find_map f (x # xs) = (case f x of Some y \<Rightarrow> Some y | None \<Rightarrow> find_map f xs)"

definition snapshot_hosts :: "json \<Rightarrow> (string \<times> json) list option" where
  "snapshot_hosts value =
     (case find_map (\<lambda>k. j_as_object (j_index value k)) [''nodes'', ''hosts'', ''fleet''] of
        Some m \<Rightarrow> Some m
      | None \<Rightarrow> j_as_object value)"

definition from_snapshot_json ::
  "(json \<Rightarrow> slot_view option) \<Rightarrow> (json \<Rightarrow> latency_matrix option) \<Rightarrow> json \<Rightarrow> fleet_view"
where
  "from_snapshot_json slot_of matrix_of value =
     (case snapshot_hosts value of
        None \<Rightarrow> \<lparr>fv_hosts = [], fv_latency = []\<rparr>
      | Some hosts \<Rightarrow>
          \<lparr>fv_hosts = bt_from (List.map_filter
             (\<lambda>(k, v). map_option (\<lambda>info. (k, host_from_json slot_of v info)) (j_as_object v)) hosts),
           fv_latency = latency_from_json matrix_of value\<rparr>)"

definition load_json ::
  "(string \<Rightarrow> string + json) \<Rightarrow> (string \<Rightarrow> string + string) \<Rightarrow> string \<Rightarrow> plan_reject + json"
where
  "load_json parse read_to_string path =
     (case read_to_string path of
        Inl e \<Rightarrow> Inl (HeadUnreachable (''cannot read '' @ path @ '': '' @ e))
      | Inr raw \<Rightarrow>
          map_err (\<lambda>e. BadResponse 0 ''executor-error'' (path @ '' is not JSON: '' @ e)) (parse raw))"

definition load_snapshot ::
  "(json \<Rightarrow> slot_view option) \<Rightarrow> (json \<Rightarrow> latency_matrix option) \<Rightarrow> (string \<Rightarrow> string + json)
     \<Rightarrow> (string \<Rightarrow> string + string) \<Rightarrow> string \<Rightarrow> plan_reject + fleet_view"
where
  "load_snapshot slot_of matrix_of parse read_to_string path =
     and_then (load_json parse read_to_string path) (\<lambda>v. Inr (from_snapshot_json slot_of matrix_of v))"

definition load_latency ::
  "(json \<Rightarrow> latency_matrix option) \<Rightarrow> (string \<Rightarrow> string + json) \<Rightarrow> (string \<Rightarrow> string + string) \<Rightarrow> string
     \<Rightarrow> plan_reject + latency_matrix"
where
  "load_latency matrix_of parse read_to_string path =
     and_then (load_json parse read_to_string path) (\<lambda>v. Inr (latency_from_json matrix_of v))"

definition with_latency :: "latency_matrix \<Rightarrow> fleet_view \<Rightarrow> fleet_view" where
  "with_latency m v = v\<lparr>fv_latency := m\<rparr>"

subsection \<open>Choosing a slot\<close>

text \<open>
  \<open>Iterator::max_by\<close> with a partial comparison that falls back to \<open>Equal\<close>: an earlier element is
  kept only when it is strictly greater, so the last of several equal maxima wins.
\<close>

definition max_step :: "('x \<Rightarrow> f64) \<Rightarrow> 'x \<Rightarrow> 'x \<Rightarrow> 'x" where
  "max_step key acc x = (if f_lt (key x) (key acc) then acc else x)"

fun max_by :: "('x \<Rightarrow> f64) \<Rightarrow> 'x list \<Rightarrow> 'x option" where
  "max_by key [] = None"
| "max_by key (x # xs) = Some (fold (\<lambda>y acc. max_step key acc y) xs x)"

definition best_slot :: "fleet_view \<Rightarrow> string \<Rightarrow> string \<Rightarrow> slot_view option" where
  "best_slot view host_key role =
     (case map_of (fv_hosts view) host_key of
        None \<Rightarrow> None
      | Some h \<Rightarrow>
          if hv_locked h then None
          else max_by sv_free_mb (filter (\<lambda>s. serves s role) (hv_slots h)))"

definition best_slot_scored :: "host_view \<Rightarrow> string \<Rightarrow> f64 option \<Rightarrow> (f64 \<times> slot_view) option" where
  "best_slot_scored h role rtt =
     (if hv_locked h then None
      else max_by fst (map (\<lambda>s. (fleet_score (sv_free_mb s) rtt, s)) (filter (\<lambda>s. serves s role) (hv_slots h))))"

definition fragment_for :: "plan_request \<Rightarrow> string \<Rightarrow> slot_view \<Rightarrow> f64 option \<Rightarrow> string \<Rightarrow> plan_fragment" where
  "fragment_for ask host_key slot rtt reason =
     \<lparr>pf_node_id = pr_node_id ask, pf_role = pr_role ask, pf_host_key = host_key, pf_slot = sv_slot slot,
      pf_model_id = sv_model_id slot, pf_reason = reason, pf_resource_id = sv_resource_id slot, pf_rtt_ms = rtt\<rparr>"

subsection \<open>The planners\<close>

type_synonym candidate = "f64 \<times> string \<times> slot_view \<times> f64 option"

definition mono_candidate :: "plan_request \<Rightarrow> fleet_view \<Rightarrow> string \<times> host_view \<Rightarrow> candidate option" where
  "mono_candidate ask view = (\<lambda>(host_key, host).
     if host_key = pr_node_id ask then None
     else
       (let rtt = rtt_ms (fv_latency view) (pr_node_id ask) host_key in
        case best_slot_scored host (pr_role ask) rtt of
          None \<Rightarrow> None
        | Some (score, slot) \<Rightarrow> Some (score, host_key, slot, rtt)))"

text \<open>One turn of the loop over the hosts: a later host must be strictly better.\<close>

definition mono_step ::
  "plan_request \<Rightarrow> fleet_view \<Rightarrow> string \<times> host_view \<Rightarrow> candidate option \<Rightarrow> candidate option"
where
  "mono_step ask view kh best =
     (case mono_candidate ask view kh of
        None \<Rightarrow> best
      | Some c \<Rightarrow>
          (case best of
             None \<Rightarrow> Some c
           | Some b \<Rightarrow> if f_lt (fst b) (fst c) then Some c else best))"

definition mono_best :: "plan_request \<Rightarrow> fleet_view \<Rightarrow> candidate option" where
  "mono_best ask view = fold (mono_step ask view) (fv_hosts view) None"

definition latency_text :: "f64 option \<Rightarrow> string" where
  "latency_text rtt =
     (case rtt of Some ms \<Rightarrow> ''rtt '' @ show_f64_fixed 3 ms @ '' ms'' | None \<Rightarrow> ''rtt not measured'')"

definition monolithic_plan :: "plan_request \<Rightarrow> fleet_view \<Rightarrow> plan_fragment option" where
  "monolithic_plan ask view =
     (case mono_best ask view of
        None \<Rightarrow> None
      | Some (_, host_key, slot, rtt) \<Rightarrow>
          Some (fragment_for ask host_key slot rtt
            (''fleet-wide: '' @ host_key @ '' has a healthy '' @ pr_role ask @ '' slot (''
              @ show_f64 (sv_free_mb slot) @ '' MiB free, '' @ latency_text rtt @ '')'')))"

definition federated_plan :: "plan_request \<Rightarrow> fleet_view \<Rightarrow> plan_fragment option" where
  "federated_plan ask view =
     (case map_of (fv_hosts view) (pr_node_id ask) of
        None \<Rightarrow> None
      | Some h \<Rightarrow>
          (case best_slot_scored h (pr_role ask) None of
             None \<Rightarrow> None
           | Some (_, slot) \<Rightarrow>
               Some (fragment_for ask (pr_node_id ask) slot None
                 (''local: '' @ pr_node_id ask @ '' holds a healthy '' @ pr_role ask @ '' slot''))))"

datatype planner = MonolithicMoEPlanner | FederatedPerNodePlanner

fun planner_name :: "planner \<Rightarrow> string" where
  "planner_name MonolithicMoEPlanner = ''monolithic''"
| "planner_name FederatedPerNodePlanner = ''federated''"

fun planner_plan :: "planner \<Rightarrow> plan_request \<Rightarrow> fleet_view \<Rightarrow> plan_fragment option" where
  "planner_plan MonolithicMoEPlanner ask view = monolithic_plan ask view"
| "planner_plan FederatedPerNodePlanner ask view = federated_plan ask view"

definition get_planner :: "string \<Rightarrow> plan_reject + planner" where
  "get_planner kind =
     (if kind = ''monolithic'' then Inr MonolithicMoEPlanner
      else if kind = ''federated'' then Inr FederatedPerNodePlanner
      else Inl (UnknownPlanner kind))"

subsection \<open>Roles\<close>

definition role_catalogue_from_json :: "json \<Rightarrow> string list" where
  "role_catalogue_from_json v =
     (case v of
        JArr l \<Rightarrow> filter (\<lambda>r. \<not> starts_with r ''_'') (List.map_filter j_as_str l)
      | JObj m \<Rightarrow> filter (\<lambda>k. \<not> starts_with k ''_'') (map fst m)
      | _ \<Rightarrow> [])"

definition catalogue_contains :: "string list \<Rightarrow> string \<Rightarrow> bool" where
  "catalogue_contains roles role = (role \<in> set roles)"

subsection \<open>The decision\<close>

definition escalate_constraint :: "plan_request \<Rightarrow> fleet_view \<Rightarrow> string option" where
  "escalate_constraint ask view =
     (if fv_hosts view = [] then None
      else
        (let locked = map fst (filter (\<lambda>(_, h). hv_locked h) (fv_hosts view));
             unhealthy = length (filter (\<lambda>s. \<not> sv_healthy s \<and> pr_role ask \<in> set (sv_roles s))
               (concat (map (\<lambda>(_, h). hv_slots h) (fv_hosts view))))
         in Some (''no healthy unlocked slot serves role '' @ str_debug (pr_role ask) @ '' across ''
              @ show_nat (length (fv_hosts view)) @ '' host(s)''
              @ (if locked \<noteq> [] then ''; locked: '' @ join '', '' (sort locked) else [])
              @ (if 0 < unhealthy then ''; '' @ show_nat unhealthy @ '' serving slot(s) unhealthy'' else []))))"

definition validate_ask :: "plan_request \<Rightarrow> string list \<Rightarrow> plan_reject + unit" where
  "validate_ask req roles =
     (if trim (pr_node_id req) = [] then Inl (MissingField ''node_id'')
      else if trim (pr_role req) = [] then Inl (MissingField ''role'')
      else if \<not> catalogue_contains roles (pr_role req) then Inl (UnknownRole (pr_role req))
      else Inr ())"

definition plan_with :: "planner \<Rightarrow> plan_request \<Rightarrow> fleet_view \<Rightarrow> string list \<Rightarrow> plan_reject + plan_fragment" where
  "plan_with p req view roles =
     and_then (validate_ask req roles) (\<lambda>_.
       ok_or (planner_plan p req view)
         (EscalateNowhere (map_option (\<lambda>d. planner_name p @ '': '' @ d) (escalate_constraint req view))))"

definition head_plan :: "plan_request \<Rightarrow> fleet_view \<Rightarrow> string list \<Rightarrow> plan_reject + plan_fragment" where
  "head_plan req view roles =
     and_then (validate_ask req roles) (\<lambda>_.
       case best_slot view (pr_node_id req) (pr_role req) of
         Some slot \<Rightarrow> Inr (fragment_for req (pr_node_id req) slot None ''local plan satisfies this role'')
       | None \<Rightarrow>
           (case monolithic_plan req view of
              Some f \<Rightarrow> Inr f
            | None \<Rightarrow> Inl (EscalateNowhere (escalate_constraint req view))))"

definition plan_by_kind ::
  "string \<Rightarrow> plan_request \<Rightarrow> fleet_view \<Rightarrow> string list \<Rightarrow> plan_reject + plan_fragment"
where
  "plan_by_kind kind req view roles =
     and_then (validate_ask req roles) (\<lambda>_.
       if kind = ''monolithic'' then head_plan req view roles
       else if kind = ''federated'' then plan_with FederatedPerNodePlanner req view roles
       else Inl (UnknownPlanner kind))"

end
