(* ===== verification/Plan_Properties.thy ===== *)
theory Plan_Properties
  imports Plan
begin

text \<open>
  What a plan promises. The trait \<open>FleetPlanner\<close> is a locale: a planner only ever names a host in
  its extent that offers the role, and answers nothing only when no such host exists. Both planners
  interpret it; the monolithic one is also optimal for the score it computes.
\<close>

subsection \<open>Maxima\<close>

lemma fold_max_step_in: "fold (\<lambda>y acc. max_step key acc y) xs x \<in> insert x (set xs)"
  by (induction xs arbitrary: x) (auto simp: max_step_def)

lemma fold_max_step_ge:
  assumes "\<forall>y \<in> insert x (set xs). key y \<noteq> NaN"
  shows "\<forall>y \<in> insert x (set xs). f_le (key y) (key (fold (\<lambda>y acc. max_step key acc y) xs x))"
  using assms
proof (induction xs arbitrary: x)
  case (Cons z xs)
  let ?a = "max_step key x z"
  have na: "key ?a \<noteq> NaN" and za: "f_le (key z) (key ?a)" and xa: "f_le (key x) (key ?a)"
    using Cons.prems f_not_lt [of "key z" "key x"] by (auto simp: max_step_def f_lt_def)
  have "\<forall>y \<in> insert ?a (set xs). f_le (key y) (key (fold (\<lambda>y acc. max_step key acc y) xs ?a))"
    using Cons.prems na by (intro Cons.IH) auto
  then show ?case
    using za xa f_le_trans by (auto intro: f_le_trans)
qed simp

lemma max_by_None [simp]: "max_by key xs = None \<longleftrightarrow> xs = []"
  by (cases xs) auto

lemma max_by_in: "max_by key xs = Some m \<Longrightarrow> m \<in> set xs"
  using fold_max_step_in [of key] by (cases xs) auto

lemma max_by_ge: "max_by key xs = Some m \<Longrightarrow> \<forall>y \<in> set xs. key y \<noteq> NaN \<Longrightarrow> \<forall>y \<in> set xs. f_le (key y) (key m)"
  using fold_max_step_ge [of _ _ key] by (cases xs) auto

subsection \<open>Offers\<close>

text \<open>A host offers a slot for a role when it is not locked and the slot is healthy and serves it.\<close>

definition offers :: "fleet_view \<Rightarrow> string \<Rightarrow> string \<Rightarrow> slot_view \<Rightarrow> bool" where
  "offers view role k s \<longleftrightarrow>
     (\<exists>h. map_of (fv_hosts view) k = Some h \<and> \<not> hv_locked h \<and> s \<in> set (hv_slots h) \<and> serves s role)"

lemma serves_healthy: "serves s role \<Longrightarrow> sv_healthy s"
  by (simp add: serves_def split: if_splits)

lemma best_slot_scored_Some:
  assumes "best_slot_scored h role rtt = Some (score, s)"
  shows "\<not> hv_locked h" "s \<in> set (hv_slots h)" "serves s role" "score = fleet_score (sv_free_mb s) rtt"
  using assms by (auto simp: best_slot_scored_def dest!: max_by_in split: if_splits)

lemma best_slot_scored_None:
  "best_slot_scored h role rtt = None \<longleftrightarrow> hv_locked h \<or> (\<forall>s \<in> set (hv_slots h). \<not> serves s role)"
  by (auto simp: best_slot_scored_def filter_empty_conv)

lemma best_slot_Some: "best_slot view k role = Some s \<Longrightarrow> offers view role k s"
  by (auto simp: best_slot_def offers_def dest!: max_by_in split: option.splits if_splits)

lemma best_slot_None: "best_slot view k role = None \<longleftrightarrow> (\<forall>s. \<not> offers view role k s)"
  by (auto simp: best_slot_def offers_def filter_empty_conv split: option.splits)

subsection \<open>The planner interface\<close>

locale fleet_planner =
  fixes plan :: "plan_request \<Rightarrow> fleet_view \<Rightarrow> plan_fragment option"
    and extent :: "plan_request \<Rightarrow> string \<Rightarrow> bool"
  assumes plan_sound:
      "distinct (keys (fv_hosts view)) \<Longrightarrow> plan ask view = Some f \<Longrightarrow>
         pf_node_id f = pr_node_id ask \<and> pf_role f = pr_role ask \<and> extent ask (pf_host_key f)
         \<and> (\<exists>s. offers view (pr_role ask) (pf_host_key f) s \<and> pf_slot f = sv_slot s
               \<and> pf_model_id f = sv_model_id s \<and> pf_resource_id f = sv_resource_id s)"
    and plan_complete:
      "distinct (keys (fv_hosts view)) \<Longrightarrow> plan ask view = None \<Longrightarrow> extent ask k \<Longrightarrow> \<not> offers view (pr_role ask) k s"
begin

lemma plan_iff:
  assumes "distinct (keys (fv_hosts view))"
  shows "(\<exists>f. plan ask view = Some f) \<longleftrightarrow> (\<exists>k s. extent ask k \<and> offers view (pr_role ask) k s)"
  using plan_sound [OF assms] plan_complete [OF assms] by (cases "plan ask view") blast+

lemma planned_slot_healthy:
  assumes "distinct (keys (fv_hosts view))" "plan ask view = Some f"
  obtains h s where "map_of (fv_hosts view) (pf_host_key f) = Some h" "\<not> hv_locked h" "s \<in> set (hv_slots h)"
    "sv_healthy s" "pf_slot f = sv_slot s"
  using plan_sound [OF assms] serves_healthy unfolding offers_def by blast

end

subsection \<open>The two planners\<close>

lemma mono_candidate_Some:
  assumes "mono_candidate ask view (k, h) = Some (score, k', s, rtt)"
  shows "k' = k" "k \<noteq> pr_node_id ask" "rtt = rtt_ms (fv_latency view) (pr_node_id ask) k"
    "\<not> hv_locked h" "s \<in> set (hv_slots h)" "serves s (pr_role ask)" "score = fleet_score (sv_free_mb s) rtt"
  using assms by (auto simp: mono_candidate_def Let_def dest: best_slot_scored_Some split: if_splits option.splits)

lemma mono_candidate_None:
  "mono_candidate ask view (k, h) = None \<longleftrightarrow>
     k = pr_node_id ask \<or> hv_locked h \<or> (\<forall>s \<in> set (hv_slots h). \<not> serves s (pr_role ask))"
  using best_slot_scored_None [of h "pr_role ask" "rtt_ms (fv_latency view) (pr_node_id ask) k"]
  by (cases "best_slot_scored h (pr_role ask) (rtt_ms (fv_latency view) (pr_node_id ask) k)")
    (simp_all add: mono_candidate_def Let_def split: prod.split)

lemma mono_fold_Some:
  "fold (mono_step ask view) khs b = Some c \<Longrightarrow> b = Some c \<or> (\<exists>kh \<in> set khs. mono_candidate ask view kh = Some c)"
proof (induction khs arbitrary: b)
  case (Cons kh khs)
  have "mono_step ask view kh b = b \<or> mono_step ask view kh b = mono_candidate ask view kh"
    by (simp add: mono_step_def split: option.split)
  then show ?case
    using Cons.IH [of "mono_step ask view kh b"] Cons.prems by auto
qed simp

lemma mono_fold_None:
  "fold (mono_step ask view) khs b = None \<longleftrightarrow> b = None \<and> (\<forall>kh \<in> set khs. mono_candidate ask view kh = None)"
  by (induction khs arbitrary: b) (auto simp: mono_step_def split: option.splits if_splits)

lemma mono_step_ge:
  assumes "\<And>c. b = Some c \<Longrightarrow> fst c \<noteq> NaN" "\<And>c. mono_candidate ask view kh = Some c \<Longrightarrow> fst c \<noteq> NaN"
    and "b = Some c \<or> mono_candidate ask view kh = Some c"
  shows "\<exists>c'. mono_step ask view kh b = Some c' \<and> f_le (fst c) (fst c')"
proof (cases "mono_candidate ask view kh")
  case None
  then show ?thesis using assms by (simp add: mono_step_def)
next
  case (Some d)
  show ?thesis
  proof (cases b)
    case None
    then show ?thesis using Some assms by (simp add: mono_step_def)
  next
    case (Some e)
    have "fst d \<noteq> NaN" "fst e \<noteq> NaN" "c = d \<or> c = e"
      using assms Some \<open>mono_candidate ask view kh = Some d\<close> by auto
    then show ?thesis
      using Some \<open>mono_candidate ask view kh = Some d\<close> f_not_lt [of "fst e" "fst d"]
      by (cases "f_lt (fst e) (fst d)") (auto simp: mono_step_def f_lt_def)
  qed
qed

lemma mono_fold_ge:
  assumes "\<And>kh c. kh \<in> set khs \<Longrightarrow> mono_candidate ask view kh = Some c \<Longrightarrow> fst c \<noteq> NaN"
    and "\<And>c. b = Some c \<Longrightarrow> fst c \<noteq> NaN"
    and "fold (mono_step ask view) khs b = Some m"
  shows "(\<forall>c. b = Some c \<longrightarrow> f_le (fst c) (fst m))
     \<and> (\<forall>kh \<in> set khs. \<forall>c. mono_candidate ask view kh = Some c \<longrightarrow> f_le (fst c) (fst m))"
  using assms
proof (induction khs arbitrary: b)
  case (Cons kh khs)
  let ?b = "mono_step ask view kh b"
  have nn: "\<And>c. ?b = Some c \<Longrightarrow> fst c \<noteq> NaN"
    using Cons.prems(1) [of kh] Cons.prems(2) by (auto simp: mono_step_def split: option.splits if_splits)
  have ih: "(\<forall>c. ?b = Some c \<longrightarrow> f_le (fst c) (fst m))
     \<and> (\<forall>kh \<in> set khs. \<forall>c. mono_candidate ask view kh = Some c \<longrightarrow> f_le (fst c) (fst m))"
  proof (rule Cons.IH [OF _ nn])
    show "\<And>kh' c. kh' \<in> set khs \<Longrightarrow> mono_candidate ask view kh' = Some c \<Longrightarrow> fst c \<noteq> NaN"
      using Cons.prems(1) by (meson list.set_intros(2))
  qed (use Cons.prems(3) in simp_all)
  have first: "f_le (fst c) (fst m)" if hc: "b = Some c \<or> mono_candidate ask view kh = Some c" for c
  proof -
    obtain c' where c': "?b = Some c'" "f_le (fst c) (fst c')"
      using mono_step_ge [OF Cons.prems(2) Cons.prems(1) [OF list.set_intros(1)] hc] by blast
    then show ?thesis using ih f_le_trans by blast
  qed
  show ?case
  proof (intro conjI allI ballI impI)
    show "f_le (fst c) (fst m)" if "b = Some c" for c
      using first that by blast
    show "f_le (fst c) (fst m)" if "kh' \<in> set (kh # khs)" "mono_candidate ask view kh' = Some c" for kh' c
    proof (cases "kh' = kh")
      case True
      then show ?thesis using first that(2) by blast
    next
      case False
      then have "kh' \<in> set khs" using that(1) by simp
      then show ?thesis using ih that(2) by blast
    qed
  qed
qed auto

interpretation mono: fleet_planner "planner_plan MonolithicMoEPlanner" "\<lambda>ask k. k \<noteq> pr_node_id ask"
proof (unfold_locales, goal_cases)
  case (1 view ask f)
  then obtain score k s rtt where c: "mono_best ask view = Some (score, k, s, rtt)" and f: "pf_host_key f = k"
      "pf_slot f = sv_slot s" "pf_model_id f = sv_model_id s" "pf_resource_id f = sv_resource_id s"
      "pf_node_id f = pr_node_id ask" "pf_role f = pr_role ask"
    by (auto simp: monolithic_plan_def fragment_for_def split: option.splits)
  then obtain k0 h where kh: "(k0, h) \<in> set (fv_hosts view)" "mono_candidate ask view (k0, h) = Some (score, k, s, rtt)"
    by (auto simp: mono_best_def dest!: mono_fold_Some)
  note m = mono_candidate_Some [OF kh(2)]
  have "map_of (fv_hosts view) k = Some h"
    using kh(1) 1(1) m(1) by simp
  then show ?case
    using m f by (auto simp: offers_def)
next
  case (2 view ask k s)
  then have "\<forall>kh \<in> set (fv_hosts view). mono_candidate ask view kh = None"
    by (auto simp: monolithic_plan_def mono_best_def mono_fold_None split: option.splits)
  then show ?case
    using 2(3) by (auto simp: offers_def mono_candidate_None dest!: map_of_SomeD)
qed

interpretation fed: fleet_planner "planner_plan FederatedPerNodePlanner" "\<lambda>ask k. k = pr_node_id ask"
proof (unfold_locales, goal_cases)
  case (1 view ask f)
  then obtain h score s where h: "map_of (fv_hosts view) (pr_node_id ask) = Some h"
      "best_slot_scored h (pr_role ask) None = Some (score, s)"
      and f: "pf_host_key f = pr_node_id ask" "pf_slot f = sv_slot s" "pf_model_id f = sv_model_id s"
      "pf_resource_id f = sv_resource_id s" "pf_node_id f = pr_node_id ask" "pf_role f = pr_role ask"
    by (auto simp: federated_plan_def fragment_for_def split: option.splits)
  then show ?case
    using best_slot_scored_Some [OF h(2)] by (auto simp: offers_def)
next
  case (2 view ask k s)
  then show ?case
    by (auto simp: federated_plan_def offers_def best_slot_scored_None simp del: map_of_eq_Some_iff
        split: option.splits)
qed

subsection \<open>Finite scores\<close>

text \<open>JSON has no NaN and no infinity: the numbers of a view read from JSON are finite.\<close>

definition finite_view :: "fleet_view \<Rightarrow> bool" where
  "finite_view view =
     (list_all (\<lambda>(_, h). list_all (\<lambda>s. \<exists>q. sv_free_mb s = Fin q) (hv_slots h)) (fv_hosts view)
      \<and> (\<forall>src dst ms. rtt_ms (fv_latency view) src dst = Some ms \<longrightarrow> (\<exists>q. ms = Fin q)))"

lemma f64_round_not_NaN [simp]: "f64_round q \<noteq> NaN"
  by (simp add: f64_round_def Let_def)

lemma fleet_score_not_NaN:
  assumes "free = Fin q" "\<And>ms. rtt = Some ms \<Longrightarrow> \<exists>r. ms = Fin r"
  shows "fleet_score free rtt \<noteq> NaN"
proof (cases rtt)
  case (Some ms)
  then obtain r where "ms = Fin r" using assms(2) by blast
  then show ?thesis
    using assms(1) Some f64_round_not_NaN [of "512 * r"]
    by (cases "f64_round (512 * r)") (simp_all add: fleet_score_def latency_mb_per_ms_def f_neg_def)
qed (simp add: fleet_score_def assms)

lemma finite_view_score:
  assumes "finite_view view" "(k, h) \<in> set (fv_hosts view)" "s \<in> set (hv_slots h)"
  shows "fleet_score (sv_free_mb s) (rtt_ms (fv_latency view) a b) \<noteq> NaN"
proof -
  obtain q where "sv_free_mb s = Fin q"
    using assms by (fastforce simp: finite_view_def list_all_iff)
  then show ?thesis
    using assms(1) by (intro fleet_score_not_NaN) (auto simp: finite_view_def)
qed

lemma mono_best_optimal:
  assumes fin: "finite_view view" and d: "distinct (keys (fv_hosts view))"
    and m: "mono_best ask view = Some m"
    and o: "offers view (pr_role ask) k s" and k: "k \<noteq> pr_node_id ask"
  shows "f_le (fleet_score (sv_free_mb s) (rtt_ms (fv_latency view) (pr_node_id ask) k)) (fst m)"
proof -
  let ?rtt = "rtt_ms (fv_latency view) (pr_node_id ask) k"
  obtain h where h: "(k, h) \<in> set (fv_hosts view)" "\<not> hv_locked h" "s \<in> set (hv_slots h)" "serves s (pr_role ask)"
    using o by (auto simp: offers_def dest!: map_of_SomeD)
  then obtain c where c: "best_slot_scored h (pr_role ask) ?rtt = Some c"
    using best_slot_scored_None [of h "pr_role ask" ?rtt] by (cases "best_slot_scored h (pr_role ask) ?rtt") auto
  then have mc: "mono_candidate ask view (k, h) = Some (fst c, k, snd c, ?rtt)"
    using k by (simp add: mono_candidate_def Let_def split: prod.split)
  have "f_le (fleet_score (sv_free_mb s) ?rtt) (fst c)"
  proof -
    let ?xs = "map (\<lambda>s. (fleet_score (sv_free_mb s) ?rtt, s)) (filter (\<lambda>s. serves s (pr_role ask)) (hv_slots h))"
    have "max_by fst ?xs = Some c" using c h(2) by (simp add: best_slot_scored_def)
    from max_by_ge [OF this] finite_view_score [OF fin h(1)] h(3,4) show ?thesis by auto
  qed
  moreover have "f_le (fst c) (fst m)"
  proof -
    have nn: "fst c' \<noteq> NaN" if "kh \<in> set (fv_hosts view)" "mono_candidate ask view kh = Some c'" for kh c'
    proof -
      obtain k' h' sc k'' s' r' where e: "kh = (k', h')" "c' = (sc, k'', s', r')"
        by (cases kh; cases c') auto
      note mono_candidate_Some [OF that(2) [unfolded e]]
      then show ?thesis using finite_view_score [OF fin that(1) [unfolded e(1)]] e(2) by auto
    qed
    have "\<forall>kh \<in> set (fv_hosts view). \<forall>c'. mono_candidate ask view kh = Some c' \<longrightarrow> f_le (fst c') (fst m)"
      using mono_fold_ge [where ask = ask and view = view and khs = "fv_hosts view" and b = None and m = m, OF nn] m by (simp add: mono_best_def)
    from bspec [OF this h(1)] mc show ?thesis by simp
  qed
  ultimately show ?thesis by (rule f_le_trans)
qed

subsection \<open>Properties\<close>

lemma validate_ask_ok:
  "validate_ask req roles = Inr () \<longleftrightarrow>
     trim (pr_node_id req) \<noteq> [] \<and> trim (pr_role req) \<noteq> [] \<and> pr_role req \<in> set roles"
  by (simp add: validate_ask_def catalogue_contains_def)

lemma validate_ask_unit: "validate_ask req roles = Inr u \<longleftrightarrow> validate_ask req roles = Inr ()"
  by simp

text \<open>C11. A fragment of the head is backed by the fleet: the ask was valid, and the host it names is
  unlocked and has a healthy slot that serves the role, whose name, model and resource the fragment
  carries. The asking node is named exactly when it offers such a slot itself.\<close>

theorem head_plan_is_backed:
  assumes "distinct (keys (fv_hosts view))" "head_plan req view roles = Inr f"
  shows "pr_role req \<in> set roles \<and> pf_node_id f = pr_node_id req \<and> pf_role f = pr_role req
     \<and> (\<exists>s. offers view (pr_role req) (pf_host_key f) s \<and> sv_healthy s \<and> pf_slot f = sv_slot s
           \<and> pf_model_id f = sv_model_id s \<and> pf_resource_id f = sv_resource_id s)
     \<and> (pf_host_key f = pr_node_id req \<longleftrightarrow> (\<exists>s. offers view (pr_role req) (pr_node_id req) s))"
proof -
  have v: "pr_role req \<in> set roles"
    using assms(2) by (auto simp: head_plan_def and_then_Inr validate_ask_ok)
  have h: "offers view role k s \<Longrightarrow> sv_healthy s" for role k s
    by (auto simp: offers_def serves_healthy)
  show ?thesis
  proof (cases "best_slot view (pr_node_id req) (pr_role req)")
    case (Some s)
    then have "f = fragment_for req (pr_node_id req) s None ''local plan satisfies this role''"
      using assms(2) by (auto simp: head_plan_def and_then_Inr)
    then show ?thesis
      using v best_slot_Some [OF Some] h by (auto simp: fragment_for_def)
  next
    case None
    then have "planner_plan MonolithicMoEPlanner req view = Some f"
      using assms(2) by (auto simp: head_plan_def and_then_Inr split: option.splits)
    from mono.plan_sound [OF assms(1) this] show ?thesis
      using v None h unfolding best_slot_None by blast
  qed
qed

definition demo_slot :: "rat \<Rightarrow> slot_view" where
  "demo_slot q = \<lparr>sv_slot = ''s'', sv_model_id = ''m'', sv_roles = [''coder''], sv_healthy = True, sv_free_mb = Fin q,
     sv_resource_id = None\<rparr>"

definition demo_view :: fleet_view where
  "demo_view = \<lparr>fv_hosts = [(''a'', \<lparr>hv_slots = [], hv_locked = False\<rparr>),
       (''b'', \<lparr>hv_slots = [demo_slot 8000], hv_locked = False\<rparr>),
       (''c'', \<lparr>hv_slots = [demo_slot 7000], hv_locked = False\<rparr>)],
     fv_latency = [(''a'', [(''b'', Some (Fin 3)), (''c'', Some (Fin 1))])]\<rparr>"

abbreviation demo_ask :: plan_request where
  "demo_ask \<equiv> plan_request_new ''a'' ''coder''"

lemma demo_view_distinct: "distinct (keys (fv_hosts demo_view))"
  by (simp add: demo_view_def)

lemma demo_offers: "offers demo_view ''coder'' ''c'' (demo_slot 7000)" "offers demo_view ''coder'' ''b'' (demo_slot 8000)"
  by (simp_all add: offers_def demo_view_def demo_slot_def serves_def)

lemma demo_valid: "validate_ask demo_ask [''coder''] = Inr ()"
  by (simp add: validate_ask_def catalogue_contains_def plan_request_new_def trim_def trim_matches_def
      trim_end_matches_def is_ws_def)

lemma demo_mono_plan: "\<exists>f. planner_plan MonolithicMoEPlanner demo_ask demo_view = Some f"
  unfolding mono.plan_iff [OF demo_view_distinct, of demo_ask]
  by (intro exI [of _ "''c''"] exI [of _ "demo_slot 7000"]) (simp add: demo_offers plan_request_new_def)

lemma demo_head_plan: "\<exists>f. head_plan demo_ask demo_view [''coder''] = Inr f"
  using demo_mono_plan
  by (auto simp: head_plan_def demo_valid split: option.splits)

theorem head_plan_is_backed_witness:
  "\<exists>f. head_plan demo_ask demo_view [''coder''] = Inr f \<and> pf_host_key f \<noteq> ''a''
     \<and> (\<exists>s. offers demo_view ''coder'' (pf_host_key f) s \<and> pf_slot f = sv_slot s)"
proof -
  obtain f where f: "head_plan demo_ask demo_view [''coder''] = Inr f"
    using demo_head_plan by blast
  have "\<not> offers demo_view ''coder'' ''a'' s" for s
    by (simp add: offers_def demo_view_def)
  with head_plan_is_backed [OF demo_view_distinct f] f show ?thesis
    by (auto simp: plan_request_new_def)
qed

text \<open>C12. The head escalates only when it has to: a valid ask is answered when some unlocked host of the
  fleet, the asking node included, has a healthy slot for the role, and otherwise refused with
  \<open>escalate-nowhere\<close> and the constraint that was observed.\<close>

theorem head_plan_complete:
  assumes "distinct (keys (fv_hosts view))" "validate_ask req roles = Inr ()"
  shows "case head_plan req view roles of
      Inr f \<Rightarrow> (\<exists>k s. offers view (pr_role req) k s)
    | Inl e \<Rightarrow> e = EscalateNowhere (escalate_constraint req view) \<and> (\<forall>k s. \<not> offers view (pr_role req) k s)"
proof (cases "best_slot view (pr_node_id req) (pr_role req)")
  case (Some s)
  then show ?thesis
    using best_slot_Some [OF Some] assms(2) by (auto simp: head_plan_def)
next
  case None
  note loc = None [unfolded best_slot_None]
  show ?thesis
  proof (cases "planner_plan MonolithicMoEPlanner req view")
    case (Some f)
    then show ?thesis
      using mono.plan_sound [OF assms(1) Some] None assms(2) by (auto simp: head_plan_def)
  next
    case none: None
    have "\<not> offers view (pr_role req) k s" for k s
      using loc mono.plan_complete [OF assms(1) none, of k s] by (cases "k = pr_node_id req") auto
    then show ?thesis
      using None none assms(2) by (simp add: head_plan_def)
  qed
qed

theorem head_plan_complete_witness:
  "head_plan (plan_request_new ''a'' ''coder'') \<lparr>fv_hosts = [(''b'', \<lparr>hv_slots = [demo_slot 1], hv_locked = True\<rparr>)], fv_latency = []\<rparr>
     [''coder''] \<in> range Inl"
proof -
  let ?view = "\<lparr>fv_hosts = [(''b'', \<lparr>hv_slots = [demo_slot 1], hv_locked = True\<rparr>)], fv_latency = []\<rparr>"
  have "\<not> offers ?view ''coder'' k s" for k s
    by (simp add: offers_def)
  with head_plan_complete [of ?view demo_ask "[''coder'']", OF _ demo_valid] show ?thesis
    by (auto simp: plan_request_new_def split: sum.splits)
qed

text \<open>C10. The fleet-wide planner picks a best host: never the asking node, and no slot any other host
  offers for the role has a higher score (free memory less 512 MiB for every measured millisecond)
  than the one it names. The latency in the fragment is the measured one.\<close>

theorem monolithic_plan_optimal:
  assumes "finite_view view" "distinct (keys (fv_hosts view))" "monolithic_plan ask view = Some f"
  shows "pf_host_key f \<noteq> pr_node_id ask
     \<and> pf_rtt_ms f = rtt_ms (fv_latency view) (pr_node_id ask) (pf_host_key f)
     \<and> (\<exists>s. offers view (pr_role ask) (pf_host_key f) s \<and> pf_slot f = sv_slot s
          \<and> (\<forall>k s'. k \<noteq> pr_node_id ask \<longrightarrow> offers view (pr_role ask) k s' \<longrightarrow>
               f_le (fleet_score (sv_free_mb s') (rtt_ms (fv_latency view) (pr_node_id ask) k))
                    (fleet_score (sv_free_mb s) (pf_rtt_ms f))))"
proof -
  obtain score k s rtt where c: "mono_best ask view = Some (score, k, s, rtt)" and f: "pf_host_key f = k"
      "pf_slot f = sv_slot s" "pf_rtt_ms f = rtt"
    using assms(3) by (auto simp: monolithic_plan_def fragment_for_def split: option.splits)
  then obtain k0 h where kh: "(k0, h) \<in> set (fv_hosts view)" "mono_candidate ask view (k0, h) = Some (score, k, s, rtt)"
    by (auto simp: mono_best_def dest!: mono_fold_Some)
  note m = mono_candidate_Some [OF kh(2)]
  have "offers view (pr_role ask) k s"
    using m kh(1) assms(2) by (auto simp: offers_def)
  then show ?thesis
    using m f mono_best_optimal [OF assms(1,2) c] by auto
qed

theorem monolithic_plan_optimal_witness:
  "\<exists>f s. monolithic_plan demo_ask demo_view = Some f \<and> pf_host_key f \<noteq> ''a''
     \<and> offers demo_view ''coder'' (pf_host_key f) s
     \<and> f_le (fleet_score (Fin 8000) (Some (Fin 3))) (fleet_score (sv_free_mb s) (pf_rtt_ms f))"
proof -
  obtain f where f: "monolithic_plan demo_ask demo_view = Some f"
    using demo_mono_plan by auto
  have "finite_view demo_view"
    by (auto simp: finite_view_def demo_view_def demo_slot_def rtt_ms_def split: if_splits)
  note opt = monolithic_plan_optimal [OF this demo_view_distinct f]
  have role: "pr_role demo_ask = ''coder''" "pr_node_id demo_ask = ''a''"
    by (simp_all add: plan_request_new_def)
  obtain s where s: "offers demo_view ''coder'' (pf_host_key f) s"
    and all: "\<And>k s'. k \<noteq> ''a'' \<Longrightarrow> offers demo_view ''coder'' k s' \<Longrightarrow>
        f_le (fleet_score (sv_free_mb s') (rtt_ms (fv_latency demo_view) ''a'' k)) (fleet_score (sv_free_mb s) (pf_rtt_ms f))"
    using opt unfolding role by blast
  have "rtt_ms (fv_latency demo_view) ''a'' ''b'' = Some (Fin 3)" "sv_free_mb (demo_slot 8000) = Fin 8000"
    by (simp_all add: demo_view_def rtt_ms_def demo_slot_def)
  with all [OF _ demo_offers(2)] s f opt role show ?thesis
    by auto
qed

text \<open>The per-node planner picks the asking node's own best slot: it answers exactly when that node is
  unlocked and has a healthy slot for the role, it never names another host, and no slot the node
  offers for the role has more free memory than the one it names.\<close>

theorem federated_plan_is_local:
  assumes "finite_view view" "distinct (keys (fv_hosts view))"
  shows "case federated_plan ask view of
      None \<Rightarrow> (\<forall>s. \<not> offers view (pr_role ask) (pr_node_id ask) s)
    | Some f \<Rightarrow> pf_host_key f = pr_node_id ask \<and> pf_rtt_ms f = None
        \<and> (\<exists>s. offers view (pr_role ask) (pr_node_id ask) s \<and> pf_slot f = sv_slot s \<and> pf_model_id f = sv_model_id s
             \<and> (\<forall>s'. offers view (pr_role ask) (pr_node_id ask) s' \<longrightarrow> f_le (sv_free_mb s') (sv_free_mb s)))"
proof (cases "federated_plan ask view")
  case None
  then show ?thesis
    using best_slot_scored_None by (fastforce simp: federated_plan_def offers_def split: option.splits)
next
  case (Some f)
  then obtain h score s where h: "map_of (fv_hosts view) (pr_node_id ask) = Some h"
      and b: "best_slot_scored h (pr_role ask) None = Some (score, s)"
      and f: "pf_host_key f = pr_node_id ask" "pf_rtt_ms f = None" "pf_slot f = sv_slot s" "pf_model_id f = sv_model_id s"
    by (auto simp: federated_plan_def fragment_for_def split: option.splits)
  note m = best_slot_scored_Some [OF b]
  let ?xs = "map (\<lambda>s. (fleet_score (sv_free_mb s) None, s)) (filter (\<lambda>s. serves s (pr_role ask)) (hv_slots h))"
  have "max_by fst ?xs = Some (score, s)"
    using b m(1) by (simp add: best_slot_scored_def)
  moreover have "sv_free_mb s' \<noteq> NaN" if "s' \<in> set (hv_slots h)" for s'
    using assms(1) map_of_SomeD [OF h] that by (fastforce simp: finite_view_def list_all_iff)
  then have "\<forall>y \<in> set ?xs. fst y \<noteq> NaN"
    by (auto simp: fleet_score_def)
  ultimately have "\<forall>y \<in> set ?xs. f_le (fst y) score"
    using max_by_ge by fastforce
  then have "f_le (sv_free_mb s') (sv_free_mb s)" if "offers view (pr_role ask) (pr_node_id ask) s'" for s'
    using that h m(4) by (auto simp: offers_def fleet_score_def)
  moreover have "offers view (pr_role ask) (pr_node_id ask) s"
    using h m by (simp add: offers_def)
  ultimately show ?thesis
    using Some f by auto
qed

theorem federated_plan_is_local_witness:
  "\<exists>f. federated_plan (plan_request_new ''b'' ''coder'') demo_view = Some f \<and> pf_host_key f = ''b''"
proof -
  have "finite_view demo_view"
    by (auto simp: finite_view_def demo_view_def demo_slot_def rtt_ms_def split: if_splits)
  from federated_plan_is_local [OF this demo_view_distinct, of "plan_request_new ''b'' ''coder''"] demo_offers(2)
  show ?thesis
    by (auto simp: plan_request_new_def split: option.splits)
qed

end
