(* ===== verification/Http.thy ===== *)
theory Http
  imports Plan
begin

text \<open>
  The hand-written HTTP client of \<open>plan.rs\<close>: the head's URL, the request, the parsing of a
  response with its chunked bodies, and the mapping of the head's answers onto fragments and typed
  refusals. The socket is an argument that says what happened to the request; \<open>serde_json\<close> is an
  argument as in \<open>Plan\<close>. Text is bytes, so the conversions from bytes to \<open>str\<close> check and repair
  UTF-8 explicitly.
\<close>

subsection \<open>UTF-8\<close>

definition byte_in :: "nat \<Rightarrow> nat \<Rightarrow> string \<Rightarrow> nat \<Rightarrow> bool" where
  "byte_in lo hi s i = (i < length s \<and> lo \<le> (of_char (s ! i) :: nat) \<and> of_char (s ! i) \<le> hi)"

text \<open>
  The first character of a non-empty byte string: whether it is well-formed, and how many bytes it
  takes up, or, when it is not, how many bytes the decoder skips as one unit.
\<close>

definition utf8_tail :: "nat \<Rightarrow> nat \<Rightarrow> nat \<Rightarrow> string \<Rightarrow> bool \<times> nat" where
  "utf8_tail n lo hi s =
     (if \<not> byte_in lo hi s 1 then (False, 1)
      else if n = 2 then (True, 2)
      else if \<not> byte_in 0x80 0xBF s 2 then (False, 2)
      else if n = 3 then (True, 3)
      else if \<not> byte_in 0x80 0xBF s 3 then (False, 3)
      else (True, 4))"

definition utf8_head :: "string \<Rightarrow> bool \<times> nat" where
  "utf8_head s =
     (let b = (of_char (hd s) :: nat) in
      if b < 0x80 then (True, 1)
      else if 0xC2 \<le> b \<and> b \<le> 0xDF then utf8_tail 2 0x80 0xBF s
      else if b = 0xE0 then utf8_tail 3 0xA0 0xBF s
      else if b = 0xED then utf8_tail 3 0x80 0x9F s
      else if 0xE1 \<le> b \<and> b \<le> 0xEF then utf8_tail 3 0x80 0xBF s
      else if b = 0xF0 then utf8_tail 4 0x90 0xBF s
      else if 0xF1 \<le> b \<and> b \<le> 0xF3 then utf8_tail 4 0x80 0xBF s
      else if b = 0xF4 then utf8_tail 4 0x80 0x8F s
      else (False, 1))"

lemma utf8_head_pos: "0 < snd (utf8_head s)"
  by (simp add: utf8_head_def utf8_tail_def Let_def)

function from_utf8_lossy :: "string \<Rightarrow> string" where
  "from_utf8_lossy s =
     (if s = [] then []
      else let (ok, n) = utf8_head s
           in (if ok then take n s else [CHR 0xEF, CHR 0xBF, CHR 0xBD]) @ from_utf8_lossy (drop n s))"
  by auto
termination
proof (relation "measure length", goal_cases)
  case (2 s x xa y)
  then have "0 < y" using utf8_head_pos [of s] by (metis snd_conv)
  with 2 show ?case by simp
qed simp

function utf8_valid :: "string \<Rightarrow> bool" where
  "utf8_valid s = (if s = [] then True else let (ok, n) = utf8_head s in ok \<and> utf8_valid (drop n s))"
  by auto
termination
proof (relation "measure length", goal_cases)
  case (2 s x xa y)
  then have "0 < y" using utf8_head_pos [of s] by (metis snd_conv)
  with 2 show ?case by simp
qed simp

declare from_utf8_lossy.simps [simp del] utf8_valid.simps [simp del]

definition from_utf8 :: "string \<Rightarrow> string option" where
  "from_utf8 s = (if utf8_valid s then Some s else None)"

text \<open>The number of characters and the prefix of some characters, for \<open>chars().take(n)\<close>.\<close>

definition is_char_start :: "char \<Rightarrow> bool" where
  "is_char_start c = (let b = (of_char c :: nat) in b < 0x80 \<or> 0xC0 \<le> b)"

fun take_chars :: "nat \<Rightarrow> string \<Rightarrow> string" where
  "take_chars n [] = []"
| "take_chars n (c # s) =
     (if is_char_start c then (case n of 0 \<Rightarrow> [] | Suc m \<Rightarrow> c # take_chars m s) else c # take_chars n s)"

definition char_count :: "string \<Rightarrow> nat" where
  "char_count s = length (filter is_char_start s)"

definition truncate_text :: "string \<Rightarrow> nat \<Rightarrow> string" where
  "truncate_text s m =
     (let trimmed = trim s in
      if char_count trimmed \<le> m then trimmed else take_chars m trimmed @ [CHR 0xE2, CHR 0x80, CHR 0xA6])"

subsection \<open>Response parsing\<close>

fun find_subslice :: "string \<Rightarrow> string \<Rightarrow> nat option" where
  "find_subslice [] needle = None"
| "find_subslice (c # s) needle =
     (if starts_with (c # s) needle then Some 0 else map_option Suc (find_subslice s needle))"

definition crlf :: string where
  "crlf = [CHR 0x0D, CHR 0x0A]"

definition find_header_end :: "string \<Rightarrow> nat option" where
  "find_header_end raw =
     (case find_subslice raw (crlf @ crlf) of
        Some i \<Rightarrow> Some (i + 4)
      | None \<Rightarrow> map_option (\<lambda>i. i + 2) (find_subslice raw [CHR 0x0A, CHR 0x0A]))"

definition chunk_size :: "string \<Rightarrow> nat option" where
  "chunk_size line = from_str_radix (2 ^ 64) 16 (trim (hd (split_char (CHR '';'') (from_utf8_lossy line))))"

function dechunk_bytes :: "string \<Rightarrow> string" where
  "dechunk_bytes rest =
     (let line_end = unwrap_or (find_subslice rest crlf) (length rest) in
      case chunk_size (take line_end rest) of
        None \<Rightarrow> []
      | Some len \<Rightarrow>
          if len = 0 then []
          else if length rest < line_end + 2 + len then []
          else take len (drop (line_end + 2) rest)
                 @ dechunk_bytes (drop (min (line_end + 2 + len + 2) (length rest)) rest))"
  by auto
termination
  by (relation "measure length") auto

declare dechunk_bytes.simps [simp del]

definition dechunk :: "string \<Rightarrow> string" where
  "dechunk body = from_utf8_lossy (dechunk_bytes body)"

definition header_insert :: "string \<Rightarrow> attrs \<Rightarrow> attrs" where
  "header_insert line headers =
     (case split_once (CHR '':'') line of
        None \<Rightarrow> headers
      | Some (k, v) \<Rightarrow> bt_insert (to_lower (trim k)) (trim v) headers)"

definition parse_http_response :: "string \<Rightarrow> (u16 \<times> attrs \<times> string) option" where
  "parse_http_response raw =
     (case find_header_end raw of
        None \<Rightarrow> None
      | Some split \<Rightarrow>
          (case from_utf8 (take split raw) of
             None \<Rightarrow> None
           | Some head \<Rightarrow>
               (case lines head of
                  [] \<Rightarrow> None
                | status_line # header_lines \<Rightarrow>
                    (case split_whitespace status_line of
                       _ # code # _ \<Rightarrow>
                         (case parse_u16 code of
                            None \<Rightarrow> None
                          | Some status \<Rightarrow>
                              (let headers = fold header_insert header_lines [];
                                   body = drop split raw
                               in Some (status, headers,
                                    case map_of headers ''transfer-encoding'' of
                                      Some v \<Rightarrow> if contains (to_lower v) ''chunked'' then dechunk body else from_utf8_lossy body
                                    | None \<Rightarrow> from_utf8_lossy body)))
                     | _ \<Rightarrow> None))))"

subsection \<open>The request\<close>

definition default_head_port :: u16 where
  "default_head_port = 8080"

definition parse_head_url :: "string \<Rightarrow> plan_reject + (string \<times> u16)" where
  "parse_head_url base =
     (case strip_prefix base ''http://'' of
        None \<Rightarrow> Inl (BadHeadUrl (str_debug base @ '' is not an http:// authority (no TLS here)''))
      | Some rest \<Rightarrow>
          (let authority = trim (hd (split_char (CHR ''/'') rest)) in
           if authority = [] then Inl (BadHeadUrl (str_debug base @ '' has no host''))
           else
             and_then
               (case rsplit_once (CHR '':'') authority of
                  Some (h, p) \<Rightarrow>
                    (case parse_u16 p of
                       Some port \<Rightarrow> Inr (h, port)
                     | None \<Rightarrow> Inl (BadHeadUrl (str_debug base @ '' has a non-numeric port '' @ str_debug p)))
                | None \<Rightarrow> Inr (authority, default_head_port))
               (\<lambda>(host, port).
                  if trim_matches (\<lambda>c. c = CHR ''['' \<or> c = CHR '']'') host = []
                  then Inl (BadHeadUrl (str_debug base @ '' has an empty host''))
                  else Inr (host, port))))"

datatype net_result =
    ConnectError string
  | WriteError string
  | FlushError string
  | ReadError string
  | Answered string

definition http_request :: "string \<Rightarrow> string \<Rightarrow> string \<Rightarrow> string" where
  "http_request authority path body =
     ''POST '' @ path @ '' HTTP/1.1'' @ crlf
     @ ''Host: '' @ authority @ crlf
     @ ''Content-Type: application/json'' @ crlf
     @ ''Content-Length: '' @ show_nat (length body) @ crlf
     @ ''Accept: application/json'' @ crlf
     @ ''Connection: close'' @ crlf
     @ crlf @ body"

definition http_post ::
  "(string \<Rightarrow> string \<Rightarrow> net_result) \<Rightarrow> string \<Rightarrow> u16 \<Rightarrow> string \<Rightarrow> string \<Rightarrow> plan_reject + (u16 \<times> attrs \<times> string)"
where
  "http_post net host port path body =
     (let authority = host @ '':'' @ show_word port in
      case net authority (http_request authority path body) of
        ConnectError e \<Rightarrow> Inl (HeadUnreachable (''connect '' @ authority @ '': '' @ e))
      | WriteError e \<Rightarrow> Inl (HeadUnreachable (''write to '' @ authority @ '': '' @ e))
      | FlushError e \<Rightarrow> Inl (HeadUnreachable (''flush to '' @ authority @ '': '' @ e))
      | ReadError e \<Rightarrow> Inl (HeadUnreachable (''read from '' @ authority @ '': '' @ e))
      | Answered raw \<Rightarrow>
          ok_or (parse_http_response raw)
            (HeadUnreachable (authority @ '' closed with no complete HTTP response'')))"

subsection \<open>Asking the head\<close>

record plan_serde =
  ps_encode_request :: "plan_request \<Rightarrow> string + string"
  ps_decode_fragment :: "string \<Rightarrow> string + plan_fragment"
  ps_parse :: "string \<Rightarrow> string + json"

definition json_detail :: "plan_serde \<Rightarrow> string \<Rightarrow> string option" where
  "json_detail sd body =
     (case ps_parse sd body of Inl _ \<Rightarrow> None | Inr v \<Rightarrow> j_as_str (j_index v ''detail''))"

definition interpret_answer ::
  "plan_serde \<Rightarrow> plan_request \<Rightarrow> u16 \<times> attrs \<times> string \<Rightarrow> plan_reject + plan_fragment"
where
  "interpret_answer sd req = (\<lambda>(status, headers, resp).
     if 200 \<le> status \<and> status \<le> 299
     then map_err (\<lambda>e. BadResponse status ''missing-field'' (''body is not a PlanFragment: '' @ e)) (ps_decode_fragment sd resp)
     else if status = 403
     then Inl (EscalateNowhere
            (case map_of headers ''x-escalate-constraint'' of
               Some c \<Rightarrow> if trim c \<noteq> [] then Some c else json_detail sd resp
             | None \<Rightarrow> json_detail sd resp))
     else if status = 404 then Inl (UnknownRole (pr_role req))
     else Inl (BadResponse status (if 500 \<le> status then ''backend-down'' else ''executor-error'') (truncate_text resp 200)))"

definition ask_head_with_timeout ::
  "plan_serde \<Rightarrow> (string \<Rightarrow> string \<Rightarrow> net_result) \<Rightarrow> string \<Rightarrow> plan_request \<Rightarrow> plan_reject + plan_fragment"
where
  "ask_head_with_timeout sd net base_url req =
     and_then (parse_head_url base_url) (\<lambda>(host, port).
       and_then (map_err (\<lambda>e. BadResponse 0 ''executor-error'' (''cannot encode PlanRequest: '' @ e)) (ps_encode_request sd req))
         (\<lambda>body. and_then (http_post net host port ''/v1/plan'' body) (interpret_answer sd req)))"

end
