(* ===== verification/Http_Properties.thy ===== *)
theory Http_Properties
  imports Http
begin

text \<open>Properties of the HTTP client: chunked bodies, head URLs, and what counts as an answer.\<close>

subsection \<open>ASCII\<close>

definition ascii :: "string \<Rightarrow> bool" where
  "ascii s = list_all (\<lambda>c. (of_char c :: nat) < 0x80) s"

lemma utf8_head_ascii: "ascii (c # s) \<Longrightarrow> utf8_head (c # s) = (True, 1)"
  by (simp add: ascii_def utf8_head_def Let_def)

lemma lossy_valid: "utf8_valid s \<Longrightarrow> from_utf8_lossy s = s"
proof (induction s rule: from_utf8_lossy.induct)
  case (1 s)
  show ?case
  proof (cases "s = []")
    case False
    obtain ok n where h: "utf8_head s = (ok, n)" by (cases "utf8_head s")
    have "ok" "utf8_valid (drop n s)"
      using 1(2) False h by (simp_all add: utf8_valid.simps [of s])
    then have "from_utf8_lossy (drop n s) = drop n s"
      using 1(1) [OF False refl h [symmetric]] by simp
    then show ?thesis
      using False h \<open>ok\<close> by (simp add: from_utf8_lossy.simps [of s])
  qed (simp add: from_utf8_lossy.simps)
qed

lemma ascii_valid: "ascii s \<Longrightarrow> utf8_valid s"
proof (induction s)
  case (Cons c s)
  then show ?case
    using utf8_head_ascii [of c s] by (simp add: utf8_valid.simps [of "c # s"] ascii_def)
qed (simp add: utf8_valid.simps)

subsection \<open>Hexadecimal sizes\<close>

definition hex_char :: "char \<Rightarrow> bool" where
  "hex_char c = (let n = (of_char c :: nat) in 48 \<le> n \<and> n \<le> 57 \<or> 97 \<le> n \<and> n \<le> 102)"

lemma digit_char_hex: "d < 16 \<Longrightarrow> hex_char (digit_char d)"
  by (simp add: hex_char_def digit_char_def Let_def)

lemma show_hex_chars: "list_all hex_char (show_radix 16 n)"
proof (induction "16 :: nat" n rule: show_radix.induct)
  case (1 n)
  then show ?case
    by (subst show_radix.simps) (simp add: digit_char_hex)
qed

lemma hex_char_facts:
  assumes "hex_char c"
  shows "c \<noteq> CHR 0x0D" "c \<noteq> CHR '';''" "\<not> is_ws c" "(of_char c :: nat) < 0x80"
  using assms by (auto simp: hex_char_def is_ws_def Let_def)

lemma find_crlf: "CHR 0x0D \<notin> set s \<Longrightarrow> find_subslice (s @ crlf @ rest) crlf = Some (length s)"
  by (induction s) (auto simp: crlf_def starts_with_def)

lemma dropWhile_none: "\<forall>c \<in> set s. \<not> p c \<Longrightarrow> dropWhile p s = s"
  by (cases s) simp_all

lemma trim_no_ws: "\<forall>c \<in> set s. \<not> is_ws c \<Longrightarrow> trim s = s"
proof -
  assume no: "\<forall>c \<in> set s. \<not> is_ws c"
  then have "dropWhile is_ws s = s" "dropWhile is_ws (rev s) = rev s"
    by (simp_all add: dropWhile_none)
  then show "trim s = s"
    by (simp add: trim_def trim_matches_def trim_end_matches_def)
qed

lemma chunk_size_show:
  assumes "n < 2 ^ 64"
  shows "chunk_size (show_radix 16 n) = Some n"
proof -
  have all: "\<forall>c \<in> set (show_radix 16 n). hex_char c"
    using show_hex_chars by (simp add: list_all_iff)
  then have "ascii (show_radix 16 n)"
    using hex_char_facts(4) by (simp add: ascii_def list_all_iff)
  then have "from_utf8_lossy (show_radix 16 n) = show_radix 16 n"
    by (intro lossy_valid ascii_valid)
  moreover have "split_char (CHR '';'') (show_radix 16 n) = [show_radix 16 n]"
    using all hex_char_facts(2) by (intro split_on_no_sep) auto
  moreover have "trim (show_radix 16 n) = show_radix 16 n"
    using all hex_char_facts(3) by (intro trim_no_ws) auto
  ultimately show ?thesis
    using assms by (simp add: chunk_size_def from_str_radix_show)
qed

subsection \<open>Chunked bodies\<close>

definition chunk :: "string \<Rightarrow> string" where
  "chunk c = show_radix 16 (length c) @ crlf @ c @ crlf"

definition enchunk :: "string list \<Rightarrow> string" where
  "enchunk cs = concat (map chunk cs) @ ''0'' @ crlf @ crlf"

lemma length_crlf [simp]: "length crlf = 2"
  by (simp add: crlf_def)

lemma dechunk_chunk:
  assumes "c \<noteq> []" "length c < 2 ^ 64"
  shows "dechunk_bytes (chunk c @ rest) = c @ dechunk_bytes rest"
proof -
  let ?h = "show_radix 16 (length c)"
  have "CHR 0x0D \<notin> set ?h"
    using show_hex_chars [of "length c"] hex_char_facts(1) by (auto simp: list_all_iff)
  then have f: "find_subslice (chunk c @ rest) crlf = Some (length ?h)"
    using find_crlf [of ?h "c @ crlf @ rest"] by (simp add: chunk_def)
  have t: "take (length ?h) (chunk c @ rest) = ?h"
    "take (length c) (drop (length ?h + 2) (chunk c @ rest)) = c"
    "drop (length ?h + 2 + length c + 2) (chunk c @ rest) = rest"
    by (simp_all add: chunk_def)
  have l: "length (chunk c @ rest) = length ?h + 2 + length c + 2 + length rest"
    by (simp add: chunk_def)
  show ?thesis
    using assms f t l chunk_size_show [OF assms(2)]
    by (subst dechunk_bytes.simps) (simp add: Let_def)
qed

lemma dechunk_last: "dechunk_bytes (''0'' @ crlf @ crlf) = []"
proof -
  have "show_radix 16 0 = ''0''"
    by code_simp
  then have "chunk_size ''0'' = Some 0"
    using chunk_size_show [of 0] by simp
  moreover have "find_subslice (''0'' @ crlf @ crlf) crlf = Some 1"
    using find_crlf [of "''0''" crlf] by simp
  ultimately show ?thesis
    by (subst dechunk_bytes.simps) (simp add: Let_def)
qed

text \<open>A chunked body is decoded to what was chunked: for every way of cutting a UTF-8 text into
  non-empty chunks, the decoder returns the text.\<close>

theorem dechunk_enchunk:
  assumes "\<forall>c \<in> set cs. c \<noteq> [] \<and> length c < 2 ^ 64" "utf8_valid (concat cs)"
  shows "dechunk (enchunk cs) = concat cs"
proof -
  have "dechunk_bytes (enchunk cs) = concat cs"
    using assms(1)
  proof (induction cs)
    case (Cons c cs)
    have "enchunk (c # cs) = chunk c @ enchunk cs"
      by (simp add: enchunk_def)
    with Cons show ?case by (simp add: dechunk_chunk)
  qed (use dechunk_last in \<open>simp add: enchunk_def\<close>)
  then show ?thesis
    using lossy_valid [OF assms(2)] by (simp add: dechunk_def)
qed

theorem dechunk_enchunk_witness: "dechunk (enchunk [''ab'', ''c'']) = ''abc''"
  using dechunk_enchunk [of "[''ab'', ''c'']"] by (simp add: ascii_valid ascii_def)

subsection \<open>Head URLs\<close>

definition plain_host :: "string \<Rightarrow> bool" where
  "plain_host h = (h \<noteq> [] \<and> list_all (\<lambda>c. \<not> is_ws c \<and> c \<noteq> CHR ''/'' \<and> c \<noteq> CHR '':'' \<and> c \<noteq> CHR ''['' \<and> c \<noteq> CHR '']'') h)"

lemma digits_facts:
  assumes "c \<in> set (show_nat n)"
  shows "c \<noteq> CHR ''/''" "c \<noteq> CHR '':''" "\<not> is_ws c"
proof -
  have "list_all (\<lambda>c. 48 \<le> (of_char c :: nat) \<and> of_char c \<le> (57 :: nat)) (show_nat n)"
  proof (induction "10 :: nat" n rule: show_radix.induct)
    case (1 n)
    then show ?case by (subst show_radix.simps) (auto simp: digit_char_def)
  qed
  then have "48 \<le> (of_char c :: nat) \<and> of_char c \<le> (57 :: nat)"
    using assms by (auto simp: list_all_iff)
  then show "c \<noteq> CHR ''/''" "c \<noteq> CHR '':''" "\<not> is_ws c"
    by (auto simp: is_ws_def)
qed

lemma split_path: "CHR ''/'' \<notin> set a \<Longrightarrow> hd (split_char (CHR ''/'') (a @ ''/'' @ path)) = a"
  using split_on_append_sep [of "\<lambda>c. c = CHR ''/''" "CHR ''/''" a path] by force

lemma colon_not_ws: "\<not> is_ws (CHR '':'')"
  by (simp add: is_ws_def)

lemma trim_matches_none: "h \<noteq> [] \<Longrightarrow> \<forall>c \<in> set h. \<not> p c \<Longrightarrow> trim_matches p h \<noteq> []"
  by (cases h) (auto simp: trim_matches_def trim_end_matches_def dropWhile_eq_Nil_conv)

text \<open>A head URL written with a host and a port, with or without a path, is read back as that host
  and port; without a port the default 8080 is used.\<close>

theorem head_url_roundtrip:
  assumes "plain_host h"
  shows "parse_head_url (''http://'' @ h @ '':'' @ show_word (port :: u16) @ ''/'' @ path) = Inr (h, port)
     \<and> parse_head_url (''http://'' @ h @ ''/'' @ path) = Inr (h, default_head_port)"
proof -
  have h: "h \<noteq> []" "\<forall>c \<in> set h. \<not> is_ws c" "CHR ''/'' \<notin> set h" "CHR '':'' \<notin> set h"
      "\<forall>c \<in> set h. \<not> (c = CHR ''['' \<or> c = CHR '']'')"
    using assms by (auto simp: plain_host_def list_all_iff)
  let ?a = "h @ '':'' @ show_word port"
  have a: "CHR ''/'' \<notin> set ?a" "\<forall>c \<in> set ?a. \<not> is_ws c"
    using h colon_not_ws digits_facts(1,3) [of _ "unat port"] by force+
  have "rsplit_once (CHR '':'') ?a = Some (h, show_word port)"
    using rsplit_once_append [of "CHR '':''" "show_word port" h] digits_facts(2) [of "CHR '':''" "unat port"] by auto
  moreover have "parse_u16 (show_word port) = Some port"
    using from_str_radix_show [of 10 "unat port" "2 ^ 16"] unsigned_less [where ?'a = nat, of port] by (simp add: parse_u16_def)
  ultimately have "parse_head_url (''http://'' @ ?a @ ''/'' @ path) = Inr (h, port)"
    unfolding parse_head_url_def strip_prefix_append option.case Let_def split_path [OF a(1)] trim_no_ws [OF a(2)]
    using h trim_matches_none [OF h(1,5)] by simp
  moreover have "parse_head_url (''http://'' @ h @ ''/'' @ path) = Inr (h, default_head_port)"
    unfolding parse_head_url_def strip_prefix_append option.case Let_def split_path [OF h(3)] trim_no_ws [OF h(2)]
    using h trim_matches_none [OF h(1,5)] rsplit_once_None [of "CHR '':''" h] by simp
  ultimately show ?thesis
    by simp
qed

theorem head_url_roundtrip_witness: "parse_head_url (''http://'' @ ''head'' @ ''/'' @ ''v1'') = Inr (''head'', 8080)"
  using head_url_roundtrip [of "''head''" 80 "''v1''"] by (simp add: plain_host_def is_ws_def default_head_port_def)

subsection \<open>What counts as an answer\<close>

lemma http_post_Inr:
  "http_post net host port path body = Inr a \<longleftrightarrow>
     (\<exists>raw. net (host @ '':'' @ show_word port) (http_request (host @ '':'' @ show_word port) path body) = Answered raw
            \<and> parse_http_response raw = Some a)"
  by (auto simp: http_post_def Let_def split: net_result.splits option.splits)

lemma interpret_answer_Inr:
  "interpret_answer sd req (status, headers, resp) = Inr f \<longleftrightarrow>
     200 \<le> status \<and> status \<le> 299 \<and> ps_decode_fragment sd resp = Inr f"
  by (cases "ps_decode_fragment sd resp") (auto simp: interpret_answer_def)

text \<open>The client reports a plan exactly when the head was reached at a well-formed URL with an encodable
  request, answered a complete HTTP response with a 2xx status, and its body decodes to that plan. No
  error page, redirect or cut-off response is taken for a plan.\<close>

theorem plan_only_from_2xx:
  "ask_head_with_timeout sd net url req = Inr f \<longleftrightarrow>
     (\<exists>host port body raw status headers resp.
        parse_head_url url = Inr (host, port)
      \<and> ps_encode_request sd req = Inr body
      \<and> net (host @ '':'' @ show_word port) (http_request (host @ '':'' @ show_word port) ''/v1/plan'' body) = Answered raw
      \<and> parse_http_response raw = Some (status, headers, resp)
      \<and> 200 \<le> status \<and> status \<le> 299
      \<and> ps_decode_fragment sd resp = Inr f)"
proof -
  have "ask_head_with_timeout sd net url req = Inr f \<longleftrightarrow>
     (\<exists>host port body a. parse_head_url url = Inr (host, port) \<and> ps_encode_request sd req = Inr body
        \<and> http_post net host port ''/v1/plan'' body = Inr a \<and> interpret_answer sd req a = Inr f)"
    by (auto simp: ask_head_with_timeout_def and_then_Inr split: prod.splits)
  then show ?thesis
    unfolding http_post_Inr by (simp add: interpret_answer_Inr split_paired_Ex) blast
qed

end
