(* ===== verification/Cloud_Hypervisor.thy ===== *)
theory Cloud_Hypervisor
  imports Adapter_Contract Rust_Strings
begin

text \<open>
  The Cloud Hypervisor adapter of \<open>vmm/cloud_hypervisor.rs\<close>. The traits \<open>Launcher\<close> and
  \<open>NetProvisioner\<close> are a record of operations on a world; the adapter is written over any such
  record, as the source is, and \<open>process_launcher\<close> is the record of the real ones over a machine
  whose programs answer arbitrarily. The adapter's own state is the map of managed VMs.
\<close>

subsection \<open>Launchers\<close>

record 'w launcher =
  ln_type_name :: string
  ln_locate_binary :: "string \<Rightarrow> 'w \<Rightarrow> string option"
  ln_launch_vm :: "string \<Rightarrow> string list \<Rightarrow> 'w \<Rightarrow> (string + unit) \<times> 'w"
  ln_remove_vm :: "string \<Rightarrow> string \<Rightarrow> 'w \<Rightarrow> (string + unit) \<times> 'w"
  ln_vm_is_running :: "string \<Rightarrow> 'w \<Rightarrow> bool \<times> 'w"
  ln_provision :: "attrs \<Rightarrow> 'w \<Rightarrow> (string + unit) \<times> 'w"

text \<open>
  The machine the real launcher runs on: which paths exist, what becomes of a spawned program
  within the first quarter of a second, and the status and standard error of a program that is
  waited for. Its log lists what was done to it, oldest first.
\<close>

datatype spawn_outcome =
    SpawnFailed string
  | ExitedAtOnce string
  | StillRunning
  | PollFailed string

datatype vm_effect = Spawned string "string list" | Ran string "string list" | Unlinked string

record vm_host =
  vh_exists :: "string \<Rightarrow> bool"
  vh_spawn :: "string \<Rightarrow> string list \<Rightarrow> spawn_outcome"
  vh_status :: "string \<Rightarrow> string list \<Rightarrow> string + (bool \<times> string)"
  vh_stderr :: "string \<Rightarrow> string list \<Rightarrow> string"
  vh_log :: "vm_effect list"

definition vm_effect :: "vm_effect \<Rightarrow> vm_host \<Rightarrow> vm_host" where
  "vm_effect e w = w\<lparr>vh_log := vh_log w @ [e]\<rparr>"

definition process_locate_binary :: "string \<Rightarrow> vm_host \<Rightarrow> string option" where
  "process_locate_binary p w = (if p = [] then None else if vh_exists w p then Some p else None)"

definition process_launch_vm :: "string \<Rightarrow> string list \<Rightarrow> vm_host \<Rightarrow> (string + unit) \<times> vm_host" where
  "process_launch_vm binary argv w =
     ((case vh_spawn w binary argv of
         SpawnFailed e \<Rightarrow> Inl (''failed to spawn '' @ binary @ '': '' @ e)
       | ExitedAtOnce status \<Rightarrow>
           Inl (binary @ '' exited immediately with status '' @ status
             @ ''; check kernel/rootfs paths and /dev/kvm access'')
       | StillRunning \<Rightarrow> Inr ()
       | PollFailed e \<Rightarrow> Inl (''failed to poll '' @ binary @ '' after spawn: '' @ e)),
      vm_effect (Spawned binary argv) w)"

definition process_remove_vm :: "string \<Rightarrow> string \<Rightarrow> vm_host \<Rightarrow> (string + unit) \<times> vm_host" where
  "process_remove_vm api_socket vm_name w =
     (let args = [''--api-socket='' @ api_socket, ''remove-vm'', vm_name]
      in ((case vh_status w ''ch-remote'' args of
             Inl e \<Rightarrow> Inl (''failed to spawn ch-remote: '' @ e)
           | Inr (True, _) \<Rightarrow> Inr ()
           | Inr (False, status) \<Rightarrow> Inl (''ch-remote remove-vm '' @ vm_name @ '' exited with status '' @ status)),
          vm_effect (Ran ''ch-remote'' args) w))"

definition process_vm_is_running :: "string \<Rightarrow> vm_host \<Rightarrow> bool \<times> vm_host" where
  "process_vm_is_running api_socket w =
     (if \<not> vh_exists w api_socket then (False, w)
      else
        (let args = [''--api-socket='' @ api_socket, ''info''];
             alive = (case vh_status w ''ch-remote'' args of Inl _ \<Rightarrow> False | Inr (ok, _) \<Rightarrow> ok);
             w1 = vm_effect (Ran ''ch-remote'' args) w
         in (alive, if alive then w1 else vm_effect (Unlinked api_socket) w1)))"

fun first_tap :: "string list \<Rightarrow> string option" where
  "first_tap [] = None"
| "first_tap (kv # kvs) = (case strip_prefix kv ''tap='' of Some t \<Rightarrow> Some t | None \<Rightarrow> first_tap kvs)"

definition process_provision :: "attrs \<Rightarrow> vm_host \<Rightarrow> (string + unit) \<times> vm_host" where
  "process_provision attrs w =
     (case map_of attrs ''vmm.net'' of
        None \<Rightarrow> (Inl ''vmm.net attribute missing'', w)
      | Some net \<Rightarrow>
          (case first_tap (split_char (CHR '','') net) of
             None \<Rightarrow> (Inl (''vmm.net spec has no tap= key: '' @ net), w)
           | Some raw \<Rightarrow>
               (let tap = trim raw;
                    looked = [''link'', ''show'', tap];
                    add = [''tuntap'', ''add'', ''dev'', tap, ''mode'', ''tap''];
                    up = [''link'', ''set'', tap, ''up''];
                    w1 = vm_effect (Ran ''ip'' looked) w;
                    w2 = vm_effect (Ran ''ip'' add) w1;
                    w3 = vm_effect (Ran ''ip'' up) w2
                in case vh_status w ''ip'' looked of
                     Inr (True, _) \<Rightarrow> (Inr (), w1)
                   | _ \<Rightarrow>
                     (case vh_status w ''ip'' add of
                        Inl e \<Rightarrow> (Inl (''failed to run `ip tuntap add`: '' @ e), w2)
                      | Inr (False, _) \<Rightarrow>
                          (Inl (''ip tuntap add dev '' @ tap @ '' mode tap failed (needs root/CAP_NET_ADMIN?): ''
                             @ trim (vh_stderr w ''ip'' add)), w2)
                      | Inr (True, _) \<Rightarrow>
                          (case vh_status w ''ip'' up of
                             Inl e \<Rightarrow> (Inl (''failed to run `ip link set`: '' @ e), w3)
                           | Inr (False, _) \<Rightarrow>
                               (Inl (''ip link set '' @ tap @ '' up failed: '' @ trim (vh_stderr w ''ip'' up)), w3)
                           | Inr (True, _) \<Rightarrow> (Inr (), w3))))))"

definition process_launcher :: "vm_host launcher" where
  "process_launcher =
     \<lparr>ln_type_name = ''nauti_fabric::vmm::cloud_hypervisor::ProcessLauncher'',
      ln_locate_binary = process_locate_binary, ln_launch_vm = process_launch_vm,
      ln_remove_vm = process_remove_vm, ln_vm_is_running = process_vm_is_running,
      ln_provision = process_provision\<rparr>"

subsection \<open>The command line\<close>

definition require_attr :: "attrs \<Rightarrow> string \<Rightarrow> fabric_error + string" where
  "require_attr attrs key = ok_or (map_of attrs key) (MissingResourceAttribute key)"

definition flag_on :: "attrs \<Rightarrow> string \<Rightarrow> bool" where
  "flag_on attrs key = (case map_of attrs key of None \<Rightarrow> False | Some v \<Rightarrow> v = ''on'' \<or> v = ''true'')"

definition needs_shared :: "attrs \<Rightarrow> bool" where
  "needs_shared attrs =
     (has_key attrs ''vmm.user_device'' \<or> has_key attrs ''vmm.fs'' \<or> has_key attrs ''vmm.vsock''
      \<or> flag_on attrs ''vmm.shared'')"

definition opt_arg :: "attrs \<Rightarrow> string \<Rightarrow> string \<Rightarrow> string \<Rightarrow> string list" where
  "opt_arg attrs key flag pre = (case map_of attrs key of None \<Rightarrow> [] | Some v \<Rightarrow> [flag, pre @ v])"

definition device_args :: "attrs \<Rightarrow> string list" where
  "device_args attrs =
     (case map_of attrs ''vmm.device'' of
        None \<Rightarrow> []
      | Some devices \<Rightarrow>
          concat (map (\<lambda>d. let t = trim d in if t \<noteq> [] then [''--device'', ''path='' @ t] else [])
            (split_char (CHR '','') devices)))"

definition user_device_args :: "attrs \<Rightarrow> string list" where
  "user_device_args attrs =
     (case map_of attrs ''vmm.user_device'' of
        None \<Rightarrow> []
      | Some user_device \<Rightarrow>
          [''--generic-vhost-user'',
           ''device_type='' @ unwrap_or (map_of attrs ''vmm.user_device_type'') ''rng''
           @ '',socket='' @ user_device
           @ '',queue_sizes='' @ unwrap_or (map_of attrs ''vmm.user_device_queue_sizes'') ''1024''])"

definition build_argv :: "resource \<Rightarrow> fabric_error + string list" where
  "build_argv r =
     (let attrs = res_attributes r in
      and_then (require_attr attrs ''vmm.api_socket'') (\<lambda>api_socket.
      and_then (require_attr attrs ''vmm.kernel'') (\<lambda>kernel.
      and_then (require_attr attrs ''vmm.rootfs'') (\<lambda>rootfs.
        Inr ([''--api-socket'', ''path='' @ api_socket,
              ''--cpus'', ''boot='' @ unwrap_or (map_of attrs ''vmm.vcpus'') ''1'',
              ''--memory'', ''size='' @ unwrap_or (map_of attrs ''vmm.memory_mib'') ''512'' @ ''M''
                 @ (if needs_shared attrs then '',shared=on'' else []),
              ''--kernel'', kernel,
              ''--disk'', ''path='' @ rootfs,
              ''--serial'', ''tty'', ''--console'', ''off'',
              ''--rng'', ''src='' @ unwrap_or (map_of attrs ''vmm.rng_src'') ''/dev/urandom'' @ '',id=ch-builtin-rng'']
             @ opt_arg attrs ''vmm.initramfs'' ''--initramfs'' []
             @ opt_arg attrs ''vmm.cmdline'' ''--cmdline'' []
             @ opt_arg attrs ''vmm.virtio_blk'' ''--disk'' ''path=''
             @ device_args attrs
             @ opt_arg attrs ''vmm.net'' ''--net'' []
             @ user_device_args attrs
             @ opt_arg attrs ''vmm.fs'' ''--fs'' []
             @ opt_arg attrs ''vmm.vsock'' ''--vsock'' []
             @ (if flag_on attrs ''vmm.watchdog'' then [''--watchdog''] else []))))))"

subsection \<open>The adapter\<close>

record managed_vm =
  mv_resource_id :: string
  mv_api_socket :: string
  mv_vm_name :: string

record ch_adapter =
  ch_binary :: string
  ch_managed :: "managed_vm smap"

definition with_launcher :: "string \<Rightarrow> ch_adapter" where
  "with_launcher binary = \<lparr>ch_binary = binary, ch_managed = []\<rparr>"

definition detail_map :: "string \<Rightarrow> string \<Rightarrow> string \<Rightarrow> bool \<Rightarrow> attrs" where
  "detail_map binary api_socket vm_name already_running =
     bt_from [(''vmm.binary'', binary), (''vmm.api_socket'', api_socket), (''vmm.vm_name'', vm_name),
       (''vmm.launched_by_adapter'', show_bool (\<not> already_running))]"

definition record_managed :: "resource \<Rightarrow> string \<Rightarrow> string \<Rightarrow> ch_adapter \<Rightarrow> ch_adapter" where
  "record_managed r api_socket vm_name a =
     a\<lparr>ch_managed := AList.update (res_id r)
        \<lparr>mv_resource_id = res_id r, mv_api_socket = api_socket, mv_vm_name = vm_name\<rparr> (ch_managed a)\<rparr>"

definition ch_vm_name :: "resource \<Rightarrow> string" where
  "ch_vm_name r = unwrap_or (map_of (res_attributes r) ''vmm.vm_name'') (res_id r)"

definition already_managed :: "resource \<Rightarrow> ch_adapter \<Rightarrow> bool" where
  "already_managed r a =
     (case map_of (ch_managed a) (res_id r) of None \<Rightarrow> False | Some vm \<Rightarrow> mv_vm_name vm = ch_vm_name r)"

definition ch_unavailable :: "string \<Rightarrow> fabric_error" where
  "ch_unavailable reason = AdapterBackendUnavailable ''cloud-hypervisor'' reason"

definition ch_attached :: "resource \<Rightarrow> lease \<Rightarrow> string \<Rightarrow> string \<Rightarrow> bool \<Rightarrow> attachment" where
  "ch_attached r l binary api_socket already_running =
     \<lparr>att_resource = res_id r, att_lease = lease_id l, att_adapter = ''cloud-hypervisor'',
      att_details = detail_map binary api_socket (ch_vm_name r) already_running\<rparr>"

definition ch_launch ::
  "'w launcher \<Rightarrow> string \<Rightarrow> string \<Rightarrow> ch_adapter \<Rightarrow> resource \<Rightarrow> lease \<Rightarrow> 'w \<Rightarrow> (fabric_error + attachment) \<times> ch_adapter \<times> 'w"
where
  "ch_launch ln binary api_socket a r l w =
     (case (if has_key (res_attributes r) ''vmm.net'' then ln_provision ln (res_attributes r) w else (Inr (), w)) of
        (Inl reason, w1) \<Rightarrow> (Inl (ch_unavailable reason), a, w1)
      | (Inr _, w1) \<Rightarrow>
          (case build_argv r of
             Inl e \<Rightarrow> (Inl e, a, w1)
           | Inr argv \<Rightarrow>
               (case ln_launch_vm ln binary argv w1 of
                  (Inl reason, w2) \<Rightarrow> (Inl (ch_unavailable reason), a, w2)
                | (Inr _, w2) \<Rightarrow>
                    (Inr (ch_attached r l binary api_socket False),
                     record_managed r api_socket (ch_vm_name r) a, w2))))"

definition ch_attach ::
  "'w launcher \<Rightarrow> ch_adapter \<Rightarrow> resource \<Rightarrow> lease \<Rightarrow> 'w \<Rightarrow> (fabric_error + attachment) \<times> ch_adapter \<times> 'w"
where
  "ch_attach ln a r l w =
     (if res_kind r \<noteq> Device then (Inl (IncompatibleResourceKind ''cloud-hypervisor'' Device (res_kind r)), a, w)
      else case ln_locate_binary ln (ch_binary a) w of
        None \<Rightarrow> (Inl (ch_unavailable (''cloud-hypervisor binary not found at '' @ ch_binary a)), a, w)
      | Some binary \<Rightarrow>
          (case require_attr (res_attributes r) ''vmm.api_socket'' of
             Inl e \<Rightarrow> (Inl e, a, w)
           | Inr api_socket \<Rightarrow>
               if already_managed r a then (Inr (ch_attached r l binary api_socket True), a, w)
               else case ln_vm_is_running ln api_socket w of
                 (True, w1) \<Rightarrow>
                   (Inr (ch_attached r l binary api_socket True), record_managed r api_socket (ch_vm_name r) a, w1)
               | (False, w1) \<Rightarrow> ch_launch ln binary api_socket a r l w1))"

definition ch_report :: "'w launcher \<Rightarrow> ch_adapter \<Rightarrow> 'w \<Rightarrow> adapter_report" where
  "ch_report ln a w =
     \<lparr>rep_name = ''cloud-hypervisor'', rep_scope = ''vmm-runtime'',
      rep_healthy = (ln_locate_binary ln (ch_binary a) w \<noteq> None),
      rep_detail = bt_from [(''vmm.binary'', ch_binary a), (''launcher'', ln_type_name ln)]\<rparr>"

definition ch_ops :: "'w launcher \<Rightarrow> (ch_adapter, 'w) adapter_ops" where
  "ch_ops ln = \<lparr>ad_name = (\<lambda>_. ''cloud-hypervisor''), ad_attach = ch_attach ln, ad_detach = default_detach,
     ad_report = ch_report ln\<rparr>"

text \<open>\<open>reconcile\<close> works on a copy of the managed VMs, in the order in which the map lists them.\<close>

fun reconcile_vms ::
  "'w launcher \<Rightarrow> managed_vm list \<Rightarrow> ch_adapter \<Rightarrow> 'w \<Rightarrow> (string + string) list \<times> ch_adapter \<times> 'w"
where
  "reconcile_vms ln [] a w = ([], a, w)"
| "reconcile_vms ln (vm # vms) a w =
     (case ln_remove_vm ln (mv_api_socket vm) (mv_vm_name vm) w of
        (Inl e, w1) \<Rightarrow> (case reconcile_vms ln vms a w1 of (rs, a', w') \<Rightarrow> (Inl e # rs, a', w'))
      | (Inr _, w1) \<Rightarrow>
          (case reconcile_vms ln vms (a\<lparr>ch_managed := AList.delete (mv_resource_id vm) (ch_managed a)\<rparr>) w1 of
             (rs, a', w') \<Rightarrow> (Inr (mv_resource_id vm) # rs, a', w')))"

definition reconcile :: "'w launcher \<Rightarrow> ch_adapter \<Rightarrow> 'w \<Rightarrow> (string + string) list \<times> ch_adapter \<times> 'w" where
  "reconcile ln a w = reconcile_vms ln (map snd (ch_managed a)) a w"

subsection \<open>The adapter contract\<close>

lemmas ch_attach_defs = ch_attach_def ch_launch_def ch_attached_def

lemma ch_attach_names:
  "ch_attach ln a r l w = (Inr att, a', w') \<Longrightarrow>
     att_resource att = res_id r \<and> att_lease att = lease_id l \<and> att_adapter att = ''cloud-hypervisor''"
  by (auto simp: ch_attach_defs split: if_splits option.splits sum.splits prod.splits bool.splits)

lemma ch_attach_refused: "ch_attach ln a r l w = (Inl e, a', w') \<Longrightarrow> a' = a"
  by (auto simp: ch_attach_defs split: if_splits option.splits sum.splits prod.splits bool.splits)

interpretation ch: adapter_contract "ch_ops ln"
  by unfold_locales (auto simp: ch_ops_def default_detach_def ch_report_def dest: ch_attach_names ch_attach_refused)

end
