(* ===== verification/Cloud_Hypervisor_Properties.thy ===== *)
theory Cloud_Hypervisor_Properties
  imports Cloud_Hypervisor
begin

text \<open>
  What the Cloud Hypervisor adapter promises: attaching again is a no-op, reconciling converges,
  and the command line asks for shared memory exactly when a device needs it.
\<close>

subsection \<open>Managed VMs\<close>

definition ch_wf :: "ch_adapter \<Rightarrow> bool" where
  "ch_wf a = (distinct (keys (ch_managed a)) \<and> list_all (\<lambda>(k, vm). mv_resource_id vm = k) (ch_managed a))"

lemma ch_wf_with_launcher [simp]: "ch_wf (with_launcher b)"
  by (simp add: ch_wf_def with_launcher_def)

lemma ch_wf_iff:
  "ch_wf a \<longleftrightarrow> distinct (keys (ch_managed a)) \<and> (\<forall>k vm. map_of (ch_managed a) k = Some vm \<longrightarrow> mv_resource_id vm = k)"
  by (auto simp: ch_wf_def list_all_iff)

lemma ch_wfD:
  assumes "ch_wf a"
  shows "distinct (keys (ch_managed a))" "map_of (ch_managed a) k = Some vm \<Longrightarrow> mv_resource_id vm = k"
  using assms unfolding ch_wf_iff by blast+

lemma ch_wf_record: "ch_wf a \<Longrightarrow> ch_wf (record_managed r s n a)"
  unfolding ch_wf_iff by (simp add: record_managed_def distinct_keys_update get_update del: map_of_eq_Some_iff)

lemma ch_wf_delete: "ch_wf a \<Longrightarrow> ch_wf (a\<lparr>ch_managed := AList.delete k (ch_managed a)\<rparr>)"
  unfolding ch_wf_iff by (simp add: distinct_keys_delete get_delete del: map_of_eq_Some_iff)

lemma ch_attach_success:
  assumes "ch_attach ln a r l w = (Inr att, a', w')"
  obtains binary api_socket where "res_kind r = Device" "ln_locate_binary ln (ch_binary a) w = Some binary"
    "map_of (res_attributes r) ''vmm.api_socket'' = Some api_socket"
    "a' = a \<and> already_managed r a \<or> a' = record_managed r api_socket (ch_vm_name r) a"
  using assms
  by (auto simp: ch_attach_defs require_attr_def
      split: if_splits option.splits sum.splits prod.splits bool.splits)

lemma ch_wf_attach: "ch_wf a \<Longrightarrow> ch_attach ln a r l w = (out, a', w') \<Longrightarrow> ch_wf a'"
  by (cases out) (auto dest: ch_attach_refused intro: ch_wf_record elim: ch_attach_success)

lemma already_managed_record [simp]: "already_managed r (record_managed r s (ch_vm_name r) a)"
  by (simp add: already_managed_def record_managed_def get_update)

text \<open>Attaching a VM again is a no-op: once an attach has succeeded the adapter manages the resource, and
  every further attach of it, under any lease and on any state of the machine on which the binary
  is found, succeeds without touching the machine or the adapter, and says that it did not launch.
  The VM is not probed again.\<close>

theorem ch_reattach_is_noop:
  assumes "ch_attach ln a r l w = (Inr att, a', w')" and "ln_locate_binary ln (ch_binary a) w2 = Some binary"
  shows "\<exists>att2. ch_attach ln a' r l2 w2 = (Inr att2, a', w2) \<and> att_lease att2 = lease_id l2
     \<and> map_of (att_details att2) ''vmm.launched_by_adapter'' = Some ''false''"
proof -
  obtain api_socket where k: "res_kind r = Device" "map_of (res_attributes r) ''vmm.api_socket'' = Some api_socket"
      and a': "a' = a \<and> already_managed r a \<or> a' = record_managed r api_socket (ch_vm_name r) a"
    using assms(1) by (elim ch_attach_success)
  have "already_managed r a'" "ch_binary a' = ch_binary a"
    using a' by (auto, simp add: record_managed_def)
  then show ?thesis
    using assms(2) k by (simp add: ch_attach_def ch_attached_def require_attr_def detail_map_def get_bt_from show_bool_def)
qed

definition demo_vm :: resource where
  "demo_vm = \<lparr>res_id = ''vm'', res_kind = Device, res_capacity = 1, res_unit = ''vm'', res_node = ''n'', res_state = Available,
     res_exclusive = True, res_attributes = [(''vmm.api_socket'', ''/s''), (''vmm.kernel'', ''/k''), (''vmm.rootfs'', ''/r'')]\<rparr>"

definition demo_vm_host :: vm_host where
  "demo_vm_host = \<lparr>vh_exists = (\<lambda>p. p = ''/ch''), vh_spawn = (\<lambda>_ _. StillRunning),
     vh_status = (\<lambda>_ _. Inr (True, ''exit status: 0'')), vh_stderr = (\<lambda>_ _. []), vh_log = []\<rparr>"

definition demo_vm_lease :: lease where
  "demo_vm_lease = \<lparr>lease_id = 1, lease_resource = ''vm'', lease_owner = ''o''\<rparr>"

lemma demo_vm_attach:
  "\<exists>att a' w'. ch_attach process_launcher (with_launcher ''/ch'') demo_vm demo_vm_lease demo_vm_host = (Inr att, a', w')
     \<and> vh_log w' \<noteq> []"
  by (simp add: ch_attach_def ch_launch_def process_launcher_def with_launcher_def demo_vm_def demo_vm_host_def
      process_locate_binary_def require_attr_def already_managed_def process_vm_is_running_def build_argv_def
      has_key_def process_launch_vm_def vm_effect_def Let_def)

theorem ch_reattach_is_noop_witness:
  "\<exists>att a' w' att2. ch_attach process_launcher (with_launcher ''/ch'') demo_vm demo_vm_lease demo_vm_host = (Inr att, a', w')
     \<and> ch_attach process_launcher a' demo_vm demo_vm_lease demo_vm_host = (Inr att2, a', demo_vm_host)"
proof -
  obtain att a' w' where a: "ch_attach process_launcher (with_launcher ''/ch'') demo_vm demo_vm_lease demo_vm_host = (Inr att, a', w')"
    using demo_vm_attach by blast
  have "ln_locate_binary process_launcher (ch_binary (with_launcher ''/ch'')) demo_vm_host = Some ''/ch''"
    by (simp add: process_launcher_def process_locate_binary_def with_launcher_def demo_vm_host_def)
  from ch_reattach_is_noop [OF a this, of demo_vm_lease] a show ?thesis by blast
qed

subsection \<open>Reconciling\<close>

lemma reconcile_vms_spec:
  assumes "reconcile_vms ln vms a w = (rs, a', w')"
  shows "length rs = length vms \<and> ch_binary a' = ch_binary a
     \<and> (\<forall>i < length vms. \<forall>id. rs ! i = Inr id \<longrightarrow> id = mv_resource_id (vms ! i))
     \<and> (\<forall>k. map_of (ch_managed a') k = (if Inr k \<in> set rs then None else map_of (ch_managed a) k))"
  using assms
proof (induction vms arbitrary: a w rs a' w')
  case (Cons vm vms)
  show ?case
  proof (cases "ln_remove_vm ln (mv_api_socket vm) (mv_vm_name vm) w")
    case (Pair out w1)
    show ?thesis
    proof (cases out)
      case (Inl e)
      then obtain rs1 where r: "reconcile_vms ln vms a w1 = (rs1, a', w')" "rs = Inl e # rs1"
        using Cons.prems Pair by (auto split: prod.splits)
      from Cons.IH [OF r(1)] r(2) show ?thesis by (auto simp: nth_Cons split: nat.splits)
    next
      case (Inr u)
      let ?a = "a\<lparr>ch_managed := AList.delete (mv_resource_id vm) (ch_managed a)\<rparr>"
      obtain rs1 where r: "reconcile_vms ln vms ?a w1 = (rs1, a', w')" "rs = Inr (mv_resource_id vm) # rs1"
        using Cons.prems Pair Inr by (auto split: prod.splits)
      from Cons.IH [OF r(1)] r(2) show ?thesis by (auto simp: nth_Cons get_delete split: nat.splits)
    qed
  qed
qed simp

lemma reconcile_vms_wf: "ch_wf a \<Longrightarrow> reconcile_vms ln vms a w = (rs, a', w') \<Longrightarrow> ch_wf a'"
proof (induction vms arbitrary: a w rs a' w')
  case (Cons vm vms)
  show ?case
    using Cons.prems(2) Cons.IH [OF Cons.prems(1)] Cons.IH [OF ch_wf_delete [OF Cons.prems(1)]]
    by (auto split: prod.splits sum.splits)
qed simp



subsection \<open>The command line\<close>

text \<open>A launch is refused for a missing attribute exactly when the socket, the kernel or the root file
  system is missing, and the first of them is named.\<close>

lemma build_argv_refused:
  "build_argv r = Inl e \<longleftrightarrow>
     (\<exists>k. e = MissingResourceAttribute k \<and> find (\<lambda>k. \<not> has_key (res_attributes r) k) [''vmm.api_socket'', ''vmm.kernel'', ''vmm.rootfs''] = Some k)"
  by (cases "map_of (res_attributes r) ''vmm.api_socket''"; cases "map_of (res_attributes r) ''vmm.kernel''";
      cases "map_of (res_attributes r) ''vmm.rootfs''")
    (auto simp: build_argv_def require_attr_def has_key_def Let_def)

text \<open>A vhost-user device, a virtio-fs store or a vsock is only ever launched with shared guest memory.\<close>

lemma build_argv_shared:
  assumes "build_argv r = Inr argv"
    and "has_key (res_attributes r) ''vmm.user_device'' \<or> has_key (res_attributes r) ''vmm.fs'' \<or> has_key (res_attributes r) ''vmm.vsock''"
  shows "\<exists>mib. argv ! 4 = ''--memory'' \<and> argv ! 5 = ''size='' @ mib @ ''M,shared=on''"
  using assms by (auto simp: build_argv_def and_then_Inr needs_shared_def Let_def)

end
