(* ===== verification/Vfio.thy ===== *)
theory Vfio
  imports Adapter_Contract Host_Os
begin

text \<open>
  The VFIO passthrough adapter of \<open>vmm/vfio.rs\<close>: the state of every GPU of the machine as sysfs
  shows it, and an attach that discovers it afresh. The adapter has no state of its own. The
  \<open>VfioLauncher\<close> trait has one method, which is an argument; \<open>real_open_passthrough\<close> is the one
  the agent runs with.
\<close>

unbundle bit_operations_syntax

datatype vfio_state =
    VAvailable (vs_bdf: string) (vs_iommu_group: u32) (vs_device_path: string)
  | VNotBound (vs_bdf: string)
  | VNoIommu (vs_bdf: string)
  | VNotPresent (vs_bdf: string)

record vfio_discovery =
  vd_gpus :: "vfio_state list"
  vd_total_pci_devices :: nat
  vd_iommu_groups :: "u32 list"

fun is_available :: "vfio_state \<Rightarrow> bool" where
  "is_available (VAvailable _ _ _) = True"
| "is_available _ = False"

definition vfio_available_count :: "vfio_discovery \<Rightarrow> nat" where
  "vfio_available_count d = length (filter is_available (vd_gpus d))"

definition total_gpu_count :: "vfio_discovery \<Rightarrow> nat" where
  "total_gpu_count d = length (vd_gpus d)"

subsection \<open>Discovery\<close>

definition vfio_normalize_bdf :: "string \<Rightarrow> string" where
  "vfio_normalize_bdf raw =
     (let t = to_lower (trim raw) in
      case split_once (CHR '':'') t of
        Some (domain, rest) \<Rightarrow>
          if CHR '':'' \<in> set rest
          then show_hex_padded 4 (unwrap_or (from_str_radix (2 ^ 32) 16 domain) 0) @ '':'' @ rest
          else ''0000:'' @ t
      | None \<Rightarrow> ''0000:'' @ t)"

definition parse_hex :: "string \<Rightarrow> u32 option" where
  "parse_hex raw =
     (let t = trim raw in map_option of_nat (from_str_radix (2 ^ 32) 16 (unwrap_or (strip_prefix t ''0x'') t)))"

definition read_first_line :: "host \<Rightarrow> string \<Rightarrow> string option" where
  "read_first_line h p = map_option trim (h_file h p)"

definition is_gpu :: "host \<Rightarrow> string \<Rightarrow> bool" where
  "is_gpu h device_path =
     (case Option.bind (read_first_line h (path_join device_path ''class'')) parse_hex of
        None \<Rightarrow> False
      | Some class \<Rightarrow> drop_bit 16 class AND 0xff = 0x03)"

definition iommu_group_of :: "host \<Rightarrow> string \<Rightarrow> u32 option" where
  "iommu_group_of h device_path =
     Option.bind (h_link h (path_join device_path ''iommu_group''))
       (\<lambda>target. parse_u32 (last (split_char (CHR ''/'') target)))"

definition bound_to_vfio :: "host \<Rightarrow> string \<Rightarrow> bool" where
  "bound_to_vfio h device_path =
     (case Option.bind (h_link h (path_join device_path ''driver'')) file_name of
        None \<Rightarrow> False
      | Some n \<Rightarrow> n = ''vfio-pci'')"

definition vfio_group_path :: "u32 \<Rightarrow> string" where
  "vfio_group_path g = ''/dev/vfio/'' @ show_word g"

definition classify_gpu :: "host \<Rightarrow> string \<Rightarrow> string \<Rightarrow> vfio_state" where
  "classify_gpu h device_path bdf =
     (if Option.bind (read_first_line h (path_join device_path ''vendor'')) parse_hex = Some 0xffff then VNotPresent bdf
      else case iommu_group_of h device_path of
        None \<Rightarrow> VNoIommu bdf
      | Some g \<Rightarrow>
          if \<not> bound_to_vfio h device_path then VNotBound bdf
          else if \<not> h_exists h (vfio_group_path g) then VNoIommu bdf
          else VAvailable bdf g (vfio_group_path g))"

definition pci_devices :: string where
  "pci_devices = ''/sys/bus/pci/devices''"

definition discover_step :: "host \<Rightarrow> string \<Rightarrow> vfio_discovery \<Rightarrow> vfio_discovery" where
  "discover_step h bdf d =
     (let path = path_join pci_devices bdf;
          d1 = d\<lparr>vd_total_pci_devices := vd_total_pci_devices d + 1\<rparr>
      in if \<not> is_gpu h path then d1
         else
           (let state = classify_gpu h path bdf;
                d2 = (case state of
                        VAvailable _ g _ \<Rightarrow> d1\<lparr>vd_iommu_groups := List.insert g (vd_iommu_groups d1)\<rparr>
                      | _ \<Rightarrow> d1)
            in d2\<lparr>vd_gpus := vd_gpus d2 @ [state]\<rparr>))"

definition discover_vfio_state :: "host \<Rightarrow> vfio_discovery" where
  "discover_vfio_state h =
     fold (discover_step h) (read_names h pci_devices) \<lparr>vd_gpus = [], vd_total_pci_devices = 0, vd_iommu_groups = []\<rparr>"

subsection \<open>The adapter\<close>

definition real_open_passthrough :: "string \<Rightarrow> u32 \<Rightarrow> host \<Rightarrow> string + string" where
  "real_open_passthrough bdf g h =
     (if \<not> h_exists h (vfio_group_path g)
      then Inl (''vfio group device '' @ vfio_group_path g @ '' does not exist for bdf '' @ bdf)
      else Inr (vfio_group_path g))"

definition vfio_unavailable :: "string \<Rightarrow> fabric_error" where
  "vfio_unavailable reason = AdapterBackendUnavailable ''gpu-vfio'' reason"

definition requested_bdf :: "resource \<Rightarrow> string option" where
  "requested_bdf r =
     map_option vfio_normalize_bdf
       (case map_of (res_attributes r) ''gpu.pci_bdf'' of
          Some raw \<Rightarrow> Some raw
        | None \<Rightarrow> map_of (res_attributes r) ''gpu.pci_bus_id'')"

definition current_state :: "host \<Rightarrow> string \<Rightarrow> vfio_state" where
  "current_state h bdf =
     unwrap_or (find (\<lambda>s. vs_bdf s = bdf) (vd_gpus (discover_vfio_state h))) (VNotPresent bdf)"

definition vfio_details :: "resource \<Rightarrow> string \<Rightarrow> u32 \<Rightarrow> string \<Rightarrow> string \<Rightarrow> attrs" where
  "vfio_details r bdf g discovery_path opened =
     (let d0 = bt_from [(''vfio.bdf'', bdf), (''vfio.iommu_group'', show_word g), (''vfio.device_path'', opened),
            (''adapter.implementation'', ''gpu-vfio''),
            (''vfio.note'', ''real passthrough; pass this device to a VMM with --device vfio-pci=<bdf>'')];
          d1 = bt_insert ''vfio.discovery_device_path'' discovery_path d0;
          d2 = (case map_of (res_attributes r) ''gpu.uuid'' of
                  Some uuid \<Rightarrow> bt_insert ''vfio.gpu_uuid'' uuid d1 | None \<Rightarrow> d1)
      in case map_of (res_attributes r) ''gpu.name'' of
           Some name \<Rightarrow> bt_insert ''vfio.gpu_name'' name d2 | None \<Rightarrow> d2)"

definition vfio_attach ::
  "(string \<Rightarrow> u32 \<Rightarrow> host \<Rightarrow> string + string) \<Rightarrow> resource \<Rightarrow> lease \<Rightarrow> host \<Rightarrow> fabric_error + attachment"
where
  "vfio_attach open_passthrough r l h =
     (if res_kind r \<noteq> Gpu then Inl (IncompatibleResourceKind ''gpu-vfio'' Gpu (res_kind r))
      else case requested_bdf r of
        None \<Rightarrow> Inl (MissingResourceAttribute ''gpu.pci_bus_id'')
      | Some bdf \<Rightarrow>
          (case current_state h bdf of
             VNotBound b \<Rightarrow> Inl (vfio_unavailable (''vfio-pci is not bound to '' @ b @ ''; run `driverctl set-override ''
               @ b @ '' vfio-pci` and unbind any current driver, or load the device via a custom allocator''))
           | VNoIommu b \<Rightarrow> Inl (vfio_unavailable (''no IOMMU group for '' @ b
               @ ''; enable intel_iommu / amd_iommu in kernel cmdline and verify the device is in an isolated group''))
           | VNotPresent b \<Rightarrow> Inl (vfio_unavailable (''no PCI device at bdf '' @ b @ ''; the GPU may have been hot-removed''))
           | VAvailable _ g discovery_path \<Rightarrow>
               (case open_passthrough bdf g h of
                  Inl reason \<Rightarrow> Inl (vfio_unavailable reason)
                | Inr opened \<Rightarrow>
                    Inr \<lparr>att_resource = res_id r, att_lease = lease_id l, att_adapter = ''gpu-vfio'',
                         att_details = vfio_details r bdf g discovery_path opened\<rparr>)))"

definition vfio_report :: "host \<Rightarrow> adapter_report" where
  "vfio_report h =
     (let d = discover_vfio_state h; available = vfio_available_count d
      in \<lparr>rep_name = ''gpu-vfio'', rep_scope = ''gpu-vfio-passthrough'', rep_healthy = (0 < available),
          rep_detail = bt_from [(''adapter.implementation'', ''gpu-vfio''),
            (''vfio.devices_available'', show_nat available), (''vfio.devices_total'', show_nat (total_gpu_count d)),
            (''pci.devices_total'', show_nat (vd_total_pci_devices d)),
            (''iommu.groups'', join '','' (map show_word (sort (vd_iommu_groups d))))]\<rparr>)"

definition vfio_ops :: "(string \<Rightarrow> u32 \<Rightarrow> host \<Rightarrow> string + string) \<Rightarrow> (unit, host) adapter_ops" where
  "vfio_ops open_passthrough = \<lparr>ad_name = (\<lambda>_. ''gpu-vfio''),
     ad_attach = (\<lambda>a r l h. (vfio_attach open_passthrough r l h, a, h)), ad_detach = default_detach,
     ad_report = (\<lambda>_. vfio_report)\<rparr>"

subsection \<open>The adapter contract\<close>

lemma vfio_attach_names:
  "vfio_attach op r l h = Inr att \<Longrightarrow>
     att_resource att = res_id r \<and> att_lease att = lease_id l \<and> att_adapter att = ''gpu-vfio''"
  by (auto simp: vfio_attach_def split: if_splits option.splits vfio_state.splits sum.splits)

interpretation vfio: adapter_contract "vfio_ops op"
  by unfold_locales
    (auto simp: vfio_ops_def default_detach_def vfio_report_def Let_def dest: vfio_attach_names)

subsection \<open>What discovery sees\<close>

lemma discover_fold:
  "vd_gpus (fold (discover_step h) bdfs d) =
     vd_gpus d @ map (\<lambda>b. classify_gpu h (path_join pci_devices b) b) (filter (\<lambda>b. is_gpu h (path_join pci_devices b)) bdfs)"
  "vd_total_pci_devices (fold (discover_step h) bdfs d) = vd_total_pci_devices d + length bdfs"
  by (induction bdfs arbitrary: d) (auto simp: discover_step_def Let_def split: vfio_state.splits)

lemma vd_gpus_discover:
  "vd_gpus (discover_vfio_state h) =
     map (\<lambda>b. classify_gpu h (path_join pci_devices b) b)
       (filter (\<lambda>b. is_gpu h (path_join pci_devices b)) (read_names h pci_devices))"
  by (simp add: discover_vfio_state_def discover_fold)

lemma vs_bdf_classify [simp]: "vs_bdf (classify_gpu h p b) = b"
  by (simp add: classify_gpu_def split: option.split)

lemma find_classified:
  "find (\<lambda>s. vs_bdf s = bdf) (map (\<lambda>b. classify_gpu h (p b) b) bs) =
     (if bdf \<in> set bs then Some (classify_gpu h (p bdf) bdf) else None)"
  by (induction bs) auto

lemma current_state_eq:
  "current_state h bdf =
     (if bdf \<in> set (read_names h pci_devices) \<and> is_gpu h (path_join pci_devices bdf)
      then classify_gpu h (path_join pci_devices bdf) bdf else VNotPresent bdf)"
  by (simp add: current_state_def vd_gpus_discover find_classified)

text \<open>What passthrough needs of a machine: the device is listed and is a GPU that answers, it is in an IOMMU
  group, \<open>vfio-pci\<close> is its driver, and the group is exposed.\<close>

definition passthrough_ready :: "host \<Rightarrow> string \<Rightarrow> u32 \<Rightarrow> bool" where
  "passthrough_ready h bdf g =
     (let p = path_join pci_devices bdf in
      bdf \<in> set (read_names h pci_devices) \<and> is_gpu h p
      \<and> Option.bind (read_first_line h (path_join p ''vendor'')) parse_hex \<noteq> Some 0xffff
      \<and> iommu_group_of h p = Some g \<and> bound_to_vfio h p \<and> h_exists h (vfio_group_path g))"

lemma current_state_available:
  "current_state h bdf = VAvailable b g path \<longleftrightarrow> b = bdf \<and> path = vfio_group_path g \<and> passthrough_ready h bdf g"
  by (auto simp: current_state_eq classify_gpu_def passthrough_ready_def Let_def split: option.splits if_splits)

lemma vfio_details_path: "map_of (vfio_details r bdf g dp opened) ''vfio.device_path'' = Some opened"
  by (simp add: vfio_details_def Let_def get_bt_insert get_bt_from split: option.split)

lemma vfio_attach_ready:
  assumes "res_kind r = Gpu" "requested_bdf r = Some bdf" "passthrough_ready h bdf g"
  shows "vfio_attach real_open_passthrough r l h =
     Inr \<lparr>att_resource = res_id r, att_lease = lease_id l, att_adapter = ''gpu-vfio'',
          att_details = vfio_details r bdf g (vfio_group_path g) (vfio_group_path g)\<rparr>"
proof -
  have "current_state h bdf = VAvailable bdf g (vfio_group_path g)"
    by (simp add: current_state_available assms(3))
  moreover have "h_exists h (vfio_group_path g)"
    using assms(3) by (simp add: passthrough_ready_def Let_def)
  ultimately show ?thesis
    using assms(1,2) by (simp add: vfio_attach_def real_open_passthrough_def)
qed

lemma vfio_attach_needs_ready:
  assumes "vfio_attach op r l h = Inr att"
  shows "res_kind r = Gpu \<and> (\<exists>bdf g. requested_bdf r = Some bdf \<and> passthrough_ready h bdf g)"
  using assms
  by (auto simp: vfio_attach_def current_state_available split: if_splits option.splits vfio_state.splits)

text \<open>C20. Passthrough is granted exactly when the machine can deliver it now: an attach of a GPU succeeds if
  and only if the device at the requested address is, at that moment, a GPU bound to \<open>vfio-pci\<close>
  whose IOMMU group is exposed, and what is handed out is the group's device file.\<close>

theorem vfio_attach_iff_ready:
  "(\<exists>att. vfio_attach real_open_passthrough r l h = Inr att \<and> map_of (att_details att) ''vfio.device_path'' = Some path)
   \<longleftrightarrow> res_kind r = Gpu \<and> (\<exists>bdf g. requested_bdf r = Some bdf \<and> passthrough_ready h bdf g \<and> path = vfio_group_path g)"
  (is "?att \<longleftrightarrow> ?ready")
proof
  assume ?att
  then obtain att where att: "vfio_attach real_open_passthrough r l h = Inr att"
      "map_of (att_details att) ''vfio.device_path'' = Some path" by blast
  from vfio_attach_needs_ready [OF att(1)] obtain bdf g where
    r: "res_kind r = Gpu" "requested_bdf r = Some bdf" "passthrough_ready h bdf g" by blast
  from vfio_attach_ready [OF r, of l] att have "path = vfio_group_path g"
    by (auto simp: vfio_details_path)
  with r show ?ready by blast
next
  assume ?ready
  then show ?att
    using vfio_attach_ready by (fastforce simp: vfio_details_path)
qed

end
