(* ===== verification/Vhost_Rng.thy ===== *)
theory Vhost_Rng
  imports Prelude Rust_Strings
begin

text \<open>
  The virtio-rng backend of \<open>vhost/rng.rs\<close>: its configuration, the rate-limiting timer, the loop over
  the descriptor chains of a queue, and the event handler. The guest memory, the virtqueue and the
  entropy source belong to the rust-vmm crates: what they answer while a chain is served is a
  record of arguments, with the clock readings of that round. Completions are returned to the ring
  as a list, each with the period in which it was served.
\<close>

definition max_period_ms :: nat where
  "max_period_ms = 65536"

datatype rng_error =
    DescriptorNotFound
  | SendNotificationFailed
  | EventFdError
  | HandleEventNotEpollIn
  | HandleEventUnknownEvent
  | UnexpectedDescriptorCount nat
  | UnexpectedReadDescriptor
  | SourceAccess
  | SourceRead
  | SourceOpen string
  | Daemon string
  | UnexpectedTimerValue

fun rng_error_display :: "rng_error \<Rightarrow> string" where
  "rng_error_display DescriptorNotFound = ''descriptor not found''"
| "rng_error_display SendNotificationFailed = ''notification send failed''"
| "rng_error_display EventFdError = ''can'' @ [CHR 0x27] @ ''t create eventFd''"
| "rng_error_display HandleEventNotEpollIn = ''failed to handle event: not EPOLLIN''"
| "rng_error_display HandleEventUnknownEvent = ''unknown device event''"
| "rng_error_display (UnexpectedDescriptorCount n) = ''too many descriptors: '' @ show_nat n"
| "rng_error_display UnexpectedReadDescriptor = ''unexpected read descriptor''"
| "rng_error_display SourceAccess = ''failed to access RNG source''"
| "rng_error_display SourceRead = ''failed to read from the RNG source''"
| "rng_error_display (SourceOpen s) = ''entropy source cannot be opened: '' @ s"
| "rng_error_display (Daemon s) = ''daemon failed: '' @ s"
| "rng_error_display UnexpectedTimerValue = ''previous time value is later than current time''"

record rng_config =
  rg_socket_path :: string
  rg_source_path :: string
  rg_period_ms :: nat
  rg_max_bytes :: nat

definition rng_validate :: "rng_config \<Rightarrow> rng_error + unit" where
  "rng_validate c =
     (if rg_period_ms c = 0 \<or> max_period_ms < rg_period_ms c
      then Inl (SourceOpen (''period '' @ show_nat (rg_period_ms c) @ ''ms outside 1..='' @ show_nat max_period_ms))
      else Inr ())"

record timer_config =
  tc_period_ms :: nat
  tc_period_start :: instant
  tc_max_bytes :: nat
  tc_quota_remaining :: nat

definition timer_new :: "nat \<Rightarrow> nat \<Rightarrow> instant \<Rightarrow> timer_config" where
  "timer_new period_ms max_bytes now =
     \<lparr>tc_period_ms = period_ms, tc_period_start = now, tc_max_bytes = max_bytes, tc_quota_remaining = max_bytes\<rparr>"

subsection \<open>Serving descriptor chains\<close>

record descriptor =
  d_len :: u32
  d_write_only :: bool

record chain =
  ch_head_index :: u16
  ch_descriptors :: "descriptor list"

text \<open>
  What the world does while one chain is served: the clock at its start and after the sleep, if it
  sleeps; whether the source's lock is poisoned; and how many bytes the source puts into the guest's
  buffer when asked for some (\<open>None\<close> is an error).
\<close>

record serve_round =
  rd_now :: instant
  rd_awake :: instant
  rd_source_poisoned :: bool
  rd_read :: "nat \<Rightarrow> nat option"

record completion =
  cp_head :: u16
  cp_len :: nat
  cp_period :: instant

definition as_millis :: "instant \<Rightarrow> nat" where
  "as_millis d = nat (d div 1000000)"

text \<open>The quota available for this round; \<open>None\<close> when the clock went backwards.\<close>

definition tick :: "serve_round \<Rightarrow> timer_config \<Rightarrow> timer_config option" where
  "tick rd tc =
     (if rd_now rd < tc_period_start tc then None
      else
        (let elapsed = as_millis (rd_now rd - tc_period_start tc) in
         if tc_period_ms tc \<le> elapsed
         then Some (tc\<lparr>tc_period_start := rd_now rd, tc_quota_remaining := tc_max_bytes tc\<rparr>)
         else if tc_quota_remaining tc = 0
         then Some (tc\<lparr>tc_period_start := rd_awake rd, tc_quota_remaining := tc_max_bytes tc\<rparr>)
         else Some tc))"

text \<open>\<open>thread::sleep\<close> sleeps at least as long as it is asked to.\<close>

definition sleep_time :: "serve_round \<Rightarrow> timer_config \<Rightarrow> instant" where
  "sleep_time rd tc = int (tc_period_ms tc - as_millis (rd_now rd - tc_period_start tc)) * 1000000"

definition serve_chain :: "serve_round \<Rightarrow> chain \<Rightarrow> timer_config \<Rightarrow> (rng_error + completion) \<times> timer_config" where
  "serve_chain rd c tc =
     (case ch_descriptors c of
        [d] \<Rightarrow>
          if \<not> d_write_only d then (Inl UnexpectedReadDescriptor, tc)
          else
            (case tick rd tc of
               None \<Rightarrow> (Inl UnexpectedTimerValue, tc)
             | Some tc1 \<Rightarrow>
                 (let to_read = min (unat (d_len d)) (tc_quota_remaining tc1) in
                  if rd_source_poisoned rd then (Inl SourceAccess, tc1)
                  else case rd_read rd to_read of
                         None \<Rightarrow> (Inl SourceRead, tc1)
                       | Some len \<Rightarrow>
                           (Inr \<lparr>cp_head = ch_head_index c, cp_len = len, cp_period = tc_period_start tc1\<rparr>,
                            tc1\<lparr>tc_quota_remaining := tc_quota_remaining tc1 - len\<rparr>)))
      | ds \<Rightarrow> (Inl (UnexpectedDescriptorCount (length ds)), tc))"

text \<open>The loop stops at the first chain that fails; the chains before it have been returned to the ring.\<close>

fun process_requests ::
  "(serve_round \<times> chain) list \<Rightarrow> timer_config \<Rightarrow> (rng_error + bool) \<times> timer_config \<times> completion list"
where
  "process_requests [] tc = (Inr True, tc, [])"
| "process_requests ((rd, c) # cs) tc =
     (case serve_chain rd c tc of
        (Inl e, tc1) \<Rightarrow> (Inl e, tc1, [])
      | (Inr cp, tc1) \<Rightarrow> (case process_requests cs tc1 of (res, tc2, cps) \<Rightarrow> (res, tc2, cp # cps)))"

text \<open>
  One pass over the queue: the chains the guest has made available (\<open>None\<close> when the ring cannot be
  read) and whether the guest can be notified.
\<close>

record queue_pass =
  qp_chains :: "(serve_round \<times> chain) list option"
  qp_signal_ok :: bool
  qp_more :: bool

definition process_queue :: "queue_pass \<Rightarrow> timer_config \<Rightarrow> (rng_error + unit) \<times> timer_config \<times> completion list" where
  "process_queue qp tc =
     (case qp_chains qp of
        None \<Rightarrow> (Inl DescriptorNotFound, tc, [])
      | Some cs \<Rightarrow>
          (case process_requests cs tc of
             (Inl e, tc1, cps) \<Rightarrow> (Inl e, tc1, cps)
           | (Inr notify, tc1, cps) \<Rightarrow>
               (if notify \<and> \<not> qp_signal_ok qp then Inl SendNotificationFailed else Inr (), tc1, cps)))"

text \<open>
  With \<open>EVENT_IDX\<close> the handler passes over the queue until enabling the notification says that nothing
  more arrived (\<open>qp_more\<close>). The passes are the ones the guest gives occasion for; a guest that never
  stops keeps the handler busy, which is the value \<open>None\<close> when the list runs out.
\<close>

fun drain_queue ::
  "queue_pass list \<Rightarrow> timer_config \<Rightarrow> ((rng_error + unit) \<times> timer_config \<times> completion list) option"
where
  "drain_queue [] tc = None"
| "drain_queue (qp # qps) tc =
     (case process_queue qp tc of
        (Inl e, tc1, cps) \<Rightarrow> Some (Inl e, tc1, cps)
      | (Inr _, tc1, cps) \<Rightarrow>
          if \<not> qp_more qp then Some (Inr (), tc1, cps)
          else map_option (\<lambda>(res, tc2, cps'). (res, tc2, cps @ cps')) (drain_queue qps tc1))"

definition handle_event ::
  "bool \<Rightarrow> u16 \<Rightarrow> bool \<Rightarrow> queue_pass list \<Rightarrow> timer_config \<Rightarrow> ((rng_error + unit) \<times> timer_config \<times> completion list) option"
where
  "handle_event event_idx device_event epoll_in qps tc =
     (if \<not> epoll_in then Some (Inl HandleEventNotEpollIn, tc, [])
      else if device_event \<noteq> 0 then Some (Inl HandleEventUnknownEvent, tc, [])
      else if event_idx then drain_queue qps tc
      else case qps of [] \<Rightarrow> None | qp # _ \<Rightarrow> Some (process_queue qp tc))"

subsection \<open>Starting the daemon\<close>

text \<open>Whether the source is a FIFO, the error of opening it (for writing too, or only for reading), and
  what the rust-vmm crates say: the eventfd, the daemon, and how its serving ends.\<close>

record rng_world =
  rw_is_fifo :: "string \<Rightarrow> bool"
  rw_open_error :: "bool \<Rightarrow> string \<Rightarrow> string option"
  rw_eventfd_ok :: bool
  rw_daemon_error :: "string option"
  rw_serve_error :: "string \<Rightarrow> string option"

definition open_source :: "rng_world \<Rightarrow> string \<Rightarrow> rng_error + unit" where
  "open_source w path =
     (case rw_open_error w (rw_is_fifo w path) path of
        Some e \<Rightarrow> Inl (SourceOpen (path @ '': '' @ e))
      | None \<Rightarrow> Inr ())"

definition serve_rng :: "rng_world \<Rightarrow> rng_config \<Rightarrow> rng_error + unit" where
  "serve_rng w config =
     and_then (rng_validate config) (\<lambda>_.
       and_then (open_source w (rg_source_path config)) (\<lambda>_.
         if \<not> rw_eventfd_ok w then Inl (SourceOpen (rng_error_display EventFdError))
         else case rw_daemon_error w of
                Some e \<Rightarrow> Inl (Daemon e)
              | None \<Rightarrow>
                  (case rw_serve_error w (rg_socket_path config) of
                     Some e \<Rightarrow> Inl (Daemon e)
                   | None \<Rightarrow> Inr ())))"

lemma serve_rng_needs_a_valid_period:
  "serve_rng w config = Inr () \<Longrightarrow> 1 \<le> rg_period_ms config \<and> rg_period_ms config \<le> max_period_ms"
  by (auto simp: serve_rng_def rng_validate_def and_then_Inr split: if_splits)

end
