(* ===== verification/Vhost_Rng_Properties.thy ===== *)
theory Vhost_Rng_Properties
  imports Vhost_Rng
begin

text \<open>
  The rate limit of the virtio-rng backend, and the end of its event loop. The entropy source is
  assumed to return at most what it was asked for, and \<open>thread::sleep\<close> to sleep at least as long as
  it was asked to; nothing is assumed of the clock between two rounds.
\<close>

subsection \<open>The world a queue is served in\<close>

definition honest_source :: "serve_round \<Rightarrow> bool" where
  "honest_source rd = (\<forall>n k. rd_read rd n = Some k \<longrightarrow> k \<le> n)"

fun well_timed :: "(serve_round \<times> chain) list \<Rightarrow> timer_config \<Rightarrow> bool" where
  "well_timed [] tc = True"
| "well_timed ((rd, c) # cs) tc =
     (honest_source rd \<and> rd_now rd + sleep_time rd tc \<le> rd_awake rd \<and> well_timed cs (snd (serve_chain rd c tc)))"

definition period_length :: "timer_config \<Rightarrow> int" where
  "period_length tc = int (tc_period_ms tc) * 1000000"

definition served :: "instant \<Rightarrow> completion list \<Rightarrow> nat" where
  "served p cps = sum_list (map cp_len (filter (\<lambda>cp. cp_period cp = p) cps))"

lemma served_simps [simp]:
  "served p [] = 0"
  "served p (cp # cps) = (if cp_period cp = p then cp_len cp else 0) + served p cps"
  by (simp_all add: served_def)

lemma served_none: "\<forall>cp \<in> set cps. cp_period cp \<noteq> p \<Longrightarrow> served p cps = 0"
  by (simp add: served_def)

abbreviation (input) apart :: "int \<Rightarrow> instant \<Rightarrow> instant \<Rightarrow> bool" where
  "apart d \<equiv> (\<lambda>p q. p = q \<or> p + d \<le> q)"

subsection \<open>One round\<close>

lemma as_millis_lower:
  assumes "0 \<le> d"
  shows "int (as_millis d) * 1000000 \<le> d"
proof -
  have "int (as_millis d) = d div 1000000"
    using assms by (simp add: as_millis_def pos_imp_zdiv_nonneg_iff)
  then show ?thesis by simp
qed

lemma tick_Some:
  assumes "tick rd tc = Some tc1" and "rd_now rd + sleep_time rd tc \<le> rd_awake rd"
    and "tc_quota_remaining tc \<le> tc_max_bytes tc"
  shows "tc_period_ms tc1 = tc_period_ms tc \<and> tc_max_bytes tc1 = tc_max_bytes tc
    \<and> tc_quota_remaining tc1 \<le> tc_max_bytes tc
    \<and> (tc1 = tc \<or> tc_period_start tc + period_length tc \<le> tc_period_start tc1)"
proof -
  let ?d = "rd_now rd - tc_period_start tc"
  have "0 \<le> ?d"
    using assms(1) by (auto simp: tick_def split: if_splits)
  note lower = as_millis_lower [OF this]
  consider (elapsed) "tc_period_ms tc \<le> as_millis ?d"
      "tc1 = tc\<lparr>tc_period_start := rd_now rd, tc_quota_remaining := tc_max_bytes tc\<rparr>"
    | (slept) "as_millis ?d < tc_period_ms tc"
      "tc1 = tc\<lparr>tc_period_start := rd_awake rd, tc_quota_remaining := tc_max_bytes tc\<rparr>"
    | (same) "tc1 = tc"
    using assms(1) by (auto simp: tick_def Let_def not_le split: if_splits)
  then show ?thesis
  proof cases
    case elapsed
    then have "int (tc_period_ms tc) * 1000000 \<le> int (as_millis ?d) * 1000000" by simp
    then show ?thesis
      using lower elapsed(2) by (simp add: period_length_def)
  next
    case slept
    then have "sleep_time rd tc = int (tc_period_ms tc) * 1000000 - int (as_millis ?d) * 1000000"
      by (simp add: sleep_time_def of_nat_diff left_diff_distrib)
    then show ?thesis
      using lower assms(2) slept(2) by (simp add: period_length_def)
  qed (use assms(3) in simp)
qed

lemma serve_chain_Inr:
  assumes "serve_chain rd c tc = (Inr cp, tc2)"
  obtains d tc1 where "ch_descriptors c = [d]" "d_write_only d" "tick rd tc = Some tc1"
    "rd_read rd (min (unat (d_len d)) (tc_quota_remaining tc1)) = Some (cp_len cp)"
    "cp_head cp = ch_head_index c" "cp_period cp = tc_period_start tc1"
    "tc2 = tc1\<lparr>tc_quota_remaining := tc_quota_remaining tc1 - cp_len cp\<rparr>"
  using assms
  by (auto simp: serve_chain_def Let_def split: list.splits if_splits option.splits)

lemma served_round:
  assumes "serve_chain rd c tc = (Inr cp, tc2)" and "honest_source rd"
    and "rd_now rd + sleep_time rd tc \<le> rd_awake rd" and "tc_quota_remaining tc \<le> tc_max_bytes tc"
  shows "tc_period_ms tc2 = tc_period_ms tc" "tc_max_bytes tc2 = tc_max_bytes tc"
    "cp_period cp = tc_period_start tc2" "cp_len cp + tc_quota_remaining tc2 \<le> tc_max_bytes tc"
    "tc_period_start tc2 = tc_period_start tc \<and> cp_len cp + tc_quota_remaining tc2 = tc_quota_remaining tc
     \<or> tc_period_start tc + period_length tc \<le> tc_period_start tc2"
proof -
  obtain d tc1 where "ch_descriptors c = [d]" "d_write_only d" and t: "tick rd tc = Some tc1"
      "rd_read rd (min (unat (d_len d)) (tc_quota_remaining tc1)) = Some (cp_len cp)"
      and "cp_head cp = ch_head_index c" and p: "cp_period cp = tc_period_start tc1"
      "tc2 = tc1\<lparr>tc_quota_remaining := tc_quota_remaining tc1 - cp_len cp\<rparr>"
    using assms(1) by (rule serve_chain_Inr)
  have "cp_len cp \<le> tc_quota_remaining tc1"
    using assms(2) t(2) by (fastforce simp: honest_source_def)
  with tick_Some [OF t(1) assms(3,4)] p
  show "tc_period_ms tc2 = tc_period_ms tc" "tc_max_bytes tc2 = tc_max_bytes tc"
    "cp_period cp = tc_period_start tc2" "cp_len cp + tc_quota_remaining tc2 \<le> tc_max_bytes tc"
    "tc_period_start tc2 = tc_period_start tc \<and> cp_len cp + tc_quota_remaining tc2 = tc_quota_remaining tc
     \<or> tc_period_start tc + period_length tc \<le> tc_period_start tc2"
    by auto
qed

subsection \<open>The rate limit\<close>

text \<open>
  A run of the device from one timer state to another, with what it completed: the period of the timer
  only moves on by whole periods, what was served in the first period came out of its quota, and what
  is left of the last period's quota has not been served. Runs can be put one after the other.
\<close>

definition paced :: "timer_config \<Rightarrow> completion list \<Rightarrow> timer_config \<Rightarrow> bool" where
  "paced tc cps tc' \<longleftrightarrow>
     tc_period_ms tc' = tc_period_ms tc \<and> tc_max_bytes tc' = tc_max_bytes tc
   \<and> apart (period_length tc) (tc_period_start tc) (tc_period_start tc')
   \<and> (\<forall>p. served p cps + (if p = tc_period_start tc' then tc_quota_remaining tc' else 0)
          \<le> (if p = tc_period_start tc then tc_quota_remaining tc else tc_max_bytes tc))
   \<and> (\<forall>cp \<in> set cps. apart (period_length tc) (tc_period_start tc) (cp_period cp)
          \<and> apart (period_length tc) (cp_period cp) (tc_period_start tc'))
   \<and> sorted_wrt (apart (period_length tc)) (map cp_period cps)"

lemma paced_quota:
  assumes "paced tc cps tc'" "tc_quota_remaining tc \<le> tc_max_bytes tc"
  shows "tc_quota_remaining tc' \<le> tc_max_bytes tc'" "served p cps \<le> tc_max_bytes tc"
proof -
  have "\<forall>p. served p cps + (if p = tc_period_start tc' then tc_quota_remaining tc' else 0)
          \<le> (if p = tc_period_start tc then tc_quota_remaining tc else tc_max_bytes tc)"
    and m: "tc_max_bytes tc' = tc_max_bytes tc"
    using assms(1) unfolding paced_def by blast+
  note le = this(1) [rule_format]
  show "served p cps \<le> tc_max_bytes tc"
    using le [of p] assms(2) by (simp split: if_splits)
  show "tc_quota_remaining tc' \<le> tc_max_bytes tc'"
    using le [of "tc_period_start tc'"] assms(2) m by (simp split: if_splits)
qed

lemma paced_Nil [simp]: "paced tc [] tc"
  by (simp add: paced_def)

lemma served_append [simp]: "served p (cps @ cps') = served p cps + served p cps'"
  by (simp add: served_def)

lemma paced_append:
  assumes "paced tc cps1 tc1" "paced tc1 cps2 tc2" "0 < tc_period_ms tc"
  shows "paced tc (cps1 @ cps2) tc2"
proof -
  let ?s = "tc_period_start tc" and ?s1 = "tc_period_start tc1" and ?s2 = "tc_period_start tc2"
  let ?d = "period_length tc"
  have d: "0 < ?d" "period_length tc1 = ?d"
    using assms(1,3) by (simp_all add: period_length_def paced_def)
  have start: "apart ?d ?s ?s1" "apart ?d ?s1 ?s2"
    using assms(1,2) d(2) by (simp_all add: paced_def)
  have p1: "apart ?d ?s (cp_period cp) \<and> apart ?d (cp_period cp) ?s1" if "cp \<in> set cps1" for cp
    using assms(1) that by (simp add: paced_def)
  have p2: "apart ?d ?s1 (cp_period cp) \<and> apart ?d (cp_period cp) ?s2" if "cp \<in> set cps2" for cp
    using assms(2) that d(2) by (simp add: paced_def)
  have q1: "served p cps1 + (if p = ?s1 then tc_quota_remaining tc1 else 0)
      \<le> (if p = ?s then tc_quota_remaining tc else tc_max_bytes tc)" for p
    using assms(1) unfolding paced_def by blast
  have m: "tc_max_bytes tc1 = tc_max_bytes tc"
    using assms(1) by (simp add: paced_def)
  have q2: "served p cps2 + (if p = ?s2 then tc_quota_remaining tc2 else 0)
      \<le> (if p = ?s1 then tc_quota_remaining tc1 else tc_max_bytes tc)" for p
    using assms(2) unfolding paced_def m by blast
  have "served p (cps1 @ cps2) + (if p = ?s2 then tc_quota_remaining tc2 else 0)
      \<le> (if p = ?s then tc_quota_remaining tc else tc_max_bytes tc)" for p
  proof -
    consider "p = ?s1" | "p < ?s1" | "?s1 < p" by linarith
    then show ?thesis
    proof cases
      case 1
      then have "served p cps2 + (if p = ?s2 then tc_quota_remaining tc2 else 0) \<le> tc_quota_remaining tc1"
        using q2 [of p] by (simp only: if_True simp_thms)
      moreover have "served p cps1 + tc_quota_remaining tc1 \<le> (if p = ?s then tc_quota_remaining tc else tc_max_bytes tc)"
        using 1 q1 [of p] by (simp only: if_True simp_thms)
      ultimately show ?thesis unfolding served_append by linarith
    next
      case 2
      have "\<forall>cp \<in> set cps2. cp_period cp \<noteq> p"
        using 2 p2 d(1) by force
      moreover have "p \<noteq> ?s1" "p \<noteq> ?s2"
        using 2 start(2) d(1) by linarith+
      ultimately show ?thesis
        using q1 [of p] served_none [of cps2 p] by (simp only: served_append if_False add_0_right simp_thms)
    next
      case 3
      have "\<forall>cp \<in> set cps1. cp_period cp \<noteq> p"
        using 3 p1 d(1) by force
      moreover have "p \<noteq> ?s1" "p \<noteq> ?s"
        using 3 start(1) d(1) by linarith+
      ultimately show ?thesis
        using q2 [of p] served_none [of cps1 p] by (simp only: served_append if_False add_0 simp_thms)
    qed
  qed
  moreover have "apart ?d ?s (cp_period cp) \<and> apart ?d (cp_period cp) ?s2" if "cp \<in> set (cps1 @ cps2)" for cp
  proof (cases "cp \<in> set cps1")
    case True
    then show ?thesis using p1 [OF True] start(2) d(1) by linarith
  next
    case False
    then have "cp \<in> set cps2" using that by simp
    then show ?thesis using p2 [of cp] start(1) d(1) by linarith
  qed
  moreover have "sorted_wrt (apart ?d) (map cp_period (cps1 @ cps2))"
  proof -
    have "apart ?d (cp_period x) (cp_period y)" if "x \<in> set cps1" "y \<in> set cps2" for x y
      using p1 [OF that(1)] p2 [OF that(2)] d(1) by linarith
    then show ?thesis
      using assms(1,2) d(2) by (simp add: paced_def sorted_wrt_append)
  qed
  moreover have "apart ?d ?s ?s2"
    using start d(1) by linarith
  moreover have "tc_period_ms tc2 = tc_period_ms tc" "tc_max_bytes tc2 = tc_max_bytes tc"
    using assms(1,2) by (simp_all add: paced_def)
  ultimately show ?thesis
    unfolding paced_def by blast
qed

lemma paced_tick:
  assumes "tick rd tc = Some tc1" and "rd_now rd + sleep_time rd tc \<le> rd_awake rd"
    and "tc_quota_remaining tc \<le> tc_max_bytes tc" and "0 < tc_period_ms tc"
  shows "paced tc [] tc1"
  using tick_Some [OF assms(1-3)] assms(3,4) by (auto simp: paced_def period_length_def)

lemma paced_serve_chain:
  assumes "serve_chain rd c tc = (out, tc2)" and "honest_source rd"
    and "rd_now rd + sleep_time rd tc \<le> rd_awake rd" and "tc_quota_remaining tc \<le> tc_max_bytes tc"
    and "0 < tc_period_ms tc"
  shows "paced tc (case out of Inl _ \<Rightarrow> [] | Inr cp \<Rightarrow> [cp]) tc2"
proof (cases out)
  case (Inl e)
  then have "tc2 = tc \<or> tick rd tc = Some tc2"
    using assms(1) by (auto simp: serve_chain_def Let_def split: list.splits if_splits option.splits)
  then show ?thesis
    using Inl paced_tick assms(3-5) by auto
next
  case (Inr cp)
  note r = served_round [OF assms(1) [unfolded Inr] assms(2-4)]
  have "0 < period_length tc"
    using assms(5) by (simp add: period_length_def)
  with r Inr assms(4) show ?thesis
    by (fastforce simp: paced_def)
qed

lemma process_requests_Cons_cases:
  assumes "process_requests ((rd, c) # cs) tc = (res, tc', cps)"
  obtains (failed) "cps = []"
    | (served) cp tc1 cps1 where "serve_chain rd c tc = (Inr cp, tc1)" "process_requests cs tc1 = (res, tc', cps1)" "cps = cp # cps1"
  using assms by (auto split: prod.splits sum.splits)

lemma paced_process_requests:
  assumes "process_requests cs tc = (res, tc', cps)" and "well_timed cs tc"
    and "tc_quota_remaining tc \<le> tc_max_bytes tc" and "0 < tc_period_ms tc"
  shows "paced tc cps tc'"
  using assms
proof (induction cs arbitrary: tc cps)
  case (Cons rc cs)
  obtain rd c where rc: "rc = (rd, c)" by (cases rc)
  obtain out tc1 where s: "serve_chain rd c tc = (out, tc1)" by (cases "serve_chain rd c tc")
  have one: "paced tc (case out of Inl _ \<Rightarrow> [] | Inr cp \<Rightarrow> [cp]) tc1"
    using Cons.prems(2-4) rc by (intro paced_serve_chain [OF s]) simp_all
  show ?case
  proof (cases out)
    case (Inl e)
    then show ?thesis using Cons.prems(1) rc s one by simp
  next
    case (Inr cp)
    then obtain cps1 where p: "process_requests cs tc1 = (res, tc', cps1)" "cps = cp # cps1"
      using Cons.prems(1) rc s by (auto split: prod.splits)
    have "paced tc1 cps1 tc'"
      using Cons.prems(2-4) rc s one paced_quota(1) [OF one]
      by (intro Cons.IH p(1)) (auto simp: paced_def)
    from paced_append [OF one this Cons.prems(4)] show ?thesis
      using Inr p(2) by simp
  qed
qed simp

text \<open>The backend keeps its rate limit: however the guest queues its buffers, at most \<open>max_bytes\<close> bytes
  are completed in any one period, and the periods in which bytes are completed start at least
  \<open>period_ms\<close> apart.\<close>

theorem rng_keeps_its_rate:
  assumes "process_requests cs tc = (res, tc', cps)" and "well_timed cs tc"
    and "tc_quota_remaining tc \<le> tc_max_bytes tc" and "0 < tc_period_ms tc"
  shows "(\<forall>p. served p cps \<le> tc_max_bytes tc)
     \<and> sorted_wrt (\<lambda>p q. p = q \<or> p + int (tc_period_ms tc) * 1000000 \<le> q) (map cp_period cps)"
  using paced_process_requests [OF assms] paced_quota(2) [OF paced_process_requests [OF assms] assms(3)]
  by (simp add: paced_def period_length_def)

definition demo_rounds :: "(serve_round \<times> chain) list" where
  "demo_rounds = map (\<lambda>h. (\<lparr>rd_now = 0, rd_awake = 1000000, rd_source_poisoned = False, rd_read = Some\<rparr>,
     \<lparr>ch_head_index = h, ch_descriptors = [\<lparr>d_len = 3, d_write_only = True\<rparr>]\<rparr>)) [7, 8]"

lemmas demo_rounds_simps = demo_rounds_def timer_new_def serve_chain_def tick_def as_millis_def sleep_time_def honest_source_def

theorem rng_keeps_its_rate_witness:
  "\<exists>res tc cps. process_requests demo_rounds (timer_new 1 4 0) = (res, tc, cps) \<and> map cp_len cps = [3, 1]
     \<and> (\<forall>p. served p cps \<le> 4)"
proof -
  obtain res tc cps where p: "process_requests demo_rounds (timer_new 1 4 0) = (res, tc, cps)"
    by (cases "process_requests demo_rounds (timer_new 1 4 0)") auto
  have "well_timed demo_rounds (timer_new 1 4 0)" "map cp_len cps = [3, 1]"
    using p by (auto simp: demo_rounds_simps)
  with rng_keeps_its_rate [OF p] p show ?thesis
    by (simp add: timer_new_def)
qed

subsection \<open>No empty completion\<close>

definition generous_source :: "serve_round \<Rightarrow> bool" where
  "generous_source rd = (\<forall>n k. 0 < n \<longrightarrow> rd_read rd n = Some k \<longrightarrow> 0 < k)"

lemma tick_quota:
  assumes "tick rd tc = Some tc1" "0 < tc_max_bytes tc" "0 < tc_period_ms tc"
  shows "0 < tc_quota_remaining tc1" "tc_max_bytes tc1 = tc_max_bytes tc" "tc_period_ms tc1 = tc_period_ms tc"
  using assms by (auto simp: tick_def Let_def split: if_splits)

text \<open>The guest never sees an empty completion, as long as the limit is positive, its buffers are not empty
  and the source blocks rather than returns nothing.\<close>

theorem rng_completes_with_bytes:
  assumes "process_requests cs tc = (res, tc', cps)" and "0 < tc_max_bytes tc" "0 < tc_period_ms tc"
    and "\<forall>(rd, c) \<in> set cs. generous_source rd \<and> (\<forall>d \<in> set (ch_descriptors c). 0 < d_len d)"
  shows "\<forall>cp \<in> set cps. 0 < cp_len cp"
  using assms
proof (induction cs arbitrary: tc res tc' cps)
  case (Cons rc cs)
  obtain rd c where rc: "rc = (rd, c)" by (cases rc)
  from Cons.prems(1) [unfolded rc] show ?case
  proof (cases rule: process_requests_Cons_cases)
    case (served cp tc1 cps1)
    obtain d tc2 where t: "ch_descriptors c = [d]" "d_write_only d" "tick rd tc = Some tc2"
      "rd_read rd (min (unat (d_len d)) (tc_quota_remaining tc2)) = Some (cp_len cp)"
      "cp_head cp = ch_head_index c" "cp_period cp = tc_period_start tc2"
      "tc1 = tc2\<lparr>tc_quota_remaining := tc_quota_remaining tc2 - cp_len cp\<rparr>"
      using served(1) by (rule serve_chain_Inr)
    note q = tick_quota [OF t(3) Cons.prems(2,3)]
    have "0 < unat (d_len d)"
      using Cons.prems(4) rc t(1) by (simp add: unat_gt_0 word_neq_0_conv)
    then have "0 < min (unat (d_len d)) (tc_quota_remaining tc2)"
      using q(1) by simp
    moreover have "generous_source rd"
      using Cons.prems(4) rc by simp
    ultimately have "0 < cp_len cp"
      using t(4) unfolding generous_source_def by blast
    moreover have "\<forall>cp \<in> set cps1. 0 < cp_len cp"
      using Cons.IH [OF served(2)] Cons.prems q t(7) by simp
    ultimately show ?thesis by (simp add: served(3))
  qed simp
qed simp

theorem rng_completes_with_bytes_witness:
  "\<exists>res tc cps. process_requests demo_rounds (timer_new 1 4 0) = (res, tc, cps) \<and> length cps = 2 \<and> (\<forall>cp \<in> set cps. 0 < cp_len cp)"
proof -
  obtain res tc cps where p: "process_requests demo_rounds (timer_new 1 4 0) = (res, tc, cps)"
    by (cases "process_requests demo_rounds (timer_new 1 4 0)") auto
  have "length cps = 2"
    using p by (auto simp: demo_rounds_simps)
  moreover have "\<forall>(rd, c) \<in> set demo_rounds. generous_source rd \<and> (\<forall>d \<in> set (ch_descriptors c). 0 < d_len d)"
    by (simp add: demo_rounds_def generous_source_def)
  ultimately show ?thesis
    using rng_completes_with_bytes [OF p] p by (simp add: timer_new_def)
qed

text \<open>With a limit of zero bytes, which \<open>validate\<close> accepts, every completion is empty.\<close>

theorem zero_limit_serves_nothing:
  "rng_validate \<lparr>rg_socket_path = s, rg_source_path = p, rg_period_ms = 1, rg_max_bytes = 0\<rparr> = Inr ()
   \<and> process_requests [hd demo_rounds] (timer_new 1 0 0)
     = (Inr True, timer_new 1 0 1000000, [\<lparr>cp_head = 7, cp_len = 0, cp_period = 1000000\<rparr>])"
  by (simp add: rng_validate_def max_period_ms_def demo_rounds_simps)

subsection \<open>The event loop ends\<close>

definition last_pass :: "queue_pass \<Rightarrow> timer_config \<Rightarrow> bool" where
  "last_pass qp tc = (if is_ok (fst (process_queue qp tc)) then \<not> qp_more qp else True)"

definition timer_at :: "queue_pass list \<Rightarrow> nat \<Rightarrow> timer_config \<Rightarrow> timer_config" where
  "timer_at qps i tc = fold (\<lambda>qp t. fst (snd (process_queue qp t))) (take i qps) tc"


end
