(* ===== verification/Vhost_Device.thy ===== *)
theory Vhost_Device
  imports Vhost_Rng
begin

text \<open>
  The device around the queue: \<open>RngBackend\<close> of \<open>vhost/rng.rs\<close> with its construction, what it offers the
  frontend, and the messages the vhost-user daemon passes to it over a connection. The guest memory is
  the daemon's; a backend that has not been given one panics when it must look at the queue. Turning the
  notifications of a ring off and on, whose failure would panic too, is taken to succeed.
\<close>

subsection \<open>What the device offers\<close>

definition queue_size :: nat where
  "queue_size = 1024"

definition num_queues :: nat where
  "num_queues = 1"

definition virtio_f_notify_on_empty :: nat where "virtio_f_notify_on_empty = 24"
definition virtio_ring_f_indirect_desc :: nat where "virtio_ring_f_indirect_desc = 28"
definition virtio_ring_f_event_idx :: nat where "virtio_ring_f_event_idx = 29"
definition vhost_user_f_protocol_features :: nat where "vhost_user_f_protocol_features = 30"
definition virtio_f_version_1 :: nat where "virtio_f_version_1 = 32"
definition vhost_f_log_all :: nat where "vhost_f_log_all = 26"

unbundle bit_operations_syntax

definition rng_features :: u64 where
  "rng_features =
     push_bit virtio_f_version_1 1 OR push_bit virtio_f_notify_on_empty 1 OR push_bit virtio_ring_f_indirect_desc 1
     OR push_bit virtio_ring_f_event_idx 1 OR push_bit vhost_user_f_protocol_features 1"

definition protocol_features :: u64 where
  "protocol_features = 1"

subsection \<open>The backend\<close>

record 'm rng_backend =
  rb_event_idx :: bool
  rb_timer :: timer_config
  rb_mem :: "'m option"

text \<open>The constructor can fail for want of an eventfd; it reads the clock once.\<close>

definition backend_new :: "bool \<Rightarrow> nat \<Rightarrow> nat \<Rightarrow> instant \<Rightarrow> rng_error + 'm rng_backend" where
  "backend_new eventfd_ok period_ms max_bytes now =
     (if \<not> eventfd_ok then Inl EventFdError
      else Inr \<lparr>rb_event_idx = False, rb_timer = timer_new period_ms max_bytes now, rb_mem = None\<rparr>)"

definition set_event_idx :: "bool \<Rightarrow> 'm rng_backend \<Rightarrow> 'm rng_backend" where
  "set_event_idx enabled b = b\<lparr>rb_event_idx := enabled\<rparr>"

definition update_memory :: "'m \<Rightarrow> 'm rng_backend \<Rightarrow> 'm rng_backend" where
  "update_memory mem b = b\<lparr>rb_mem := Some mem\<rparr>"

text \<open>The event that ends a worker is handed out as a pair of clones, if both can be made.\<close>

definition exit_event :: "'c option \<Rightarrow> 'n option \<Rightarrow> ('c \<times> 'n) option" where
  "exit_event consumer_clone notifier_clone =
     (case consumer_clone of
        None \<Rightarrow> None
      | Some consumer \<Rightarrow> (case notifier_clone of None \<Rightarrow> None | Some notifier \<Rightarrow> Some (consumer, notifier)))"

text \<open>The handler on the backend: looking at the queue without a guest memory panics.\<close>

definition device_event ::
  "u16 \<Rightarrow> bool \<Rightarrow> queue_pass list \<Rightarrow> 'm rng_backend
     \<Rightarrow> ((rng_error + unit) outcome \<times> completion list \<times> 'm rng_backend) option"
where
  "device_event event epoll_in qps b =
     (if epoll_in \<and> event = 0 \<and> rb_mem b = None then Some (Panicked, [], b)
      else map_option (\<lambda>(res, tc, cps). (Done res, cps, b\<lparr>rb_timer := tc\<rparr>))
             (handle_event (rb_event_idx b) event epoll_in qps (rb_timer b)))"

subsection \<open>A connection\<close>

datatype 'm frontend_message =
    SetEventIdx bool
  | UpdateMemory 'm
  | QueueEvent u16 bool "queue_pass list"

fun device_step ::
  "'m frontend_message \<Rightarrow> 'm rng_backend \<Rightarrow> ((rng_error + unit) outcome \<times> completion list \<times> 'm rng_backend) option"
where
  "device_step (SetEventIdx enabled) b = Some (Done (Inr ()), [], set_event_idx enabled b)"
| "device_step (UpdateMemory mem) b = Some (Done (Inr ()), [], update_memory mem b)"
| "device_step (QueueEvent event epoll_in qps) b = device_event event epoll_in qps b"

text \<open>The completions of a connection and the state it leaves. An event that fails leaves the device to the next
  message, a panic ends it; a handler that is kept busy for ever is \<open>None\<close>.\<close>

fun device_session ::
  "'m frontend_message list \<Rightarrow> 'm rng_backend \<Rightarrow> ((rng_error + unit) outcome list \<times> completion list \<times> 'm rng_backend) option"
where
  "device_session [] b = Some ([], [], b)"
| "device_session (m # ms) b =
     (case device_step m b of
        None \<Rightarrow> None
      | Some (Panicked, cps, b1) \<Rightarrow> Some ([Panicked], cps, b1)
      | Some (Done res, cps, b1) \<Rightarrow>
          map_option (\<lambda>(results, cps', b2). (Done res # results, cps @ cps', b2)) (device_session ms b1))"

subsection \<open>Facts\<close>

text \<open>The feature bits are the named ones and no others; migration logging, which the library turns on by
  default, is not among them.\<close>

lemma rng_features_bits:
  "bit rng_features n \<longleftrightarrow> n \<in> {virtio_f_notify_on_empty, virtio_ring_f_indirect_desc, virtio_ring_f_event_idx,
     vhost_user_f_protocol_features, virtio_f_version_1}"
proof -
  have one: "bit (2 ^ k :: u64) n \<longleftrightarrow> n = k" if "k < 64" for k
    using that by (auto simp: bit_exp_iff possible_bit_def)
  have "virtio_f_notify_on_empty < 64" "virtio_ring_f_indirect_desc < 64" "virtio_ring_f_event_idx < 64"
    "vhost_user_f_protocol_features < 64" "virtio_f_version_1 < 64"
    by (simp_all add: virtio_f_notify_on_empty_def virtio_ring_f_indirect_desc_def virtio_ring_f_event_idx_def
        vhost_user_f_protocol_features_def virtio_f_version_1_def)
  then show ?thesis
    unfolding rng_features_def push_bit_of_1 bit_or_iff by (auto simp: one)
qed

lemma no_log_all: "\<not> bit rng_features vhost_f_log_all"
  by (simp add: rng_features_bits vhost_f_log_all_def virtio_f_notify_on_empty_def virtio_ring_f_indirect_desc_def
      virtio_ring_f_event_idx_def vhost_user_f_protocol_features_def virtio_f_version_1_def)

end
