(* ===== verification/Vhost_Device_Properties.thy ===== *)
theory Vhost_Device_Properties
  imports Vhost_Device Vhost_Rng_Properties
begin

text \<open>
  The rate limit over the life of a backend: whatever messages a frontend sends it, and whether its
  events succeed or fail, what the device completes is one paced run of its timer.
\<close>

subsection \<open>The world a connection is served in\<close>

fun timed_passes :: "queue_pass list \<Rightarrow> timer_config \<Rightarrow> bool" where
  "timed_passes [] tc = True"
| "timed_passes (qp # qps) tc =
     ((case qp_chains qp of None \<Rightarrow> True | Some cs \<Rightarrow> well_timed cs tc)
      \<and> timed_passes qps (fst (snd (process_queue qp tc))))"

fun timed_session :: "'m frontend_message list \<Rightarrow> 'm rng_backend \<Rightarrow> bool" where
  "timed_session [] b = True"
| "timed_session (m # ms) b =
     ((case m of QueueEvent _ _ qps \<Rightarrow> timed_passes qps (rb_timer b) | _ \<Rightarrow> True)
      \<and> (case device_step m b of None \<Rightarrow> True | Some (_, _, b1) \<Rightarrow> timed_session ms b1))"

subsection \<open>Every run is paced\<close>

definition fair_timer :: "timer_config \<Rightarrow> bool" where
  "fair_timer tc \<longleftrightarrow> tc_quota_remaining tc \<le> tc_max_bytes tc \<and> 0 < tc_period_ms tc"

lemma paced_fair: "paced tc cps tc' \<Longrightarrow> fair_timer tc \<Longrightarrow> fair_timer tc'"
  using paced_quota(1) [of tc cps tc'] by (simp add: fair_timer_def paced_def)

lemma paced_trans: "paced tc cps tc1 \<Longrightarrow> paced tc1 cps' tc2 \<Longrightarrow> fair_timer tc \<Longrightarrow> paced tc (cps @ cps') tc2"
  by (rule paced_append) (simp_all add: fair_timer_def)

lemma paced_process_queue:
  assumes "process_queue qp tc = (res, tc', cps)" "timed_passes (qp # qps) tc" "fair_timer tc"
  shows "paced tc cps tc'"
proof (cases "qp_chains qp")
  case (Some cs)
  obtain r where r: "process_requests cs tc = (r, tc', cps)"
    using assms(1) Some by (auto simp: process_queue_def split: prod.splits sum.splits)
  show ?thesis
    using assms(2,3) Some by (intro paced_process_requests [OF r]) (simp_all add: fair_timer_def)
qed (use assms(1) in \<open>simp add: process_queue_def\<close>)

lemma paced_drain_queue:
  "drain_queue qps tc = Some (res, tc', cps) \<Longrightarrow> timed_passes qps tc \<Longrightarrow> fair_timer tc \<Longrightarrow> paced tc cps tc'"
proof (induction qps arbitrary: tc cps)
  case (Cons qp qps)
  obtain r tc1 cps1 where q: "process_queue qp tc = (r, tc1, cps1)" by (cases "process_queue qp tc")
  note one = paced_process_queue [OF q Cons.prems(2,3)]
  show ?case
  proof (cases "is_ok r \<and> qp_more qp")
    case True
    then obtain cps2 where d: "drain_queue qps tc1 = Some (res, tc', cps2)" "cps = cps1 @ cps2"
      using Cons.prems(1) q by (cases r) auto
    have "paced tc1 cps2 tc'"
      using Cons.prems(2) q one Cons.prems(3) by (intro Cons.IH [OF d(1)]) (simp_all add: paced_fair)
    with paced_trans [OF one this Cons.prems(3)] d(2) show ?thesis by simp
  next
    case False
    then show ?thesis
      using Cons.prems(1) q one by (cases r) (auto split: if_splits)
  qed
qed simp

lemma paced_handle_event:
  assumes "handle_event idx event epoll_in qps tc = Some (res, tc', cps)" "timed_passes qps tc" "fair_timer tc"
  shows "paced tc cps tc'"
  using assms
  by (auto simp: handle_event_def intro: paced_drain_queue paced_process_queue split: if_splits list.splits)

lemma paced_device_step:
  assumes "device_step m b = Some (out, cps, b')" "fair_timer (rb_timer b)"
    and "case m of QueueEvent _ _ qps \<Rightarrow> timed_passes qps (rb_timer b) | _ \<Rightarrow> True"
  shows "paced (rb_timer b) cps (rb_timer b')"
  using assms
  by (cases m) (auto simp: set_event_idx_def update_memory_def device_event_def intro: paced_handle_event split: if_splits)

lemma paced_session:
  "device_session ms b = Some (outs, cps, b') \<Longrightarrow> timed_session ms b \<Longrightarrow> fair_timer (rb_timer b)
     \<Longrightarrow> paced (rb_timer b) cps (rb_timer b')"
proof (induction ms arbitrary: b outs cps)
  case (Cons m ms)
  obtain out cps1 b1 where s: "device_step m b = Some (out, cps1, b1)"
    using Cons.prems(1) by (auto split: option.splits)
  have t: "case m of QueueEvent _ _ qps \<Rightarrow> timed_passes qps (rb_timer b) | _ \<Rightarrow> True" "timed_session ms b1"
    using Cons.prems(2) s by simp_all
  note one = paced_device_step [OF s Cons.prems(3) t(1)]
  show ?case
  proof (cases out)
    case (Done res)
    then obtain outs2 cps2 where d: "device_session ms b1 = Some (outs2, cps2, b')" "cps = cps1 @ cps2"
      using Cons.prems(1) s by auto
    from paced_trans [OF one Cons.IH [OF d(1) t(2) paced_fair [OF one Cons.prems(3)]] Cons.prems(3)] d(2)
    show ?thesis by simp
  next
    case Panicked
    then show ?thesis using Cons.prems(1) s one by simp
  qed
qed simp

text \<open>C18. A device keeps its rate limit for life: for a backend made from a valid configuration, over all the
  messages a frontend sends it and whether the events succeed, fail or find the queue broken, at most
  \<open>max_bytes\<close> bytes are completed in any one period, and the periods in which bytes are completed start
  at least \<open>period_ms\<close> apart.\<close>

theorem device_keeps_its_rate:
  assumes "rng_validate config = Inr ()" and "backend_new eventfd_ok (rg_period_ms config) (rg_max_bytes config) start = Inr b"
    and "timed_session ms b" "device_session ms b = Some (outs, cps, b')"
  shows "(\<forall>p. served p cps \<le> rg_max_bytes config)
     \<and> sorted_wrt (\<lambda>p q. p = q \<or> p + int (rg_period_ms config) * 1000000 \<le> q) (map cp_period cps)"
proof -
  have b: "rb_timer b = timer_new (rg_period_ms config) (rg_max_bytes config) start"
    using assms(2) by (auto simp: backend_new_def split: if_splits)
  have fair: "fair_timer (rb_timer b)"
    using assms(1) by (auto simp: b fair_timer_def timer_new_def rng_validate_def split: if_splits)
  note run = paced_session [OF assms(4,3) fair]
  have "served p cps \<le> rg_max_bytes config" for p
    using paced_quota(2) [OF run] fair by (simp add: fair_timer_def b timer_new_def)
  then show ?thesis
    using run by (simp add: paced_def b timer_new_def period_length_def)
qed

definition demo_messages :: "unit frontend_message list" where
  "demo_messages =
     [QueueEvent 1 True [], UpdateMemory (), SetEventIdx True,
      QueueEvent 0 True [\<lparr>qp_chains = Some [hd demo_rounds], qp_signal_ok = False, qp_more = True\<rparr>],
      QueueEvent 0 True [\<lparr>qp_chains = Some (tl demo_rounds), qp_signal_ok = True, qp_more = False\<rparr>]]"

lemmas demo_session_simps = demo_messages_def demo_rounds_simps backend_new_def device_event_def handle_event_def
  process_queue_def set_event_idx_def update_memory_def

theorem device_keeps_its_rate_witness:
  "\<exists>b outs cps b'. backend_new True 1 4 0 = Inr b \<and> device_session demo_messages b = Some (outs, cps, b')
     \<and> map cp_len cps = [3, 1] \<and> (\<forall>p. served p cps \<le> 4)"
proof -
  let ?c = "\<lparr>rg_socket_path = [], rg_source_path = [], rg_period_ms = 1, rg_max_bytes = 4\<rparr>"
  obtain b :: "unit rng_backend" where b: "backend_new True 1 4 0 = Inr b" by (simp add: backend_new_def)
  have t: "timed_session demo_messages b"
    using b by (auto simp: demo_session_simps)
  have "\<exists>outs cps b'. device_session demo_messages b = Some (outs, cps, b') \<and> map cp_len cps = [3, 1]"
    using b by (auto simp: demo_session_simps)
  then obtain outs cps b' where s: "device_session demo_messages b = Some (outs, cps, b')" "map cp_len cps = [3, 1]"
    by (elim exE conjE) (rule that)
  from device_keeps_its_rate [of ?c True 0 b, OF _ _ t s(1)] b s show ?thesis
    by (auto simp: rng_validate_def max_period_ms_def)
qed

text \<open>Only an event on the queue of a device without a guest memory panics, and a memory is never taken back.\<close>

lemma device_step_panics:
  "device_step m b = Some (Panicked, cps, b') \<longleftrightarrow>
     (\<exists>qps. m = QueueEvent 0 True qps) \<and> rb_mem b = None \<and> cps = [] \<and> b' = b"
  by (cases m) (auto simp: device_event_def)

lemma device_step_mem: "device_step m b = Some (out, cps, b') \<Longrightarrow> rb_mem b \<noteq> None \<Longrightarrow> rb_mem b' \<noteq> None"
  by (cases m) (auto simp: device_event_def set_event_idx_def update_memory_def)

lemma session_with_memory_never_panics:
  "device_session ms b = Some (outs, cps, b') \<Longrightarrow> rb_mem b \<noteq> None \<Longrightarrow> Panicked \<notin> set outs"
proof (induction ms arbitrary: b outs cps)
  case (Cons m ms)
  obtain out cps1 b1 where s: "device_step m b = Some (out, cps1, b1)"
    using Cons.prems(1) by (auto split: option.splits)
  with Cons.prems(2) device_step_panics [of m b cps1 b1] obtain res where "out = Done res"
    by (cases out) auto
  with Cons.prems(1) s Cons.IH device_step_mem [OF s Cons.prems(2)] show ?case
    by auto
qed simp

end
