(* ===== verification/Topology.thy ===== *)
theory Topology
  imports Resource_Model "HOL-Library.Multiset"
begin

text \<open>
  The NUMA topology of \<open>topology.rs\<close>. What hwloc reports is an argument: the PCI devices in its
  order, each with the first node of the nearest nodeset above it, and the NUMA nodes in its order.
\<close>

record pci_device_report =
  pd_name :: string
  pd_vendor_id :: "string option"
  pd_device_id :: "string option"

record numa_node_report =
  nn_os_index :: nat
  nn_local_memory_bytes :: u64
  nn_logical_cpus :: nat
  nn_pci_devices :: "pci_device_report list"

record hwloc_pci =
  hp_name :: "string option"
  hp_vendor :: "string option"
  hp_device :: "string option"
  hp_node :: "nat option"

record hwloc_numa =
  hn_os_index :: "nat option"
  hn_total_memory :: u64
  hn_weight :: "nat option"

type_synonym pci_by_node = "(nat \<times> pci_device_report list) list"

definition pci_report :: "hwloc_pci \<Rightarrow> pci_device_report" where
  "pci_report o1 = \<lparr>pd_name = unwrap_or (hp_name o1) ''unknown-pci-device'', pd_vendor_id = hp_vendor o1,
     pd_device_id = hp_device o1\<rparr>"

definition place_pci :: "hwloc_pci \<Rightarrow> pci_by_node \<times> pci_device_report list \<Rightarrow> pci_by_node \<times> pci_device_report list" where
  "place_pci o1 = (\<lambda>(by_node, unassigned).
     case hp_node o1 of
       Some i \<Rightarrow> (bt_insert i (unwrap_or (map_of by_node i) [] @ [pci_report o1]) by_node, unassigned)
     | None \<Rightarrow> (by_node, unassigned @ [pci_report o1]))"

text \<open>The nodes take their devices out of the map; a second node with the same index finds none.\<close>

fun take_nodes :: "hwloc_numa list \<Rightarrow> pci_by_node \<Rightarrow> numa_node_report list \<times> pci_by_node" where
  "take_nodes [] by_node = ([], by_node)"
| "take_nodes (n # ns) by_node =
     (let i = unwrap_or (hn_os_index n) 0;
          r = \<lparr>nn_os_index = i, nn_local_memory_bytes = hn_total_memory n, nn_logical_cpus = unwrap_or (hn_weight n) 0,
               nn_pci_devices = unwrap_or (map_of by_node i) []\<rparr>
      in case take_nodes ns (AList.delete i by_node) of (rs, rest) \<Rightarrow> (r # rs, rest))"

definition add_unassigned :: "pci_device_report list \<Rightarrow> numa_node_report list \<Rightarrow> numa_node_report list" where
  "add_unassigned devices nodes =
     (if devices = [] then nodes
      else case nodes of
             n # ns \<Rightarrow> n\<lparr>nn_pci_devices := nn_pci_devices n @ devices\<rparr> # ns
           | [] \<Rightarrow> [\<lparr>nn_os_index = 0, nn_local_memory_bytes = 0, nn_logical_cpus = 0, nn_pci_devices = devices\<rparr>])"

definition topology_discover :: "string + (hwloc_pci list \<times> hwloc_numa list) \<Rightarrow> string + numa_node_report list" where
  "topology_discover hwloc =
     (case hwloc of
        Inl e \<Rightarrow> Inl (''failed to load hwloc topology: '' @ e)
      | Inr (pci, numa) \<Rightarrow>
          (let (by_node, unassigned) = fold place_pci pci ([], []);
               (nodes, rest) = take_nodes numa by_node
           in Inr (add_unassigned (unassigned @ concat (map snd rest)) nodes)))"

definition topology_as_resources :: "string \<Rightarrow> numa_node_report list \<Rightarrow> resource list" where
  "topology_as_resources node nodes =
     map (\<lambda>n. \<lparr>res_id = ''local.numa.'' @ show_nat (nn_os_index n), res_kind = Memory,
        res_capacity = nn_local_memory_bytes n, res_unit = ''bytes'', res_node = node, res_state = Available,
        res_exclusive = False,
        res_attributes = bt_from [(''topology.scope'', ''numa-node''), (''numa.os_index'', show_nat (nn_os_index n)),
          (''numa.logical_cpus'', show_nat (nn_logical_cpus n)),
          (''numa.pci_device_count'', show_nat (length (nn_pci_devices n)))]\<rparr>) nodes"

subsection \<open>No device is dropped\<close>

definition devices_of :: "pci_by_node \<Rightarrow> pci_device_report multiset" where
  "devices_of m = mset (concat (map snd m))"

definition node_devices :: "numa_node_report list \<Rightarrow> pci_device_report multiset" where
  "node_devices nodes = mset (concat (map nn_pci_devices nodes))"

lemma devices_of_simps [simp]:
  "devices_of [] = {#}" "devices_of ((i, ds) # m) = mset ds + devices_of m"
  by (simp_all add: devices_of_def)

lemma node_devices_simps [simp]:
  "node_devices [] = {#}" "node_devices (n # ns) = mset (nn_pci_devices n) + node_devices ns"
  by (simp_all add: node_devices_def)

lemma devices_of_delete:
  "distinct (keys m) \<Longrightarrow> devices_of m = mset (unwrap_or (map_of m i) []) + devices_of (AList.delete i m)"
proof (induction m)
  case (Cons jd m)
  obtain j d where jd: "jd = (j, d)" by (cases jd)
  show ?case
  proof (cases "j = i")
    case True
    then have "AList.delete i m = m"
      using Cons.prems jd by (intro delete_id) auto
    then show ?thesis using True jd by simp
  qed (use Cons jd in simp)
qed simp

lemma bt_insert_devices:
  "bt_wf m \<Longrightarrow> devices_of (bt_insert i ds m) = mset ds + devices_of (AList.delete i m)"
proof (induction i ds m rule: bt_insert.induct)
  case (2 i ds j es m)
  have absent: "AList.delete i ((j, es) # m) = (j, es) # m" if "i < j"
    using 2(2) that by (intro delete_id) (auto simp: bt_wf_def)
  have rest: "AList.delete j m = m"
    using 2(2) by (intro delete_id) (auto simp: bt_wf_def)
  show ?case
    using 2 absent rest by (cases "i < j"; cases "i = j") (auto simp: bt_wf_def)
qed simp

lemma place_pci_step:
  assumes "place_pci p (m, u) = (m', u')" "bt_wf m"
  shows "bt_wf m'" "devices_of m' + mset u' = add_mset (pci_report p) (devices_of m + mset u)"
proof -
  show "bt_wf m'"
    using assms by (auto simp: place_pci_def bt_wf_insert split: option.splits)
  have "distinct (keys m)"
    using assms(2) by (simp add: bt_wf_def)
  from devices_of_delete [OF this] assms
  show "devices_of m' + mset u' = add_mset (pci_report p) (devices_of m + mset u)"
    by (auto simp: place_pci_def bt_insert_devices split: option.splits)
qed

lemma place_pci_fold:
  "fold place_pci pci (m, u) = (m', u') \<Longrightarrow> bt_wf m \<Longrightarrow>
     bt_wf m' \<and> devices_of m' + mset u' = mset (map pci_report pci) + (devices_of m + mset u)"
proof (induction pci arbitrary: m u)
  case (Cons p pci)
  obtain m1 u1 where p: "place_pci p (m, u) = (m1, u1)" by (cases "place_pci p (m, u)")
  note step = place_pci_step [OF p Cons.prems(2)]
  from Cons.IH [OF _ step(1)] Cons.prems(1) p step(2) show ?case by simp
qed simp

lemma take_nodes_devices:
  "take_nodes ns m = (rs, rest) \<Longrightarrow> distinct (keys m) \<Longrightarrow> node_devices rs + devices_of rest = devices_of m"
proof (induction ns arbitrary: m rs rest)
  case (Cons n ns)
  let ?i = "unwrap_or (hn_os_index n) 0"
  obtain rs1 where t: "take_nodes ns (AList.delete ?i m) = (rs1, rest)"
    and rs: "node_devices rs = mset (unwrap_or (map_of m ?i) []) + node_devices rs1"
    using Cons.prems(1) by (auto simp: Let_def split: prod.splits)
  from Cons.IH [OF t] Cons.prems(2) show ?case
    using devices_of_delete [OF Cons.prems(2), of ?i] rs by (simp add: distinct_keys_delete add.assoc)
qed simp

lemma node_devices_add: "node_devices (add_unassigned ds nodes) = mset ds + node_devices nodes"
  by (cases nodes) (simp_all add: add_unassigned_def)

lemma topology_devices:
  assumes "topology_discover (Inr (pci, numa)) = Inr nodes"
  shows "node_devices nodes = mset (map pci_report pci)"
proof -
  obtain m u where p: "fold place_pci pci ([], []) = (m, u)" by (cases "fold place_pci pci ([], [])")
  obtain rs rest where t: "take_nodes numa m = (rs, rest)" by (cases "take_nodes numa m")
  have m: "distinct (keys m)" "devices_of m + mset u = mset (map pci_report pci)"
    using place_pci_fold [OF p] by (simp_all add: bt_wf_def)
  have "nodes = add_unassigned (u @ concat (map snd rest)) rs"
    using assms p t by (simp add: topology_discover_def)
  then have "node_devices nodes = mset u + devices_of rest + node_devices rs"
    by (simp add: node_devices_add devices_of_def)
  then show ?thesis
    using take_nodes_devices [OF t m(1)] m(2) by (simp add: ac_simps)
qed

text \<open>C38. No PCI device is dropped or reported twice: the devices under the NUMA nodes of a discovered
  topology are, counted with multiplicity, the devices hwloc reported, also on a machine without NUMA
  nodes and for a device that is local to a node hwloc does not list.\<close>

theorem topology_keeps_every_device:
  "topology_discover (Inr (pci, numa)) = Inr nodes \<Longrightarrow> mset (concat (map nn_pci_devices nodes)) = mset (map pci_report pci)"
  by (drule topology_devices) (simp add: node_devices_def)

theorem topology_keeps_every_device_witness:
  "\<exists>nodes. topology_discover (Inr ([\<lparr>hp_name = Some ''gpu'', hp_vendor = None, hp_device = None, hp_node = Some 7\<rparr>], [])) = Inr nodes
     \<and> mset (concat (map nn_pci_devices nodes)) = {#\<lparr>pd_name = ''gpu'', pd_vendor_id = None, pd_device_id = None\<rparr>#}"
proof -
  obtain nodes where n: "topology_discover (Inr ([\<lparr>hp_name = Some ''gpu'', hp_vendor = None, hp_device = None, hp_node = Some 7\<rparr>], [])) = Inr nodes"
    by (auto simp: topology_discover_def place_pci_def)
  from topology_keeps_every_device [OF n] n show ?thesis by (simp add: pci_report_def)
qed

end
