(* ===== verification/Wgpu_Remote.thy ===== *)
theory Wgpu_Remote
  imports Rpc F64
begin

text \<open>
  The remote GPU jobs of \<open>gpu/wgpu_remote.rs\<close>: the overlay check, the job and its correctness bar in
  \<open>f32\<close> arithmetic, the frames, the job server and the client. \<open>serde_json\<close>, the wgpu kernel and the
  TCP streams are arguments. The server sees the connections that arrive as a list; at its end the
  loop is waiting for the next one.
\<close>

subsection \<open>Single precision\<close>

text \<open>\<open>f32\<close> values are \<open>f64\<close> values that survive rounding to 24 significant bits.\<close>

definition f32_round :: "rat \<Rightarrow> f64" where
  "f32_round q =
     (if q = 0 then Fin 0
      else
        (let e = max (ilog2 \<bar>q\<bar>) (- 126);
             u = pow2 (e - 23);
             v = of_int (round_half_even (\<bar>q\<bar> / u)) * u
         in if 2 ^ 128 \<le> v then Inf (q < 0) else Fin (if q < 0 then - v else v)))"

fun f32_add :: "f64 \<Rightarrow> f64 \<Rightarrow> f64" where
  "f32_add (Fin a) (Fin b) = f32_round (a + b)"
| "f32_add x y = f_add x y"

fun f_negate :: "f64 \<Rightarrow> f64" where
  "f_negate (Fin a) = Fin (- a)"
| "f_negate (Inf s) = Inf (\<not> s)"
| "f_negate NaN = NaN"

fun f_abs :: "f64 \<Rightarrow> f64" where
  "f_abs (Fin a) = Fin \<bar>a\<bar>"
| "f_abs (Inf s) = Inf False"
| "f_abs NaN = NaN"

definition tolerance :: f64 where
  "tolerance = f32_round (1 / 10000)"

subsection \<open>The overlay\<close>

record socket_addr =
  sa_ip :: ip_addr
  sa_display :: string

definition require_tailscale :: "socket_addr \<Rightarrow> string \<Rightarrow> string + unit" where
  "require_tailscale addr role =
     (if is_tailscale_ip (sa_ip addr) then Inr ()
      else Inl (role @ '' '' @ sa_display addr
        @ '' is not a Tailscale CGNAT address (100.64.0.0/10); off-routing proof refuses LAN fallback''))"

subsection \<open>Jobs\<close>

record wgpu_job =
  wj_job_id :: string
  wj_op :: string
  wj_n :: nat
  wj_a :: "f64 list"
  wj_b :: "f64 list"

record wgpu_result =
  wr_job_id :: string
  wr_status :: string
  wr_backend :: string
  wr_adapter_name :: string
  wr_out :: "f64 list"
  wr_elapsed_ms :: nat
  wr_server_local :: string
  wr_client_peer :: string

definition cpu_add :: "f64 list \<Rightarrow> f64 list \<Rightarrow> f64 list" where
  "cpu_add a b = map (\<lambda>(x, y). f32_add x y) (zip a b)"

definition f32_of_nat :: "nat \<Rightarrow> f64" where
  "f32_of_nat n = f32_round (of_nat n)"

fun f32_half :: "f64 \<Rightarrow> f64" where
  "f32_half (Fin q) = f32_round (q * (1 / 2))"
| "f32_half x = x"

definition sample_job :: "nat \<Rightarrow> wgpu_job" where
  "sample_job n = \<lparr>wj_job_id = ''m10-add'', wj_op = ''add_f32'', wj_n = n,
     wj_a = map f32_of_nat [0..<n], wj_b = map (\<lambda>i. f32_half (f32_of_nat i)) [0..<n]\<rparr>"

definition close_enough :: "f64 \<Rightarrow> f64 \<Rightarrow> bool" where
  "close_enough expect got = f_le (f_abs (f32_add expect (f_negate got))) tolerance"

definition correctness_ok :: "wgpu_job \<Rightarrow> f64 list \<Rightarrow> bool" where
  "correctness_ok job out =
     (if length out \<noteq> length (wj_a job) \<or> length out \<noteq> length (wj_b job) then False
      else list_all (\<lambda>(expect, got). close_enough expect got) (zip (cpu_add (wj_a job) (wj_b job)) out))"

text \<open>The kernel is the wgpu one when the feature is on (\<open>Some\<close>), the CPU reference otherwise.\<close>

definition execute_add ::
  "(f64 list \<Rightarrow> f64 list \<Rightarrow> string + (f64 list \<times> string \<times> string)) option \<Rightarrow> wgpu_job
     \<Rightarrow> string + (f64 list \<times> string \<times> string)"
where
  "execute_add knl job =
     (if wj_op job \<noteq> ''add_f32'' then Inl (''unknown op '' @ wj_op job)
      else if length (wj_a job) \<noteq> wj_n job then Inl ''job length mismatch''
      else if length (wj_b job) \<noteq> wj_n job then Inl ''job length mismatch''
      else case knl of
             Some add_f32 \<Rightarrow> add_f32 (wj_a job) (wj_b job)
           | None \<Rightarrow> Inr (cpu_add (wj_a job) (wj_b job), ''cpu-reference'', ''none''))"

subsection \<open>Frames\<close>

definition wgpu_write_frame :: "bytes \<Rightarrow> string + bytes" where
  "wgpu_write_frame payload =
     (if 2 ^ 32 \<le> length payload then Inl ''out of range integral type conversion attempted''
      else Inr (u32_to_le_bytes (of_nat (length payload)) @ payload))"

fun stream_error :: "stream_end \<Rightarrow> string" where
  "stream_error Eof = ''failed to fill whole buffer''"
| "stream_error (Broken e) = e"

definition wgpu_read_frame :: "recv_stream \<Rightarrow> string + bytes" where
  "wgpu_read_frame s =
     (case read_exact 4 s of
        (Inl e, _) \<Rightarrow> Inl (stream_error e)
      | (Inr header, s1) \<Rightarrow>
          (let len = unat (u32_from_le_bytes header) in
           if 16 * 1024 * 1024 < len then Inl ''frame too large''
           else case read_exact len s1 of
                  (Inl e, _) \<Rightarrow> Inl (stream_error e)
                | (Inr buf, _) \<Rightarrow> Inr buf))"

subsection \<open>The server\<close>

record wgpu_env =
  we_kernel :: "(f64 list \<Rightarrow> f64 list \<Rightarrow> string + (f64 list \<times> string \<times> string)) option"
  we_job_of :: "bytes \<Rightarrow> string + wgpu_job"
  we_job_to :: "wgpu_job \<Rightarrow> string + bytes"
  we_result_of :: "bytes \<Rightarrow> string + wgpu_result"
  we_result_to :: "wgpu_result \<Rightarrow> string + bytes"

record server_conn =
  sc_peer :: "string + socket_addr"
  sc_local :: "string + socket_addr"
  sc_recv :: recv_stream
  sc_elapsed_ms :: nat
  sc_write_error :: "string option"

definition run_job :: "wgpu_env \<Rightarrow> socket_addr \<Rightarrow> socket_addr \<Rightarrow> nat \<Rightarrow> wgpu_job \<Rightarrow> wgpu_result" where
  "run_job env local peer elapsed job =
     (case execute_add (we_kernel env) job of
        Inl error \<Rightarrow>
          \<lparr>wr_job_id = wj_job_id job, wr_status = ''error'', wr_backend = ''error'', wr_adapter_name = error,
           wr_out = [], wr_elapsed_ms = elapsed, wr_server_local = sa_display local, wr_client_peer = sa_display peer\<rparr>
      | Inr (out, backend, adapter_name) \<Rightarrow>
          \<lparr>wr_job_id = wj_job_id job, wr_status = (if correctness_ok job out then ''ok'' else ''incorrect''),
           wr_backend = backend, wr_adapter_name = adapter_name, wr_out = out, wr_elapsed_ms = elapsed,
           wr_server_local = sa_display local, wr_client_peer = sa_display peer\<rparr>)"

text \<open>One connection: an error ends the server, \<open>None\<close> is a peer that is turned away.\<close>

definition serve_connection :: "wgpu_env \<Rightarrow> server_conn \<Rightarrow> string + bytes option" where
  "serve_connection env c =
     and_then (sc_peer c) (\<lambda>peer.
       case require_tailscale peer ''peer'' of
         Inl _ \<Rightarrow> Inr None
       | Inr _ \<Rightarrow>
           and_then (sc_local c) (\<lambda>local.
           and_then (wgpu_read_frame (sc_recv c)) (\<lambda>buf.
           and_then (we_job_of env buf) (\<lambda>job.
           and_then (we_result_to env (run_job env local peer (sc_elapsed_ms c) job)) (\<lambda>payload.
           and_then (wgpu_write_frame payload) (\<lambda>frame.
             case sc_write_error c of Some e \<Rightarrow> Inl e | None \<Rightarrow> Inr (Some frame)))))))"

fun serve_incoming :: "wgpu_env \<Rightarrow> (string + server_conn) list \<Rightarrow> (string + unit) \<times> bytes option list" where
  "serve_incoming env [] = (Inr (), [])"
| "serve_incoming env (Inl e # cs) = (Inl e, [])"
| "serve_incoming env (Inr c # cs) =
     (case serve_connection env c of
        Inl e \<Rightarrow> (Inl e, [])
      | Inr reply \<Rightarrow> (case serve_incoming env cs of (res, replies) \<Rightarrow> (res, reply # replies)))"

definition serve ::
  "wgpu_env \<Rightarrow> socket_addr \<Rightarrow> string + (string + server_conn) list \<Rightarrow> (string + unit) \<times> bytes option list"
where
  "serve env bind_addr listener =
     (case require_tailscale bind_addr ''bind'' of
        Inl e \<Rightarrow> (Inl e, [])
      | Inr _ \<Rightarrow>
          (case listener of
             Inl e \<Rightarrow> (Inl (''bind '' @ sa_display bind_addr @ '': '' @ e), [])
           | Inr incoming \<Rightarrow> serve_incoming env incoming))"

subsection \<open>The client\<close>

record client_conn =
  cc_local :: "string + socket_addr"
  cc_exchange :: "bytes \<Rightarrow> string + recv_stream"

definition submit ::
  "wgpu_env \<Rightarrow> (socket_addr \<Rightarrow> string + client_conn) \<Rightarrow> socket_addr \<Rightarrow> wgpu_job \<Rightarrow> string + wgpu_result"
where
  "submit env tcp_connect addr job =
     and_then (require_tailscale addr ''connect'') (\<lambda>_.
     and_then (map_err (\<lambda>e. ''connect '' @ sa_display addr @ '': '' @ e) (tcp_connect addr)) (\<lambda>conn.
     and_then (cc_local conn) (\<lambda>local.
     and_then (require_tailscale local ''client-local'') (\<lambda>_.
     and_then (we_job_to env job) (\<lambda>payload.
     and_then (wgpu_write_frame payload) (\<lambda>frame.
     and_then (cc_exchange conn frame) (\<lambda>reply.
     and_then (wgpu_read_frame reply) (\<lambda>buf.
     and_then (we_result_of env buf) (\<lambda>result.
       Inr (if wr_status result = ''ok'' \<and> \<not> correctness_ok job (wr_out result)
            then result\<lparr>wr_status := ''incorrect''\<rparr> else result))))))))))"

end
