(* ===== verification/Wgpu_Remote_Properties.thy ===== *)
theory Wgpu_Remote_Properties
  imports Wgpu_Remote Rpc_Properties
begin

text \<open>What a remote job proves when it is reported ok, and what a broken peer does to the server.\<close>

subsection \<open>The client\<close>

lemma require_tailscale_Inr: "require_tailscale addr role = Inr u \<longleftrightarrow> is_tailscale_ip (sa_ip addr)"
  by (simp add: require_tailscale_def)

text \<open>C35. An ok result is a proof: the client reports a job as ok only when it dialled an overlay address from
  an overlay address, and the buffer it returns is, entry by entry, within the tolerance of the sum
  the client computes itself, whatever the server answered.\<close>

theorem submit_ok_is_checked:
  "submit env tcp_connect addr job = Inr r \<and> wr_status r = ''ok''
   \<Longrightarrow> is_tailscale_ip (sa_ip addr)
     \<and> (\<exists>conn local. tcp_connect addr = Inr conn \<and> cc_local conn = Inr local \<and> is_tailscale_ip (sa_ip local))
     \<and> length (wr_out r) = length (wj_a job) \<and> length (wj_a job) = length (wj_b job)
     \<and> (\<forall>i < length (wr_out r). close_enough (f32_add (wj_a job ! i) (wj_b job ! i)) (wr_out r ! i))"
proof (elim conjE)
  assume s: "submit env tcp_connect addr job = Inr r" "wr_status r = ''ok''"
  then obtain conn local res where c: "is_tailscale_ip (sa_ip addr)" "tcp_connect addr = Inr conn"
      "cc_local conn = Inr local" "is_tailscale_ip (sa_ip local)"
    and r: "r = (if wr_status res = ''ok'' \<and> \<not> correctness_ok job (wr_out res) then res\<lparr>wr_status := ''incorrect''\<rparr> else res)"
    unfolding submit_def and_then_Inr map_err_Inr require_tailscale_Inr by blast
  have "correctness_ok job (wr_out r)"
    using r s(2) by (cases "wr_status res = ''ok'' \<and> \<not> correctness_ok job (wr_out res)") auto
  with c show ?thesis
    by (auto simp: correctness_ok_def cpu_add_def list_all_length split: if_splits)
qed

definition demo_overlay :: socket_addr where
  "demo_overlay = \<lparr>sa_ip = V4 100 64 0 1, sa_display = ''100.64.0.1:9110''\<rparr>"

definition demo_job :: wgpu_job where
  "demo_job = \<lparr>wj_job_id = ''j'', wj_op = ''add_f32'', wj_n = 1, wj_a = [Inf False], wj_b = [Fin 0]\<rparr>"

definition demo_reply :: "string \<Rightarrow> wgpu_result" where
  "demo_reply status = \<lparr>wr_job_id = ''j'', wr_status = status, wr_backend = ''cpu-reference'', wr_adapter_name = ''none'',
     wr_out = [], wr_elapsed_ms = 0, wr_server_local = [], wr_client_peer = []\<rparr>"

definition demo_empty_job :: wgpu_job where
  "demo_empty_job = \<lparr>wj_job_id = ''j'', wj_op = ''add_f32'', wj_n = 0, wj_a = [], wj_b = []\<rparr>"

definition demo_wgpu :: wgpu_env where
  "demo_wgpu = \<lparr>we_kernel = None, we_job_of = (\<lambda>_. Inr demo_empty_job), we_job_to = (\<lambda>_. Inr [1]),
     we_result_of = (\<lambda>_. Inr (demo_reply ''ok'')), we_result_to = (\<lambda>_. Inr [2])\<rparr>"

definition demo_tcp :: "socket_addr \<Rightarrow> string + client_conn" where
  "demo_tcp _ = Inr \<lparr>cc_local = Inr demo_overlay, cc_exchange = (\<lambda>_. Inr \<lparr>rs_bytes = [0, 0, 0, 0], rs_end = Eof\<rparr>)\<rparr>"

lemma demo_read: "wgpu_read_frame \<lparr>rs_bytes = [0, 0, 0, 0], rs_end = e\<rparr> = Inr []"
  by (simp add: wgpu_read_frame_def read_exact_def)

lemma demo_submit: "submit demo_wgpu demo_tcp demo_overlay demo_empty_job = Inr (demo_reply ''ok'')"
  by (simp add: submit_def require_tailscale_def demo_overlay_def demo_wgpu_def demo_tcp_def demo_read
      wgpu_write_frame_def correctness_ok_def cpu_add_def demo_empty_job_def demo_reply_def)

theorem submit_ok_is_checked_witness:
  "submit demo_wgpu demo_tcp demo_overlay demo_empty_job = Inr (demo_reply ''ok'') \<and> is_tailscale_ip (sa_ip demo_overlay)"
  using submit_ok_is_checked [of demo_wgpu demo_tcp demo_overlay demo_empty_job "demo_reply ''ok''"] demo_submit
  by (simp add: demo_reply_def)

subsection \<open>The server\<close>

lemma serve_incoming_append:
  "list_all (\<lambda>c. is_ok (serve_connection env c)) good \<Longrightarrow>
     serve_incoming env (map Inr good @ cs)
       = (fst (serve_incoming env cs), map (\<lambda>c. projr (serve_connection env c)) good @ snd (serve_incoming env cs))"
proof (induction good)
  case (Cons c good)
  then show ?case
    by (cases "serve_connection env c") (simp_all add: case_prod_unfold)
qed simp

lemma serve_connection_truncated:
  assumes "sc_peer c = Inr peer" "sc_local c = Inr local" "is_tailscale_ip (sa_ip peer)"
    and "length (rs_bytes (sc_recv c)) < 4" "rs_end (sc_recv c) = Eof"
  shows "serve_connection env c = Inl ''failed to fill whole buffer''"
  using assms by (simp add: serve_connection_def require_tailscale_def wgpu_read_frame_def read_exact_def)

text \<open>One broken peer ends the job server: the connections before it are served one after the other,
  but when an admitted peer closes its connection before a whole frame has arrived, the server returns
  that error, and no connection after it is served, whoever it comes from.\<close>

theorem one_broken_peer_ends_the_server:
  assumes "list_all (\<lambda>c. is_ok (serve_connection env c)) good"
    and "sc_peer c = Inr peer" "sc_local c = Inr local" "is_tailscale_ip (sa_ip peer)"
    and "length (rs_bytes (sc_recv c)) < 4" "rs_end (sc_recv c) = Eof"
  shows "serve_incoming env (map Inr good @ Inr c # later)
    = (Inl ''failed to fill whole buffer'', map (\<lambda>c. projr (serve_connection env c)) good)"
  by (simp add: serve_incoming_append [OF assms(1)] serve_connection_truncated [OF assms(2-6)])

theorem one_broken_peer_ends_the_server_witness:
  "fst (serve_incoming demo_wgpu [Inr \<lparr>sc_peer = Inr demo_overlay, sc_local = Inr demo_overlay,
      sc_recv = \<lparr>rs_bytes = [], rs_end = Eof\<rparr>, sc_elapsed_ms = 0, sc_write_error = None\<rparr>]) = Inl ''failed to fill whole buffer''"
  using one_broken_peer_ends_the_server [of demo_wgpu "[]" "\<lparr>sc_peer = Inr demo_overlay, sc_local = Inr demo_overlay,
      sc_recv = \<lparr>rs_bytes = [], rs_end = Eof\<rparr>, sc_elapsed_ms = 0, sc_write_error = None\<rparr>" demo_overlay demo_overlay "[]"]
  by (simp add: demo_overlay_def)

text \<open>Peers outside the overlay are turned away without being read, and the server goes on.\<close>

lemma outsiders_are_skipped:
  assumes "sc_peer c = Inr peer" "\<not> is_tailscale_ip (sa_ip peer)"
  shows "serve_incoming env (Inr c # later) = (fst (serve_incoming env later), None # snd (serve_incoming env later))"
  using assms by (simp add: serve_connection_def require_tailscale_def split: prod.split)

text \<open>The server answers an admitted, well-formed request with exactly the result of its job.\<close>

lemma serve_connection_answers:
  "serve_connection env c = Inr (Some frame) \<longleftrightarrow>
     (\<exists>peer local buf job payload. sc_peer c = Inr peer \<and> is_tailscale_ip (sa_ip peer) \<and> sc_local c = Inr local
        \<and> wgpu_read_frame (sc_recv c) = Inr buf \<and> we_job_of env buf = Inr job
        \<and> we_result_to env (run_job env local peer (sc_elapsed_ms c) job) = Inr payload
        \<and> wgpu_write_frame payload = Inr frame \<and> sc_write_error c = None)"
  by (auto simp: serve_connection_def and_then_Inr require_tailscale_def split: if_splits option.splits)

subsection \<open>The CPU reference\<close>

lemma f32_round_zero [simp]: "f32_round 0 = Fin 0"
  by (simp add: f32_round_def)

lemma cpu_reference_answer:
  assumes "wj_op job = ''add_f32''" "length (wj_a job) = wj_n job" "length (wj_b job) = wj_n job"
  shows "execute_add None job = Inr (cpu_add (wj_a job) (wj_b job), ''cpu-reference'', ''none'')"
  using assms by (simp add: execute_add_def)

lemma pow2_pos: "0 < pow2 k"
  by (simp add: pow2_def)

lemma round_half_even_nonneg: "0 \<le> q \<Longrightarrow> 0 \<le> round_half_even q"
  by (simp add: round_half_even_def Let_def add_nonneg_nonneg)

lemma f32_round_nonneg:
  assumes "0 \<le> q"
  shows "f_le (Fin 0) (f32_round q)"
proof -
  have "0 \<le> rat_of_int (round_half_even (\<bar>q\<bar> / u)) * u" if "0 < u" for u
    using that by (simp add: round_half_even_nonneg)
  then show ?thesis
    using assms pow2_pos by (auto simp: f32_round_def Let_def)
qed

lemma close_to_itself: "close_enough x x \<longleftrightarrow> (\<exists>q. x = Fin q)"
proof (cases x)
  case (Fin q)
  have "f_le (Fin 0) tolerance"
    unfolding tolerance_def by (rule f32_round_nonneg) simp
  then show ?thesis
    using Fin by (simp add: close_enough_def)
qed (simp_all add: close_enough_def)

text \<open>On a host without a GPU a well-formed job is ok exactly when every sum is finite: a sum that
  overflows or is not a number makes the reference disagree with itself, and the job is reported as
  incorrect although it was computed as asked.\<close>

theorem cpu_reference_ok_iff_finite:
  assumes "we_kernel env = None" "wj_op job = ''add_f32''" "length (wj_a job) = wj_n job" "length (wj_b job) = wj_n job"
  shows "wr_status (run_job env local peer ms job) = ''ok'' \<longleftrightarrow>
     list_all (\<lambda>x. \<exists>q. x = Fin q) (cpu_add (wj_a job) (wj_b job))"
proof -
  let ?sums = "cpu_add (wj_a job) (wj_b job)"
  have "correctness_ok job ?sums \<longleftrightarrow> list_all (\<lambda>(x, y). close_enough x y) (zip ?sums ?sums)"
    using assms(3,4) by (simp add: correctness_ok_def cpu_add_def)
  also have "\<dots> \<longleftrightarrow> list_all (\<lambda>x. \<exists>q. x = Fin q) ?sums"
    by (simp add: list_all_length close_to_itself)
  finally show ?thesis
    using assms by (simp add: run_job_def cpu_reference_answer)
qed

theorem cpu_reference_ok_iff_finite_witness:
  "wr_status (run_job demo_wgpu demo_overlay demo_overlay 0 demo_job) \<noteq> ''ok''"
  using cpu_reference_ok_iff_finite [of demo_wgpu demo_job demo_overlay demo_overlay 0]
  by (simp add: demo_wgpu_def demo_job_def cpu_add_def)

end
