(* ===== verification/Wgpu_Kernel.thy ===== *)
theory Wgpu_Kernel
  imports Wgpu_Remote_Properties
begin

text \<open>
  The GPU kernel behind the job server: \<open>gpu/wgpu_kernel.rs\<close> and the shader \<open>gpu/add.wgsl\<close>. What the
  \<open>wgpu\<close> crate and the driver answer is a record: the adapter, the errors of opening the device and of
  mapping the result, the addition the hardware performs, and the order in which the invocations of a
  dispatch run, which may be any. A storage buffer starts as zeros. Jobs beyond the device's limits, on
  which \<open>wgpu\<close> panics, are not modelled.
\<close>

record gpu_world =
  gw_adapter :: "(string \<times> string) option"
  gw_device_error :: "string option"
  gw_map_error :: "string option"
  gw_add :: "f64 \<Rightarrow> f64 \<Rightarrow> f64"
  gw_schedule :: "nat \<Rightarrow> nat list"

text \<open>\<open>(a.len() as u32 + 63) / 64\<close>.\<close>

definition workgroup_size :: nat where
  "workgroup_size = 64"

definition workgroups :: "nat \<Rightarrow> nat" where
  "workgroups len = unat (((of_nat len :: u32) + 63) div 64)"

text \<open>The shader's \<open>main\<close> for one \<open>global_invocation_id.x\<close>.\<close>

definition shader_main :: "(f64 \<Rightarrow> f64 \<Rightarrow> f64) \<Rightarrow> f64 list \<Rightarrow> f64 list \<Rightarrow> nat \<Rightarrow> f64 list \<Rightarrow> f64 list" where
  "shader_main add a b i out = (if length a \<le> i then out else out[i := add (a ! i) (b ! i)])"

definition dispatch_workgroups :: "gpu_world \<Rightarrow> nat \<Rightarrow> f64 list \<Rightarrow> f64 list \<Rightarrow> f64 list \<Rightarrow> f64 list" where
  "dispatch_workgroups w groups a b out = fold (shader_main (gw_add w) a b) (gw_schedule w (groups * workgroup_size)) out"

definition add_f32_async :: "gpu_world \<Rightarrow> f64 list \<Rightarrow> f64 list \<Rightarrow> string + (f64 list \<times> string \<times> string)" where
  "add_f32_async w a b =
     (case gw_adapter w of
        None \<Rightarrow> Inl ''no wgpu adapter (Vulkan/GPU missing)''
      | Some (info_name, backend) \<Rightarrow>
          (case gw_device_error w of
             Some e \<Rightarrow> Inl e
           | None \<Rightarrow>
               (let out = dispatch_workgroups w (workgroups (length a)) a b (replicate (length a) (Fin 0)) in
                case gw_map_error w of
                  Some e \<Rightarrow> Inl e
                | None \<Rightarrow> Inr (out, backend, info_name @ '' ('' @ backend @ '')''))))"

definition add_f32 :: "gpu_world \<Rightarrow> f64 list \<Rightarrow> f64 list \<Rightarrow> string + (f64 list \<times> string \<times> string)" where
  "add_f32 w a b = (if length a \<noteq> length b then Inl ''a/b length mismatch'' else add_f32_async w a b)"

subsection \<open>The dispatch\<close>

lemma length_shader_main [simp]: "length (shader_main add a b i out) = length out"
  by (simp add: shader_main_def)

lemma length_fold_shader [simp]: "length (fold (shader_main add a b) is out) = length out"
  by (induction "is" arbitrary: out) simp_all

lemma nth_fold_shader:
  "j < length a \<Longrightarrow> length out = length a \<Longrightarrow>
     fold (shader_main add a b) is out ! j = (if j \<in> set is then add (a ! j) (b ! j) else out ! j)"
  by (induction "is" arbitrary: out) (auto simp: shader_main_def nth_list_update)

lemma workgroups_cover:
  assumes "n + 63 < 2 ^ 32"
  shows "n \<le> workgroups n * workgroup_size" and "workgroups n * workgroup_size < n + workgroup_size"
proof -
  have "unat ((of_nat n :: u32) + 63) = n + 63"
    using assms by (simp add: unat_word_ariths unat_of_nat take_bit_nat_eq_self)
  then have "workgroups n = (n + 63) div 64"
    by (simp add: workgroups_def unat_div)
  then show "n \<le> workgroups n * workgroup_size" and "workgroups n * workgroup_size < n + workgroup_size"
    by (simp_all add: workgroup_size_def)
qed

lemma dispatch_adds:
  assumes "length a = length b" "length a + 63 < 2 ^ 32" "\<And>m. set (gw_schedule w m) = {..<m}"
  shows "dispatch_workgroups w (workgroups (length a)) a b (replicate (length a) x) = map (\<lambda>(p, q). gw_add w p q) (zip a b)"
  using workgroups_cover(1) [OF assms(2)] assms(1,3)
  by (auto simp: dispatch_workgroups_def nth_fold_shader intro!: nth_equalityI)

lemma add_f32_adds:
  assumes "gw_adapter w = Some (info_name, backend)" "gw_device_error w = None" "gw_map_error w = None"
    and "gw_add w = f32_add" "\<And>m. set (gw_schedule w m) = {..<m}"
    and "length a = length b" "length a + 63 < 2 ^ 32"
  shows "add_f32 w a b = Inr (cpu_add a b, backend, info_name @ '' ('' @ backend @ '')'')"
  using assms(1-4,6) dispatch_adds [OF assms(6,7,5), of "Fin 0"] by (simp add: add_f32_def add_f32_async_def cpu_add_def)

end
