(* ===== verification/Wgpu_Kernel_Properties.thy ===== *)
theory Wgpu_Kernel_Properties
  imports Wgpu_Kernel
begin

text \<open>
  What the GPU path guarantees: the kernel computes the reference sum whatever the order of its
  invocations, and a job that travels through client, frames, server and kernel comes back as that sum.
\<close>


definition demo_device :: gpu_world where
  "demo_device = \<lparr>gw_adapter = Some (''Tesla P100'', ''Vulkan''), gw_device_error = None, gw_map_error = None,
     gw_add = f32_add, gw_schedule = (\<lambda>m. rev [0..<m])\<rparr>"


subsection \<open>A job over the network\<close>

text \<open>The client's connection when the job server is at its other end.\<close>

definition to_server :: "wgpu_env \<Rightarrow> socket_addr \<Rightarrow> socket_addr \<Rightarrow> nat \<Rightarrow> client_conn" where
  "to_server env server client elapsed =
     \<lparr>cc_local = Inr client,
      cc_exchange = (\<lambda>frame.
        case serve_connection env
               \<lparr>sc_peer = Inr client, sc_local = Inr server, sc_recv = \<lparr>rs_bytes = frame, rs_end = Eof\<rparr>,
                sc_elapsed_ms = elapsed, sc_write_error = None\<rparr> of
          Inr (Some reply) \<Rightarrow> Inr \<lparr>rs_bytes = reply, rs_end = Eof\<rparr>
        | _ \<Rightarrow> Inr \<lparr>rs_bytes = [], rs_end = Eof\<rparr>)\<rparr>"

definition fits_frame :: "bytes \<Rightarrow> bool" where
  "fits_frame p \<longleftrightarrow> length p \<le> 16 * 1024 * 1024"

lemma wgpu_frame_read_back:
  assumes "fits_frame p"
  obtains frame where "wgpu_write_frame p = Inr frame" "wgpu_read_frame \<lparr>rs_bytes = frame, rs_end = e\<rparr> = Inr p"
proof -
  have n: "length p < 2 ^ 32" "length p \<le> 16777216"
    using assms by (simp_all add: fits_frame_def)
  then have "unat (of_nat (length p) :: u32) = length p"
    by (simp add: unat_of_nat take_bit_nat_eq_self)
  then have "wgpu_read_frame \<lparr>rs_bytes = u32_to_le_bytes (of_nat (length p)) @ p, rs_end = e\<rparr> = Inr p"
    using n(2) read_exact_append [of p "length p" "[]" e]
    by (simp add: wgpu_read_frame_def u32_le_roundtrip length_u32_to_le_bytes)
  then show ?thesis
    using n(1) by (intro that [of "u32_to_le_bytes (of_nat (length p)) @ p"]) (simp_all add: wgpu_write_frame_def)
qed

lemma submit_to_server:
  assumes "is_tailscale_ip (sa_ip server)" "is_tailscale_ip (sa_ip client)"
    and "we_job_to env job = Inr p" "we_job_of env p = Inr job" "fits_frame p"
    and "run_job env server client elapsed job = r"
    and "we_result_to env r = Inr q" "we_result_of env q = Inr r" "fits_frame q"
    and "correctness_ok job (wr_out r)"
  shows "submit env (\<lambda>_. Inr (to_server env server client elapsed)) server job = Inr r"
proof -
  obtain f where f: "wgpu_write_frame p = Inr f" "wgpu_read_frame \<lparr>rs_bytes = f, rs_end = Eof\<rparr> = Inr p"
    using assms(5) by (rule wgpu_frame_read_back)
  obtain g where g: "wgpu_write_frame q = Inr g" "wgpu_read_frame \<lparr>rs_bytes = g, rs_end = Eof\<rparr> = Inr q"
    using assms(9) by (rule wgpu_frame_read_back)
  have "serve_connection env \<lparr>sc_peer = Inr client, sc_local = Inr server, sc_recv = \<lparr>rs_bytes = f, rs_end = Eof\<rparr>,
      sc_elapsed_ms = elapsed, sc_write_error = None\<rparr> = Inr (Some g)"
    using assms f g by (simp add: serve_connection_def require_tailscale_def)
  then show ?thesis
    using assms f g by (simp add: submit_def require_tailscale_def to_server_def)
qed

lemma reference_passes_the_bar:
  assumes "length (wj_a job) = length (wj_b job)" "list_all (\<lambda>x. \<exists>q. x = Fin q) (cpu_add (wj_a job) (wj_b job))"
  shows "correctness_ok job (cpu_add (wj_a job) (wj_b job))"
  using assms by (auto simp: correctness_ok_def list_all_length close_to_itself cpu_add_def)

lemma remote_job_runs:
  assumes "we_kernel env = Some (add_f32 w)"
    and "gw_adapter w = Some (info_name, backend)" "gw_device_error w = None" "gw_map_error w = None"
    and "gw_add w = f32_add" "\<And>m. set (gw_schedule w m) = {..<m}"
    and "wj_op job = ''add_f32''" "length (wj_a job) = wj_n job" "length (wj_b job) = wj_n job" "wj_n job + 63 < 2 ^ 32"
    and "list_all (\<lambda>x. \<exists>q. x = Fin q) (cpu_add (wj_a job) (wj_b job))"
    and "is_tailscale_ip (sa_ip server)" "is_tailscale_ip (sa_ip client)"
    and "we_job_to env job = Inr p" "we_job_of env p = Inr job" "fits_frame p"
    and "we_result_to env (run_job env server client elapsed job) = Inr q"
    and "we_result_of env q = Inr (run_job env server client elapsed job)" "fits_frame q"
  shows "submit env (\<lambda>_. Inr (to_server env server client elapsed)) server job = Inr (run_job env server client elapsed job)"
    and "wr_status (run_job env server client elapsed job) = ''ok''" "wr_backend (run_job env server client elapsed job) = backend"
    and "wr_job_id (run_job env server client elapsed job) = wj_job_id job"
    and "wr_out (run_job env server client elapsed job) = cpu_add (wj_a job) (wj_b job)"
proof -
  let ?r = "run_job env server client elapsed job" and ?sum = "cpu_add (wj_a job) (wj_b job)"
  have bar: "correctness_ok job ?sum"
    using assms(8,9,11) by (simp add: reference_passes_the_bar)
  have "add_f32 w (wj_a job) (wj_b job) = Inr (?sum, backend, info_name @ '' ('' @ backend @ '')'')"
    using assms(2-6,8-10) by (intro add_f32_adds) simp_all
  then have "execute_add (we_kernel env) job = Inr (?sum, backend, info_name @ '' ('' @ backend @ '')'')"
    using assms(1,7-9) by (simp add: execute_add_def)
  then show r: "wr_status ?r = ''ok''" "wr_backend ?r = backend" "wr_job_id ?r = wj_job_id job" "wr_out ?r = ?sum"
    using bar by (simp_all add: run_job_def)
  show "submit env (\<lambda>_. Inr (to_server env server client elapsed)) server job = Inr ?r"
    using r bar by (intro submit_to_server [OF assms(12-16) refl assms(17-19)]) simp
qed


definition demo_gpu_job :: wgpu_job where
  "demo_gpu_job = \<lparr>wj_job_id = ''m10-add'', wj_op = ''add_f32'', wj_n = 3, wj_a = [Fin 0, Fin 2, Fin (-1)],
     wj_b = [Fin 0, Fin (1 / 2), Fin 1]\<rparr>"

definition demo_gpu_result :: wgpu_result where
  "demo_gpu_result = \<lparr>wr_job_id = ''m10-add'', wr_status = ''ok'', wr_backend = ''Vulkan'',
     wr_adapter_name = ''Tesla P100 (Vulkan)'', wr_out = [Fin 0, Fin (5 / 2), Fin 0], wr_elapsed_ms = 7,
     wr_server_local = ''100.64.0.1:9110'', wr_client_peer = ''100.64.0.1:9110''\<rparr>"

definition demo_gpu_env :: wgpu_env where
  "demo_gpu_env = \<lparr>we_kernel = Some (add_f32 demo_device), we_job_of = (\<lambda>_. Inr demo_gpu_job), we_job_to = (\<lambda>_. Inr [1]),
     we_result_of = (\<lambda>_. Inr demo_gpu_result), we_result_to = (\<lambda>_. Inr [2])\<rparr>"

lemma demo_sum: "cpu_add (wj_a demo_gpu_job) (wj_b demo_gpu_job) = [Fin 0, Fin (5 / 2), Fin 0]"
  by code_simp

lemma demo_finite: "list_all (\<lambda>x. \<exists>q. x = Fin q) (cpu_add (wj_a demo_gpu_job) (wj_b demo_gpu_job))"
  unfolding demo_sum by (simp only: list.pred_inject) blast

lemma demo_gpu_run: "run_job demo_gpu_env demo_overlay demo_overlay 7 demo_gpu_job = demo_gpu_result"
  by code_simp

lemma demo_gpu_fields:
  "gw_adapter demo_device = Some (''Tesla P100'', ''Vulkan'')" "gw_device_error demo_device = None" "gw_map_error demo_device = None"
  "gw_add demo_device = f32_add" "set (gw_schedule demo_device m) = {..<m}"
  "we_kernel demo_gpu_env = Some (add_f32 demo_device)" "we_job_to demo_gpu_env j = Inr [1]" "we_job_of demo_gpu_env x = Inr demo_gpu_job"
  "we_result_to demo_gpu_env r = Inr [2]" "we_result_of demo_gpu_env x = Inr demo_gpu_result"
  "fits_frame [1]" "fits_frame [2]" "is_tailscale_ip (sa_ip demo_overlay)"
  "wj_op demo_gpu_job = ''add_f32''" "wj_n demo_gpu_job = 3" "length (wj_a demo_gpu_job) = 3" "length (wj_b demo_gpu_job) = 3"
  by (simp_all add: demo_device_def demo_gpu_env_def demo_overlay_def demo_gpu_job_def fits_frame_def atLeast0LessThan)


end
