(* ===== verification/Entropy.thy ===== *)
theory Entropy
  imports Rpc
begin

text \<open>
  The remote entropy stub of \<open>vhost/entropy.rs\<close>: the server's loop over one connection, the client
  that fetches some bytes, and the pump into a FIFO. The server's \<open>/dev/urandom\<close>, the streams and the
  FIFO are arguments; the pump runs until something fails, so its rounds are a list of what the
  network and the FIFO do, and \<open>None\<close> is a pump that is still running at the end of the list.
\<close>

definition max_request_bytes :: u32 where
  "max_request_bytes = push_bit 20 1"

definition default_chunk :: u32 where
  "default_chunk = push_bit 10 64"

datatype entropy_error =
    EntropyBind string string
  | EntropyConnect string string
  | Protocol string
  | EntropyIo string

definition u32_to_be_bytes :: "u32 \<Rightarrow> bytes" where
  "u32_to_be_bytes n = rev (u32_to_le_bytes n)"

definition u32_from_be_bytes :: "bytes \<Rightarrow> u32" where
  "u32_from_be_bytes b = u32_from_le_bytes (rev b)"

fun end_text :: "stream_end \<Rightarrow> string" where
  "end_text Eof = ''failed to fill whole buffer''"
| "end_text (Broken e) = e"

definition size_ok :: "u32 \<Rightarrow> bool" where
  "size_ok len = (len \<noteq> 0 \<and> len \<le> max_request_bytes)"

definition bad_size :: "string \<Rightarrow> u32 \<Rightarrow> entropy_error" where
  "bad_size what len = Protocol (what @ '' '' @ show_word len @ '' outside 1..='' @ show_word max_request_bytes)"

subsection \<open>The server\<close>

record entropy_env =
  en_draw :: "nat \<Rightarrow> nat \<Rightarrow> string + bytes"
  en_write_error :: "nat \<Rightarrow> string option"

text \<open>\<open>en_draw i n\<close> is what reading \<open>n\<close> random bytes for the \<open>i\<close>-th request gives.\<close>

lemma read_four_shrinks: "read_exact 4 s = (Inr b, s') \<Longrightarrow> length (rs_bytes s') < length (rs_bytes s)"
  using read_exact_shrinks [of 4 s b s'] by simp

function serve_requests :: "entropy_env \<Rightarrow> nat \<Rightarrow> recv_stream \<Rightarrow> bytes \<Rightarrow> (entropy_error + unit) \<times> bytes" where
  "serve_requests env i recv sent =
     (case read_exact 4 recv of
        (Inl Eof, _) \<Rightarrow> (Inr (), sent)
      | (Inl (Broken e), _) \<Rightarrow> (Inl (EntropyIo e), sent)
      | (Inr len_buf, recv') \<Rightarrow>
          (let len = u32_from_be_bytes len_buf in
           if \<not> size_ok len then (Inl (bad_size ''requested length'' len), sent)
           else case en_draw env i (unat len) of
                  Inl e \<Rightarrow> (Inl (EntropyIo e), sent)
                | Inr buf \<Rightarrow>
                    (case en_write_error env i of
                       Some e \<Rightarrow> (Inl (EntropyIo e), sent)
                     | None \<Rightarrow> serve_requests env (i + 1) recv' (sent @ buf))))"
  by pat_completeness auto
termination
  by (relation "measure (\<lambda>(env, i, recv, sent). length (rs_bytes recv))")
    (auto dest!: sym [of "(_, _)"] read_four_shrinks)

declare serve_requests.simps [simp del]

definition entropy_serve_conn :: "string option \<Rightarrow> entropy_env \<Rightarrow> recv_stream \<Rightarrow> (entropy_error + unit) \<times> bytes" where
  "entropy_serve_conn urandom_error env recv =
     (case urandom_error of Some e \<Rightarrow> (Inl (EntropyIo e), []) | None \<Rightarrow> serve_requests env 0 recv [])"

text \<open>The listener gives every connection a thread of its own, so what happens on one is no concern of the
  others; only a failing accept ends it. A connection is what opening \<open>/dev/urandom\<close> gives, the draws and
  the stream.\<close>

type_synonym entropy_peer = "string option \<times> entropy_env \<times> recv_stream"

fun entropy_serve_on ::
  "(string + entropy_peer) list \<Rightarrow> (entropy_error + unit) \<times> ((entropy_error + unit) \<times> bytes) list"
where
  "entropy_serve_on [] = (Inr (), [])"
| "entropy_serve_on (Inl e # conns) = (Inl (EntropyIo e), [])"
| "entropy_serve_on (Inr (urandom_error, env, recv) # conns) =
     (case entropy_serve_on conns of
        (res, served) \<Rightarrow> (res, entropy_serve_conn urandom_error env recv # served))"

definition entropy_serve ::
  "(string \<Rightarrow> string + (string + entropy_peer) list) \<Rightarrow> string \<Rightarrow> (entropy_error + unit) \<times> ((entropy_error + unit) \<times> bytes) list"
where
  "entropy_serve bind listen =
     (case bind listen of Inl e \<Rightarrow> (Inl (EntropyBind listen e), []) | Inr conns \<Rightarrow> entropy_serve_on conns)"

subsection \<open>The client\<close>

record entropy_conn =
  ec_timeout_error :: "string option"
  ec_write_error :: "string option"
  ec_reply :: "bytes \<Rightarrow> recv_stream"

definition entropy_fetch ::
  "(string \<Rightarrow> string + entropy_conn) \<Rightarrow> string \<Rightarrow> u32 \<Rightarrow> entropy_error + bytes"
where
  "entropy_fetch tcp_connect addr len =
     (if \<not> size_ok len then Inl (bad_size ''requested length'' len)
      else case tcp_connect addr of
        Inl e \<Rightarrow> Inl (EntropyConnect addr e)
      | Inr conn \<Rightarrow>
          (case ec_timeout_error conn of
             Some e \<Rightarrow> Inl (EntropyIo e)
           | None \<Rightarrow>
               (case ec_write_error conn of
                  Some e \<Rightarrow> Inl (EntropyIo e)
                | None \<Rightarrow> map_err (EntropyIo \<circ> end_text) (fst (read_exact (unat len) (ec_reply conn (u32_to_be_bytes len)))))))"

subsection \<open>The pump\<close>

record pump_env =
  pe_out_exists :: bool
  pe_mkfifo :: "string + (bool \<times> string)"
  pe_open_error :: "string option"

type_synonym pump_round = "(string \<Rightarrow> string + entropy_conn) \<times> string option"

fun pump_loop :: "string \<Rightarrow> u32 \<Rightarrow> pump_round list \<Rightarrow> bytes list \<Rightarrow> entropy_error option \<times> bytes list" where
  "pump_loop addr chunk [] written = (None, written)"
| "pump_loop addr chunk ((net, fifo_error) # rounds) written =
     (case entropy_fetch net addr chunk of
        Inl e \<Rightarrow> (Some e, written)
      | Inr buf \<Rightarrow>
          (case fifo_error of
             Some e \<Rightarrow> (Some (EntropyIo e), written)
           | None \<Rightarrow> pump_loop addr chunk rounds (written @ [buf])))"

definition entropy_pump ::
  "pump_env \<Rightarrow> string \<Rightarrow> string \<Rightarrow> u32 \<Rightarrow> pump_round list \<Rightarrow> entropy_error option \<times> bytes list"
where
  "entropy_pump env addr out chunk rounds =
     (if \<not> size_ok chunk then (Some (bad_size ''pump chunk'' chunk), [])
      else
        (let fifo = (if pe_out_exists env then None
                     else case pe_mkfifo env of
                            Inl e \<Rightarrow> Some (Protocol (''mkfifo unavailable: '' @ e))
                          | Inr (True, _) \<Rightarrow> None
                          | Inr (False, status) \<Rightarrow> Some (Protocol (''mkfifo '' @ out @ '' failed with '' @ status)))
         in case fifo of
              Some e \<Rightarrow> (Some e, [])
            | None \<Rightarrow>
                (case pe_open_error env of
                   Some e \<Rightarrow> (Some (EntropyIo e), [])
                 | None \<Rightarrow> pump_loop addr chunk rounds [])))"

subsection \<open>Facts\<close>

lemma length_u32_to_be_bytes [simp]: "length (u32_to_be_bytes n) = 4"
  by (simp add: u32_to_be_bytes_def)

lemma u32_be_roundtrip [simp]: "u32_from_be_bytes (u32_to_be_bytes n) = n"
  by (simp add: u32_to_be_bytes_def u32_from_be_bytes_def u32_le_roundtrip)

definition honest_draw :: "entropy_env \<Rightarrow> bool" where
  "honest_draw env = (\<forall>i n b. en_draw env i n = Inr b \<longrightarrow> length b = n)"

lemma serve_request:
  assumes "size_ok len" "en_draw env i (unat len) = Inr buf" "en_write_error env i = None"
  shows "serve_requests env i \<lparr>rs_bytes = u32_to_be_bytes len @ rest, rs_end = e\<rparr> sent
     = serve_requests env (i + 1) \<lparr>rs_bytes = rest, rs_end = e\<rparr> (sent @ buf)"
  using assms by (subst serve_requests.simps) simp

lemma serve_requests_end: "serve_requests env i \<lparr>rs_bytes = [], rs_end = Eof\<rparr> sent = (Inr (), sent)"
  by (subst serve_requests.simps) (simp add: read_exact_def)

text \<open>The stub answers what it is asked, in order: a connection that sends any number of well-sized
  requests gets back exactly the random bytes drawn for them, one answer after the other, and is
  closed without an error when it ends.\<close>

theorem entropy_serves_in_order:
  assumes "list_all size_ok lens" "\<forall>i. en_write_error env i = None"
    and "\<forall>i < length lens. en_draw env i (unat (lens ! i)) = Inr (bufs ! i)" "length bufs = length lens"
  shows "entropy_serve_conn None env \<lparr>rs_bytes = concat (map u32_to_be_bytes lens), rs_end = Eof\<rparr> = (Inr (), concat bufs)"
proof -
  have "serve_requests env i \<lparr>rs_bytes = concat (map u32_to_be_bytes lens), rs_end = Eof\<rparr> sent = (Inr (), sent @ concat bufs)"
    if "list_all size_ok lens" "\<forall>j < length lens. en_draw env (i + j) (unat (lens ! j)) = Inr (bufs ! j)"
      "length bufs = length lens" for lens bufs i sent
    using that
  proof (induction lens arbitrary: bufs i sent)
    case (Cons len lens)
    obtain buf bufs' where b: "bufs = buf # bufs'" using Cons.prems(3) by (cases bufs) auto
    have "en_draw env i (unat len) = Inr buf"
      using Cons.prems(2) b by force
    moreover have "\<forall>j < length lens. en_draw env (i + 1 + j) (unat (lens ! j)) = Inr (bufs' ! j)"
      using Cons.prems(2) b by (auto dest: spec [of _ "Suc _"])
    ultimately show ?case
      using Cons.prems(1,3) Cons.IH [of "i + 1" bufs' "sent @ buf"] b assms(2) by (simp add: serve_request)
  qed (simp add: serve_requests_end)
  from this [of lens 0 bufs "[]"] assms show ?thesis
    by (simp add: entropy_serve_conn_def)
qed

theorem entropy_serves_in_order_witness:
  "entropy_serve_conn None \<lparr>en_draw = (\<lambda>i n. Inr (replicate n (of_nat i))), en_write_error = (\<lambda>_. None)\<rparr>
     \<lparr>rs_bytes = u32_to_be_bytes 1 @ u32_to_be_bytes 1, rs_end = Eof\<rparr> = (Inr (), [0, 1])"
proof -
  let ?env = "\<lparr>en_draw = (\<lambda>i n. Inr (replicate n (of_nat i :: u8))), en_write_error = (\<lambda>_ :: nat. None)\<rparr>"
  have "entropy_serve_conn None ?env \<lparr>rs_bytes = concat (map u32_to_be_bytes [1, 1]), rs_end = Eof\<rparr>
      = (Inr (), concat [[0], [1]])"
  proof (rule entropy_serves_in_order)
    show "list_all size_ok [1, 1]"
      by (simp add: size_ok_def max_request_bytes_def)
    show "\<forall>i < length [1, 1 :: u32]. en_draw ?env i (unat ([1, 1 :: u32] ! i)) = Inr ([[0], [1]] ! i)"
    proof (intro allI impI)
      fix i :: nat
      assume "i < length [1, 1 :: u32]"
      then consider "i = 0" | "i = 1" by force
      then show "en_draw ?env i (unat ([1, 1 :: u32] ! i)) = Inr ([[0], [1]] ! i)"
        by cases simp_all
    qed
  qed simp_all
  then show ?thesis by simp
qed

text \<open>Unlike the job server, a broken connection ends nothing but itself.\<close>

lemma entropy_connections_are_independent:
  "entropy_serve_on (map Inr conns) = (Inr (), map (\<lambda>(u, env, recv). entropy_serve_conn u env recv) conns)"
  by (induction conns) auto

text \<open>The client and the server agree: what is fetched is what the server drew for the request.\<close>

lemma entropy_fetch_from_server:
  assumes "size_ok len" "en_draw env 0 (unat len) = Inr buf" "length buf = unat len" "\<forall>i. en_write_error env i = None"
    and "tcp_connect addr = Inr \<lparr>ec_timeout_error = None, ec_write_error = None,
       ec_reply = (\<lambda>req. \<lparr>rs_bytes = snd (entropy_serve_conn None env \<lparr>rs_bytes = req, rs_end = Eof\<rparr>), rs_end = Eof\<rparr>)\<rparr>"
  shows "entropy_fetch tcp_connect addr len = Inr buf"
proof -
  have "serve_requests env 0 \<lparr>rs_bytes = u32_to_be_bytes len, rs_end = Eof\<rparr> [] = (Inr (), buf)"
    using serve_request [OF assms(1,2), of "[]" Eof "[]"] assms(4) by (simp add: serve_requests_end)
  then show ?thesis
    using assms(1,3,5) by (simp add: entropy_fetch_def entropy_serve_conn_def read_exact_def)
qed

text \<open>Whatever the network does, the pump writes whole chunks only.\<close>

lemma pump_loop_chunks:
  "pump_loop addr chunk rounds written = (res, out) \<Longrightarrow> \<forall>b \<in> set written. length b = unat chunk
     \<Longrightarrow> \<forall>b \<in> set out. length b = unat chunk"
proof (induction addr chunk rounds written rule: pump_loop.induct)
  case (2 addr chunk net fifo_error rounds written)
  show ?case
  proof (cases "entropy_fetch net addr chunk")
    case (Inr buf)
    have "length buf = unat chunk"
      using Inr by (auto simp: entropy_fetch_def read_exact_def split: if_splits sum.splits option.splits)
    then show ?thesis
      using 2 Inr by (auto split: option.splits)
  qed (use 2 in auto)
qed auto

end
