(* ===== verification/Lemonade.thy ===== *)
theory Lemonade
  imports Adapters Http
begin

text \<open>
  The Lemonade adapter of \<open>adapters.rs\<close>: what it runs and asks to learn what a local LLM server is
  doing, and how the answers are read. The program \<open>lemonade\<close> is run on the host, its HTTP endpoint
  is a function from a request to the bytes that came back (\<open>None\<close> when resolving, connecting,
  writing or reading failed), and \<open>serde_json\<close> is an argument as in \<open>Plan\<close>.
\<close>

subsection \<open>Data\<close>

record lemonade_config =
  lc_host :: string
  lc_port :: u16
  lc_api_key :: "string option"

definition default_lemonade_config :: lemonade_config where
  "default_lemonade_config = \<lparr>lc_host = ''127.0.0.1'', lc_port = 13305, lc_api_key = None\<rparr>"

record lemonade_model =
  lm_id :: string
  lm_backend :: string
  lm_downloaded :: bool
  lm_size_gb :: "f64 option"

record lemonade_loaded =
  ll_id :: string
  ll_recipe :: string
  ll_device :: string
  ll_status :: string

record lemonade_report =
  lr_reachable :: bool
  lr_version :: "string option"
  lr_models :: "lemonade_model list"
  lr_amd_gpus :: "string list"
  lr_loaded :: "lemonade_loaded list"
  lr_backends :: "string list"

definition default_lemonade_report :: lemonade_report where
  "default_lemonade_report = \<lparr>lr_reachable = False, lr_version = None, lr_models = [],
     lr_amd_gpus = [], lr_loaded = [], lr_backends = []\<rparr>"

text \<open>What the adapter sees of the machine besides its files and programs.\<close>

record lemonade_env =
  le_nvml :: "nvml_row smap"
  le_rocm :: "amd_telemetry smap option"
  le_parse :: "string \<Rightarrow> json option"
  le_http :: "string \<Rightarrow> u16 \<Rightarrow> string \<Rightarrow> string option"

subsection \<open>Reading the answers\<close>

definition j_text :: "json \<Rightarrow> string \<Rightarrow> string option" where
  "j_text v k = (case j_get v k of None \<Rightarrow> None | Some x \<Rightarrow> j_as_str x)"

definition j_items :: "json \<Rightarrow> string \<Rightarrow> json list" where
  "j_items v k = (case j_get v k of None \<Rightarrow> [] | Some x \<Rightarrow> unwrap_or (j_as_array x) [])"

definition loaded_model :: "json \<Rightarrow> lemonade_loaded" where
  "loaded_model item = \<lparr>ll_id = unwrap_or (j_text item ''model_name'') [],
     ll_recipe = unwrap_or (j_text item ''recipe'') [], ll_device = unwrap_or (j_text item ''device'') [],
     ll_status = unwrap_or (j_text item ''status'') []\<rparr>"

definition parse_status_json :: "(string \<Rightarrow> json option) \<Rightarrow> string \<Rightarrow> string option \<times> lemonade_loaded list" where
  "parse_status_json parse s =
     (case parse s of
        None \<Rightarrow> (None, [])
      | Some value \<Rightarrow> (j_text value ''version'', map loaded_model (j_items value ''models'')))"

definition is_path_sep :: "char \<Rightarrow> bool" where
  "is_path_sep c = (c = CHR ''/'' \<or> c = CHR 0x5C)"

definition known_backend :: "string \<Rightarrow> bool" where
  "known_backend b = (b \<in> {''vulkan'', ''rocm'', ''cpu'', ''cuda'', ''metal''})"

text \<open>The loop over \<open>segments.windows(2)\<close>.\<close>

fun backend_in :: "string list \<Rightarrow> string option" where
  "backend_in (a # b # segs) =
     (if a = ''llamacpp'' \<and> known_backend (to_lower b) then Some (to_lower b) else backend_in (b # segs))"
| "backend_in _ = None"

fun j_nth :: "nat \<Rightarrow> json \<Rightarrow> json option" where
  "j_nth i (JArr l) = (if i < length l then Some (l ! i) else None)"
| "j_nth i _ = None"

definition backend_from_launch_command :: "json \<Rightarrow> string option" where
  "backend_from_launch_command entry =
     (case j_get entry ''launch_command'' of
        None \<Rightarrow> None
      | Some cmds \<Rightarrow>
          (case j_nth 0 cmds of
             None \<Rightarrow> None
           | Some v \<Rightarrow>
               (case j_as_str v of
                  None \<Rightarrow> None
                | Some cmd \<Rightarrow> backend_in (split_on is_path_sep cmd))))"

definition note_backend :: "json \<Rightarrow> string list \<Rightarrow> string list" where
  "note_backend item out =
     (case backend_from_launch_command item of
        None \<Rightarrow> out
      | Some b \<Rightarrow> if b \<in> set out then out else out @ [b])"

definition backends_from_health :: "json \<Rightarrow> string list" where
  "backends_from_health health = fold note_backend (j_items health ''all_models_loaded'') []"

subsection \<open>Asking\<close>

definition nth_word :: "nat \<Rightarrow> string list \<Rightarrow> string option" where
  "nth_word i ws = (if i < length ws then Some (ws ! i) else None)"

definition lemonade_argv :: "string \<Rightarrow> string \<Rightarrow> string option \<Rightarrow> string list" where
  "lemonade_argv args base api_key =
     (let parts = split_char (CHR '':'') base in
      [''--host'', unwrap_or (nth_word 0 parts) ''127.0.0.1'',
       ''--port'', unwrap_or (nth_word 1 parts) ''13305'']
      @ (case api_key of None \<Rightarrow> [] | Some key \<Rightarrow> [''--api-key'', key])
      @ split_char (CHR '' '') args)"

definition run_lemonade :: "host \<Rightarrow> string \<Rightarrow> string \<Rightarrow> string option \<Rightarrow> string option" where
  "run_lemonade h args base api_key =
     (case h_output h ''lemonade'' (lemonade_argv args base api_key) of
        Some (True, out) \<Rightarrow> Some (from_utf8_lossy out)
      | _ \<Rightarrow> None)"

definition http_get_request :: "string \<Rightarrow> string \<Rightarrow> string option \<Rightarrow> string" where
  "http_get_request host path api_key =
     ''GET '' @ path @ '' HTTP/1.1'' @ crlf @ ''Host: '' @ host @ crlf @ ''Connection: close'' @ crlf
     @ (case api_key of None \<Rightarrow> [] | Some key \<Rightarrow> ''Authorization: Bearer '' @ key @ crlf)
     @ crlf"

text \<open>\<open>split(pattern).nth(1)\<close>: what lies between the first two occurrences of the pattern.\<close>

definition second_part :: "string \<Rightarrow> string \<Rightarrow> string option" where
  "second_part pat s =
     (case find_subslice s pat of
        None \<Rightarrow> None
      | Some i \<Rightarrow>
          (let rest = drop (i + length pat) s
           in Some (take (unwrap_or (find_subslice rest pat) (length rest)) rest)))"

definition http_get_json :: "lemonade_env \<Rightarrow> string \<Rightarrow> u16 \<Rightarrow> string \<Rightarrow> string option \<Rightarrow> json option" where
  "http_get_json env host port path api_key =
     (case le_http env host port (http_get_request host path api_key) of
        None \<Rightarrow> None
      | Some raw \<Rightarrow>
          (case from_utf8 raw of
             None \<Rightarrow> None
           | Some response \<Rightarrow>
               (case lines response of
                  [] \<Rightarrow> None
                | status # _ \<Rightarrow>
                    if \<not> contains status '' 200 '' then None
                    else (case second_part (crlf @ crlf) response of
                            None \<Rightarrow> None
                          | Some body \<Rightarrow> le_parse env body))))"

subsection \<open>The report\<close>

definition amd_labels :: "gpu_device list \<Rightarrow> string list" where
  "amd_labels devices =
     map (\<lambda>d. gd_device_name d @ '' ('' @ gd_pci_bdf d @ '')'')
       (filter (\<lambda>d. gd_vendor d = Amd \<and> \<not> gd_display_only d) devices)"

definition reads_as_running :: "string \<Rightarrow> bool" where
  "reads_as_running out =
     (contains (to_lower out) ''running'' \<or> contains (to_lower out) ''server is running'')"

definition version_line :: "string \<Rightarrow> string option" where
  "version_line out =
     (case find (\<lambda>l. starts_with (trim l) ''Version'') (lines out) of
        None \<Rightarrow> None
      | Some l \<Rightarrow> nth_word 1 (split_whitespace l))"

definition model_row :: "string \<Rightarrow> lemonade_model option" where
  "model_row line =
     (if trim line = [] \<or> starts_with (trim line) ''---'' then None
      else
        (let parts = split_whitespace line;
             i = trim (unwrap_or (nth_word 0 parts) [])
         in if i \<noteq> [] \<and> i \<noteq> ''Model''
            then Some \<lparr>lm_id = i,
              lm_backend = trim (unwrap_or (nth_word 3 parts) ''unknown''),
              lm_downloaded = (to_lower (unwrap_or (nth_word 1 parts) ''no'') = ''yes''),
              lm_size_gb = (case nth_word 2 parts of None \<Rightarrow> None | Some s \<Rightarrow> parse_f64 s)\<rparr>
            else None))"

definition lemonade_base :: "lemonade_config \<Rightarrow> string" where
  "lemonade_base c = lc_host c @ '':'' @ show_word (lc_port c)"

definition lemonade_status :: "lemonade_env \<Rightarrow> lemonade_config \<Rightarrow> host \<Rightarrow> lemonade_report" where
  "lemonade_status env c h =
     (let base = lemonade_base c;
          run = (\<lambda>args. run_lemonade h args base (lc_api_key c));
          r0 = default_lemonade_report\<lparr>lr_amd_gpus :=
                 (case gpu_discover (le_nvml env) (le_rocm env) h of Inl _ \<Rightarrow> [] | Inr ds \<Rightarrow> amd_labels ds)\<rparr>;
          r1 = (case run ''status --json'' of
                  None \<Rightarrow> r0
                | Some out \<Rightarrow> (case parse_status_json (le_parse env) out of
                    (v, loaded) \<Rightarrow> r0\<lparr>lr_loaded := loaded, lr_version := (if v = None then lr_version r0 else v)\<rparr>));
          r2 = (case run ''status'' of
                  None \<Rightarrow> r1
                | Some out \<Rightarrow> r1\<lparr>lr_reachable := reads_as_running out,
                    lr_version := (if lr_version r1 = None then version_line out else lr_version r1)\<rparr>);
          r3 = (case run ''list --downloaded'' of
                  None \<Rightarrow> r2
                | Some out \<Rightarrow> r2\<lparr>lr_models := List.map_filter model_row (drop 2 (lines out))\<rparr>)
      in case http_get_json env (lc_host c) (lc_port c) ''/api/v1/health'' (lc_api_key c) of
           None \<Rightarrow> r3
         | Some health \<Rightarrow> r3\<lparr>lr_backends := backends_from_health health\<rparr>)"

definition lemonade_detail :: "lemonade_report \<Rightarrow> attrs" where
  "lemonade_detail r =
     (let d0 = bt_from [(''lemonade.reachable'', show_bool (lr_reachable r))];
          d1 = (case lr_version r of None \<Rightarrow> d0 | Some v \<Rightarrow> bt_insert ''lemonade.version'' v d0);
          loaded = map ll_id (lr_loaded r);
          d2 = bt_insert ''lemonade.models'' (if loaded = [] then ''none-loaded'' else join '','' loaded) d1;
          d3 = (if lr_models r = [] then d2
                else bt_insert ''lemonade.downloaded'' (join '','' (map lm_id (lr_models r))) d2);
          d4 = (if lr_backends r = [] then d3 else bt_insert ''lemonade.backend'' (join '','' (lr_backends r)) d3)
      in if lr_amd_gpus r = [] then d4 else bt_insert ''lemonade.amd_gpus'' (join ''; '' (lr_amd_gpus r)) d4)"

subsection \<open>The adapter\<close>

definition lemonade_attach ::
  "lemonade_env \<Rightarrow> lemonade_config \<Rightarrow> resource \<Rightarrow> lease \<Rightarrow> host \<Rightarrow> (fabric_error + attachment) \<times> lemonade_config \<times> host"
where
  "lemonade_attach env c r l h =
     (let endpoint = (case map_of (res_attributes r) ''lemonade.endpoint'' of
            Some e \<Rightarrow> Some e | None \<Rightarrow> Some (lemonade_base c));
          details = bt_insert ''attachment.scope'' ''lemonade-serving''
            (bt_insert ''lemonade.endpoint'' (unwrap_or endpoint []) (lemonade_detail (lemonade_status env c h)))
      in (Inr (attachment_of r l ''lemonade'' details), c, h))"

definition lemonade_capability :: "lemonade_env \<Rightarrow> lemonade_config \<Rightarrow> host \<Rightarrow> adapter_report" where
  "lemonade_capability env c h =
     (let report = lemonade_status env c h
      in \<lparr>rep_name = ''lemonade'', rep_scope = ''lemonade-serving'', rep_healthy = lr_reachable report,
          rep_detail = bt_insert ''lemonade.endpoint'' (lemonade_base c) (lemonade_detail report)\<rparr>)"

definition lemonade_ops :: "lemonade_env \<Rightarrow> (lemonade_config, host) adapter_ops" where
  "lemonade_ops env = \<lparr>ad_name = (\<lambda>_. ''lemonade''), ad_attach = lemonade_attach env,
     ad_detach = default_detach, ad_report = lemonade_capability env\<rparr>"

interpretation lemonade: adapter_contract "lemonade_ops env"
  by unfold_locales
    (auto simp: lemonade_ops_def lemonade_attach_def lemonade_capability_def attachment_of_def
      default_detach_def Let_def)

end
