(* ===== verification/Lemonade_Properties.thy ===== *)
theory Lemonade_Properties
  imports Lemonade
begin

text \<open>
  What the Lemonade adapter reports: the backends are a deduplicated reading of the launch commands,
  the health and the attachment details say what the program answered, and the command line names the
  configured server exactly when the host has no colon.
\<close>

subsection \<open>Backends\<close>

lemma split_on_sep: "p d \<Longrightarrow> split_on p (u @ d # v) = split_on p u @ split_on p v"
proof (induction u)
  case (Cons c u)
  then show ?case
    by (cases "split_on p u") simp_all
qed simp

lemma backend_in_known: "backend_in segs = Some b \<Longrightarrow> known_backend b"
  by (induction segs rule: backend_in.induct) (auto split: if_splits)

lemma backend_in_append:
  assumes "backend_in xs = None" "\<not> known_backend (to_lower a)"
  shows "backend_in (xs @ a # ys) = backend_in (a # ys)"
  using assms by (induction xs rule: backend_in.induct) (auto split: if_splits)

lemma llamacpp_is_no_backend: "\<not> known_backend (to_lower ''llamacpp'')"
  by (simp add: known_backend_def to_lower_def lower_char_def)

lemma backend_from_launch_command_known: "backend_from_launch_command e = Some b \<Longrightarrow> known_backend b"
  by (auto simp: backend_from_launch_command_def split: option.splits dest: backend_in_known)

lemma fold_note_backend:
  "fold note_backend items out =
     out @ rev (remdups (rev (filter (\<lambda>b. b \<notin> set out) (List.map_filter backend_from_launch_command items))))"
proof (induction items arbitrary: out)
  case (Cons item items)
  show ?case
  proof (cases "backend_from_launch_command item")
    case None
    then show ?thesis
      using Cons by (simp add: note_backend_def)
  next
    case (Some b)
    let ?bs = "List.map_filter backend_from_launch_command items"
    have rem: "remdups (xs @ [b]) = remdups (filter (\<lambda>x. x \<noteq> b) xs) @ [b]" for xs :: "string list"
      by (induction xs) auto
    show ?thesis
    proof (cases "b \<in> set out")
      case True
      then show ?thesis using Some Cons [of out] by (simp add: note_backend_def)
    next
      case False
      have "filter (\<lambda>x. x \<notin> set (out @ [b])) ?bs = filter (\<lambda>x. x \<noteq> b) (filter (\<lambda>x. x \<notin> set out) ?bs)"
        by (auto intro: filter_cong)
      then show ?thesis
        using Some False Cons [of "out @ [b]"] by (simp add: note_backend_def rem rev_filter)
    qed
  qed
qed simp

text \<open>The backends a Lemonade report names are the launch-command backends of the loaded models
  without repetitions, in the order of their first appearance, and each of them is one of the five
  compute backends: a recipe name is never reported as a backend.\<close>

theorem backends_are_the_launched_ones:
  "backends_from_health health
     = rev (remdups (rev (List.map_filter backend_from_launch_command (j_items health ''all_models_loaded''))))
   \<and> set (backends_from_health health) \<subseteq> {''vulkan'', ''rocm'', ''cpu'', ''cuda'', ''metal''}"
proof -
  have eq: "backends_from_health health
     = rev (remdups (rev (List.map_filter backend_from_launch_command (j_items health ''all_models_loaded''))))"
    by (simp add: backends_from_health_def fold_note_backend)
  have "known_backend b" if "b \<in> set (backends_from_health health)" for b
    using that backend_from_launch_command_known unfolding eq by (auto simp: List.map_filter_def)
  then show ?thesis
    using eq by (auto simp: known_backend_def)
qed

text \<open>The backend is the path segment after the first \<open>llamacpp\<close> that is followed by one, with either
  kind of separator.\<close>

lemma launch_command_names_the_backend:
  assumes "j_get entry ''launch_command'' = Some (JArr (JStr (pre @ s1 # ''llamacpp'' @ s2 # b @ s3 # post) # args))"
    and "is_path_sep s1" "is_path_sep s2" "is_path_sep s3" "\<forall>c \<in> set b. \<not> is_path_sep c"
    and "known_backend (to_lower b)" "backend_in (split_on is_path_sep pre) = None"
  shows "backend_from_launch_command entry = Some (to_lower b)"
proof -
  have "split_on is_path_sep (''llamacpp'' @ s2 # b @ s3 # post) = ''llamacpp'' # b # split_on is_path_sep post"
    using split_on_append_sep [of is_path_sep s2 "''llamacpp''" "b @ s3 # post"]
      split_on_append_sep [of is_path_sep s3 b post] assms(3-5)
    by (simp add: is_path_sep_def)
  then have "split_on is_path_sep (pre @ s1 # ''llamacpp'' @ s2 # b @ s3 # post)
      = split_on is_path_sep pre @ ''llamacpp'' # b # split_on is_path_sep post"
    using split_on_sep [of is_path_sep s1 pre "''llamacpp'' @ s2 # b @ s3 # post"] assms(2) by simp
  then have "backend_in (split_on is_path_sep (pre @ s1 # ''llamacpp'' @ s2 # b @ s3 # post)) = Some (to_lower b)"
    using backend_in_append [OF assms(7) llamacpp_is_no_backend] assms(6) by simp
  then show ?thesis
    using assms(1) by (simp add: backend_from_launch_command_def)
qed

subsection \<open>The command line\<close>

lemma split_char_no_sep: "w \<in> set (split_char d s) \<Longrightarrow> d \<notin> set w"
proof (induction s arbitrary: w)
  case (Cons c s)
  obtain w1 ws where "split_char d s = w1 # ws" by (cases "split_char d s") auto
  with Cons show ?case by (auto split: if_splits)
qed simp

lemma digits_no_colon: "CHR '':'' \<notin> set (show_nat n)"
proof (induction "10 :: nat" n rule: show_radix.induct)
  case (1 n)
  have d: "digit_char m \<noteq> CHR '':''" if "m < 10" for m
    using that digit_val_digit_char [of m] by (auto simp: digit_val_def)
  from 1 show ?case
    by (subst show_radix.simps) (auto simp: d dest!: sym [of "CHR '':''"])
qed

text \<open>The program is pointed at the configured server exactly when the configured host has no colon:
  \<open>run_lemonade\<close> takes the host and the port out of \<open>host:port\<close> again by splitting at every colon, so
  an IPv6 host is cut at its first colon.\<close>

theorem lemonade_cli_is_addressed:
  "take 4 (lemonade_argv args (lemonade_base c) key) = [''--host'', lc_host c, ''--port'', show_word (lc_port c)]
     \<longleftrightarrow> CHR '':'' \<notin> set (lc_host c)"
proof
  let ?parts = "split_char (CHR '':'') (lemonade_base c)"
  assume t: "take 4 (lemonade_argv args (lemonade_base c) key) = [''--host'', lc_host c, ''--port'', show_word (lc_port c)]"
  have "unwrap_or (nth_word 0 ?parts) ''127.0.0.1'' = ?parts ! 0"
    by (simp add: nth_word_def)
  with t have "lc_host c = ?parts ! 0"
    by (simp add: lemonade_argv_def Let_def)
  moreover have "?parts ! 0 \<in> set ?parts"
    by (simp add: nth_mem)
  ultimately have "lc_host c \<in> set ?parts"
    by (rule ssubst)
  then show "CHR '':'' \<notin> set (lc_host c)"
    by (rule split_char_no_sep)
next
  assume "CHR '':'' \<notin> set (lc_host c)"
  then have "split_char (CHR '':'') (lemonade_base c) = [lc_host c, show_word (lc_port c)]"
    using split_char_join [of "[lc_host c, show_word (lc_port c)]" "CHR '':''"] digits_no_colon
    by (simp add: lemonade_base_def)
  then show "take 4 (lemonade_argv args (lemonade_base c) key) = [''--host'', lc_host c, ''--port'', show_word (lc_port c)]"
    by (simp add: lemonade_argv_def nth_word_def)
qed

subsection \<open>Health\<close>

lemma lemonade_status_reachable:
  "lr_reachable (lemonade_status env c h) \<longleftrightarrow>
     (\<exists>out. run_lemonade h ''status'' (lemonade_base c) (lc_api_key c) = Some out \<and> reads_as_running out)"
  by (simp add: lemonade_status_def Let_def default_lemonade_report_def split: option.split prod.split)

lemma lemonade_detail_reachable:
  "map_of (lemonade_detail r) ''lemonade.reachable'' = Some (show_bool (lr_reachable r))"
  by (simp add: lemonade_detail_def Let_def lookup_simps split: option.split)

text \<open>An attach always succeeds and never invents health: the attachment says the server is
  reachable exactly when the adapter's report calls it healthy, which is exactly when \<open>lemonade status\<close>
  ended with success and its output mentions a running server.\<close>

theorem lemonade_attach_reports_health:
  "\<exists>att. lemonade_attach env c r l h = (Inr att, c, h)
     \<and> map_of (att_details att) ''lemonade.reachable'' = Some (show_bool (rep_healthy (lemonade_capability env c h)))
     \<and> (rep_healthy (lemonade_capability env c h)
          \<longleftrightarrow> (\<exists>out. run_lemonade h ''status'' (lemonade_base c) (lc_api_key c) = Some out \<and> reads_as_running out))"
  by (simp add: lemonade_attach_def lemonade_capability_def Let_def attachment_of_def lookup_simps
      lemonade_detail_reachable lemonade_status_reachable)

text \<open>The test for a running server is satisfied by the answer of one that is not.\<close>

lemma not_running_reads_as_running: "reads_as_running ''Server is not running''"
  by (simp add: reads_as_running_def to_lower_def lower_char_def starts_with_def)

lemma reads_as_running_short: "reads_as_running out \<longleftrightarrow> contains (to_lower out) ''running''"
proof -
  have skip: "contains (x @ s) p" if "contains s p" for x s p :: string
    using that by (induction x) auto
  have "contains s (x @ p) \<Longrightarrow> contains s p" for s x p :: string
  proof (induction s)
    case (Cons a s)
    show ?case
    proof (cases "starts_with (a # s) (x @ p)")
      case True
      then obtain r where "a # s = x @ p @ r"
        using strip_prefix_Some [of "a # s" "x @ p"] by (auto simp: strip_prefix_def)
      moreover have "contains (p @ r) p"
        using starts_with_append [of p r] by (cases "p @ r") (simp_all add: starts_with_def)
      ultimately show ?thesis by (metis skip)
    qed (use Cons in auto)
  qed (cases p, simp_all)
  from this [of "to_lower out" "''server is ''" "''running''"] show ?thesis
    by (auto simp: reads_as_running_def)
qed

end
