(* ===== verification/Dataset_Validate.thy ===== *)
theory Dataset_Validate
  imports Plan Host_Os
begin

text \<open>
  The corpus validator of \<open>tools/dataset-validate\<close>: the checks of one record, in the order and with
  the early return of the code, the loop over the lines of the file, and the exit code of the
  program. Parsing and printing JSON, the matching of the two patterns and the files are arguments;
  \<open>Dataset_Patterns\<close> puts the patterns of the source in.
\<close>

subsection \<open>Reports\<close>

record dataset_issue =
  di_record :: nat
  di_message :: string

record dataset_report =
  dr_record_count :: nat
  dr_issues :: "dataset_issue list"

definition dataset_is_ok :: "dataset_report \<Rightarrow> bool" where
  "dataset_is_ok r = (dr_issues r = [])"

datatype dataset_error = DatasetNotFound string | DatasetUnreadable string string

record dataset_env =
  de_parse :: "string \<Rightarrow> string + json"
  de_show :: "json \<Rightarrow> string"
  de_exists :: "string \<Rightarrow> bool"
  de_is_file :: "string \<Rightarrow> bool"
  de_read :: "string \<Rightarrow> string + string"
  de_tokens :: "string \<Rightarrow> string list"
  de_secret :: "string \<Rightarrow> bool"

subsection \<open>Markers\<close>

definition expected_roles :: "string list" where
  "expected_roles = [''system'', ''user'', ''assistant'']"

definition forbidden_markers :: "string list" where
  "forbidden_markers = [''TBD'', ''TODO'', ''FIXME'', ''unverified'', ''placeholder'']"

definition forbidden_host_markers :: "string list" where
  "forbidden_host_markers = [''127.0.0.1'', ''192.168.'', ''10.0.0.'']"

subsection \<open>One record\<close>

definition show_opt_str :: "string option \<Rightarrow> string" where
  "show_opt_str x = (case x of None \<Rightarrow> ''None'' | Some s \<Rightarrow> ''Some('' @ str_debug s @ '')'')"

definition msg_field :: "json \<Rightarrow> string \<Rightarrow> string option" where
  "msg_field m k = (case j_get m k of None \<Rightarrow> None | Some v \<Rightarrow> j_as_str v)"

definition message_issues :: "nat \<Rightarrow> json \<times> string \<Rightarrow> string list" where
  "message_issues offset = (\<lambda>(message, expected).
     (let actual = msg_field message ''role'';
          content = msg_field message ''content''
      in (if actual \<noteq> Some expected
          then [''message['' @ show_nat offset @ '']: expected role '' @ str_debug expected @ '', got '' @ show_opt_str actual]
          else [])
         @ (if (case content of None \<Rightarrow> True | Some c \<Rightarrow> c = [])
            then [''message['' @ show_nat offset @ '']: empty or non-string content'']
            else [])))"

text \<open>A path component \<open>..\<close>, the only one the check refuses.\<close>

definition has_parent_dir :: "string \<Rightarrow> bool" where
  "has_parent_dir path = (''..'' \<in> set (split_char (CHR ''/'') path))"

definition grounding_issues :: "dataset_env \<Rightarrow> string \<Rightarrow> string option \<Rightarrow> string list" where
  "grounding_issues env answer grounding =
     (case grounding of
        None \<Rightarrow> [''missing required `grounding` field'']
      | Some path \<Rightarrow>
          if path = ''legacy'' then []
          else if path = [] then [''empty `grounding` value'']
          else if has_parent_dir path
          then [''`grounding` '' @ str_debug path @ '' escapes the repository root'']
          else if \<not> de_exists env path
          then [''`grounding` file '' @ str_debug path @ '' does not exist'']
          else if \<not> de_is_file env path then []
          else (case de_read env path of
                  Inl e \<Rightarrow> [''cannot read grounding file '' @ str_debug path @ '': '' @ e]
                | Inr file_text \<Rightarrow>
                    (let file_tokens = de_tokens env file_text; content_tokens = de_tokens env answer
                     in if file_tokens = [] \<or> content_tokens = []
                        then [''either the grounding file '' @ str_debug path
                          @ '' or the assistant content is empty; the soft grounding check is vacuous'']
                        else if set file_tokens \<inter> set content_tokens = {}
                        then [''assistant content shares no identifier tokens with `'' @ path
                          @ ''`; the answer may be ungrounded'']
                        else [])))"

definition marker_issues :: "dataset_env \<Rightarrow> string \<Rightarrow> string list" where
  "marker_issues env answer =
     map (\<lambda>m. ''assistant content contains forbidden marker '' @ str_debug m)
       (filter (\<lambda>m. contains (to_lower answer) (to_lower m)) forbidden_markers)
     @ map (\<lambda>m. ''assistant content contains forbidden host marker '' @ str_debug m)
         (filter (\<lambda>m. contains answer m) forbidden_host_markers)
     @ (if de_secret env answer then [''assistant content references a secret/password/token keyword''] else [])"

definition messages_of :: "(string \<times> json) list \<Rightarrow> json list option" where
  "messages_of object =
     (case map_of object ''messages'' of
        None \<Rightarrow> None
      | Some v \<Rightarrow>
          (case j_as_array v of
             None \<Rightarrow> None
           | Some l \<Rightarrow> if length l = length expected_roles then Some l else None))"

definition assistant_content :: "json list \<Rightarrow> string" where
  "assistant_content msgs =
     (if 2 < length msgs then unwrap_or (msg_field (msgs ! 2) ''content'') [] else [])"

definition grounding_of :: "(string \<times> json) list \<Rightarrow> string option" where
  "grounding_of object = (case map_of object ''grounding'' of None \<Rightarrow> None | Some v \<Rightarrow> j_as_str v)"

definition check_record :: "dataset_env \<Rightarrow> nat \<Rightarrow> (string \<times> json) list \<Rightarrow> dataset_issue list" where
  "check_record env record_number object =
     map (\<lambda>m. \<lparr>di_record = record_number, di_message = m\<rparr>)
       (case messages_of object of
          None \<Rightarrow>
            [''expected exactly '' @ show_nat (length expected_roles) @ '' messages, got ''
               @ (case map_of object ''messages'' of None \<Rightarrow> ''missing'' | Some v \<Rightarrow> de_show env v)]
        | Some msgs \<Rightarrow>
            concat (map (\<lambda>(offset, pair). message_issues offset pair) (enumerate 0 (zip msgs expected_roles)))
            @ grounding_issues env (assistant_content msgs) (grounding_of object)
            @ marker_issues env (assistant_content msgs))"

subsection \<open>The file\<close>

definition is_blank :: "string \<Rightarrow> bool" where
  "is_blank line = (trim line = [])"

definition check_line :: "dataset_env \<Rightarrow> nat \<times> string \<Rightarrow> dataset_issue list" where
  "check_line env = (\<lambda>(idx, line).
     (let record_number = idx + 1
      in case de_parse env line of
           Inl e \<Rightarrow> [\<lparr>di_record = record_number, di_message = ''invalid JSON ('' @ e @ '')''\<rparr>]
         | Inr value \<Rightarrow>
             (case j_as_object value of
                None \<Rightarrow> [\<lparr>di_record = record_number, di_message = ''top-level value is not a JSON object''\<rparr>]
              | Some object \<Rightarrow> check_record env record_number object)))"

definition validate_dataset_text :: "dataset_env \<Rightarrow> string \<Rightarrow> dataset_report" where
  "validate_dataset_text env s =
     \<lparr>dr_record_count = length (filter (\<lambda>l. \<not> is_blank l) (lines s)),
      dr_issues = concat (map (check_line env) (filter (\<lambda>(_, l). \<not> is_blank l) (enumerate 0 (lines s))))\<rparr>"

text \<open>\<open>fs::read_to_string\<close> of the corpus: its text, or whether the error is \<open>NotFound\<close>, with its text.\<close>

definition validate_dataset_file ::
  "dataset_env \<Rightarrow> (string \<Rightarrow> (bool \<times> string) + string) \<Rightarrow> string \<Rightarrow> dataset_error + dataset_report"
where
  "validate_dataset_file env read path =
     (case read path of
        Inr s \<Rightarrow> Inr (validate_dataset_text env s)
      | Inl (True, _) \<Rightarrow> Inl (DatasetNotFound path)
      | Inl (False, e) \<Rightarrow> Inl (DatasetUnreadable path e))"

definition dataset_path_for_workspace :: "string \<Rightarrow> string" where
  "dataset_path_for_workspace ws_root = path_join (path_join ws_root ''training'') ''adapter_creator_dataset.jsonl''"

definition dataset_validate_main ::
  "dataset_env \<Rightarrow> (string \<Rightarrow> (bool \<times> string) + string) \<Rightarrow> string list \<Rightarrow> u8"
where
  "dataset_validate_main env read args =
     (if length args \<noteq> 1 then 2
      else case validate_dataset_file env read (args ! 0) of
             Inl _ \<Rightarrow> 2
           | Inr report \<Rightarrow> if dataset_is_ok report then 0 else 1)"

subsection \<open>What a good record is\<close>

text \<open>The rules of the corpus, stated without the order in which the code checks them.\<close>

definition good_message :: "json \<Rightarrow> string \<Rightarrow> bool" where
  "good_message m expected = (msg_field m ''role'' = Some expected \<and> (\<exists>c. msg_field m ''content'' = Some c \<and> c \<noteq> []))"

definition well_grounded :: "dataset_env \<Rightarrow> string \<Rightarrow> string \<Rightarrow> bool" where
  "well_grounded env path answer =
     (path = ''legacy''
      \<or> (path \<noteq> [] \<and> \<not> has_parent_dir path \<and> de_exists env path
         \<and> (\<not> de_is_file env path
            \<or> (\<exists>t. de_read env path = Inr t \<and> set (de_tokens env t) \<inter> set (de_tokens env answer) \<noteq> {}))))"

definition free_of_markers :: "dataset_env \<Rightarrow> string \<Rightarrow> bool" where
  "free_of_markers env answer =
     (list_all (\<lambda>m. \<not> contains (to_lower answer) (to_lower m)) forbidden_markers
      \<and> list_all (\<lambda>m. \<not> contains answer m) forbidden_host_markers \<and> \<not> de_secret env answer)"

definition good_record :: "dataset_env \<Rightarrow> json \<Rightarrow> bool" where
  "good_record env value =
     (\<exists>object sys usr asst path.
        value = JObj object \<and> map_of object ''messages'' = Some (JArr [sys, usr, asst])
        \<and> good_message sys ''system'' \<and> good_message usr ''user'' \<and> good_message asst ''assistant''
        \<and> map_of object ''grounding'' = Some (JStr path)
        \<and> well_grounded env path (unwrap_or (msg_field asst ''content'') [])
        \<and> free_of_markers env (unwrap_or (msg_field asst ''content'') []))"

subsection \<open>Facts\<close>

lemma j_as_array_Some: "j_as_array v = Some l \<longleftrightarrow> v = JArr l"
  by (cases v) auto

lemma j_as_str_Some: "j_as_str v = Some s \<longleftrightarrow> v = JStr s"
  by (cases v) auto

lemma j_as_object_Some: "j_as_object v = Some m \<longleftrightarrow> v = JObj m"
  by (cases v) auto

lemma message_issues_none: "message_issues i (m, r) = [] \<longleftrightarrow> good_message m r"
  by (auto simp: message_issues_def good_message_def Let_def split: option.splits)

lemma grounding_issues_none:
  "grounding_issues env answer g = [] \<longleftrightarrow> (\<exists>path. g = Some path \<and> well_grounded env path answer)"
  by (auto simp: grounding_issues_def well_grounded_def Let_def split: option.splits sum.splits if_splits)

lemma marker_issues_none: "marker_issues env answer = [] \<longleftrightarrow> free_of_markers env answer"
  by (simp add: marker_issues_def free_of_markers_def forbidden_markers_def forbidden_host_markers_def)

lemma messages_of_Some:
  "messages_of object = Some msgs \<longleftrightarrow>
     (\<exists>a b c. msgs = [a, b, c] \<and> map_of object ''messages'' = Some (JArr [a, b, c]))"
  by (auto simp: messages_of_def expected_roles_def j_as_array_Some numeral_3_eq_3 length_Suc_conv
      split: option.splits if_splits)

lemma grounding_of_Some: "grounding_of object = Some p \<longleftrightarrow> map_of object ''grounding'' = Some (JStr p)"
  by (auto simp: grounding_of_def j_as_str_Some split: option.splits)

lemma check_record_none: "check_record env n object = [] \<longleftrightarrow> good_record env (JObj object)"
proof (cases "messages_of object")
  case None
  then have "\<not> good_record env (JObj object)"
    using messages_of_Some [of object] by (fastforce simp: good_record_def)
  with None show ?thesis by (simp add: check_record_def)
next
  case (Some msgs)
  then obtain a b c where m: "msgs = [a, b, c]" "map_of object ''messages'' = Some (JArr [a, b, c])"
    by (auto simp: messages_of_Some)
  have answer: "assistant_content [a, b, c] = unwrap_or (msg_field c ''content'') []"
    by (simp add: assistant_content_def)
  show ?thesis
    unfolding check_record_def Some good_record_def using m
    by (auto simp: answer expected_roles_def message_issues_none grounding_issues_none
        marker_issues_none grounding_of_Some)
qed

lemma check_line_none: "check_line env (i, line) = [] \<longleftrightarrow> (\<exists>v. de_parse env line = Inr v \<and> good_record env v)"
proof (cases "de_parse env line")
  case (Inr v)
  show ?thesis
    using Inr by (cases v) (simp_all add: check_line_def check_record_none good_record_def)
qed (simp add: check_line_def)

lemma list_all_enumerate: "list_all (\<lambda>(_, x). P x) (enumerate n xs) = list_all P xs"
  by (induction xs arbitrary: n) auto

text \<open>The validator accepts a corpus exactly when every line that is not blank parses to a good record:
  an object with one non-empty message of each role in order, a grounding that is the legacy marker or
  an existing path without \<open>..\<close> that shares an identifier with the answer, and an answer without
  forbidden markers.\<close>

theorem dataset_ok_iff_good:
  "dataset_is_ok (validate_dataset_text env s) \<longleftrightarrow>
     list_all (\<lambda>line. is_blank line \<or> (\<exists>v. de_parse env line = Inr v \<and> good_record env v)) (lines s)"
proof -
  have "dataset_is_ok (validate_dataset_text env s) \<longleftrightarrow>
      list_all (\<lambda>(i, line). is_blank line \<or> check_line env (i, line) = []) (enumerate 0 (lines s))"
    by (auto simp: dataset_is_ok_def validate_dataset_text_def list_all_iff)
  also have "\<dots> \<longleftrightarrow> list_all (\<lambda>(_, line). is_blank line \<or> (\<exists>v. de_parse env line = Inr v \<and> good_record env v))
      (enumerate 0 (lines s))"
    by (simp add: check_line_none)
  finally show ?thesis
    by (simp add: list_all_enumerate)
qed

text \<open>The number in an issue is the line number in the file and not, as the documentation says, the
  number of the record: after blank lines it exceeds the number of records.\<close>

definition no_files :: dataset_env where
  "no_files = \<lparr>de_parse = (\<lambda>_. Inl ''expected value''), de_show = (\<lambda>_. ''''), de_exists = (\<lambda>_. False),
     de_is_file = (\<lambda>_. False), de_read = (\<lambda>_. Inl ''not found''), de_tokens = (\<lambda>_. []), de_secret = (\<lambda>_. False)\<rparr>"

theorem issue_numbers_are_line_numbers:
  "validate_dataset_text no_files (CHR 0x0A # CHR 0x0A # ''x'')
     = \<lparr>dr_record_count = 1, dr_issues = [\<lparr>di_record = 3, di_message = ''invalid JSON (expected value)''\<rparr>]\<rparr>"
  by (simp add: validate_dataset_text_def lines_def is_blank_def trim_def trim_matches_def
      trim_end_matches_def is_ws_def chomp_cr_def check_line_def no_files_def Let_def)

text \<open>The exit code of the program: zero exactly for one readable corpus that is accepted.\<close>

lemma dataset_validate_succeeds:
  "dataset_validate_main env read args = 0 \<longleftrightarrow>
     (\<exists>path s. args = [path] \<and> read path = Inr s \<and> dataset_is_ok (validate_dataset_text env s))"
  by (auto simp: dataset_validate_main_def validate_dataset_file_def length_Suc_conv
      split: sum.splits prod.splits bool.splits)

end
