(* ===== verification/Agent_Tools.thy ===== *)
theory Agent_Tools
  imports Rpc Inventory
begin

text \<open>
  The programs of \<open>bin/nauti.rs\<close> that put the fabric, its adapters and the RPC together: the agent's
  initial fabric, the demonstration, the client's verbs, and the proof session a controller runs
  against an agent. A client is a function from a request to an answer and a new state, so the same
  session can be run against any agent, in particular against \<open>handle\<close>.
\<close>

subsection \<open>The demonstration\<close>

definition proof_gpu :: "string \<Rightarrow> resource" where
  "proof_gpu node = \<lparr>res_id = ''gpu.virtual.0'', res_kind = Gpu, res_capacity = 1, res_unit = ''device'',
     res_node = node, res_state = Available, res_exclusive = True, res_attributes = [(''adapter'', ''proof'')]\<rparr>"

definition demo_fabric :: "(nauti_adapter, host) adapter_ops \<Rightarrow> nauti_adapter fabric" where
  "demo_fabric ops = register_adapter ops LocalProofAdapter (register (proof_gpu ''local'') default_fabric)"

text \<open>\<open>demo\<close>: the attachment's lease and adapter, the first error, or a panic.\<close>

definition demo ::
  "(nauti_adapter, host) adapter_ops \<Rightarrow> instant \<times> instant \<Rightarrow> instant \<Rightarrow> host \<Rightarrow> (fabric_error + u64 \<times> string) outcome"
where
  "demo ops lease_clock attach_clock h =
     (case lease_exclusive ''gpu.virtual.0'' ''forge-demo'' (from_secs 30) (fst lease_clock) (snd lease_clock) (demo_fabric ops) of
        (Panicked, _) \<Rightarrow> Panicked
      | (Done (Inl e), _) \<Rightarrow> Done (Inl e)
      | (Done (Inr l), F1) \<Rightarrow>
          (case attach ops ''local-proof'' l attach_clock F1 h of
             (Panicked, _, _) \<Rightarrow> Panicked
           | (Done (Inl e), _, _) \<Rightarrow> Done (Inl e)
           | (Done (Inr att), F2, h2) \<Rightarrow>
               (case release ops l F2 h2 of
                  (Panicked, _, _) \<Rightarrow> Panicked
                | (Done (Inl e), _, _) \<Rightarrow> Done (Inl e)
                | (Done (Inr _), _, _) \<Rightarrow> Done (Inr (att_lease att, att_adapter att)))))"

subsection \<open>The agent\<close>

definition agent_adapters :: "bool \<Rightarrow> nauti_adapter list" where
  "agent_adapters wgpu = [LocalProofAdapter, FabricStoreAdapter [], WgpuRemoteAdapter wgpu, ResearchMemoryAdapter,
     RdmaAdapter ''/sys'']"

definition agent_fabric ::
  "(nauti_adapter, host) adapter_ops \<Rightarrow> bool \<Rightarrow> sys_info \<Rightarrow> nvml_row smap \<Rightarrow> amd_telemetry smap option \<Rightarrow> host \<Rightarrow> string
     \<Rightarrow> nauti_adapter fabric"
where
  "agent_fabric ops wgpu si nvml rocm h node =
     fold (register_adapter ops) (agent_adapters wgpu)
       (register (proof_gpu node) (snd (discover_local si nvml rocm h node default_fabric)))"

subsection \<open>The client\<close>

text \<open>\<open>AgentClient::call\<close> on the stream: what is sent, and the answer read from what arrives.\<close>

definition client_call ::
  "(rpc_request \<Rightarrow> string + bytes) \<Rightarrow> (bytes \<Rightarrow> string + rpc_response) \<Rightarrow> string option \<Rightarrow> rpc_request \<Rightarrow> recv_stream
     \<Rightarrow> (rpc_transport_error + rpc_response) \<times> bytes \<times> recv_stream"
where
  "client_call to_vec from_slice write_error req recv =
     (case write_frame to_vec req of
        Inl e \<Rightarrow> (Inl e, [], recv)
      | Inr frame \<Rightarrow>
          (case write_error of
             Some e \<Rightarrow> (Inl (Io e), [], recv)
           | None \<Rightarrow> (case read_frame from_slice recv of (out, recv') \<Rightarrow> (out, frame, recv'))))"

type_synonym 's client = "rpc_request \<Rightarrow> 's \<Rightarrow> (string + rpc_response) \<times> 's"

text \<open>\<open>agent_connect\<close>: the session's answers, or the first error. The answers to the attach and the
  release are printed whatever they are; only the lease must be granted.\<close>

definition agent_connect ::
  "(rpc_response \<Rightarrow> string) \<Rightarrow> string option \<Rightarrow> 's client \<Rightarrow> 's \<Rightarrow> (string + rpc_response list) \<times> 's"
where
  "agent_connect show_response close_error call s0 =
     (case call Ping s0 of
        (Inl e, s1) \<Rightarrow> (Inl e, s1)
      | (Inr pong, s1) \<Rightarrow>
          (case call ReqInventory s1 of
             (Inl e, s2) \<Rightarrow> (Inl e, s2)
           | (Inr inventory, s2) \<Rightarrow>
               (case call (LeaseExclusive ''gpu.virtual.0'' ''agent-connect-proof'' 30) s2 of
                  (Inl e, s3) \<Rightarrow> (Inl e, s3)
                | (Inr (Leased l), s3) \<Rightarrow>
                    (case call (Attach ''local-proof'' l) s3 of
                       (Inl e, s4) \<Rightarrow> (Inl e, s4)
                     | (Inr attached, s4) \<Rightarrow>
                         (case call (Release l) s4 of
                            (Inl e, s5) \<Rightarrow> (Inl e, s5)
                          | (Inr released, s5) \<Rightarrow>
                              (case close_error of
                                 Some e \<Rightarrow> (Inl e, s5)
                               | None \<Rightarrow> (Inr [pong, inventory, Leased l, attached, released], s5))))
                | (Inr other, s3) \<Rightarrow> (Inl (''expected Leased response, got '' @ show_response other), s3))))"

text \<open>An agent that serves a client: the request is handled under the next clock readings, and a panic
  of the handler is a lost connection.\<close>

definition served_by ::
  "('a, 'w) adapter_ops \<Rightarrow> auth_provider \<Rightarrow> request_context \<Rightarrow> (nat \<Rightarrow> instant \<times> instant) \<Rightarrow> string
     \<Rightarrow> (nat \<times> 'a fabric \<times> 'w) client"
where
  "served_by ops auth ctx clock lost req = (\<lambda>(i, F, w).
     (case handle ops auth ctx (fst (clock i)) (snd (clock i)) req F w of
        (Panicked, F', w') \<Rightarrow> (Inl lost, i + 1, F', w')
      | (Done resp, F', w') \<Rightarrow> (Inr resp, i + 1, F', w')))"

subsection \<open>The fabric verbs\<close>

datatype fabric_action =
    FaPing
  | FaInventory
  | FaFind "string option" "u64 option" "string option" "string list" bool
  | FaLease string string u64
  | FaAttach string string
  | FaRelease string

record tool_codec =
  to_parse_addr :: "string \<Rightarrow> string + endpoint_addr"
  to_parse_lease :: "string \<Rightarrow> string + lease"
  to_pretty_resources :: "resource list \<Rightarrow> string + string"
  to_pretty_lease :: "lease \<Rightarrow> string + string"
  to_pretty_attachment :: "attachment \<Rightarrow> string + string"
  to_debug :: "rpc_response \<Rightarrow> string"

fun parse_attrs :: "string list \<Rightarrow> attrs \<Rightarrow> string + attrs" where
  "parse_attrs [] m = Inr m"
| "parse_attrs (a # rest) m =
     (case split_once (CHR ''='') a of
        None \<Rightarrow> Inl (''--attr expects key=value, got '' @ str_debug a)
      | Some (k, v) \<Rightarrow> parse_attrs rest (bt_insert k v m))"

definition kind_of_name :: "string \<Rightarrow> resource_kind option" where
  "kind_of_name s = map_of [(''cpu'', Cpu), (''gpu'', Gpu), (''memory'', Memory), (''storage'', Storage),
     (''network'', Network), (''device'', Device)] s"

definition parse_kind :: "string option \<Rightarrow> string + resource_kind option" where
  "parse_kind kind =
     (case kind of
        None \<Rightarrow> Inr None
      | Some raw \<Rightarrow>
          (case kind_of_name (to_lower raw) of
             Some k \<Rightarrow> Inr (Some k)
           | None \<Rightarrow> Inl (''unknown kind '' @ str_debug (to_lower raw) @ '' (cpu|gpu|memory|storage|network|device)'')))"

definition find_request ::
  "string option \<Rightarrow> u64 option \<Rightarrow> string option \<Rightarrow> string list \<Rightarrow> bool \<Rightarrow> string + resource_request"
where
  "find_request kind min_capacity node attr_args exclusive =
     and_then (parse_attrs attr_args []) (\<lambda>required.
       and_then (parse_kind kind) (\<lambda>k.
         Inr \<lparr>req_kind = k, req_minimum_capacity = min_capacity, req_node = node,
           req_required_attributes = required, req_exclusive = exclusive\<rparr>))"

definition unexpected :: "tool_codec \<Rightarrow> string \<Rightarrow> rpc_response \<Rightarrow> string + string" where
  "unexpected tc what other = Inl (''expected '' @ what @ '' response, got '' @ to_debug tc other)"

fun fabric_verb :: "tool_codec \<Rightarrow> (rpc_request \<Rightarrow> string + rpc_response) \<Rightarrow> fabric_action \<Rightarrow> string + string" where
  "fabric_verb tc call FaPing = and_then (call Ping) (\<lambda>pong. Inr (''pong -> '' @ to_debug tc pong))"
| "fabric_verb tc call FaInventory =
     and_then (call ReqInventory) (\<lambda>resp.
       case resp of RespInventory rs \<Rightarrow> to_pretty_resources tc rs | other \<Rightarrow> unexpected tc ''Inventory'' other)"
| "fabric_verb tc call (FaFind kind min_capacity node attr_args exclusive) =
     and_then (find_request kind min_capacity node attr_args exclusive) (\<lambda>q.
       and_then (call (ReqFindAvailable q)) (\<lambda>resp.
         case resp of RespFindAvailable rs \<Rightarrow> to_pretty_resources tc rs | other \<Rightarrow> unexpected tc ''FindAvailable'' other))"
| "fabric_verb tc call (FaLease rid owner ttl_secs) =
     and_then (call (LeaseExclusive rid owner ttl_secs)) (\<lambda>resp.
       case resp of
         Leased l \<Rightarrow> to_pretty_lease tc l
       | RespError e \<Rightarrow> Inl (''lease rejected: '' @ rpc_message e)
       | other \<Rightarrow> unexpected tc ''Leased'' other)"
| "fabric_verb tc call (FaAttach adapter lease_json) =
     and_then (map_err (\<lambda>e. ''lease JSON is not a Lease: '' @ e) (to_parse_lease tc lease_json)) (\<lambda>l.
       and_then (call (Attach adapter l)) (\<lambda>resp.
         case resp of
           Attached att \<Rightarrow> to_pretty_attachment tc att
         | RespError e \<Rightarrow> Inl (''attach rejected: '' @ rpc_message e)
         | other \<Rightarrow> unexpected tc ''Attached'' other))"
| "fabric_verb tc call (FaRelease lease_json) =
     and_then (map_err (\<lambda>e. ''lease JSON is not a Lease: '' @ e) (to_parse_lease tc lease_json)) (\<lambda>l.
       and_then (call (Release l)) (\<lambda>resp.
         case resp of
           RespReleased \<Rightarrow> Inr ''released=true''
         | RespError e \<Rightarrow> Inl (''release rejected: '' @ rpc_message e)
         | other \<Rightarrow> unexpected tc ''Released'' other))"

text \<open>The whole program: a failing close of the connection hides the result of the verb.\<close>

definition fabric_tool ::
  "tool_codec \<Rightarrow> (endpoint_addr \<Rightarrow> string + (rpc_request \<Rightarrow> string + rpc_response)) \<Rightarrow> string option
     \<Rightarrow> string \<Rightarrow> fabric_action \<Rightarrow> string + string"
where
  "fabric_tool tc connect close_error addr action =
     and_then (map_err (\<lambda>e. ''--addr is not a JSON EndpointAddr: '' @ e) (to_parse_addr tc addr)) (\<lambda>endpoint.
       and_then (map_err (\<lambda>e. ''agent unreachable: '' @ e) (connect (prefer_direct endpoint))) (\<lambda>call.
         (let result = fabric_verb tc call action
          in case close_error of Some e \<Rightarrow> Inl e | None \<Rightarrow> result)))"

end
