(* ===== verification/Agent_Tools_Properties.thy ===== *)
theory Agent_Tools_Properties
  imports Agent_Tools
begin

text \<open>
  The agent, its adapters and a client together: the controller's proof session against a freshly
  started agent goes through on every machine and leaves the agent as it was, and the verbs of the
  command line do what the fabric behind the agent does.
\<close>

subsection \<open>The agent's fabric\<close>

lemma update_same: "map_of m k = Some v \<Longrightarrow> AList.update k v m = m"
  by (induction m) (auto split: if_splits)

lemma fold_register_frame:
  "leases (fold register rs F) = leases F" "attachments (fold register rs F) = attachments F"
  "next_lease_id (fold register rs F) = next_lease_id F" "adapters (fold register rs F) = adapters F"
  "heartbeats (fold register rs F) = heartbeats F"
  by (induction rs arbitrary: F) (simp_all add: register_def)

lemma agent_fabric_simps:
  "leases (agent_fabric ops wgpu si nvml rocm h node) = []"
  "leases_poisoned (agent_fabric ops wgpu si nvml rocm h node) = False"
  "attachments (agent_fabric ops wgpu si nvml rocm h node) = []"
  "next_lease_id (agent_fabric ops wgpu si nvml rocm h node) = 0"
  "map_of (resources (agent_fabric ops wgpu si nvml rocm h node)) ''gpu.virtual.0'' = Some (proof_gpu node)"
  by (simp_all add: agent_fabric_def agent_adapters_def register_adapter_def discover_local_def Let_def
      fold_register_frame fold_register_leases register_def default_fabric_def proof_gpu_def lookup_simps)

lemma agent_fabric_adapter:
  "map_of (adapters (agent_fabric (nauti_ops nv rc) wgpu si nvml rocm h node)) ''local-proof'' = Some LocalProofAdapter"
  by (simp add: agent_fabric_def agent_adapters_def register_adapter_def lookup_simps)

subsection \<open>One resource's life on a quiet fabric\<close>

text \<open>What the proof session does between the lease and the release, once for the demonstration and once
  for the agent: on a fabric without leases and attachments the three operations undo each other.\<close>

lemma proof_lease:
  assumes "resource rid F = Some r" "res_state r = Available" "res_exclusive r" "leases F = []" "\<not> leases_poisoned F"
    and "now' + int ttl < instant_limit"
  shows "lease_exclusive rid owner ttl now now' F =
    (Done (Inr \<lparr>lease_id = next_lease_id F + 1, lease_resource = rid, lease_owner = owner\<rparr>),
     F\<lparr>leases := [(rid, \<lparr>al_lease = \<lparr>lease_id = next_lease_id F + 1, lease_resource = rid, lease_owner = owner\<rparr>,
                        al_expires_at = now' + int ttl\<rparr>)],
       next_lease_id := next_lease_id F + 1\<rparr>)"
  using assms by (simp add: lease_exclusive_def prune_def has_key_def instant_add_def Let_def)

lemma proof_attach:
  assumes "resource (lease_resource l) F = Some r" "\<not> leases_poisoned F" "attachments F = []"
    and "leases F = [(lease_resource l, \<lparr>al_lease = l, al_expires_at = e\<rparr>)]" "t < e"
    and "map_of (adapters F) ''local-proof'' = Some LocalProofAdapter" "res_id r = lease_resource l"
  shows "attach (nauti_ops nv rc) ''local-proof'' l t F h =
    (Done (Inr \<lparr>att_resource = lease_resource l, att_lease = lease_id l, att_adapter = ''local-proof'', att_details = []\<rparr>),
     F\<lparr>attachments := [(lease_resource l, ''local-proof'')]\<rparr>, h)"
  using assms by (simp add: attach_def authorized_def local_proof_attach_def update_same)

lemma proof_release:
  assumes "resource (lease_resource l) F = Some r" "\<not> leases_poisoned F"
    and "attachments F = [(lease_resource l, ''local-proof'')]"
    and "leases F = [(lease_resource l, \<lparr>al_lease = l, al_expires_at = e\<rparr>)]"
    and "map_of (adapters F) ''local-proof'' = Some LocalProofAdapter"
  shows "release (nauti_ops nv rc) l F h = (Done (Inr ()), F\<lparr>attachments := [], leases := []\<rparr>, h)"
  using assms
  by (simp add: release_def release_detach_def release_finish_def holds_def resource_def default_detach_def
      update_same Let_def)

definition session_lease :: lease where
  "session_lease = \<lparr>lease_id = 1, lease_resource = ''gpu.virtual.0'', lease_owner = ''agent-connect-proof''\<rparr>"

definition session_attachment :: attachment where
  "session_attachment = \<lparr>att_resource = ''gpu.virtual.0'', att_lease = 1, att_adapter = ''local-proof'', att_details = []\<rparr>"

text \<open>C16. On every machine the controller's proof session against a freshly started agent without
  authentication goes through: it is answered, in order, by a pong, the agent's inventory, lease number
  one on the proof GPU, its attachment and its release, provided the attach comes within the thirty
  seconds of the lease; and afterwards the agent's fabric and machine are what they were, except that
  the lease number is used up.\<close>

theorem proof_session_goes_through:
  assumes "snd (clock 2) + int (from_secs 30) < instant_limit" "fst (clock 3) < snd (clock 2) + int (from_secs 30)"
    and F_def: "F = agent_fabric (nauti_ops nv rc) wgpu si nvml rocm h node"
  shows "agent_connect show_response None (served_by (nauti_ops nv rc) NoAuth ctx clock lost) (0, F, h)
    = (Inr [Pong, RespInventory (list_resources F), Leased session_lease, Attached session_attachment, RespReleased],
       5, F\<lparr>next_lease_id := 1\<rparr>, h)"
proof -
  let ?e = "snd (clock 2) + int (from_secs 30)"
  let ?F1 = "F\<lparr>leases := [(''gpu.virtual.0'', \<lparr>al_lease = session_lease, al_expires_at = ?e\<rparr>)], next_lease_id := 1\<rparr>"
  let ?F2 = "?F1\<lparr>attachments := [(''gpu.virtual.0'', ''local-proof'')]\<rparr>"
  have F: "resource ''gpu.virtual.0'' F = Some (proof_gpu node)" "leases F = []" "\<not> leases_poisoned F"
    "attachments F = []" "next_lease_id F = 0" "map_of (adapters F) ''local-proof'' = Some LocalProofAdapter"
    by (simp_all add: F_def resource_def agent_fabric_simps agent_fabric_adapter)
  have rid [simp]: "lease_resource session_lease = ''gpu.virtual.0''" "lease_id session_lease = 1"
    by (simp_all add: session_lease_def)
  let ?call = "served_by (nauti_ops nv rc) NoAuth ctx clock lost"
  have leased: "?call (LeaseExclusive ''gpu.virtual.0'' ''agent-connect-proof'' 30) (2, F, h) = (Inr (Leased session_lease), 3, ?F1, h)"
    using proof_lease [OF F(1) _ _ F(2,3) assms(1), of "''agent-connect-proof''" "fst (clock 2)"]
    by (simp add: served_by_def handle_def proof_gpu_def F(5) session_lease_def)
  have attached: "?call (Attach ''local-proof'' session_lease) (3, ?F1, h) = (Inr (Attached session_attachment), 4, ?F2, h)"
    using proof_attach [of session_lease ?F1 "proof_gpu node" ?e "fst (clock 3)" nv rc h] F assms(2)
    by (simp add: served_by_def handle_def resource_def proof_gpu_def session_attachment_def)
  have "?F2\<lparr>attachments := [], leases := []\<rparr> = F\<lparr>next_lease_id := 1\<rparr>"
    using F by simp
  then have released: "?call (Release session_lease) (4, ?F2, h) = (Inr RespReleased, 5, F\<lparr>next_lease_id := 1\<rparr>, h)"
    using proof_release [of session_lease ?F2 "proof_gpu node" ?e nv rc h] F
    by (simp add: served_by_def handle_def resource_def)
  have pong: "?call Ping (0, F, h) = (Inr Pong, 1, F, h)"
    and inventory: "?call ReqInventory (1, F, h) = (Inr (RespInventory (list_resources F)), 2, F, h)"
    by (simp_all add: served_by_def handle_def)
  show ?thesis
    unfolding agent_connect_def
    by (simp only: pong inventory leased attached released prod.case sum.case rpc_response.case option.case)
qed

definition empty_machine :: sys_info where
  "empty_machine = \<lparr>si_parallelism = None, si_total_memory = 0, si_disks = [], si_networks = []\<rparr>"

theorem proof_session_goes_through_witness:
  "fst (agent_connect (\<lambda>_. '''') None (served_by (nauti_ops [] None) NoAuth \<lparr>rc_remote_endpoint_id = ''c'', rc_local_endpoint_id = ''a''\<rparr>
      (\<lambda>_. (0, 0)) ''lost'') (0, agent_fabric (nauti_ops [] None) False empty_machine [] None bare_host ''n'', bare_host))
    = Inr [Pong, RespInventory (list_resources (agent_fabric (nauti_ops [] None) False empty_machine [] None bare_host ''n'')),
        Leased session_lease, Attached session_attachment, RespReleased]"
  by (subst proof_session_goes_through [OF _ _ refl]) (simp_all add: from_secs_def nanos_per_sec_def instant_limit_def)

text \<open>The demonstration is the same life on a fabric of its own.\<close>

lemma demo_succeeds:
  assumes "snd c + int (from_secs 30) < instant_limit" "t < snd c + int (from_secs 30)"
  shows "demo (nauti_ops nv rc) c t h = Done (Inr (1, ''local-proof''))"
proof -
  let ?l = "\<lparr>lease_id = 1, lease_resource = ''gpu.virtual.0'', lease_owner = ''forge-demo''\<rparr>"
  let ?e = "snd c + int (from_secs 30)"
  let ?F = "demo_fabric (nauti_ops nv rc)"
  let ?F1 = "?F\<lparr>leases := [(''gpu.virtual.0'', \<lparr>al_lease = ?l, al_expires_at = ?e\<rparr>)], next_lease_id := 1\<rparr>"
  let ?F2 = "?F1\<lparr>attachments := [(''gpu.virtual.0'', ''local-proof'')]\<rparr>"
  have F: "resource ''gpu.virtual.0'' ?F = Some (proof_gpu ''local'')" "leases ?F = []" "\<not> leases_poisoned ?F"
    "attachments ?F = []" "next_lease_id ?F = 0" "map_of (adapters ?F) ''local-proof'' = Some LocalProofAdapter"
    by (simp_all add: demo_fabric_def resource_def register_def register_adapter_def default_fabric_def proof_gpu_def)
  have "lease_exclusive ''gpu.virtual.0'' ''forge-demo'' (from_secs 30) (fst c) (snd c) ?F = (Done (Inr ?l), ?F1)"
    using proof_lease [OF F(1) _ _ F(2,3) assms(1), of "''forge-demo''" "fst c"] by (simp add: proof_gpu_def F(5))
  moreover have "attach (nauti_ops nv rc) ''local-proof'' ?l t ?F1 h =
      (Done (Inr \<lparr>att_resource = ''gpu.virtual.0'', att_lease = 1, att_adapter = ''local-proof'', att_details = []\<rparr>), ?F2, h)"
    using proof_attach [of ?l ?F1 "proof_gpu ''local''" ?e t nv rc h] F assms(2) by (simp add: resource_def proof_gpu_def)
  moreover have "release (nauti_ops nv rc) ?l ?F2 h = (Done (Inr ()), ?F2\<lparr>attachments := [], leases := []\<rparr>, h)"
    using proof_release [of ?l ?F2 "proof_gpu ''local''" ?e nv rc h] F by (simp add: resource_def)
  ultimately show ?thesis
    by (simp add: demo_def)
qed

subsection \<open>The verbs\<close>

text \<open>The arguments \<open>key=value\<close> of a search: keys may hold no equals sign, values any text.\<close>

lemma parse_attrs_pairs:
  "list_all (\<lambda>(k, v). CHR ''='' \<notin> set k) kvs \<Longrightarrow>
     parse_attrs (map (\<lambda>(k, v). k @ CHR ''='' # v) kvs) m = Inr (fold (\<lambda>(k, v). bt_insert k v) kvs m)"
  by (induction kvs arbitrary: m) (auto simp: split_once_append)

lemma parse_attrs_error:
  "(\<exists>e. parse_attrs args m = Inl e) \<longleftrightarrow> (\<exists>a \<in> set args. CHR ''='' \<notin> set a)"
  by (induction args arbitrary: m) (auto simp: split_once_None split: option.splits dest: split_once_SomeD)

text \<open>A search from the command line prints what the agent's fabric finds for the request it describes.\<close>

lemma find_verb_is_find_available:
  assumes "\<not> leases_poisoned F"
  shows "fabric_verb tc (\<lambda>req. fst (served_by ops NoAuth ctx clock lost req (i, F, w)))
      (FaFind kind min_capacity node attr_args exclusive)
    = and_then (find_request kind min_capacity node attr_args exclusive) (\<lambda>q.
        to_pretty_resources tc (filter (\<lambda>r. request_matches q r
            \<and> (\<not> res_exclusive r \<or> \<not> has_key (leases F) (res_id r))) (map snd (resources F))))"
  using assms by (cases "find_request kind min_capacity node attr_args exclusive")
    (simp_all add: served_by_def handle_def find_available_def)

text \<open>A verb that reports success got the answer of its kind: a refusal of the agent is never printed as
  a result.\<close>

lemma verbs_report_refusals:
  assumes "call (LeaseExclusive rid owner ttl) = Inr (RespError e)" "to_parse_lease tc s = Inr l"
    "call (Attach adapter l) = Inr (RespError e)" "call (Release l) = Inr (RespError e)"
  shows "fabric_verb tc call (FaLease rid owner ttl) = Inl (''lease rejected: '' @ rpc_message e)"
    "fabric_verb tc call (FaAttach adapter s) = Inl (''attach rejected: '' @ rpc_message e)"
    "fabric_verb tc call (FaRelease s) = Inl (''release rejected: '' @ rpc_message e)"
  using assms by simp_all

text \<open>The agent answers what the client wrote: a call over a stream that carries the agent's frame
  returns the response the agent sent.\<close>

lemma client_call_answer:
  assumes "write_frame to_vec req = Inr frame" "write_frame enc resp = Inr answer" "enc resp = Inr payload"
    and "length payload \<le> unat max_frame_bytes" "from_slice payload = Inr resp"
  shows "client_call to_vec from_slice None req \<lparr>rs_bytes = answer @ rest, rs_end = e\<rparr>
    = (Inr resp, frame, \<lparr>rs_bytes = rest, rs_end = e\<rparr>)"
  using write_then_read [OF assms(2,3,4), of from_slice rest e] assms(1,5) by (simp add: client_call_def)

end
