(* ===== verification/Gpu_Enrichment.thy ===== *)
theory Gpu_Enrichment
  imports Gpu_Discovery Http
begin

text \<open>
  The two optional sources of GPU facts: the output of \<open>rocm-smi\<close> merged into the AMD telemetry
  (\<open>gpu/rocm.rs\<close>) and the legacy NVML enumeration (\<open>gpu/mod.rs\<close>). The tool is run on the host,
  \<open>serde_json\<close> and the NVML library are arguments.
\<close>

subsection \<open>Reading the values of the tool\<close>

definition split_once_ws :: "string \<Rightarrow> (string \<times> string) option" where
  "split_once_ws s =
     (case dropWhile (\<lambda>c. \<not> is_ws c) s of
        [] \<Rightarrow> None
      | _ # rest \<Rightarrow> Some (takeWhile (\<lambda>c. \<not> is_ws c) s, rest))"

definition parse_human_bytes :: "string \<Rightarrow> u64 option" where
  "parse_human_bytes s =
     (case split_once_ws (trim s) of
        None \<Rightarrow> None
      | Some (num, unit) \<Rightarrow>
          (case parse_f64 (trim num) of
             None \<Rightarrow> None
           | Some n \<Rightarrow>
               (let mult = (if CHR ''G'' \<in> set (to_upper unit) then 1024 * 1024 * 1024 else 1024 * 1024 :: nat)
                in Some (f_to_word (f_mul n (f_of_nat mult))))))"

definition parse_pct :: "string \<Rightarrow> u32 option" where
  "parse_pct s = map_option f_to_word (parse_f64 (trim (trim_end_matches (\<lambda>c. c = CHR ''%'') (trim s))))"

definition card_index_to_bdf :: "host \<Rightarrow> (u32 \<times> string) list" where
  "card_index_to_bdf h =
     fold (\<lambda>(idx, bdf). bt_insert idx bdf)
       (List.map_filter
         (\<lambda>name. if \<not> is_card_name name then None
                 else (case parse_u32 (drop (length ''card'') name) of
                         None \<Rightarrow> None
                       | Some idx \<Rightarrow>
                           map_option (\<lambda>bdf. (idx, bdf))
                             (link_target_name h (path_join (path_join ''/sys/class/drm'' name) ''device''))))
         (read_names h ''/sys/class/drm''))
       []"

subsection \<open>The merge\<close>

text \<open>A field is filled only when it is still empty: every assignment of the loop is under \<open>is_none()\<close>.\<close>

definition fill :: "bool \<Rightarrow> 'a option \<Rightarrow> 'a option \<Rightarrow> 'a option" where
  "fill cond val old = (if cond \<and> old = None then val else old)"

definition nonempty_str :: "json \<Rightarrow> string option" where
  "nonempty_str v = (case j_as_str v of None \<Rightarrow> None | Some s \<Rightarrow> if s = [] then None else Some s)"

definition parsed_str :: "(string \<Rightarrow> 'a option) \<Rightarrow> json \<Rightarrow> 'a option" where
  "parsed_str f v = (case j_as_str v of None \<Rightarrow> None | Some s \<Rightarrow> f s)"

definition smi_field :: "string \<times> json \<Rightarrow> amd_telemetry \<Rightarrow> amd_telemetry" where
  "smi_field = (\<lambda>(k, v) t.
     (let kl = to_lower k
      in t\<lparr>at_product_name := fill (contains kl ''product name'' \<or> contains kl ''vbios'') (nonempty_str v) (at_product_name t),
           at_unique_id := fill (contains kl ''unique_id'' \<or> contains kl ''unique id'') (nonempty_str v) (at_unique_id t),
           at_vram_total_bytes := fill (contains kl ''total'' \<and> contains kl ''vram'') (parsed_str parse_human_bytes v) (at_vram_total_bytes t),
           at_vram_used_bytes := fill (contains kl ''used'' \<and> contains kl ''vram'') (parsed_str parse_human_bytes v) (at_vram_used_bytes t),
           at_utilization_pct := fill (contains kl ''gpu use'' \<or> contains kl ''gpu utilization'') (parsed_str parse_pct v) (at_utilization_pct t),
           at_temperature_c := fill (contains kl ''temperature'') (parsed_str parse_pct v) (at_temperature_c t)\<rparr>))"

definition smi_default :: amd_telemetry where
  "smi_default = \<lparr>at_product_name = None, at_unique_id = None, at_vram_total_bytes = None, at_vram_used_bytes = None,
     at_utilization_pct = None, at_temperature_c = None, at_source = ''rocm-smi''\<rparr>"

definition smi_bdf :: "(u32 \<times> string) list \<Rightarrow> string \<Rightarrow> string option" where
  "smi_bdf cards key =
     (case strip_prefix key ''card'' of
        Some i \<Rightarrow> (case parse_u32 i of None \<Rightarrow> None | Some n \<Rightarrow> map_of cards n)
      | None \<Rightarrow> Some key)"

definition smi_table :: "(u32 \<times> string) list \<Rightarrow> string \<times> json \<Rightarrow> amd_telemetry smap \<Rightarrow> amd_telemetry smap" where
  "smi_table cards = (\<lambda>(key, table) m.
     (case smi_bdf cards key of
        None \<Rightarrow> m
      | Some bdf \<Rightarrow>
          (case j_as_object table of
             None \<Rightarrow> m
           | Some obj \<Rightarrow>
               (let entry = unwrap_or (map_of m bdf) smi_default;
                    relabelled = (if at_source entry = ''rocm-sysfs'' then entry\<lparr>at_source := ''rocm-smi''\<rparr> else entry)
                in bt_insert bdf (fold smi_field obj relabelled) m))))"

definition rocm_smi_args :: "string list" where
  "rocm_smi_args = [''--showproductname'', ''--showmeminfo'', ''vram'', ''--showuse'', ''--showtemp'', ''--json'']"

definition merge_rocm_smi :: "(string \<Rightarrow> json option) \<Rightarrow> host \<Rightarrow> amd_telemetry smap \<Rightarrow> amd_telemetry smap" where
  "merge_rocm_smi parse h m =
     (case h_output h ''rocm-smi'' rocm_smi_args of
        Some (True, out) \<Rightarrow>
          (case parse (from_utf8_lossy out) of
             None \<Rightarrow> m
           | Some parsed \<Rightarrow>
               (case j_as_object parsed of
                  None \<Rightarrow> m
                | Some tables \<Rightarrow> fold (smi_table (card_index_to_bdf h)) tables m))
      | _ \<Rightarrow> m)"

subsection \<open>The legacy NVML enumeration\<close>

record gpu_device_report =
  gl_index :: u32
  gl_name :: string
  gl_uuid :: string
  gl_total_memory_bytes :: u64
  gl_free_memory_bytes :: u64
  gl_pci_bus_id :: string

datatype gpu_error = GpuLoad string | GpuDevice u32 string

record nvml_device =
  nd_name :: "string + string"
  nd_uuid :: "string + string"
  nd_memory :: "string + (u64 \<times> u64)"
  nd_pci_bus_id :: "string + string"

record nvml_library =
  nl_device_count :: "string + u32"
  nl_device :: "u32 \<Rightarrow> string + nvml_device"

definition nvml_report :: "nvml_library \<Rightarrow> u32 \<Rightarrow> gpu_error + gpu_device_report" where
  "nvml_report lib index =
     and_then (map_err (GpuDevice index) (nl_device lib index)) (\<lambda>device.
       and_then (map_err (GpuDevice index) (nd_name device)) (\<lambda>name.
         and_then (map_err (GpuDevice index) (nd_uuid device)) (\<lambda>uuid.
           and_then (map_err (GpuDevice index) (nd_memory device)) (\<lambda>(memory_total, memory_free).
             and_then (map_err (GpuDevice index) (nd_pci_bus_id device)) (\<lambda>bus_id.
               Inr \<lparr>gl_index = index, gl_name = name, gl_uuid = uuid, gl_total_memory_bytes = memory_total,
                 gl_free_memory_bytes = memory_free, gl_pci_bus_id = bus_id\<rparr>)))))"

fun nvml_reports :: "nvml_library \<Rightarrow> nat list \<Rightarrow> gpu_error + gpu_device_report list" where
  "nvml_reports lib [] = Inr []"
| "nvml_reports lib (i # is) =
     and_then (nvml_report lib (of_nat i)) (\<lambda>r. and_then (nvml_reports lib is) (\<lambda>rs. Inr (r # rs)))"

definition gpu_topology_discover :: "string + nvml_library \<Rightarrow> gpu_error + gpu_device_report list" where
  "gpu_topology_discover init =
     and_then (map_err GpuLoad init) (\<lambda>lib.
       and_then (map_err GpuLoad (nl_device_count lib)) (\<lambda>count. nvml_reports lib [0..<unat count]))"

definition gpu_topology_as_resources :: "string \<Rightarrow> gpu_device_report list \<Rightarrow> resource list" where
  "gpu_topology_as_resources node devices =
     map (\<lambda>g. \<lparr>res_id = ''local.gpu.'' @ show_word (gl_index g), res_kind = Gpu, res_capacity = gl_total_memory_bytes g,
              res_unit = ''bytes'', res_node = node, res_state = Available, res_exclusive = True,
              res_attributes = bt_from [(''gpu.name'', gl_name g), (''gpu.uuid'', gl_uuid g),
                (''gpu.pci_bus_id'', gl_pci_bus_id g), (''gpu.free_memory_bytes'', show_word (gl_free_memory_bytes g))]\<rparr>)
       devices"

subsection \<open>Facts\<close>

text \<open>One telemetry record has everything another one knows.\<close>

definition keeps :: "'a option \<Rightarrow> 'a option \<Rightarrow> bool" where
  "keeps x y = (x = None \<or> y = x)"

definition knows_all_of :: "amd_telemetry \<Rightarrow> amd_telemetry \<Rightarrow> bool" where
  "knows_all_of t' t =
     (keeps (at_product_name t) (at_product_name t') \<and> keeps (at_unique_id t) (at_unique_id t')
      \<and> keeps (at_vram_total_bytes t) (at_vram_total_bytes t') \<and> keeps (at_vram_used_bytes t) (at_vram_used_bytes t')
      \<and> keeps (at_utilization_pct t) (at_utilization_pct t') \<and> keeps (at_temperature_c t) (at_temperature_c t'))"

lemma keeps_fill: "keeps x (fill c v x)"
  by (auto simp: keeps_def fill_def)

lemma keeps_trans: "keeps x y \<Longrightarrow> keeps y z \<Longrightarrow> keeps x z"
  by (auto simp: keeps_def)

lemma knows_refl: "knows_all_of t t"
  by (simp add: knows_all_of_def keeps_def)

lemma knows_trans: "knows_all_of t3 t2 \<Longrightarrow> knows_all_of t2 t1 \<Longrightarrow> knows_all_of t3 t1"
  unfolding knows_all_of_def by (blast intro: keeps_trans)

lemma smi_field_knows: "knows_all_of (smi_field kv t) t"
  by (cases kv) (simp add: smi_field_def knows_all_of_def Let_def keeps_fill)

lemma smi_fields_know: "knows_all_of (fold smi_field obj t) t"
  by (induction obj arbitrary: t) (auto intro: knows_refl knows_trans smi_field_knows)

lemma relabel_knows: "knows_all_of (t\<lparr>at_source := s\<rparr>) t"
  by (simp add: knows_all_of_def keeps_def)

lemma smi_entry_knows: "knows_all_of (fold smi_field obj (t\<lparr>at_source := s\<rparr>)) t"
  by (rule knows_trans [OF smi_fields_know relabel_knows])

lemma smi_table_knows:
  assumes "map_of m b = Some t"
  shows "\<exists>t'. map_of (smi_table cards kv m) b = Some t' \<and> knows_all_of t' t"
proof -
  obtain key table where kv: "kv = (key, table)" by (cases kv)
  have "\<exists>t'. map_of (bt_insert bdf (fold smi_field obj (if at_source e = s then e\<lparr>at_source := s'\<rparr> else e)) m) b = Some t'
      \<and> knows_all_of t' t" if "e = unwrap_or (map_of m bdf) smi_default" for bdf obj e s s'
    using assms that
    by (auto simp: get_bt_insert knows_refl smi_entry_knows smi_fields_know)
  then show ?thesis
    using assms by (auto simp: kv smi_table_def Let_def knows_refl split: option.split)
qed

text \<open>What sysfs said about a card survives the merge of \<open>rocm-smi\<close>: every card stays in the telemetry and
  every value that was known keeps its value; the tool only fills gaps.\<close>

theorem rocm_smi_never_overrides:
  "map_of m b = Some t \<Longrightarrow> \<exists>t'. map_of (merge_rocm_smi parse h m) b = Some t' \<and> knows_all_of t' t"
proof -
  have "map_of m b = Some t \<Longrightarrow> \<exists>t'. map_of (fold (smi_table cards) tables m) b = Some t' \<and> knows_all_of t' t"
    for cards tables m t
  proof (induction tables arbitrary: m t)
    case (Cons kv tables)
    obtain t1 where "map_of (smi_table cards kv m) b = Some t1" "knows_all_of t1 t"
      using smi_table_knows [OF Cons.prems] by blast
    with Cons.IH [of "smi_table cards kv m" t1] show ?case
      by (auto intro: knows_trans)
  qed (simp add: knows_refl)
  then show "map_of m b = Some t \<Longrightarrow> ?thesis"
    by (auto simp: merge_rocm_smi_def knows_refl split: option.split prod.split bool.split)
qed

definition sysfs_only :: amd_telemetry where
  "sysfs_only = smi_default\<lparr>at_temperature_c := Some 45, at_source := ''rocm-sysfs''\<rparr>"

theorem rocm_smi_never_overrides_witness:
  "\<exists>t'. map_of (merge_rocm_smi (\<lambda>_. Some (JObj [(''0000:03:00.0'', JObj [(''Temperature (C)'', JStr ''99.0'')])]))
        (bare_host\<lparr>h_output := \<lambda>_ _. Some (True, ''{}'')\<rparr>) [(''0000:03:00.0'', sysfs_only)]) ''0000:03:00.0'' = Some t'
     \<and> knows_all_of t' sysfs_only"
  by (rule rocm_smi_never_overrides) simp

text \<open>Without the tool, or when it fails, the telemetry is what sysfs gave.\<close>

lemma merge_without_tool:
  "h_output h ''rocm-smi'' rocm_smi_args = None \<or> (\<exists>out. h_output h ''rocm-smi'' rocm_smi_args = Some (False, out))
     \<Longrightarrow> merge_rocm_smi parse h m = m"
  by (auto simp: merge_rocm_smi_def)

text \<open>The legacy enumeration reports the devices in order, one for each index, or the first failure.\<close>

lemma nvml_reports_Inr:
  "nvml_reports lib is = Inr rs \<longleftrightarrow> list_all2 (\<lambda>i r. nvml_report lib (of_nat i) = Inr r) is rs"
  by (induction "is" arbitrary: rs) (auto simp: and_then_Inr list_all2_Cons1)

lemma gpu_topology_one_report_per_device:
  assumes "gpu_topology_discover (Inr lib) = Inr rs" "nl_device_count lib = Inr count"
  shows "length rs = unat count \<and> (\<forall>i < unat count. gl_index (rs ! i) = of_nat i)"
proof -
  have l: "list_all2 (\<lambda>i r. nvml_report lib (of_nat i) = Inr r) [0..<unat count] rs"
    using assms by (simp add: gpu_topology_discover_def nvml_reports_Inr)
  have "gl_index r = i" if "nvml_report lib i = Inr r" for i r
    using that by (auto simp: nvml_report_def and_then_Inr)
  then show ?thesis
    using l by (auto simp: list_all2_conv_all_nth)
qed

end
