(* ===== verification/Gpu_Nvml.thy ===== *)
theory Gpu_Nvml
  imports Gpu_Enrichment
begin

text \<open>
  The NVML side of GPU discovery: \<open>nvml_by_bdf\<close> of \<open>gpu/discover.rs\<close> collects what NVML says of each card
  under the card's normalised PCI address, the key by which the cards found in sysfs are enriched. The
  library is a parameter: the number of cards, and for each the answer to every query.
\<close>

record nvml_card =
  nc_name :: "string + string"
  nc_uuid :: "string + string"
  nc_memory :: "string + (u64 \<times> u64)"
  nc_utilization :: "string + u32"
  nc_temperature :: "string + u32"
  nc_pci_bus_id :: "string + string"

record nvml_service =
  ns_device_count :: "string + u32"
  ns_device :: "u32 \<Rightarrow> string + nvml_card"

definition or_default :: "'e + 'a \<Rightarrow> 'a \<Rightarrow> 'a" where
  "or_default r d = (case r of Inl _ \<Rightarrow> d | Inr x \<Rightarrow> x)"

definition to_option :: "'e + 'a \<Rightarrow> 'a option" where
  "to_option r = (case r of Inl _ \<Rightarrow> None | Inr x \<Rightarrow> Some x)"

definition card_bdf :: "nvml_card \<Rightarrow> string" where
  "card_bdf c = or_default (map_sum (\<lambda>e. e) normalize_bdf (nc_pci_bus_id c)) []"

definition card_row :: "u32 \<Rightarrow> nvml_card \<Rightarrow> nvml_row" where
  "card_row idx c = (or_default (nc_name c) [], or_default (nc_uuid c) [], idx, fst (or_default (nc_memory c) (0, 0)),
     snd (or_default (nc_memory c) (0, 0)), to_option (nc_utilization c), to_option (nc_temperature c))"

definition insert_card :: "nvml_service \<Rightarrow> nat \<Rightarrow> nvml_row smap \<Rightarrow> nvml_row smap" where
  "insert_card s i m =
     (case ns_device s (of_nat i) of
        Inl _ \<Rightarrow> m
      | Inr c \<Rightarrow> if card_bdf c \<noteq> [] then bt_insert (card_bdf c) (card_row (of_nat i) c) m else m)"

definition nvml_by_bdf :: "string + nvml_service \<Rightarrow> nvml_row smap" where
  "nvml_by_bdf init =
     (case init of
        Inl _ \<Rightarrow> []
      | Inr s \<Rightarrow>
          (case ns_device_count s of
             Inl _ \<Rightarrow> []
           | Inr count \<Rightarrow> fold (insert_card s) [0..<unat count] []))"

subsection \<open>What the map holds\<close>

text \<open>The cards NVML reports under an address: normally one.\<close>

definition cards_at :: "nvml_service \<Rightarrow> string \<Rightarrow> nat list \<Rightarrow> nat list" where
  "cards_at s b = filter (\<lambda>i. b \<noteq> [] \<and> (case ns_device s (of_nat i) of Inl _ \<Rightarrow> False | Inr c \<Rightarrow> card_bdf c = b))"

lemma insert_card_get:
  "map_of (insert_card s i m) b =
     (if cards_at s b [i] = [] then map_of m b else Some (card_row (of_nat i) (projr (ns_device s (of_nat i)))))"
  by (cases "ns_device s (of_nat i)") (auto simp: insert_card_def cards_at_def get_bt_insert)

lemma fold_insert_card_get:
  "map_of (fold (insert_card s) is m) b =
     (if cards_at s b is = [] then map_of m b
      else Some (card_row (of_nat (last (cards_at s b is))) (projr (ns_device s (of_nat (last (cards_at s b is)))))))"
proof (induction "is" arbitrary: m)
  case (Cons i "is")
  then show ?case
    by (simp add: insert_card_get) (simp add: cards_at_def)
qed (simp add: cards_at_def)

text \<open>A card found in sysfs takes its name, uuid and index from the card NVML reports at its address: when only one
  is reported there, from that one.\<close>

lemma enriched_by_its_own_card:
  assumes "ns_device_count s = Inr count" "i < unat count" "ns_device s (of_nat i) = Inr c" "card_bdf c = gd_pci_bdf d"
    and "gd_pci_bdf d \<noteq> []" "gd_vendor d = Nvidia"
    and "\<And>j c'. j < unat count \<Longrightarrow> ns_device s (of_nat j) = Inr c' \<Longrightarrow> card_bdf c' = gd_pci_bdf d \<Longrightarrow> j = i"
  shows "gd_nvml_index (nvml_enrich (nvml_by_bdf (Inr s)) d) = Some (of_nat i)"
    and "gd_uuid (nvml_enrich (nvml_by_bdf (Inr s)) d) = Some (or_default (nc_uuid c) [])"
proof -
  let ?is = "cards_at s (gd_pci_bdf d) [0..<unat count]"
  have only: "j = i" if "j \<in> set ?is" for j
    using that assms(7) [of j] by (auto simp: cards_at_def split: sum.splits)
  have "i \<in> set ?is"
    using assms(2-5) by (simp add: cards_at_def)
  then have "?is \<noteq> []" by (metis empty_iff empty_set)
  moreover from this have "last ?is = i" by (intro only last_in_set)
  ultimately have "map_of (nvml_by_bdf (Inr s)) (gd_pci_bdf d) = Some (card_row (of_nat i) c)"
    using assms(1,3) by (simp add: nvml_by_bdf_def fold_insert_card_get)
  then show "gd_nvml_index (nvml_enrich (nvml_by_bdf (Inr s)) d) = Some (of_nat i)"
    and "gd_uuid (nvml_enrich (nvml_by_bdf (Inr s)) d) = Some (or_default (nc_uuid c) [])"
    using assms(6) by (simp_all add: card_row_def)
qed

end
