(* ===== verification/Fleet.thy ===== *)
theory Fleet
  imports Rpc Http
begin

text \<open>
  The fleet side of \<open>bin/nauti.rs\<close>: the agent's persistent identity, the address files agents leave
  and controllers find, the probe of one node with its round-trip statistics, the fleet view that is
  written for the planner, and the offline planner. Network, clock and the serialization of values
  are arguments; an object made with \<open>json!\<close> that the code reads again is a \<open>json\<close> value, the others
  are records with the object's keys.
\<close>

subsection \<open>Files\<close>

definition addr_file_dir :: "host \<Rightarrow> string" where
  "addr_file_dir h = unwrap_or (h_env h ''NAUTI_AGENT_ADDR_DIR'') ''/var/lib/nauti''"

definition trim_slashes :: "string \<Rightarrow> string" where
  "trim_slashes = trim_end_matches (\<lambda>c. c = CHR ''/'')"

definition agent_key_path :: "host \<Rightarrow> string \<Rightarrow> string" where
  "agent_key_path h node = trim_slashes (addr_file_dir h) @ ''/'' @ node @ ''-secret.key''"

definition addr_file_path :: "host \<Rightarrow> string \<Rightarrow> string" where
  "addr_file_path h node = trim_slashes (addr_file_dir h) @ ''/'' @ node @ ''-addr.json''"

text \<open>\<open>Path::parent\<close> of a path that ends in a file name.\<close>

definition path_parent :: "string \<Rightarrow> string option" where
  "path_parent p =
     (case rsplit_once (CHR ''/'') p of
        None \<Rightarrow> if p = [] then None else Some []
      | Some (dir, name) \<Rightarrow> if dir = [] \<and> name = [] then None else Some (if dir = [] then ''/'' else dir))"

type_synonym files = "string \<Rightarrow> bytes option"

text \<open>What the system says while the key is read and created: which files cannot be read, the errors of
  making the directory and of opening the new file, and a write that stops after some bytes.\<close>

record key_env =
  ke_unreadable :: "string \<Rightarrow> bool"
  ke_mkdir_error :: "string \<Rightarrow> string option"
  ke_open_error :: "string option"
  ke_write_error :: "(nat \<times> string) option"

definition file_exists_error :: string where
  "file_exists_error = ''File exists (os error 17)''"

definition load_or_create_key_at :: "key_env \<Rightarrow> bytes \<Rightarrow> string \<Rightarrow> files \<Rightarrow> (string + bytes) \<times> files" where
  "load_or_create_key_at env fresh path fs =
     (case (if ke_unreadable env path then None else fs path) of
        Some raw \<Rightarrow>
          (if length raw = 32 then Inr raw
           else Inl (path @ '': expected 32 bytes, found '' @ show_nat (length raw)), fs)
      | None \<Rightarrow>
          (case (case path_parent path of None \<Rightarrow> None
                 | Some parent \<Rightarrow> map_option (\<lambda>e. parent @ '': '' @ e) (ke_mkdir_error env parent)) of
             Some e \<Rightarrow> (Inl e, fs)
           | None \<Rightarrow>
               if fs path \<noteq> None then (Inl (path @ '': '' @ file_exists_error), fs)
               else (case ke_open_error env of
                       Some e \<Rightarrow> (Inl (path @ '': '' @ e), fs)
                     | None \<Rightarrow>
                         (case ke_write_error env of
                            Some (n, e) \<Rightarrow> (Inl (path @ '': '' @ e), fs(path \<mapsto> take n fresh))
                          | None \<Rightarrow> (Inr fresh, fs(path \<mapsto> fresh))))))"

definition persist_addr_json_to ::
  "(string \<Rightarrow> string option) \<Rightarrow> string option \<Rightarrow> string \<Rightarrow> string \<Rightarrow> (string \<Rightarrow> string option) \<Rightarrow> (string + string) \<times> (string \<Rightarrow> string option)"
where
  "persist_addr_json_to mkdir_error write_error path json fs =
     (case (case path_parent path of None \<Rightarrow> None
            | Some parent \<Rightarrow> map_option (\<lambda>e. parent @ '': '' @ e) (mkdir_error parent)) of
        Some e \<Rightarrow> (Inl e, fs)
      | None \<Rightarrow>
          (case write_error of
             Some e \<Rightarrow> (Inl (path @ '': '' @ e), fs)
           | None \<Rightarrow> (Inr path, fs(path \<mapsto> json))))"

definition addr_entry :: "host \<Rightarrow> string \<Rightarrow> (string \<times> string) option" where
  "addr_entry h name =
     (case strip_suffix name ''-addr.json'' of
        None \<Rightarrow> None
      | Some node \<Rightarrow> map_option (\<lambda>raw. (node, raw)) (h_file h (path_join (addr_file_dir h) name)))"

definition fleet_addr_files :: "host \<Rightarrow> (string \<times> string) list" where
  "fleet_addr_files h = sort (List.map_filter (addr_entry h) (read_names h (addr_file_dir h)))"

definition hostname_short :: "host \<Rightarrow> string" where
  "hostname_short h =
     (case h_file h ''/proc/sys/kernel/hostname'' of
        None \<Rightarrow> ''local''
      | Some s \<Rightarrow> hd (split_char (CHR ''.'') (trim s)))"

subsection \<open>Paths\<close>

definition path_label :: "string \<Rightarrow> string option" where
  "path_label ip =
     (if starts_with ip ''10.0.10.'' then Some ''25g''
      else if starts_with ip ''10.44.0.'' then Some ''lan-10.44''
      else if starts_with ip ''192.168.'' then Some ''lan''
      else if starts_with ip ''100.'' then Some ''tailscale''
      else None)"

definition parse_ping_rtt :: "string \<Rightarrow> (f64 \<times> f64 \<times> f64) option" where
  "parse_ping_rtt out =
     (case find (\<lambda>l. contains l ''min/avg/max'') (lines out) of
        None \<Rightarrow> None
      | Some line \<Rightarrow>
          (case split_char (CHR ''='') line of
             _ # second # _ \<Rightarrow>
               (case split_whitespace (trim second) of
                  [] \<Rightarrow> None
                | nums # _ \<Rightarrow>
                    (case List.map_filter parse_f64 (split_char (CHR ''/'') nums) of
                       a # b # c # _ \<Rightarrow> Some (a, b, c)
                     | _ \<Rightarrow> None))
           | _ \<Rightarrow> None))"

record icmp_path =
  ip_label :: string
  ip_ip :: string
  ip_rtt :: "(f64 \<times> f64 \<times> f64) option"

definition ip_reachable :: "icmp_path \<Rightarrow> bool" where
  "ip_reachable p = (ip_rtt p \<noteq> None)"

definition ping_output :: "host \<Rightarrow> string \<Rightarrow> string" where
  "ping_output h ip =
     (case h_output h ''ping'' [''-c'', ''5'', ''-i'', ''0.2'', ''-W'', ''1'', ''-q'', ip] of
        None \<Rightarrow> []
      | Some (_, out) \<Rightarrow> from_utf8_lossy out)"

definition sock_ip :: "string \<Rightarrow> string" where
  "sock_ip sock =
     trim_matches (\<lambda>c. c = CHR ''['' \<or> c = CHR '']'')
       (case rsplit_once (CHR '':'') sock of None \<Rightarrow> sock | Some (host, _) \<Rightarrow> host)"

fun icmp_loop :: "host \<Rightarrow> json list \<Rightarrow> string list \<Rightarrow> icmp_path list" where
  "icmp_loop h [] seen = []"
| "icmp_loop h (item # items) seen =
     (case j_as_str (j_index item ''Ip'') of
        None \<Rightarrow> icmp_loop h items seen
      | Some sock \<Rightarrow>
          (let ip = sock_ip sock in
           case path_label ip of
             None \<Rightarrow> icmp_loop h items seen
           | Some label \<Rightarrow>
               if ip \<in> set seen then icmp_loop h items seen
               else \<lparr>ip_label = label, ip_ip = ip, ip_rtt = parse_ping_rtt (ping_output h ip)\<rparr>
                      # icmp_loop h items (ip # seen)))"

definition icmp_paths :: "host \<Rightarrow> json \<Rightarrow> icmp_path list" where
  "icmp_paths h addr = icmp_loop h (unwrap_or (j_as_array (j_index addr ''addrs'')) []) []"

subsection \<open>Round-trip statistics\<close>

text \<open>\<open>f64::round\<close> rounds half-way cases away from zero; \<open>sort_by\<close> is stable.\<close>

fun f_round :: "f64 \<Rightarrow> f64" where
  "f_round (Fin q) = Fin (if 0 \<le> q then of_int \<lfloor>q + 1 / 2\<rfloor> else - of_int \<lfloor>1 / 2 - q\<rfloor>)"
| "f_round x = x"

fun f_insert :: "f64 \<Rightarrow> f64 list \<Rightarrow> f64 list" where
  "f_insert x [] = [x]"
| "f_insert x (y # ys) = (if f_lt y x then y # f_insert x ys else x # y # ys)"

definition sort_rtts :: "f64 list \<Rightarrow> f64 list" where
  "sort_rtts xs = foldr f_insert xs []"

definition percentile :: "f64 list \<Rightarrow> f64 \<Rightarrow> f64" where
  "percentile sorted_rtts p =
     (if sorted_rtts = [] then Fin 0
      else
        (let idx = unat (f_to_word (f_round (f_mul (f_of_nat (length sorted_rtts - 1)) p)) :: u64)
         in sorted_rtts ! min idx (length sorted_rtts - 1)))"

record rtt_summary =
  rt_samples :: nat
  rt_min :: f64
  rt_median :: f64
  rt_p95 :: f64
  rt_max :: f64

definition summarize_rtts :: "f64 list \<Rightarrow> rtt_summary" where
  "summarize_rtts rtts =
     \<lparr>rt_samples = length rtts, rt_min = (if rtts = [] then Fin 0 else hd rtts),
      rt_median = percentile rtts (f64_round (1 / 2)), rt_p95 = percentile rtts (f64_round (95 / 100)),
      rt_max = (if rtts = [] then Fin 0 else last rtts)\<rparr>"

subsection \<open>The inventory of a node\<close>

record gpu_summary =
  gs_id :: string
  gs_name :: string
  gs_vendor :: string
  gs_driver :: string
  gs_pci_bdf :: string
  gs_numa_node :: string
  gs_vram_bytes :: u64

record rdma_summary =
  rs_device :: string
  rs_state :: string
  rs_rate :: string
  rs_transport :: string
  rs_netdev :: string
  rs_numa_node :: string

record link_summary =
  ls_interface :: string
  ls_speed_mbps :: string
  ls_ipv4 :: string
  ls_rdma_device :: string
  ls_numa_node :: string

record inventory_summary =
  iv_logical_cpus :: u64
  iv_memory_bytes :: u64
  iv_numa_nodes :: nat
  iv_gpus :: "gpu_summary list"
  iv_rdma_ports :: "rdma_summary list"
  iv_links_up :: "link_summary list"

definition attr_of :: "resource \<Rightarrow> string \<Rightarrow> string" where
  "attr_of r k = unwrap_or (map_of (res_attributes r) k) []"

definition capacity_of :: "string \<Rightarrow> resource list \<Rightarrow> u64" where
  "capacity_of rid rs = (case find (\<lambda>r. res_id r = rid) rs of None \<Rightarrow> 0 | Some r \<Rightarrow> res_capacity r)"

definition is_hardware_gpu :: "resource \<Rightarrow> bool" where
  "is_hardware_gpu r =
     (res_kind r = Gpu \<and> starts_with (res_id r) ''local.gpu.'' \<and> \<not> has_key (res_attributes r) ''gpu.transport'')"

definition is_link_up :: "resource \<Rightarrow> bool" where
  "is_link_up r =
     (starts_with (res_id r) ''local.network.'' \<and> \<not> has_key (res_attributes r) ''net.virtual''
      \<and> map_of (res_attributes r) ''net.operstate'' = Some ''up'')"

definition summarize_inventory :: "resource list \<Rightarrow> inventory_summary" where
  "summarize_inventory rs =
     \<lparr>iv_logical_cpus = capacity_of ''local.cpu.logical'' rs, iv_memory_bytes = capacity_of ''local.memory'' rs,
      iv_numa_nodes = length (filter (\<lambda>r. starts_with (res_id r) ''local.numa.'') rs),
      iv_gpus = map (\<lambda>r. \<lparr>gs_id = res_id r, gs_name = attr_of r ''gpu.device_name'', gs_vendor = attr_of r ''gpu.vendor'',
          gs_driver = attr_of r ''gpu.driver'', gs_pci_bdf = attr_of r ''gpu.pci_bdf'',
          gs_numa_node = attr_of r ''gpu.numa_node'', gs_vram_bytes = res_capacity r\<rparr>) (filter is_hardware_gpu rs),
      iv_rdma_ports = map (\<lambda>r. \<lparr>rs_device = attr_of r ''rdma.device'', rs_state = attr_of r ''rdma.state'',
          rs_rate = attr_of r ''rdma.rate'', rs_transport = attr_of r ''rdma.transport'',
          rs_netdev = attr_of r ''rdma.netdev'', rs_numa_node = attr_of r ''rdma.numa_node''\<rparr>)
        (filter (\<lambda>r. starts_with (res_id r) ''local.rdma.'') rs),
      iv_links_up = map (\<lambda>r. \<lparr>ls_interface = attr_of r ''interface'', ls_speed_mbps = attr_of r ''net.speed_mbps'',
          ls_ipv4 = attr_of r ''net.ipv4'', ls_rdma_device = attr_of r ''net.rdma_device'',
          ls_numa_node = attr_of r ''net.numa_node''\<rparr>) (filter is_link_up rs)\<rparr>"

subsection \<open>The probe\<close>

text \<open>What happens when a node is probed: how its address file parses, the connection (\<open>None\<close> is the
  timeout) with the time it took, the answer to each ping (the round trip, or \<open>None\<close> for anything
  but a pong in time), and the inventory, if it came.\<close>

record probe_env =
  pb_addr_value :: "string \<Rightarrow> json option"
  pb_parse_addr :: "string \<Rightarrow> string + endpoint_addr"
  pb_connect :: "endpoint_addr \<Rightarrow> (string + f64) option"
  pb_ping :: "nat \<Rightarrow> f64 option"
  pb_inventory :: "resource list option"

record node_probe =
  np_node :: string
  np_online :: bool
  np_error :: "string option"
  np_connect_ms :: "f64 option"
  np_rtt :: "rtt_summary option"
  np_paths :: "icmp_path list"
  np_resources :: "inventory_summary option"

text \<open>The loop over the pings stops at the first that is not answered.\<close>

definition ping_rtts :: "probe_env \<Rightarrow> nat \<Rightarrow> f64 list" where
  "ping_rtts env samples = map the (takeWhile (\<lambda>x. x \<noteq> None) (map (pb_ping env) [0..<max samples 1]))"

definition probe_failed :: "string \<Rightarrow> string \<Rightarrow> icmp_path list \<Rightarrow> node_probe" where
  "probe_failed node e paths = \<lparr>np_node = node, np_online = False, np_error = Some e, np_connect_ms = None,
     np_rtt = None, np_paths = paths, np_resources = None\<rparr>"

definition probe_node :: "probe_env \<Rightarrow> host \<Rightarrow> nat \<Rightarrow> bool \<Rightarrow> string \<times> string \<Rightarrow> node_probe" where
  "probe_node env h samples with_paths = (\<lambda>(node, raw).
     (let paths = (if with_paths then icmp_paths h (unwrap_or (pb_addr_value env raw) JNull) else []) in
      case pb_parse_addr env raw of
        Inl e \<Rightarrow> probe_failed node (''bad addr file: '' @ e) paths
      | Inr addr \<Rightarrow>
          (case pb_connect env (prefer_direct addr) of
             None \<Rightarrow> probe_failed node ''connect timeout 15s'' paths
           | Some (Inl e) \<Rightarrow> probe_failed node e paths
           | Some (Inr connect_ms) \<Rightarrow>
               (let rtts = sort_rtts (ping_rtts env samples) in
                \<lparr>np_node = node, np_online = (rtts \<noteq> []), np_error = None, np_connect_ms = Some connect_ms,
                 np_rtt = Some (summarize_rtts rtts), np_paths = paths,
                 np_resources = map_option summarize_inventory (pb_inventory env)\<rparr>))))"

subsection \<open>The fleet view\<close>

record fleet_totals =
  ft_nodes :: nat
  ft_online :: nat
  ft_logical_cpus :: u64
  ft_memory_bytes :: u64
  ft_gpus :: nat
  ft_vram_bytes :: u64
  ft_rdma_ports_active :: nat

text \<open>Sums of \<open>u64\<close> wrap as they do in a release build; a debug build panics instead.\<close>

definition fleet_totals_of :: "node_probe list \<Rightarrow> fleet_totals" where
  "fleet_totals_of nodes =
     (let online = filter np_online nodes; invs = List.map_filter np_resources online in
      \<lparr>ft_nodes = length nodes, ft_online = length online,
       ft_logical_cpus = sum_list (map iv_logical_cpus invs), ft_memory_bytes = sum_list (map iv_memory_bytes invs),
       ft_gpus = sum_list (map (length \<circ> iv_gpus) invs),
       ft_vram_bytes = sum_list (map (\<lambda>i. sum_list (map gs_vram_bytes (iv_gpus i))) invs),
       ft_rdma_ports_active =
         sum_list (map (\<lambda>i. length (filter (\<lambda>p. rs_state p = ''ACTIVE'') (iv_rdma_ports i))) invs)\<rparr>)"

text \<open>\<open>json!\<close> turns a float that is not finite into null.\<close>

definition json_f64 :: "f64 \<Rightarrow> json" where
  "json_f64 x = (case x of Fin _ \<Rightarrow> JNum x | _ \<Rightarrow> JNull)"

definition rtt_json :: "rtt_summary \<Rightarrow> json" where
  "rtt_json r = JObj [(''samples'', JNum (Fin (of_nat (rt_samples r)))), (''min'', json_f64 (rt_min r)),
     (''median'', json_f64 (rt_median r)), (''p95'', json_f64 (rt_p95 r)), (''max'', json_f64 (rt_max r))]"

definition paths_json :: "icmp_path list \<Rightarrow> json" where
  "paths_json ps = JArr (map (\<lambda>p. JObj [(''path'', JStr (ip_label p)), (''ip'', JStr (ip_ip p)),
     (''reachable'', JBool (ip_reachable p)),
     (''rtt_ms'', case ip_rtt p of None \<Rightarrow> JNull
        | Some (a, b, c) \<Rightarrow> JObj [(''min'', json_f64 a), (''avg'', json_f64 b), (''max'', json_f64 c)])]) ps)"

text \<open>The object of one node: with an error, or with the statistics. How \<open>serde_json\<close> prints the
  inventory and the totals is an argument; the planner reads neither.\<close>

definition probe_json :: "(inventory_summary option \<Rightarrow> json) \<Rightarrow> node_probe \<Rightarrow> json" where
  "probe_json inv_json p =
     (case np_rtt p of
        None \<Rightarrow> JObj [(''node'', JStr (np_node p)), (''online'', JBool (np_online p)),
          (''error'', JStr (unwrap_or (np_error p) [])), (''paths'', paths_json (np_paths p))]
      | Some r \<Rightarrow> JObj [(''node'', JStr (np_node p)), (''online'', JBool (np_online p)),
          (''connect_ms'', json_f64 (unwrap_or (np_connect_ms p) (Fin 0))), (''rpc_rtt_ms'', rtt_json r),
          (''paths'', paths_json (np_paths p)), (''resources'', inv_json (np_resources p))])"

definition fleet_view_json ::
  "(inventory_summary option \<Rightarrow> json) \<Rightarrow> (fleet_totals \<Rightarrow> json) \<Rightarrow> string \<Rightarrow> json \<Rightarrow> node_probe list \<Rightarrow> json"
where
  "fleet_view_json inv_json totals_json from_node generated_at nodes =
     JObj [(''kind'', JStr ''nauti_fleet_view''), (''from'', JStr from_node), (''generated_at'', generated_at),
       (''totals'', totals_json (fleet_totals_of nodes)), (''nodes'', JArr (map (probe_json inv_json) nodes))]"

text \<open>\<open>fleet\<close> from the address files to the view it writes; what each probe meets is a function of the
  node.\<close>

definition fleet ::
  "(string \<Rightarrow> probe_env) \<Rightarrow> (inventory_summary option \<Rightarrow> json) \<Rightarrow> (fleet_totals \<Rightarrow> json) \<Rightarrow> json \<Rightarrow> host \<Rightarrow> nat \<Rightarrow> bool \<Rightarrow> json"
where
  "fleet env inv_json totals_json generated_at h samples with_paths =
     fleet_view_json inv_json totals_json (hostname_short h) generated_at
       (map (\<lambda>nr. probe_node (env (fst nr)) h samples with_paths nr) (fleet_addr_files h))"

text \<open>The view is written where the planner looks for it; a failing write is only a warning.\<close>

definition fleet_view_path :: "host \<Rightarrow> string option \<Rightarrow> string" where
  "fleet_view_path h out =
     unwrap_or out (trim_slashes (addr_file_dir h) @ ''/fleet-view-'' @ hostname_short h @ ''.json'')"

definition fleet_save ::
  "(string \<Rightarrow> string option) \<Rightarrow> string option \<Rightarrow> (json \<Rightarrow> string + string) \<Rightarrow> host \<Rightarrow> string option \<Rightarrow> json
     \<Rightarrow> (string \<Rightarrow> string option) \<Rightarrow> (string + unit) \<times> (string \<Rightarrow> string option)"
where
  "fleet_save mkdir_error write_error pretty h out view fs =
     (case pretty view of
        Inl e \<Rightarrow> (Inl e, fs)
      | Inr s \<Rightarrow> (Inr (), snd (persist_addr_json_to mkdir_error write_error (fleet_view_path h out) s fs)))"

subsection \<open>The offline planner\<close>

definition roles_from_spec :: "(string \<Rightarrow> string + json) \<Rightarrow> (string \<Rightarrow> string + string) \<Rightarrow> string \<Rightarrow> string list" where
  "roles_from_spec parse read_to_string spec =
     (let comma = map trim (split_char (CHR '','') spec) in
      case read_to_string spec of
        Inl _ \<Rightarrow> comma
      | Inr raw \<Rightarrow> (case parse raw of Inl _ \<Rightarrow> comma | Inr value \<Rightarrow> role_catalogue_from_json value))"

definition plan_exit :: "plan_reject + plan_fragment \<Rightarrow> string + plan_fragment" where
  "plan_exit result = map_err (\<lambda>e. ''plan rejected: '' @ reason_token e) result"

definition plan_offline ::
  "(json \<Rightarrow> slot_view option) \<Rightarrow> (json \<Rightarrow> latency_matrix option) \<Rightarrow> (string \<Rightarrow> string + json)
     \<Rightarrow> (string \<Rightarrow> string + string) \<Rightarrow> host \<Rightarrow> string \<Rightarrow> string \<Rightarrow> string option \<Rightarrow> string \<Rightarrow> string option \<Rightarrow> string
     \<Rightarrow> string + plan_fragment"
where
  "plan_offline slot_of matrix_of parse read_to_string h role view_path node roles_spec matrix_path planner_kind =
     (let node_id = unwrap_or node (hostname_short h) in
      and_then (map_err plan_reject_display (load_snapshot slot_of matrix_of parse read_to_string view_path)) (\<lambda>view0.
        and_then (case matrix_path of
                    None \<Rightarrow> Inr view0
                  | Some path \<Rightarrow> and_then (map_err plan_reject_display (load_latency matrix_of parse read_to_string path))
                      (\<lambda>m. Inr (with_latency m view0)))
          (\<lambda>view. plan_exit (plan_by_kind planner_kind (plan_request_new node_id role) view
                     (roles_from_spec parse read_to_string roles_spec)))))"

definition plan_ask ::
  "plan_serde \<Rightarrow> (string \<Rightarrow> string \<Rightarrow> net_result) \<Rightarrow> host \<Rightarrow> string \<Rightarrow> string option \<Rightarrow> string option \<Rightarrow> string + plan_fragment"
where
  "plan_ask sd net h role head node =
     (case (case head of Some url \<Rightarrow> Some url | None \<Rightarrow> h_env h ''NAUTI_PLAN_HEAD'') of
        None \<Rightarrow> Inl ''need --head URL or NAUTI_PLAN_HEAD''
      | Some url \<Rightarrow>
          plan_exit (ask_head_with_timeout sd net url (plan_request_new (unwrap_or node (hostname_short h)) role)))"

end
