(* ===== verification/Fleet_Properties.thy ===== *)
theory Fleet_Properties
  imports Fleet
begin

text \<open>
  The fleet tools: an agent's identity survives its restarts, the statistics of the pings are in order,
  and the planner reads out of the fleet view what the probes measured, including a zero for a node
  that was never measured.
\<close>

subsection \<open>Identity\<close>

text \<open>An agent keeps its identity: the key a start of the agent ends up with is in the key file, and every
  later start that can read the file gets the same key and leaves the file alone, whatever new key it
  would have generated.\<close>

theorem agent_identity_is_stable:
  assumes "load_or_create_key_at env fresh path fs = (Inr key, fs')" "length fresh = 32" "\<not> ke_unreadable env' path"
  shows "fs' path = Some key \<and> load_or_create_key_at env' fresh' path fs' = (Inr key, fs')"
proof -
  have "fs' path = Some key" "length key = 32"
    using assms(1,2) by (auto simp: load_or_create_key_at_def split: option.splits if_splits prod.splits)
  then show ?thesis
    using assms(3) by (simp add: load_or_create_key_at_def)
qed

definition quiet_keys :: key_env where
  "quiet_keys = \<lparr>ke_unreadable = (\<lambda>_. False), ke_mkdir_error = (\<lambda>_. None), ke_open_error = None, ke_write_error = None\<rparr>"

theorem agent_identity_is_stable_witness:
  "load_or_create_key_at quiet_keys (replicate 32 9) ''/k'' [''/k'' \<mapsto> replicate 32 7] = (Inr (replicate 32 7), [''/k'' \<mapsto> replicate 32 7])"
proof -
  have "load_or_create_key_at quiet_keys (replicate 32 7) ''/k'' Map.empty = (Inr (replicate 32 7), [''/k'' \<mapsto> replicate 32 7])"
    by (simp add: load_or_create_key_at_def quiet_keys_def split: option.split)
  from agent_identity_is_stable [OF this, of quiet_keys "replicate 32 9"] show ?thesis
    by (simp add: quiet_keys_def)
qed

text \<open>No start changes a key file that exists, and none touches another file.\<close>

lemma key_files_are_kept:
  "load_or_create_key_at env fresh path fs = (out, fs') \<Longrightarrow> fs p \<noteq> None \<or> p \<noteq> path \<Longrightarrow> fs' p = fs p"
  by (auto simp: load_or_create_key_at_def split: option.splits if_splits prod.splits)

text \<open>A first start whose write breaks off leaves a short file behind, and no later start gets past it.\<close>

lemma torn_key_is_refused_for_ever:
  assumes "load_or_create_key_at env fresh path fs = (Inl e, fs')" "fs path = None" "\<not> ke_unreadable env path"
    and "ke_write_error env = Some (n, msg)" "ke_open_error env = None" "\<And>d. ke_mkdir_error env d = None"
    and "length fresh = 32" "n < 32" "\<not> ke_unreadable env' path"
  shows "\<exists>e'. load_or_create_key_at env' fresh' path fs' = (Inl e', fs')"
proof -
  have "fs' path = Some (take n fresh)"
    using assms(1-6) by (auto simp: load_or_create_key_at_def split: option.splits)
  then show ?thesis
    using assms(7-9) by (simp add: load_or_create_key_at_def)
qed

subsection \<open>Address files\<close>

lemma strip_suffix_append: "strip_suffix (p @ s) s = Some p"
  by (simp add: strip_suffix_def)

lemma strip_suffix_Some: "strip_suffix x s = Some p \<longleftrightarrow> x = p @ s"
proof
  show "strip_suffix x s = Some p \<Longrightarrow> x = p @ s"
    by (auto simp: strip_suffix_def split: if_splits) (metis append_take_drop_id)
qed (simp add: strip_suffix_append)

lemma mem_map_filter: "y \<in> set (List.map_filter f xs) \<longleftrightarrow> (\<exists>x \<in> set xs. f x = Some y)"
  by (induction xs) (auto split: option.split)

lemma addr_entry_Some:
  "addr_entry h name = Some (node, raw) \<longleftrightarrow>
     name = node @ ''-addr.json'' \<and> h_file h (path_join (addr_file_dir h) name) = Some raw"
  by (auto simp: addr_entry_def strip_suffix_Some strip_suffix_append split: option.splits)

text \<open>A controller finds exactly the nodes whose address file is in the directory and can be read.\<close>

lemma fleet_addr_files_iff:
  "(node, raw) \<in> set (fleet_addr_files h) \<longleftrightarrow>
     node @ ''-addr.json'' \<in> set (read_names h (addr_file_dir h))
     \<and> h_file h (path_join (addr_file_dir h) (node @ ''-addr.json'')) = Some raw"
  by (auto simp: fleet_addr_files_def mem_map_filter addr_entry_Some)

subsection \<open>Statistics\<close>

lemma mset_f_insert: "set (f_insert x ys) = insert x (set ys)" "length (f_insert x ys) = Suc (length ys)"
  by (induction ys) auto

lemma set_sort_rtts [simp]: "set (sort_rtts xs) = set xs" "length (sort_rtts xs) = length xs"
  by (induction xs) (simp_all add: sort_rtts_def mset_f_insert)

lemma sort_rtts_Nil_iff [simp]: "sort_rtts xs = [] \<longleftrightarrow> xs = []"
  by (metis length_0_conv set_sort_rtts(2))

lemma sorted_f_insert:
  "sorted_wrt f_le ys \<Longrightarrow> x \<noteq> NaN \<Longrightarrow> NaN \<notin> set ys \<Longrightarrow> sorted_wrt f_le (f_insert x ys)"
proof (induction ys)
  case (Cons y ys)
  show ?case
  proof (cases "f_lt y x")
    case True
    then show ?thesis
      using Cons by (auto simp: f_lt_def mset_f_insert)
  next
    case False
    then have "f_le x y"
      using Cons.prems f_not_lt by auto
    then show ?thesis
      using False Cons.prems by (auto intro: f_le_trans)
  qed
qed simp

lemma sorted_sort_rtts: "NaN \<notin> set xs \<Longrightarrow> sorted_wrt f_le (sort_rtts xs)"
proof (induction xs)
  case (Cons x xs)
  then have "sorted_wrt f_le (f_insert x (sort_rtts xs))"
    by (intro sorted_f_insert) auto
  then show ?case by (simp add: sort_rtts_def)
qed (simp add: sort_rtts_def)

lemma percentile_mem: "xs \<noteq> [] \<Longrightarrow> percentile xs p \<in> set xs"
  unfolding percentile_def Let_def by (simp, intro nth_mem) (cases xs, auto)

lemma sorted_ends:
  assumes "sorted_wrt f_le xs" "NaN \<notin> set xs" "x \<in> set xs"
  shows "f_le (hd xs) x \<and> f_le x (last xs)"
proof -
  obtain i where i: "i < length xs" "x = xs ! i"
    using assms(3) by (auto simp: in_set_conv_nth)
  have le: "f_le (xs ! j) (xs ! k)" if "j \<le> k" "k < length xs" for j k
    using that assms(1,2) by (cases "j = k") (auto simp: sorted_wrt_iff_nth_less nth_mem dest!: nth_mem)
  have ne: "xs \<noteq> []" and b: "0 \<le> i" "i \<le> length xs - 1" "length xs - 1 < length xs"
    using i by (auto simp: less_eq_Suc_le)
  from le [OF b(1) i(1)] le [OF b(2,3)] show ?thesis
    using ne by (simp add: hd_conv_nth last_conv_nth i(2))
qed

text \<open>The statistics the fleet view publishes for a node are in order: when a ping was answered, the median
  and the 95th percentile are measured round trips that lie between the published minimum and maximum,
  and the minimum and maximum bound every measured round trip.\<close>

theorem rtt_summary_in_order:
  assumes "rtts \<noteq> []" "NaN \<notin> set rtts" "r = summarize_rtts (sort_rtts rtts)"
  shows "rt_samples r = length rtts \<and> rt_median r \<in> set rtts \<and> rt_p95 r \<in> set rtts
     \<and> f_le (rt_min r) (rt_median r) \<and> f_le (rt_median r) (rt_max r)
     \<and> f_le (rt_min r) (rt_p95 r) \<and> f_le (rt_p95 r) (rt_max r)
     \<and> list_all (\<lambda>x. f_le (rt_min r) x \<and> f_le x (rt_max r)) rtts"
proof -
  have s: "sorted_wrt f_le (sort_rtts rtts)" "NaN \<notin> set (sort_rtts rtts)" "sort_rtts rtts \<noteq> []"
    using assms sorted_sort_rtts by auto
  have p: "percentile (sort_rtts rtts) p \<in> set rtts" for p
    using percentile_mem [OF s(3)] by simp
  then have "f_le (hd (sort_rtts rtts)) (percentile (sort_rtts rtts) p)
      \<and> f_le (percentile (sort_rtts rtts) p) (last (sort_rtts rtts))" for p
    using sorted_ends [OF s(1,2)] by simp
  moreover have "list_all (\<lambda>x. f_le (hd (sort_rtts rtts)) x \<and> f_le x (last (sort_rtts rtts))) rtts"
    using sorted_ends [OF s(1,2)] by (simp add: list_all_iff)
  ultimately show ?thesis
    using p s(3) assms(1) by (simp add: assms(3) summarize_rtts_def)
qed

theorem rtt_summary_in_order_witness:
  "f_le (rt_min (summarize_rtts (sort_rtts [Fin 2, Fin 1]))) (rt_median (summarize_rtts (sort_rtts [Fin 2, Fin 1])))"
  using rtt_summary_in_order [of "[Fin 2, Fin 1]" "summarize_rtts (sort_rtts [Fin 2, Fin 1])"] by simp

subsection \<open>Paths\<close>

lemma icmp_loop_fresh: "p \<in> set (icmp_loop h items seen) \<Longrightarrow> ip_ip p \<notin> set seen"
proof (induction items arbitrary: seen)
  case (Cons item items)
  have "p \<in> set (icmp_loop h items seen) \<or> (\<exists>ip. ip \<notin> set seen \<and> (ip_ip p = ip \<or> p \<in> set (icmp_loop h items (ip # seen))))"
    using Cons.prems by (auto simp: Let_def split: option.splits if_splits)
  then show ?case
    using Cons.IH [of seen] Cons.IH [of "_ # seen"] by fastforce
qed simp

text \<open>Each address of a node is pinged once, however often the node announces it.\<close>

lemma icmp_paths_distinct: "distinct (map ip_ip (icmp_paths h addr))"
proof -
  have "distinct (map ip_ip (icmp_loop h items seen))" for items seen
  proof (induction items arbitrary: seen)
    case (Cons item items)
    show ?case
      using Cons.IH [of seen] Cons.IH [of "sock_ip _ # seen"]
      by (auto simp: Let_def split: option.splits dest: icmp_loop_fresh)
  qed simp
  then show ?thesis by (simp add: icmp_paths_def)
qed

subsection \<open>From the probe to the planner\<close>

definition finite_num :: "f64 \<Rightarrow> f64 option" where
  "finite_num x = (case x of Fin _ \<Rightarrow> Some x | _ \<Rightarrow> None)"

lemma j_as_f64_json: "j_as_f64 (json_f64 x) = finite_num x"
  by (cases x) (simp_all add: json_f64_def finite_num_def)

lemma probe_json_node: "j_index (probe_json inv_json p) ''node'' = JStr (np_node p)"
  by (simp add: probe_json_def j_index_def split: option.split)

lemma probe_json_median:
  "j_as_f64 (j_index (j_index (probe_json inv_json p) ''rpc_rtt_ms'') ''median'')
     = (case np_rtt p of None \<Rightarrow> None | Some r \<Rightarrow> finite_num (rt_median r))"
  by (simp add: probe_json_def j_index_def rtt_json_def j_as_f64_json split: option.split)

lemma view_row_of_fleet:
  "view_row (fleet_view_json inv_json totals_json from_node generated_at nodes)
     = bt_from (map (\<lambda>p. (np_node p, case np_rtt p of None \<Rightarrow> None | Some r \<Rightarrow> finite_num (rt_median r))) nodes)"
proof -
  have "j_index (fleet_view_json inv_json totals_json from_node generated_at nodes) ''nodes''
      = JArr (map (probe_json inv_json) nodes)"
    by (simp add: fleet_view_json_def j_index_def)
  then show ?thesis
    by (simp add: view_row_def List.map_filter_def probe_json_node probe_json_median comp_def)
qed

lemma bt_from_Nil_iff: "bt_from kvs = [] \<longleftrightarrow> kvs = []"
proof
  assume "bt_from kvs = []"
  then have "map_of (rev kvs) k = None" for k
    using get_bt_from [of kvs k] by simp
  then have "k \<notin> fst ` set kvs" for k
    using map_of_eq_None_iff [of "rev kvs" k] by simp
  then show "kvs = []"
    by (cases kvs) auto
qed (simp add: bt_from_def)

lemma medians_of_view:
  assumes "from_node \<noteq> []" "distinct (map np_node nodes)" "p \<in> set nodes"
  shows "rtt_ms (latency_from_view (fleet_view_json inv_json totals_json from_node generated_at nodes)) from_node (np_node p)
    = (case np_rtt p of None \<Rightarrow> None | Some r \<Rightarrow> finite_num (rt_median r))"
proof -
  let ?v = "fleet_view_json inv_json totals_json from_node generated_at nodes"
  let ?kv = "\<lambda>p. (np_node p, case np_rtt p of None \<Rightarrow> None | Some r \<Rightarrow> finite_num (rt_median r))"
  have row: "view_row ?v = bt_from (map ?kv nodes)"
    by (rule view_row_of_fleet)
  have "view_row ?v \<noteq> []"
    using assms(3) by (auto simp: row bt_from_Nil_iff)
  moreover have "j_as_str (j_index ?v ''from'') = Some from_node"
    by (simp add: fleet_view_json_def j_index_def)
  ultimately have m: "latency_from_view ?v = [(from_node, view_row ?v)]"
    using assms(1) by (simp add: latency_from_view_def)
  have d: "distinct (map fst (rev (map ?kv nodes)))"
    using assms(2) by (simp add: comp_def rev_map [symmetric])
  have "map_of (view_row ?v) (np_node p) = Some (snd (?kv p))"
    using map_of_is_SomeI [OF d, of "np_node p" "snd (?kv p)"] assms(3) by (auto simp: row get_bt_from)
  then show ?thesis
    by (simp add: m rtt_ms_def)
qed


definition probed :: "string \<Rightarrow> rtt_summary option \<Rightarrow> node_probe" where
  "probed node r = \<lparr>np_node = node, np_online = True, np_error = None, np_connect_ms = None, np_rtt = r,
     np_paths = [], np_resources = None\<rparr>"


text \<open>A node that was never measured is read as measured at zero: when a node accepts the connection but
  answers no ping, its summary has the median zero, and the planner takes it for a measured round trip
  of zero milliseconds. The planner's documentation says an unmeasured link is never zero.\<close>

theorem silent_node_is_measured_as_zero:
  assumes "pb_parse_addr env raw = Inr addr" "pb_connect env (prefer_direct addr) = Some (Inr ms)" "pb_ping env 0 = None"
    and "from_node \<noteq> []" "distinct (map np_node nodes)" "probe_node env h samples with_paths (node, raw) \<in> set nodes"
  shows "\<not> np_online (probe_node env h samples with_paths (node, raw))
    \<and> rtt_ms (latency_from_view (fleet_view_json inv_json totals_json from_node generated_at nodes)) from_node node = Some (Fin 0)"
proof -
  let ?p = "probe_node env h samples with_paths (node, raw)"
  have "[0..<max samples 1] = 0 # [1..<max samples 1]"
    by (simp add: upt_conv_Cons)
  then have none: "ping_rtts env samples = []"
    using assms(3) by (simp add: ping_rtts_def)
  then have p: "np_node ?p = node" "\<not> np_online ?p" "np_rtt ?p = Some (summarize_rtts [])"
    using assms(1,2) by (simp_all add: probe_node_def Let_def sort_rtts_def)
  have "rt_median (summarize_rtts []) = Fin 0"
    by (simp add: summarize_rtts_def percentile_def)
  then show ?thesis
    using medians_of_view [OF assms(4,5,6), of inv_json totals_json generated_at] p by (simp add: finite_num_def)
qed

definition silent_env :: probe_env where
  "silent_env = \<lparr>pb_addr_value = (\<lambda>_. None), pb_parse_addr = (\<lambda>_. Inr \<lparr>ea_id = ''k'', ea_addrs = []\<rparr>),
     pb_connect = (\<lambda>_. Some (Inr (Fin 5))), pb_ping = (\<lambda>_. None), pb_inventory = None\<rparr>"

theorem silent_node_is_measured_as_zero_witness:
  "rtt_ms (latency_from_view (fleet_view_json (\<lambda>_. JNull) (\<lambda>_. JNull) ''c2'' JNull
      [probe_node silent_env bare_host 5 False (''t440'', ''{}'')])) ''c2'' ''t440'' = Some (Fin 0)"
  using silent_node_is_measured_as_zero [of silent_env "''{}''" "\<lparr>ea_id = ''k'', ea_addrs = []\<rparr>" "Fin 5" "''c2''"
      "[probe_node silent_env bare_host 5 False (''t440'', ''{}'')]" bare_host 5 False "''t440''"
      "\<lambda>_. JNull" "\<lambda>_. JNull" JNull]
  by (simp add: silent_env_def)

end
