(* ===== verification/F64_Rounding.thy ===== *)
theory F64_Rounding
  imports F64
begin

text \<open>
  What the model of floating-point arithmetic guarantees: the exponent \<open>ilog2\<close> is the right one, rounding
  is to nearest with a relative error of half a unit in the last place, exact on integers that fit, and
  it stays finite away from the limit. The lemmas are stated for any precision and serve \<open>f32\<close> and \<open>f64\<close>.
\<close>

subsection \<open>Powers of two\<close>

lemma pow2_powi: "pow2 k = 2 powi k"
  unfolding pow2_def power_int_def by (simp only: power_inverse divide_inverse mult_1_left)

lemma pow2_gt_0 [simp]: "0 < pow2 k"
  by (simp add: pow2_def)

lemma pow2_ge_0 [simp]: "0 \<le> pow2 k"
  using pow2_gt_0 [of k] by (rule less_imp_le)

lemma pow2_nonzero [simp]: "pow2 k \<noteq> 0"
  by (simp add: pow2_def)

lemma pow2_add: "pow2 (a + b) = pow2 a * pow2 b"
  by (simp add: pow2_powi power_int_add)

lemma pow2_diff: "pow2 (a - b) = pow2 a / pow2 b"
  by (simp add: pow2_powi power_int_diff)

lemma pow2_nat [simp]: "pow2 (int n) = 2 ^ n"
  by (simp add: pow2_def)

lemma pow2_0 [simp]: "pow2 0 = 1"
  by (simp add: pow2_def)

lemma pow2_1 [simp]: "pow2 1 = 2"
  by (simp add: pow2_def)

lemma pow2_less_iff: "pow2 a < pow2 b \<longleftrightarrow> a < b"
proof -
  have less: "pow2 x < pow2 y" if "x < y" for x y
    using that by (simp add: pow2_powi power_int_strict_increasing)
  show ?thesis
    using less [of a b] less [of b a] by (cases a b rule: linorder_cases) auto
qed

lemma pow2_le_iff: "pow2 a \<le> pow2 b \<longleftrightarrow> a \<le> b"
  by (simp add: pow2_less_iff linorder_not_less [symmetric])

subsection \<open>The exponent\<close>

lemma ibits_bounds:
  "0 < a \<Longrightarrow> 1 \<le> ibits a \<and> pow2 (ibits a - 1) \<le> of_int a \<and> of_int a < pow2 (ibits a)"
proof (induction a rule: ibits.induct)
  case (1 a)
  show ?case
  proof (cases "a = 1")
    case True
    then show ?thesis by (simp add: ibits.simps)
  next
    case False
    then have "0 < a div 2" using 1(2) by linarith
    with 1 have ih: "1 \<le> ibits (a div 2)" "pow2 (ibits (a div 2) - 1) \<le> of_int (a div 2)"
        "of_int (a div 2) < pow2 (ibits (a div 2))"
      by simp_all
    have b: "ibits a = 1 + ibits (a div 2)"
      using 1(2) by (simp add: ibits.simps)
    have p: "pow2 (ibits (a div 2)) = 2 ^ nat (ibits (a div 2))"
      using ih(1) by (simp add: pow2_def)
    have "of_int (a div 2) < (of_int (2 ^ nat (ibits (a div 2))) :: rat)"
      using ih(3) by (simp add: p)
    then have "a div 2 < 2 ^ nat (ibits (a div 2))"
      by (simp only: of_int_less_iff)
    then have "a < 2 * 2 ^ nat (ibits (a div 2))" by linarith
    then have "(of_int a :: rat) < of_int (2 * 2 ^ nat (ibits (a div 2)))"
      by (simp only: of_int_less_iff)
    then have upper: "of_int a < pow2 (ibits a)"
      using b pow2_add [of 1 "ibits (a div 2)"] p by simp
    have "(of_int (2 * (a div 2)) :: rat) \<le> of_int a"
      unfolding of_int_le_iff by simp
    moreover have "pow2 (ibits a - 1) = 2 * pow2 (ibits (a div 2) - 1)"
      using b pow2_add [of 1 "ibits (a div 2) - 1"] by simp
    ultimately show ?thesis
      using ih b upper by simp
  qed
qed

theorem ilog2_bounds:
  assumes "0 < q"
  shows "pow2 (ilog2 q) \<le> q" and "q < pow2 (ilog2 q + 1)"
proof -
  obtain a b where ab: "quotient_of q = (a, b)" by (cases "quotient_of q")
  have q: "q = of_int a / of_int b" and b: "0 < b"
    using quotient_of_div [OF ab] quotient_of_denom_pos [OF ab] by simp_all
  have a: "0 < a" using assms b by (simp add: q zero_less_divide_iff)
  let ?k = "ibits a - ibits b"
  note ba = ibits_bounds [OF a] and bb = ibits_bounds [OF b]
  have bpos: "(0 :: rat) < of_int b" using b by simp
  have "pow2 (?k - 1) * of_int b \<le> pow2 (?k - 1) * pow2 (ibits b)"
    using bb by (intro mult_left_mono) auto
  also have "\<dots> = pow2 (ibits a - 1)"
    by (simp add: pow2_add [symmetric])
  finally have low: "pow2 (?k - 1) \<le> q"
    using ba bpos by (simp add: q le_divide_eq)
  have "of_int a < pow2 (ibits a)" using ba by simp
  also have "\<dots> = pow2 (?k + 1) * pow2 (ibits b - 1)"
    by (simp add: pow2_add [symmetric])
  also have "\<dots> \<le> pow2 (?k + 1) * of_int b"
    using bb by (intro mult_left_mono) (auto intro: less_imp_le)
  finally have up: "q < pow2 (?k + 1)"
    using bpos by (simp add: q divide_less_eq)
  show "pow2 (ilog2 q) \<le> q" "q < pow2 (ilog2 q + 1)"
    using low up by (auto simp: ilog2_def ab Let_def)
qed

lemma ilog2_unique: "0 < q \<Longrightarrow> pow2 e \<le> q \<Longrightarrow> q < pow2 (e + 1) \<Longrightarrow> ilog2 q = e"
  using ilog2_bounds [of q] pow2_less_iff [of "ilog2 q" "e + 1"] pow2_less_iff [of e "ilog2 q + 1"] by linarith

subsection \<open>Rounding to an integer\<close>

lemma round_half_even_close: "\<bar>of_int (round_half_even x) - x\<bar> \<le> 1 / 2"
  unfolding round_half_even_def Let_def using floor_correct [of x] by (auto simp: abs_le_iff not_less)

lemma round_half_even_of_int [simp]: "round_half_even (of_int n) = n"
  by (simp add: round_half_even_def)

lemma round_half_even_nonneg_pos: "0 \<le> x \<Longrightarrow> 0 \<le> round_half_even x"
  by (simp add: round_half_even_def Let_def add_nonneg_nonneg)

subsection \<open>Rounding to a precision\<close>

text \<open>The value a positive number is rounded to, with \<open>p + 1\<close> significant bits and the exponent bounded below
  by \<open>m\<close>; \<open>f64_round\<close> and \<open>f32_round\<close> are instances up to their limits.\<close>

definition rounded :: "int \<Rightarrow> int \<Rightarrow> rat \<Rightarrow> rat" where
  "rounded p m q = of_int (round_half_even (q / pow2 (max (ilog2 q) m - p))) * pow2 (max (ilog2 q) m - p)"

lemma rounded_nonneg: "0 \<le> q \<Longrightarrow> 0 \<le> rounded p m q"
  by (simp add: rounded_def round_half_even_nonneg_pos)

lemma rounded_close: "\<bar>rounded p m q - q\<bar> \<le> pow2 (max (ilog2 q) m - p - 1)"
proof -
  let ?u = "pow2 (max (ilog2 q) m - p)"
  have "rounded p m q - q = (of_int (round_half_even (q / ?u)) - q / ?u) * ?u"
    by (simp add: rounded_def left_diff_distrib)
  then have "\<bar>rounded p m q - q\<bar> = \<bar>of_int (round_half_even (q / ?u)) - q / ?u\<bar> * ?u"
    by (simp add: abs_mult)
  also have "\<dots> \<le> 1 / 2 * ?u"
    by (intro mult_right_mono round_half_even_close) simp
  also have "\<dots> = pow2 (max (ilog2 q) m - p - 1)"
    using pow2_diff [of "max (ilog2 q) m - p" 1] by simp
  finally show ?thesis .
qed

lemma rounded_relative:
  assumes "0 < q" "pow2 m \<le> q"
  shows "\<bar>rounded p m q - q\<bar> \<le> q * pow2 (- p - 1)"
proof -
  have "m < ilog2 q + 1"
    using assms ilog2_bounds(2) [OF assms(1)] pow2_less_iff [of m "ilog2 q + 1"] by linarith
  then have "max (ilog2 q) m - p - 1 = ilog2 q + (- p - 1)"
    by simp
  then have "pow2 (max (ilog2 q) m - p - 1) = pow2 (ilog2 q) * pow2 (- p - 1)"
    by (simp only: pow2_add)
  also have "\<dots> \<le> q * pow2 (- p - 1)"
    by (intro mult_right_mono ilog2_bounds(1) assms) simp
  finally show ?thesis
    using rounded_close [of p m q] by linarith
qed

lemma rounded_bound:
  assumes "0 < q" "0 \<le> p"
  shows "rounded p m q \<le> 2 * q + pow2 m"
proof -
  have "pow2 (max (ilog2 q) m - p - 1) \<le> pow2 (max (ilog2 q) m)"
    using assms(2) by (simp add: pow2_le_iff)
  also have "\<dots> \<le> q + pow2 m"
  proof -
    have "pow2 (ilog2 q) \<le> q + pow2 m"
      using ilog2_bounds(1) [OF assms(1)] by (rule add_increasing2 [OF pow2_ge_0])
    moreover have "pow2 m \<le> q + pow2 m"
      using assms(1) by simp
    ultimately show ?thesis
      by (simp only: max_def split: if_split) simp
  qed
  finally show ?thesis
    using rounded_close [of p m q] by linarith
qed

lemma rounded_exact:
  assumes "0 < n" "of_int n < pow2 (p + 1)" "m \<le> 0" "0 \<le> p"
  shows "rounded p m (of_int n) = of_int n"
proof -
  let ?e = "max (ilog2 (of_int n)) m"
  have n: "(0 :: rat) < of_int n" using assms(1) by simp
  have "pow2 (ilog2 (of_int n)) < pow2 (p + 1)"
    using ilog2_bounds(1) [OF n] assms(2) by linarith
  then have e: "?e - p \<le> 0"
    using assms(3,4) by (simp add: pow2_less_iff)
  then have u: "pow2 (?e - p) = 1 / 2 ^ nat (p - ?e)"
    by (auto simp: pow2_def)
  have "of_int n / pow2 (?e - p) = of_int (n * 2 ^ nat (p - ?e))"
    by (simp add: u)
  then have "round_half_even (of_int n / pow2 (?e - p)) = n * 2 ^ nat (p - ?e)"
    by (simp only: round_half_even_of_int)
  then show ?thesis
    unfolding rounded_def by (simp add: u)
qed

subsection \<open>Double precision\<close>

lemma f64_round_rounded:
  "0 < q \<Longrightarrow> f64_round q = (if 2 ^ 1024 \<le> rounded 52 (- 1022) q then Inf False else Fin (rounded 52 (- 1022) q))"
  by (simp add: f64_round_def rounded_def Let_def)

lemma f64_round_finite:
  assumes "0 < q" "q \<le> 2 ^ 1022"
  shows "f64_round q = Fin (rounded 52 (- 1022) q)"
proof -
  have "pow2 (- 1022) \<le> pow2 0" by (simp only: pow2_le_iff)
  then have "rounded 52 (- 1022) q \<le> 2 * 2 ^ 1022 + 1"
    using rounded_bound [OF assms(1), of 52 "- 1022"] assms(2) by simp
  also have "\<dots> < (2 ^ 1024 :: rat)" by simp
  finally show ?thesis
    using assms(1) by (simp add: f64_round_rounded del: power_numeral)
qed

lemma f_of_nat_exact:
  assumes "n < 2 ^ 53"
  shows "f_of_nat n = Fin (of_nat n)"
proof (cases "n = 0")
  case False
  have "(of_nat n :: rat) < of_nat (2 ^ 53)"
    using assms by (simp only: of_nat_less_iff)
  then have n: "(of_nat n :: rat) < 2 ^ 53" by simp
  have "rounded 52 (- 1022) (of_int (int n)) = of_int (int n)"
    using False n by (intro rounded_exact) (simp_all add: pow2_def)
  moreover have "(of_nat n :: rat) \<le> 2 ^ 1022"
    using n by (rule order_trans [OF less_imp_le]) simp
  ultimately show ?thesis
    using False by (simp add: f_of_nat_def f64_round_finite)
qed (simp add: f_of_nat_def f64_round_def)

text \<open>
  A rational between \<open>2 ^ 52\<close> and \<open>2 ^ 53\<close> units of \<open>2 ^ - j\<close> rounds to the integral number of units
  nearest to it, which is how concrete roundings are evaluated.
\<close>

lemma round_half_even_near:
  assumes "\<bar>x - of_int n\<bar> < 1 / 2"
  shows "round_half_even x = n"
proof (cases "of_int n \<le> x")
  case True
  then have "\<lfloor>x\<rfloor> = n"
    using assms by (intro floor_unique) auto
  then show ?thesis
    using assms True by (simp add: round_half_even_def Let_def)
next
  case False
  then have "\<lfloor>x\<rfloor> = n - 1"
    using assms by (intro floor_unique) auto
  then show ?thesis
    using assms False by (simp add: round_half_even_def Let_def)
qed

lemma f64_round_units:
  assumes "2 ^ 52 \<le> q * 2 ^ j" "q * 2 ^ j < 2 ^ 53" "\<bar>q * 2 ^ j - of_int n\<bar> < 1 / 2" "j \<le> 1000"
  shows "f64_round q = Fin (of_int n / 2 ^ j)"
proof -
  have shift: "pow2 (int k - int j) = 2 ^ k / 2 ^ j" for k
    using pow2_nat [of k] pow2_nat [of j] by (simp add: pow2_diff del: pow2_nat)
  have "0 < q * 2 ^ j"
    using assms(1) by (rule less_le_trans [rotated]) simp
  then have pos: "0 < q"
    by (simp add: zero_less_mult_iff)
  have "pow2 (int 52 - int j) \<le> q" "q < pow2 (int 53 - int j)"
    using assms(1,2) unfolding shift by (simp_all add: field_simps)
  then have "ilog2 q = int 52 - int j"
    using pos by (intro ilog2_unique) simp_all
  then have e: "max (ilog2 \<bar>q\<bar>) (- 1022) - 52 = int 0 - int j"
    using pos assms(4) by simp
  have r: "round_half_even (q / pow2 (int 0 - int j)) = n"
    unfolding shift using round_half_even_near [OF assms(3)] by simp
  have "of_int n < q * 2 ^ j + 1 / 2"
    using assms(3) by linarith
  also have "\<dots> < 2 ^ 54"
    using assms(2) by simp
  finally have "(of_int n :: rat) < 2 ^ 54" .
  moreover have "(0 :: rat) \<le> of_int n"
  proof -
    have "(0 :: rat) \<le> 2 ^ 52 - 1 / 2"
      by simp
    also have "\<dots> \<le> of_int n"
      using assms(1,3) by linarith
    finally show ?thesis .
  qed
  then have "of_int n / 2 ^ j \<le> (of_int n :: rat)"
    using mult_left_mono [of 1 "2 ^ j" "of_int n :: rat"] by (simp add: divide_le_eq)
  ultimately have "\<not> 2 ^ 1024 \<le> of_int n * pow2 (int 0 - int j)"
    unfolding shift by simp
  moreover have "\<bar>q\<bar> = q"
    using pos by simp
  ultimately show ?thesis
    using pos unfolding f64_round_def Let_def e by (simp only: r) (simp add: shift [of 0, simplified])
qed

end
