(* ===== verification/Fleet_Statistics.thy ===== *)
theory Fleet_Statistics
  imports Fleet_Properties F64_Rounding
begin

text \<open>
  The round-trip statistics of the fleet view: the index arithmetic of \<open>percentile\<close> in \<open>f64\<close> picks a later
  sample for the 95th percentile than for the median, so what is published is in order.
\<close>

text \<open>The index of the sample that \<open>percentile\<close> picks among \<open>m + 1\<close>.\<close>

definition rank_of :: "nat \<Rightarrow> f64 \<Rightarrow> nat" where
  "rank_of m p = unat (f_to_word (f_round (f_mul (f_of_nat m) p)) :: u64)"

lemma percentile_rank:
  "xs \<noteq> [] \<Longrightarrow> percentile xs p = xs ! min (rank_of (length xs - 1) p) (length xs - 1)"
  by (simp add: percentile_def rank_of_def Let_def)

text \<open>\<open>0.5\<close> and \<open>0.95\<close> as the compiler rounds them.\<close>

lemma half_exact: "f64_round (1 / 2) = Fin (1 / 2)"
  by code_simp

lemma ninety_five: "f64_round (95 / 100) = Fin (4278419646001971 / 4503599627370496)"
  by code_simp

lemma rank_of_rounded:
  assumes "0 < m" "m < 2 ^ 53" "0 < c" "c \<le> 1"
  shows "rank_of m (Fin c) = nat \<lfloor>rounded 52 (- 1022) (of_nat m * c) + 1 / 2\<rfloor>"
proof -
  let ?q = "of_nat m * c" and ?r = "rounded 52 (- 1022) (of_nat m * c)" and ?k = "\<lfloor>rounded 52 (- 1022) (of_nat m * c) + 1 / 2\<rfloor>"
  have "(of_nat m :: rat) < of_nat (2 ^ 53)"
    using assms(2) by (simp only: of_nat_less_iff)
  then have m: "(of_nat m :: rat) < 2 ^ 53" by simp
  have q: "0 < ?q" "?q \<le> of_nat m"
    using assms(1,3,4) by (simp_all add: mult_left_le)
  have "?q \<le> 2 ^ 1022"
    using q(2) m by (rule order_trans [OF _ less_imp_le [OF less_le_trans]]) simp
  then have r: "f_mul (f_of_nat m) (Fin c) = Fin ?r"
    using q(1) by (simp add: f_of_nat_exact [OF assms(2)] f64_round_finite)
  have pos: "0 \<le> ?r"
    using q(1) by (intro rounded_nonneg) simp
  have "pow2 (- 1022) \<le> pow2 0" by (simp only: pow2_le_iff)
  then have "?r \<le> 2 * 2 ^ 53 + 1"
    using rounded_bound [OF q(1), of 52 "- 1022"] q(2) m by simp
  then have k: "0 \<le> ?k" "?k < 2 ^ 64 - 1"
    using pos by (simp_all add: floor_less_iff)
  then have w: "max 0 (min (2 ^ LENGTH(64) - 1) ?k) = ?k" by simp
  have "f_to_word (Fin (of_int ?k)) = (of_int ?k :: u64)"
    using w by simp
  moreover have "unat (of_int ?k :: u64) = nat ?k"
  proof -
    obtain n where n: "?k = int n" using k(1) by (metis nonneg_int_cases)
    then have "n < 2 ^ 64" using k(2) by simp
    then show ?thesis by (simp add: n unat_of_nat take_bit_nat_eq_self)
  qed
  ultimately show ?thesis
    using pos by (simp add: rank_of_def r)
qed

lemma rounded_near:
  assumes "1 / 2 \<le> q"
  shows "7 / 8 * q \<le> rounded 52 (- 1022) q" and "rounded 52 (- 1022) q \<le> 9 / 8 * q"
proof -
  have "pow2 (- 1022) \<le> pow2 (- 1)" "pow2 (- 53) \<le> pow2 (- 3)"
    by (simp_all only: pow2_le_iff)
  then have p: "pow2 (- 1022) \<le> 1 / 2" "pow2 (- 53) \<le> 1 / 8"
    by (simp_all add: pow2_def)
  have "\<bar>rounded 52 (- 1022) q - q\<bar> \<le> q * pow2 (- 53)"
    using rounded_relative [of q "- 1022" 52] assms p(1) by simp
  also have "\<dots> \<le> q * (1 / 8)"
    using assms p(2) by (intro mult_left_mono) simp_all
  finally show "7 / 8 * q \<le> rounded 52 (- 1022) q" and "rounded 52 (- 1022) q \<le> 9 / 8 * q"
    by linarith+
qed

lemma rank_of_median_le_p95:
  assumes "m < 2 ^ 53"
  shows "rank_of m (f64_round (1 / 2)) \<le> rank_of m (f64_round (95 / 100))"
proof (cases "m = 0")
  case True
  have "f64_round 0 = Fin 0" by (simp add: f64_round_def)
  then show ?thesis
    unfolding half_exact ninety_five by (simp add: True rank_of_def f_of_nat_def)
next
  case False
  then have m: "(1 :: rat) \<le> of_nat m" by simp
  let ?a = "of_nat m * (1 / 2) :: rat" and ?b = "of_nat m * (4278419646001971 / 4503599627370496) :: rat"
  have "rounded 52 (- 1022) ?a \<le> 9 / 8 * ?a"
    by (rule rounded_near(2)) (use m in simp)
  also have "9 / 8 * ?a \<le> 7 / 8 * ?b"
    using m by simp
  also have "\<dots> \<le> rounded 52 (- 1022) ?b"
    by (rule rounded_near(1)) (use m in simp)
  finally have "\<lfloor>rounded 52 (- 1022) ?a + 1 / 2\<rfloor> \<le> \<lfloor>rounded 52 (- 1022) ?b + 1 / 2\<rfloor>"
    by (intro floor_mono) simp
  then show ?thesis
    unfolding half_exact ninety_five
    using False assms rank_of_rounded [of m "1 / 2"] rank_of_rounded [of m "4278419646001971 / 4503599627370496"]
    by (simp add: nat_mono)
qed

text \<open>C40. The statistics the fleet view publishes for a node are in order: the minimum, the median, the 95th
  percentile and the maximum of the measured round trips, each of them a measured round trip, in
  this order, for every number of samples a \<open>usize\<close> index can count exactly in \<open>f64\<close>.\<close>

theorem rtt_summary_is_ordered:
  assumes "rtts \<noteq> []" "NaN \<notin> set rtts" "length rtts \<le> 2 ^ 53"
    and "r = summarize_rtts (sort_rtts rtts)"
  shows "{rt_min r, rt_median r, rt_p95 r, rt_max r} \<subseteq> set rtts
     \<and> f_le (rt_min r) (rt_median r) \<and> f_le (rt_median r) (rt_p95 r) \<and> f_le (rt_p95 r) (rt_max r)
     \<and> list_all (\<lambda>x. f_le (rt_min r) x \<and> f_le x (rt_max r)) rtts"
proof -
  let ?xs = "sort_rtts rtts"
  have xs: "?xs \<noteq> []" "sorted_wrt f_le ?xs" "set ?xs = set rtts"
    using assms(1,2) sorted_sort_rtts by auto
  have len: "length ?xs = length rtts"
    using assms(1) rtt_summary_in_order [OF assms(1,2) refl] by (simp add: summarize_rtts_def)
  have "f_le (?xs ! i) (?xs ! j)" if "i \<le> j" "j < length ?xs" for i j
  proof (cases "i = j")
    case True
    have "?xs ! j \<in> set rtts" using that(2) xs(3) nth_mem by blast
    then show ?thesis using True assms(2) f_le_refl by metis
  next
    case False
    then show ?thesis using that xs(2) by (simp add: sorted_wrt_iff_nth_less)
  qed
  then have "f_le (percentile ?xs (f64_round (1 / 2))) (percentile ?xs (f64_round (95 / 100)))"
    using rank_of_median_le_p95 [of "length ?xs - 1"] assms(1,3) xs(1) len
    by (cases rtts) (simp_all add: percentile_rank)
  with rtt_summary_in_order [OF assms(1,2) refl] xs hd_in_set [OF xs(1)] last_in_set [OF xs(1)] show ?thesis
    by (auto simp: assms(4) summarize_rtts_def)
qed

theorem rtt_summary_is_ordered_witness:
  "f_le (rt_median (summarize_rtts (sort_rtts [Fin 2, Fin 1, Fin 5]))) (rt_p95 (summarize_rtts (sort_rtts [Fin 2, Fin 1, Fin 5])))"
  using rtt_summary_is_ordered [of "[Fin 2, Fin 1, Fin 5]" "summarize_rtts (sort_rtts [Fin 2, Fin 1, Fin 5])"] by simp

end
