(* ===== verification/Agent_Process.thy ===== *)
theory Agent_Process
  imports Fleet_Properties Agent_Tools Rpc_Properties
begin

text \<open>
  The agent as a process: \<open>serve_with_identity\<close> and the accept handler of \<open>rpc.rs\<close>, the client's
  connection and its close, and the command \<open>agent-serve\<close> of \<open>bin/nauti.rs\<close>, from the key on disk to
  the address file that controllers read. Iroh, the JSON encoder and the file system are arguments.
\<close>

subsection \<open>Transport errors\<close>

fun rpc_transport_error_display :: "rpc_transport_error \<Rightarrow> string" where
  "rpc_transport_error_display (Io e) = ''i/o error: '' @ e"
| "rpc_transport_error_display (FrameTooLarge n) =
     ''frame of '' @ show_nat (unat n) @ '' bytes exceeds maximum of '' @ show_nat (unat max_frame_bytes)"
| "rpc_transport_error_display ConnectionClosed = ''connection closed before a complete frame was received''"
| "rpc_transport_error_display (Json e) = ''failed to encode/decode JSON: '' @ e"
| "rpc_transport_error_display (Iroh e) = ''iroh transport error: '' @ e"

subsection \<open>Serving\<close>

text \<open>What Iroh does: binding an endpoint with a secret key or a fresh one gives its id and, once it is
  online, its address; an endpoint dials an address under a protocol name and opens a stream.\<close>

record endpoint =
  ep_id :: string
  ep_addr :: endpoint_addr

record iroh =
  ir_bind :: "bytes option \<Rightarrow> string + endpoint"
  ir_connect :: "endpoint_addr \<Rightarrow> string \<Rightarrow> string option"
  ir_open_bi :: "endpoint_addr \<Rightarrow> string option"

definition alpn :: string where
  "alpn = ''nauti-fabric/rpc/1''"

record fabric_agent =
  fa_auth :: auth_provider
  fa_local_endpoint_id :: string

definition fabric_agent_new :: fabric_agent where
  "fabric_agent_new = \<lparr>fa_auth = NoAuth, fa_local_endpoint_id = ''local''\<rparr>"

text \<open>The context every request of a connection is authorized in.\<close>

definition connection_context :: "fabric_agent \<Rightarrow> string \<Rightarrow> request_context" where
  "connection_context agent remote_id =
     \<lparr>rc_remote_endpoint_id = remote_id, rc_local_endpoint_id = fa_local_endpoint_id agent\<rparr>"

definition serve_with_identity ::
  "iroh \<Rightarrow> auth_provider \<Rightarrow> bytes option \<Rightarrow> rpc_transport_error + fabric_agent \<times> endpoint_addr"
where
  "serve_with_identity net auth secret_key =
     (case ir_bind net secret_key of
        Inl e \<Rightarrow> Inl (Iroh e)
      | Inr ep \<Rightarrow> Inr (\<lparr>fa_auth = auth, fa_local_endpoint_id = ep_id ep\<rparr>, ep_addr ep))"

definition serve_with_auth :: "iroh \<Rightarrow> auth_provider \<Rightarrow> rpc_transport_error + fabric_agent \<times> endpoint_addr" where
  "serve_with_auth net auth = serve_with_identity net auth None"

definition serve_agent :: "iroh \<Rightarrow> rpc_transport_error + fabric_agent \<times> endpoint_addr" where
  "serve_agent net = serve_with_auth net NoAuth"

text \<open>One connection to the router: \<open>FabricAgent::accept\<close> in the context of the peer.\<close>

definition accept_connection ::
  "fabric_agent \<Rightarrow> string \<Rightarrow> accept_env \<Rightarrow> ('a, 'w) adapter_ops \<Rightarrow> string + recv_stream \<Rightarrow> 'a fabric \<Rightarrow> 'w
     \<Rightarrow> (rpc_transport_error + unit) outcome \<times> bytes \<times> 'a fabric \<times> 'w"
where
  "accept_connection agent remote_id env ops accept_bi F w =
     (case accept_bi of
        Inl e \<Rightarrow> (Done (Inl (Iroh e)), [], F, w)
      | Inr recv \<Rightarrow> accept_loop env ops (fa_auth agent) (connection_context agent remote_id) 0 recv [] F w)"

subsection \<open>Connecting\<close>

text \<open>\<open>AgentClient::connect\<close> dials the preferred addresses and opens the stream.\<close>

definition client_connect :: "iroh \<Rightarrow> endpoint_addr \<Rightarrow> rpc_transport_error + endpoint_addr" where
  "client_connect net addr =
     (case ir_bind net None of
        Inl e \<Rightarrow> Inl (Iroh e)
      | Inr _ \<Rightarrow>
          (case ir_connect net (prefer_direct addr) alpn of
             Some e \<Rightarrow> Inl (Iroh e)
           | None \<Rightarrow>
               (case ir_open_bi net (prefer_direct addr) of
                  Some e \<Rightarrow> Inl (Iroh e)
                | None \<Rightarrow> Inr (prefer_direct addr))))"

text \<open>\<open>AgentClient::close\<close>: only finishing the send stream can fail; what the agent still sends within two
  seconds, and whether it comes in time, is ignored.\<close>

definition client_close :: "string option \<Rightarrow> (string + bytes) option \<Rightarrow> rpc_transport_error + unit" where
  "client_close finish_error drained = (case finish_error of Some e \<Rightarrow> Inl (Iroh e) | None \<Rightarrow> Inr ())"

subsection \<open>The command\<close>

record serve_env =
  se_key :: key_env
  se_fresh_key :: bytes
  se_mkdir_error :: "string \<Rightarrow> string option"
  se_write_error :: "string option"
  se_to_string :: "endpoint_addr \<Rightarrow> string + string"
  se_pretty :: "endpoint_addr \<Rightarrow> string + string"
  se_runtime_error :: "string option"
  se_ctrl_c_error :: "string option"
  se_shutdown_error :: "string option"

definition persist_addr ::
  "serve_env \<Rightarrow> host \<Rightarrow> string \<Rightarrow> endpoint_addr \<Rightarrow> (string \<Rightarrow> string option) \<Rightarrow> (string + string) \<times> (string \<Rightarrow> string option)"
where
  "persist_addr env h node addr fs =
     (case se_pretty env addr of
        Inl e \<Rightarrow> (Inl e, fs)
      | Inr json \<Rightarrow> persist_addr_json_to (se_mkdir_error env) (se_write_error env) (addr_file_path h node) json fs)"

text \<open>What the process prints, how it ends after Ctrl-C, the agent it ran, the keys and the address files
  on disk afterwards. A key that cannot be kept is only a warning: the agent then has a fresh identity.\<close>

record serve_run_result =
  sr_printed :: "string list"
  sr_result :: "string + fabric_agent \<times> endpoint_addr"
  sr_keys :: files
  sr_addrs :: "string \<Rightarrow> string option"

definition key_warning :: "string + bytes \<Rightarrow> string list" where
  "key_warning key =
     (case key of
        Inl e \<Rightarrow> [''warning: agent identity not persisted ('' @ e @ ''); using an ephemeral key'']
      | Inr _ \<Rightarrow> [])"

definition key_to_use :: "string + bytes \<Rightarrow> bytes option" where
  "key_to_use key = (case key of Inl _ \<Rightarrow> None | Inr k \<Rightarrow> Some k)"

definition addr_note :: "string + string \<Rightarrow> string" where
  "addr_note persisted =
     (case persisted of
        Inr path \<Rightarrow> ''self-registered address file: '' @ path
      | Inl e \<Rightarrow> ''warning: could not persist address file: '' @ e)"

definition served_until_ctrl_c :: "serve_env \<Rightarrow> 'r \<Rightarrow> string + 'r" where
  "served_until_ctrl_c env r =
     (case se_ctrl_c_error env of
        Some e \<Rightarrow> Inl e
      | None \<Rightarrow> (case se_shutdown_error env of Some e \<Rightarrow> Inl (''router shutdown failed: '' @ e) | None \<Rightarrow> Inr r))"

definition agent_serve ::
  "iroh \<Rightarrow> serve_env \<Rightarrow> host \<Rightarrow> string \<Rightarrow> files \<Rightarrow> (string \<Rightarrow> string option) \<Rightarrow> serve_run_result"
where
  "agent_serve net env h node ks fs =
     (case se_runtime_error env of
        Some e \<Rightarrow> \<lparr>sr_printed = [], sr_result = Inl e, sr_keys = ks, sr_addrs = fs\<rparr>
      | None \<Rightarrow>
     (case load_or_create_key_at (se_key env) (se_fresh_key env) (agent_key_path h node) ks of
        (key, ks') \<Rightarrow>
          (case serve_with_identity net NoAuth (key_to_use key) of
             Inl e \<Rightarrow>
               \<lparr>sr_printed = key_warning key, sr_result = Inl (rpc_transport_error_display e), sr_keys = ks', sr_addrs = fs\<rparr>
           | Inr (agent, addr) \<Rightarrow>
               (let hello = key_warning key
                    @ [''nauti agent listening; endpoint address (paste into agent-connect):'']
                in case se_to_string env addr of
                     Inl e \<Rightarrow> \<lparr>sr_printed = hello, sr_result = Inl e, sr_keys = ks', sr_addrs = fs\<rparr>
                   | Inr json \<Rightarrow>
                       (case persist_addr env h node addr fs of
                          (persisted, fs') \<Rightarrow>
                            \<lparr>sr_printed = hello @ [json, addr_note persisted, ''press ctrl-c to stop''],
                             sr_result = served_until_ctrl_c env (agent, addr), sr_keys = ks', sr_addrs = fs'\<rparr>)))))"

subsection \<open>Identity\<close>

lemma agent_serve_identity:
  assumes "load_or_create_key_at (se_key env) (se_fresh_key env) (agent_key_path h node) ks = (key, ks')"
    and "sr_result (agent_serve net env h node ks fs) = Inr (agent, addr)"
  shows "serve_with_identity net NoAuth (key_to_use key) = Inr (agent, addr) \<and> sr_keys (agent_serve net env h node ks fs) = ks'"
  using assms
  by (auto simp: agent_serve_def served_until_ctrl_c_def Let_def split: option.splits sum.splits prod.splits)

lemma served_identity:
  "serve_with_identity net auth key = Inr (agent, addr) \<longleftrightarrow>
     (\<exists>ep. ir_bind net key = Inr ep \<and> agent = \<lparr>fa_auth = auth, fa_local_endpoint_id = ep_id ep\<rparr> \<and> addr = ep_addr ep)"
  by (auto simp: serve_with_identity_def split: sum.splits)

text \<open>C22. A restarted agent is the same agent: when the first start kept its key, every later start on the
  same machine that can read the key serves under the same endpoint id, the one controllers have in
  their address files, whatever key it would have generated. Iroh's endpoint id is the public key.\<close>

theorem restarted_agent_keeps_its_identity:
  assumes "\<And>k ep. ir_bind net (Some k) = Inr ep \<Longrightarrow> ep_id ep = public_key k"
    and "\<And>k ep. ir_bind net' (Some k) = Inr ep \<Longrightarrow> ep_id ep = public_key k"
    and "sr_result (agent_serve net env h node ks fs) = Inr (agent, addr)"
    and "load_or_create_key_at (se_key env) (se_fresh_key env) (agent_key_path h node) ks = (Inr key, ks')"
    and "length (se_fresh_key env) = 32" "\<not> ke_unreadable (se_key env') (agent_key_path h node)"
    and "sr_result (agent_serve net' env' h node (sr_keys (agent_serve net env h node ks fs)) fs') = Inr (agent', addr')"
  shows "fa_local_endpoint_id agent' = fa_local_endpoint_id agent \<and> fa_local_endpoint_id agent = public_key key"
proof -
  note first = agent_serve_identity [OF assms(4,3)]
  have again: "load_or_create_key_at (se_key env') (se_fresh_key env') (agent_key_path h node) ks' = (Inr key, ks')"
    using agent_identity_is_stable [OF assms(4,5,6)] by simp
  note second = agent_serve_identity [OF again assms(7) [unfolded conjunct2 [OF first]]]
  obtain ep ep' where ep: "ir_bind net (Some key) = Inr ep" "fa_local_endpoint_id agent = ep_id ep"
      "ir_bind net' (Some key) = Inr ep'" "fa_local_endpoint_id agent' = ep_id ep'"
    using first second by (auto simp: served_identity key_to_use_def)
  then show ?thesis
    using assms(1) [OF ep(1)] assms(2) [OF ep(3)] by simp
qed

definition demo_iroh :: iroh where
  "demo_iroh = \<lparr>ir_bind = (\<lambda>k. Inr \<lparr>ep_id = (case k of None \<Rightarrow> ''fresh'' | Some b \<Rightarrow> show_nat (unat (hd b))),
     ep_addr = \<lparr>ea_id = ''a'', ea_addrs = []\<rparr>\<rparr>), ir_connect = (\<lambda>_ _. None), ir_open_bi = (\<lambda>_. None)\<rparr>"

definition demo_serve_env :: "u8 \<Rightarrow> serve_env" where
  "demo_serve_env b = \<lparr>se_key = quiet_keys, se_fresh_key = replicate 32 b, se_mkdir_error = (\<lambda>_. None), se_write_error = None,
     se_to_string = (\<lambda>_. Inr ''{}''), se_pretty = (\<lambda>_. Inr ''{}''), se_runtime_error = None, se_ctrl_c_error = None,
     se_shutdown_error = None\<rparr>"

lemma demo_serves: "\<exists>agent addr. sr_result (agent_serve demo_iroh (demo_serve_env b) h node ks fs) = Inr (agent, addr)"
  by (simp add: agent_serve_def demo_serve_env_def demo_iroh_def serve_with_identity_def Let_def
      served_until_ctrl_c_def split: prod.split)

theorem restarted_agent_keeps_its_identity_witness:
  "let r = agent_serve demo_iroh (demo_serve_env 7) bare_host ''n'' Map.empty Map.empty;
       r' = agent_serve demo_iroh (demo_serve_env 9) bare_host ''n'' (sr_keys r) Map.empty
   in \<exists>agent addr agent' addr'. sr_result r = Inr (agent, addr) \<and> sr_result r' = Inr (agent', addr')
        \<and> fa_local_endpoint_id agent' = fa_local_endpoint_id agent"
proof -
  let ?r = "agent_serve demo_iroh (demo_serve_env 7) bare_host ''n'' Map.empty Map.empty"
  let ?r' = "agent_serve demo_iroh (demo_serve_env 9) bare_host ''n'' (sr_keys ?r) Map.empty"
  have bound: "ep_id ep = show_nat (unat (hd k))" if "ir_bind demo_iroh (Some k) = Inr ep" for k ep
    using that by (auto simp: demo_iroh_def)
  have "\<exists>ks'. load_or_create_key_at (se_key (demo_serve_env 7)) (se_fresh_key (demo_serve_env 7))
      (agent_key_path bare_host ''n'') Map.empty = (Inr (replicate 32 7), ks')"
    by (simp add: load_or_create_key_at_def demo_serve_env_def quiet_keys_def split: option.split)
  then obtain ks' where key: "load_or_create_key_at (se_key (demo_serve_env 7)) (se_fresh_key (demo_serve_env 7))
      (agent_key_path bare_host ''n'') Map.empty = (Inr (replicate 32 7), ks')" by blast
  obtain agent addr agent' addr' where r: "sr_result ?r = Inr (agent, addr)" "sr_result ?r' = Inr (agent', addr')"
    using demo_serves by meson
  have ke: "length (se_fresh_key (demo_serve_env 7)) = 32" "\<not> ke_unreadable (se_key (demo_serve_env 9)) (agent_key_path bare_host ''n'')"
    by (simp_all add: demo_serve_env_def quiet_keys_def)
  from restarted_agent_keeps_its_identity [of demo_iroh "\<lambda>k. show_nat (unat (hd k))", OF bound bound r(1) key ke r(2)] r
  show ?thesis
    by (auto simp: Let_def)
qed

text \<open>A key file that was torn while it was written makes every later start of the agent another agent:
  it warns and serves under whatever identity Iroh makes up.\<close>

lemma torn_key_serves_ephemerally:
  assumes "load_or_create_key_at (se_key env) (se_fresh_key env) (agent_key_path h node) ks = (Inl e, ks')"
    and "sr_result (agent_serve net env h node ks fs) = Inr (agent, addr)"
  shows "serve_with_identity net NoAuth None = Inr (agent, addr)
     \<and> hd (sr_printed (agent_serve net env h node ks fs))
         = ''warning: agent identity not persisted ('' @ e @ ''); using an ephemeral key''"
  using assms agent_serve_identity [OF assms]
  by (auto simp: agent_serve_def key_to_use_def key_warning_def Let_def split: option.splits sum.splits prod.splits)

end
