(* ===== verification/Vm_Launch.thy ===== *)
theory Vm_Launch
  imports Cloud_Hypervisor Fabric
begin

text \<open>
  Launching a VM from the command line: \<open>VmResourceSpec\<close> of \<open>vmm/cloud_hypervisor.rs\<close> with its
  conversion to attributes, and \<open>vm_launch\<close> of \<open>bin/nauti.rs\<close>, which registers the spec as a resource,
  leases it and attaches it through the fabric. The command line that reaches the hypervisor is shown
  to be a direct function of the spec.
\<close>

subsection \<open>The spec\<close>

record vm_resource_spec =
  vs_api_socket :: string
  vs_kernel :: string
  vs_rootfs :: string
  vs_vm_name :: "string option"
  vs_vcpus :: "string option"
  vs_memory_mib :: "string option"
  vs_virtio_blk :: "string option"
  vs_net :: "string option"
  vs_user_device :: "string option"
  vs_user_device_type :: "string option"
  vs_user_device_queue_sizes :: "string option"
  vs_fs :: "string option"
  vs_vsock :: "string option"
  vs_watchdog :: "string option"
  vs_cmdline :: "string option"
  vs_initramfs :: "string option"
  vs_rng_src :: "string option"
  vs_shared :: "string option"

fun insert_opt :: "string \<Rightarrow> string option \<Rightarrow> attrs \<Rightarrow> attrs" where
  "insert_opt k None m = m"
| "insert_opt k (Some v) m = bt_insert k v m"

definition optional_attrs :: "vm_resource_spec \<Rightarrow> (string \<times> string option) list" where
  "optional_attrs s =
     [(''vmm.vm_name'', vs_vm_name s), (''vmm.vcpus'', vs_vcpus s), (''vmm.memory_mib'', vs_memory_mib s),
      (''vmm.virtio_blk'', vs_virtio_blk s), (''vmm.net'', vs_net s), (''vmm.user_device'', vs_user_device s),
      (''vmm.user_device_type'', vs_user_device_type s),
      (''vmm.user_device_queue_sizes'', vs_user_device_queue_sizes s), (''vmm.fs'', vs_fs s),
      (''vmm.vsock'', vs_vsock s), (''vmm.watchdog'', vs_watchdog s), (''vmm.cmdline'', vs_cmdline s),
      (''vmm.initramfs'', vs_initramfs s), (''vmm.rng_src'', vs_rng_src s), (''vmm.shared'', vs_shared s)]"

definition into_attributes :: "vm_resource_spec \<Rightarrow> attrs" where
  "into_attributes s =
     fold (\<lambda>(k, v). insert_opt k v) (optional_attrs s)
       (bt_insert ''vmm.rootfs'' (vs_rootfs s)
         (bt_insert ''vmm.kernel'' (vs_kernel s) (bt_insert ''vmm.api_socket'' (vs_api_socket s) [])))"

subsection \<open>The launch\<close>

definition vm_resource :: "string \<Rightarrow> string \<Rightarrow> vm_resource_spec \<Rightarrow> resource" where
  "vm_resource rid binary spec = \<lparr>res_id = rid, res_kind = Device, res_capacity = 1, res_unit = ''vm'',
     res_node = ''local'', res_state = Available, res_exclusive = True,
     res_attributes = bt_insert ''vmm.binary'' binary (into_attributes spec)\<rparr>"

definition launch_fabric :: "'w launcher \<Rightarrow> string \<Rightarrow> string \<Rightarrow> vm_resource_spec \<Rightarrow> ch_adapter fabric" where
  "launch_fabric ln rid binary spec =
     register_adapter (ch_ops ln) (with_launcher binary) (register (vm_resource rid binary spec) default_fabric)"

definition vm_launch ::
  "'w launcher \<Rightarrow> string \<Rightarrow> string \<Rightarrow> vm_resource_spec \<Rightarrow> u64 \<Rightarrow> instant \<times> instant \<Rightarrow> instant \<Rightarrow> 'w
     \<Rightarrow> (fabric_error + attachment) outcome \<times> 'w"
where
  "vm_launch ln rid binary spec ttl_secs lease_clock attach_clock w =
     (case lease_exclusive rid ''nauti-vm'' (from_secs ttl_secs) (fst lease_clock) (snd lease_clock)
             (launch_fabric ln rid binary spec) of
        (Panicked, _) \<Rightarrow> (Panicked, w)
      | (Done (Inl e), _) \<Rightarrow> (Done (Inl e), w)
      | (Done (Inr l), F1) \<Rightarrow>
          (case attach (ch_ops ln) ''cloud-hypervisor'' l attach_clock F1 w of (out, _, w') \<Rightarrow> (out, w')))"

text \<open>The command line's arguments and the spec they describe.\<close>

record vm_launch_args =
  va_resource_id :: string
  va_binary :: string
  va_api_socket :: string
  va_kernel :: string
  va_rootfs :: string
  va_vm_name :: "string option"
  va_vcpus :: string
  va_memory_mib :: string
  va_virtio_blk :: "string option"
  va_net :: "string option"
  va_user_device :: "string option"
  va_fs :: "string option"
  va_vsock :: "string option"
  va_watchdog :: bool
  va_cmdline :: "string option"
  va_initramfs :: "string option"
  va_rng_src :: "string option"
  va_shared :: bool
  va_ttl_secs :: u64

definition args_spec :: "vm_launch_args \<Rightarrow> vm_resource_spec" where
  "args_spec a = \<lparr>vs_api_socket = va_api_socket a, vs_kernel = va_kernel a, vs_rootfs = va_rootfs a,
     vs_vm_name = va_vm_name a, vs_vcpus = Some (va_vcpus a), vs_memory_mib = Some (va_memory_mib a),
     vs_virtio_blk = va_virtio_blk a, vs_net = va_net a, vs_user_device = va_user_device a,
     vs_user_device_type = None, vs_user_device_queue_sizes = None, vs_fs = va_fs a, vs_vsock = va_vsock a,
     vs_watchdog = (if va_watchdog a then Some ''on'' else None), vs_cmdline = va_cmdline a,
     vs_initramfs = va_initramfs a, vs_rng_src = va_rng_src a,
     vs_shared = (if va_shared a then Some ''on'' else None)\<rparr>"

definition vm_launch_main ::
  "'w launcher \<Rightarrow> vm_launch_args \<Rightarrow> instant \<times> instant \<Rightarrow> instant \<Rightarrow> 'w \<Rightarrow> (fabric_error + attachment) outcome \<times> 'w"
where
  "vm_launch_main ln a lease_clock attach_clock w =
     vm_launch ln (va_resource_id a) (va_binary a) (args_spec a) (va_ttl_secs a) lease_clock attach_clock w"

subsection \<open>The attributes are the spec\<close>

lemma get_insert_opt:
  "map_of (insert_opt k v m) k' = (if k' = k \<and> v \<noteq> None then v else map_of m k')"
  by (cases v) (auto simp: get_bt_insert)

lemma get_fold_insert_opt:
  "distinct (map fst kvs) \<Longrightarrow> map_of (fold (\<lambda>(k, v). insert_opt k v) kvs m) k
     = (case map_of kvs k of Some (Some v) \<Rightarrow> Some v | _ \<Rightarrow> map_of m k)"
proof (induction kvs arbitrary: m)
  case (Cons kv kvs)
  obtain a v where kv: "kv = (a, v)" by (cases kv)
  have "map_of kvs a = None"
    using Cons.prems by (simp add: kv map_of_eq_None_iff)
  then show ?case
    using Cons by (auto simp: kv get_insert_opt split: option.split)
qed simp

lemma into_attributes_get:
  "map_of (into_attributes s) k =
     (case map_of (optional_attrs s) k of Some (Some v) \<Rightarrow> Some v
      | _ \<Rightarrow> map_of [(''vmm.api_socket'', vs_api_socket s), (''vmm.kernel'', vs_kernel s), (''vmm.rootfs'', vs_rootfs s)] k)"
proof -
  have "distinct (map fst (optional_attrs s))"
    by (simp add: optional_attrs_def)
  from get_fold_insert_opt [OF this] show ?thesis
    by (simp add: into_attributes_def get_bt_insert split: option.split)
qed

lemma vm_resource_get:
  "map_of (res_attributes (vm_resource rid binary s)) k
     = (if k = ''vmm.binary'' then Some binary else map_of (into_attributes s) k)"
  by (simp add: vm_resource_def get_bt_insert)

text \<open>Every attribute the adapter reads is the spec's field of that name.\<close>

lemma vm_resource_attrs:
  "map_of (res_attributes (vm_resource rid binary s)) ''vmm.api_socket'' = Some (vs_api_socket s)"
  "map_of (res_attributes (vm_resource rid binary s)) ''vmm.kernel'' = Some (vs_kernel s)"
  "map_of (res_attributes (vm_resource rid binary s)) ''vmm.rootfs'' = Some (vs_rootfs s)"
  "map_of (res_attributes (vm_resource rid binary s)) ''vmm.vm_name'' = vs_vm_name s"
  "map_of (res_attributes (vm_resource rid binary s)) ''vmm.vcpus'' = vs_vcpus s"
  "map_of (res_attributes (vm_resource rid binary s)) ''vmm.memory_mib'' = vs_memory_mib s"
  "map_of (res_attributes (vm_resource rid binary s)) ''vmm.virtio_blk'' = vs_virtio_blk s"
  "map_of (res_attributes (vm_resource rid binary s)) ''vmm.device'' = None"
  "map_of (res_attributes (vm_resource rid binary s)) ''vmm.net'' = vs_net s"
  "map_of (res_attributes (vm_resource rid binary s)) ''vmm.user_device'' = vs_user_device s"
  "map_of (res_attributes (vm_resource rid binary s)) ''vmm.user_device_type'' = vs_user_device_type s"
  "map_of (res_attributes (vm_resource rid binary s)) ''vmm.user_device_queue_sizes'' = vs_user_device_queue_sizes s"
  "map_of (res_attributes (vm_resource rid binary s)) ''vmm.fs'' = vs_fs s"
  "map_of (res_attributes (vm_resource rid binary s)) ''vmm.vsock'' = vs_vsock s"
  "map_of (res_attributes (vm_resource rid binary s)) ''vmm.watchdog'' = vs_watchdog s"
  "map_of (res_attributes (vm_resource rid binary s)) ''vmm.cmdline'' = vs_cmdline s"
  "map_of (res_attributes (vm_resource rid binary s)) ''vmm.initramfs'' = vs_initramfs s"
  "map_of (res_attributes (vm_resource rid binary s)) ''vmm.rng_src'' = vs_rng_src s"
  "map_of (res_attributes (vm_resource rid binary s)) ''vmm.shared'' = vs_shared s"
  by (simp_all add: vm_resource_get into_attributes_get optional_attrs_def split: option.split)

subsection \<open>The command line of a spec\<close>

text \<open>The reference: the command line written down from the spec, without the attribute map between.\<close>

definition arg_of :: "string \<Rightarrow> string \<Rightarrow> string option \<Rightarrow> string list" where
  "arg_of flag pre v = (case v of None \<Rightarrow> [] | Some x \<Rightarrow> [flag, pre @ x])"

definition is_on :: "string option \<Rightarrow> bool" where
  "is_on v = (v = Some ''on'' \<or> v = Some ''true'')"

definition spec_argv :: "vm_resource_spec \<Rightarrow> string list" where
  "spec_argv s =
     [''--api-socket'', ''path='' @ vs_api_socket s,
      ''--cpus'', ''boot='' @ unwrap_or (vs_vcpus s) ''1'',
      ''--memory'', ''size='' @ unwrap_or (vs_memory_mib s) ''512'' @ ''M''
        @ (if vs_user_device s \<noteq> None \<or> vs_fs s \<noteq> None \<or> vs_vsock s \<noteq> None \<or> is_on (vs_shared s)
           then '',shared=on'' else []),
      ''--kernel'', vs_kernel s, ''--disk'', ''path='' @ vs_rootfs s,
      ''--serial'', ''tty'', ''--console'', ''off'',
      ''--rng'', ''src='' @ unwrap_or (vs_rng_src s) ''/dev/urandom'' @ '',id=ch-builtin-rng'']
     @ arg_of ''--initramfs'' [] (vs_initramfs s)
     @ arg_of ''--cmdline'' [] (vs_cmdline s)
     @ arg_of ''--disk'' ''path='' (vs_virtio_blk s)
     @ arg_of ''--net'' [] (vs_net s)
     @ (case vs_user_device s of
          None \<Rightarrow> []
        | Some d \<Rightarrow> [''--generic-vhost-user'', ''device_type='' @ unwrap_or (vs_user_device_type s) ''rng''
            @ '',socket='' @ d @ '',queue_sizes='' @ unwrap_or (vs_user_device_queue_sizes s) ''1024''])
     @ arg_of ''--fs'' [] (vs_fs s)
     @ arg_of ''--vsock'' [] (vs_vsock s)
     @ (if is_on (vs_watchdog s) then [''--watchdog''] else [])"

lemma opt_arg_vm: "opt_arg attrs key flag pre = arg_of flag pre (map_of attrs key)"
  by (simp add: opt_arg_def arg_of_def)

lemma flag_on_vm: "flag_on attrs key = is_on (map_of attrs key)"
  by (simp add: flag_on_def is_on_def split: option.split)

lemma build_argv_spec: "build_argv (vm_resource rid binary spec) = Inr (spec_argv spec)"
proof -
  let ?a = "res_attributes (vm_resource rid binary spec)"
  have "device_args ?a = []"
    by (simp add: device_args_def vm_resource_attrs)
  moreover have "user_device_args ?a = (case vs_user_device spec of
          None \<Rightarrow> []
        | Some d \<Rightarrow> [''--generic-vhost-user'', ''device_type='' @ unwrap_or (vs_user_device_type spec) ''rng''
            @ '',socket='' @ d @ '',queue_sizes='' @ unwrap_or (vs_user_device_queue_sizes spec) ''1024''])"
    by (simp add: user_device_args_def vm_resource_attrs split: option.split)
  moreover have "needs_shared ?a \<longleftrightarrow>
      vs_user_device spec \<noteq> None \<or> vs_fs spec \<noteq> None \<or> vs_vsock spec \<noteq> None \<or> is_on (vs_shared spec)"
    by (simp only: needs_shared_def has_key_def flag_on_vm vm_resource_attrs)
  ultimately show ?thesis
    by (simp only: build_argv_def Let_def require_attr_def vm_resource_attrs ok_or.simps and_then.simps opt_arg_vm
        flag_on_vm spec_argv_def append_Nil)
qed

text \<open>C26. The hypervisor is started with the command line of the spec: the detour of a launch over the
  resource's attribute map loses no field of the spec and adds none, so the arguments the adapter builds
  are the ones written down from the spec directly.\<close>

theorem argv_is_the_spec: "build_argv (vm_resource rid binary spec) = Inr (spec_argv spec)"
  by (rule build_argv_spec)

definition launch_lease :: "string \<Rightarrow> lease" where
  "launch_lease rid = \<lparr>lease_id = 1, lease_resource = rid, lease_owner = ''nauti-vm''\<rparr>"

text \<open>What a launch without a network does on a machine where the program is there and no VM answers on the
  socket: it starts the hypervisor on the spec's command line, and reports what became of it.\<close>

lemma vm_launch_runs_the_spec:
  assumes "snd c + int (from_secs ttl) < instant_limit" "t < snd c + int (from_secs ttl)"
    and "ln_locate_binary ln binary w = Some exe" "ln_vm_is_running ln (vs_api_socket spec) w = (False, w1)"
    and "vs_net spec = None"
  shows "vm_launch ln rid binary spec ttl c t w =
    (case ln_launch_vm ln exe (spec_argv spec) w1 of
       (Inl e, w2) \<Rightarrow> (Done (Inl (ch_unavailable e)), w2)
     | (Inr _, w2) \<Rightarrow>
         (Done (Inr (ch_attached (vm_resource rid binary spec) (launch_lease rid) exe (vs_api_socket spec) False)), w2))"
proof -
  let ?r = "vm_resource rid binary spec" and ?F = "launch_fabric ln rid binary spec"
  let ?e = "snd c + int (from_secs ttl)"
  let ?F1 = "?F\<lparr>leases := [(rid, \<lparr>al_lease = launch_lease rid, al_expires_at = ?e\<rparr>)], next_lease_id := 1\<rparr>"
  have r: "res_id ?r = rid" "res_kind ?r = Device" "res_state ?r = Available" "res_exclusive ?r"
    by (simp_all add: vm_resource_def)
  have F: "map_of (resources ?F) rid = Some ?r" "leases ?F = []" "\<not> leases_poisoned ?F" "next_lease_id ?F = 0"
    "map_of (adapters ?F) ''cloud-hypervisor'' = Some (with_launcher binary)"
    by (simp_all add: launch_fabric_def register_def register_adapter_def default_fabric_def r ch_ops_def)
  have lease: "lease_exclusive rid ''nauti-vm'' (from_secs ttl) (fst c) (snd c) ?F = (Done (Inr (launch_lease rid)), ?F1)"
    using assms(1) by (simp add: lease_exclusive_def resource_def F r prune_def has_key_def instant_add_def
        launch_lease_def Let_def)
  obtain out a' w' where launch: "ch_launch ln exe (vs_api_socket spec) (with_launcher binary) ?r (launch_lease rid) w1 = (out, a', w')"
    by (rule prod_cases3)
  then have "ad_attach (ch_ops ln) (with_launcher binary) ?r (launch_lease rid) w = (out, a', w')"
    using assms(3,4) by (simp add: ch_ops_def ch_attach_def r require_attr_def vm_resource_attrs with_launcher_def already_managed_def)
  then have "\<exists>F'. attach (ch_ops ln) ''cloud-hypervisor'' (launch_lease rid) t ?F1 w = (Done out, F', w')"
    using assms(2) by (cases out) (simp_all add: attach_def resource_def authorized_def F launch_lease_def)
  then have "vm_launch ln rid binary spec ttl c t w = (Done out, w')"
    unfolding vm_launch_def lease by auto
  moreover have "\<not> has_key (res_attributes ?r) ''vmm.net''"
    using assms(5) by (simp add: has_key_def vm_resource_attrs)
  ultimately show ?thesis
    using launch by (auto simp: ch_launch_def build_argv_spec split: prod.splits sum.splits)
qed

end
