(* ===== verification/Peer.thy ===== *)
theory Peer
  imports Plan
begin

text \<open>
  The peer-domain envelope of \<open>peer.rs\<close>: an agent on bare metal and one in a VM answer a job with
  the same envelope.
\<close>

datatype peer_kind = Bare | Vm

record peer_identity =
  pi_node :: string
  pi_kind :: peer_kind
  pi_endpoint :: string

record peer_job =
  pj_job_id :: string
  pj_domain :: peer_identity
  pj_op :: string
  pj_store_input :: "string option"
  pj_payload :: json

record peer_result =
  pe_job_id :: string
  pe_domain :: peer_identity
  pe_status :: string
  pe_output :: json

definition run_peer_job :: "peer_job \<Rightarrow> json \<Rightarrow> peer_result" where
  "run_peer_job job result =
     \<lparr>pe_job_id = pj_job_id job, pe_domain = pj_domain job, pe_status = ''ok'', pe_output = result\<rparr>"

definition default_vsock_spec :: "string \<Rightarrow> string" where
  "default_vsock_spec socket = ''cid=3,socket='' @ socket"

text \<open>The envelope does not depend on where the agent lives: moving the domain into a VM moves only the
  domain of the answer.\<close>

lemma peer_envelope_is_uniform:
  "run_peer_job (job\<lparr>pj_domain := pj_domain job\<lparr>pi_kind := k\<rparr>\<rparr>) result
     = (run_peer_job job result)\<lparr>pe_domain := pj_domain job\<lparr>pi_kind := k\<rparr>\<rparr>"
  by (simp add: run_peer_job_def)

end
