(* ===== verification/Listings.thy ===== *)
theory Listings
  imports Lemonade Vfio Inventory Topology Gpu_Enrichment
begin

text \<open>
  The listings of \<open>bin/nauti.rs\<close>: \<open>tools\<close>, \<open>adapters\<close>, \<open>topology\<close>, \<open>gpus\<close>, \<open>inventory\<close> and
  \<open>research discover\<close>. A command's result is the lines it prints, the lines it writes to standard
  error, and whether it fails. \<open>serde_json::to_string_pretty\<close> is an argument, one for each type that is
  printed as JSON.
\<close>

record printed =
  pr_out :: "string list"
  pr_err :: "string list"
  pr_result :: "string + unit"

definition prints :: "string list \<Rightarrow> printed" where
  "prints ls = \<lparr>pr_out = ls, pr_err = [], pr_result = Inr ()\<rparr>"

definition fails :: "string \<Rightarrow> printed" where
  "fails e = \<lparr>pr_out = [], pr_err = [], pr_result = Inl e\<rparr>"

definition prints_json :: "string + string \<Rightarrow> printed" where
  "prints_json json = (case json of Inl e \<Rightarrow> fails e | Inr s \<Rightarrow> prints [s])"

definition tabbed :: "string list \<Rightarrow> string" where
  "tabbed = join [CHR 0x09]"

subsection \<open>Tools\<close>

record tool_info =
  ti_name :: string
  ti_purpose :: string

definition tool_list :: "tool_info list" where
  "tool_list =
     [\<lparr>ti_name = ''inventory'', ti_purpose = ''discover host resources''\<rparr>,
      \<lparr>ti_name = ''adapters'', ti_purpose = ''list local and network adapter planes''\<rparr>,
      \<lparr>ti_name = ''demo'', ti_purpose = ''prove lease, attach, and release''\<rparr>]"

definition tools :: "(tool_info list \<Rightarrow> string + string) \<Rightarrow> bool \<Rightarrow> printed" where
  "tools pretty as_json =
     (if as_json then prints_json (pretty tool_list)
      else prints (tabbed [''NAME'', ''PURPOSE''] # map (\<lambda>t. tabbed [ti_name t, ti_purpose t]) tool_list))"

subsection \<open>Adapters\<close>

text \<open>The listing registers adapters of three modules in one fabric.\<close>

datatype listed_adapter = Plain nauti_adapter | Lemonade lemonade_config | VfioGpu

fun listed_name :: "listed_adapter \<Rightarrow> string" where
  "listed_name (Plain a) = nauti_name a"
| "listed_name (Lemonade c) = ''lemonade''"
| "listed_name VfioGpu = ''gpu-vfio''"

fun listed_report ::
  "nvml_row smap \<Rightarrow> amd_telemetry smap option \<Rightarrow> lemonade_env \<Rightarrow> listed_adapter \<Rightarrow> host \<Rightarrow> adapter_report"
where
  "listed_report nvml rocm env (Plain a) h = nauti_report nvml rocm a h"
| "listed_report nvml rocm env (Lemonade c) h = lemonade_capability env c h"
| "listed_report nvml rocm env VfioGpu h = vfio_report h"

fun listed_attach ::
  "lemonade_env \<Rightarrow> (string \<Rightarrow> u32 \<Rightarrow> host \<Rightarrow> string + string) \<Rightarrow> listed_adapter \<Rightarrow> resource \<Rightarrow> lease \<Rightarrow> host
     \<Rightarrow> (fabric_error + attachment) \<times> listed_adapter \<times> host"
where
  "listed_attach env op (Plain a) r l h = (case nauti_attach a r l h of (out, a', h') \<Rightarrow> (out, Plain a', h'))"
| "listed_attach env op (Lemonade c) r l h = (case lemonade_attach env c r l h of (out, c', h') \<Rightarrow> (out, Lemonade c', h'))"
| "listed_attach env op VfioGpu r l h = (vfio_attach op r l h, VfioGpu, h)"

fun listed_detach :: "listed_adapter \<Rightarrow> resource \<Rightarrow> lease \<Rightarrow> host \<Rightarrow> (fabric_error + unit) \<times> listed_adapter \<times> host" where
  "listed_detach (Plain a) r l h = (case nauti_detach a r l h of (out, a', h') \<Rightarrow> (out, Plain a', h'))"
| "listed_detach a r l h = default_detach a r l h"

definition listed_ops ::
  "nvml_row smap \<Rightarrow> amd_telemetry smap option \<Rightarrow> lemonade_env \<Rightarrow> (string \<Rightarrow> u32 \<Rightarrow> host \<Rightarrow> string + string)
     \<Rightarrow> (listed_adapter, host) adapter_ops"
where
  "listed_ops nvml rocm env op = \<lparr>ad_name = listed_name, ad_attach = listed_attach env op, ad_detach = listed_detach,
     ad_report = listed_report nvml rocm env\<rparr>"

lemma listed_laws:
  assumes "listed_attach env op a r l w = (out, a', w')"
  shows "listed_name a' = listed_name a"
    and "out = Inr att \<Longrightarrow> att_resource att = res_id r \<and> att_lease att = lease_id l \<and> att_adapter att = listed_name a"
    and "out = Inl e \<Longrightarrow> a' = a"
proof -
  note lemon = lemonade.attach_names [of env, unfolded lemonade_ops_def adapter_ops.simps]
    lemonade.attach_refused [of env, unfolded lemonade_ops_def adapter_ops.simps]
  consider (plain) n n' where "a = Plain n" "a' = Plain n'" "nauti_attach n r l w = (out, n', w')"
    | (lemon) c c' where "a = Lemonade c" "a' = Lemonade c'" "lemonade_attach env c r l w = (out, c', w')"
    | (vfio) "a = VfioGpu" "a' = VfioGpu" "vfio_attach op r l w = out"
    using assms by (cases a) (auto split: prod.splits)
  note cases = this
  show "listed_name a' = listed_name a"
    using cases by cases (auto dest: nauti_attach_name)
  show "att_resource att = res_id r \<and> att_lease att = lease_id l \<and> att_adapter att = listed_name a" if "out = Inr att"
    using cases unfolding that by cases (auto dest: nauti_attach_names lemon(1) vfio_attach_names)
  show "a' = a" if "out = Inl e"
    using cases unfolding that by cases (auto dest: nauti_attach_refused lemon(2))
qed

interpretation listed: adapter_contract "listed_ops nvml rocm env op"
proof (unfold_locales, goal_cases)
  case (4 a r l w out a' w')
  then show ?case
    by (cases a) (auto simp: listed_ops_def default_detach_def split: prod.splits dest: nauti_detach_name)
next
  case (5 a w)
  then show ?case
    using lemonade.report_name [of env] vfio.report_name [of op]
    by (cases a) (simp_all add: listed_ops_def lemonade_ops_def vfio_ops_def nauti_report_name)
qed (simp_all add: listed_ops_def listed_laws)

text \<open>An unset or unusable port is the default one.\<close>

definition lemonade_config_from_env :: "host \<Rightarrow> lemonade_config" where
  "lemonade_config_from_env h =
     \<lparr>lc_host = unwrap_or (h_env h ''LEMONADE_HOST'') ''127.0.0.1'',
      lc_port = (case h_env h ''LEMONADE_PORT'' of None \<Rightarrow> 13305 | Some p \<Rightarrow> unwrap_or (parse_u16 p) 13305),
      lc_api_key = h_env h ''LEMONADE_API_KEY''\<rparr>"

definition listed_adapters :: "bool \<Rightarrow> bool \<Rightarrow> host \<Rightarrow> listed_adapter list" where
  "listed_adapters wgpu vfio h =
     [Plain LocalProofAdapter, Plain LocalResourceAdapter, Plain NetworkResourceAdapter,
      Lemonade (lemonade_config_from_env h), Plain (FabricStoreAdapter []), Plain (WgpuRemoteAdapter wgpu),
      Plain ResearchMemoryAdapter, Plain (RdmaAdapter ''/sys'')] @ (if vfio then [VfioGpu] else [])"

definition report_line :: "adapter_report \<Rightarrow> string" where
  "report_line r = tabbed [rep_name r, rep_scope r, show_bool (rep_healthy r)]"

definition adapters_listed ::
  "(listed_adapter, host) adapter_ops \<Rightarrow> bool \<Rightarrow> bool \<Rightarrow> host \<Rightarrow> adapter_report list"
where
  "adapters_listed ops wgpu vfio h =
     adapter_reports ops (fold (register_adapter ops) (listed_adapters wgpu vfio h) default_fabric) h"

definition list_adapters ::
  "(listed_adapter, host) adapter_ops \<Rightarrow> (adapter_report list \<Rightarrow> string + string) \<Rightarrow> bool \<Rightarrow> bool \<Rightarrow> host \<Rightarrow> bool \<Rightarrow> printed"
where
  "list_adapters ops pretty wgpu vfio h as_json =
     (let reports = adapters_listed ops wgpu vfio h in
      if as_json then prints_json (pretty reports)
      else prints (tabbed [''NAME'', ''SCOPE'', ''HEALTHY''] # map report_line reports))"

subsection \<open>Topology\<close>

text \<open>\<open>{:?}\<close> of an optional string.\<close>

definition opt_str_debug :: "string option \<Rightarrow> string" where
  "opt_str_debug v = (case v of None \<Rightarrow> ''None'' | Some s \<Rightarrow> ''Some('' @ str_debug s @ '')'')"

definition node_lines :: "numa_node_report \<Rightarrow> string list" where
  "node_lines n =
     tabbed [show_nat (nn_os_index n), show_word (nn_local_memory_bytes n), show_nat (nn_logical_cpus n),
       show_nat (length (nn_pci_devices n))]
     # map (\<lambda>p. ''  - '' @ pd_name p @ '' (vendor='' @ opt_str_debug (pd_vendor_id p) @ '' device=''
         @ opt_str_debug (pd_device_id p) @ '')'') (nn_pci_devices n)"

definition list_topology ::
  "(numa_node_report list \<Rightarrow> string + string) \<Rightarrow> string + (hwloc_pci list \<times> hwloc_numa list) \<Rightarrow> bool \<Rightarrow> printed"
where
  "list_topology pretty hwloc as_json =
     (case topology_discover hwloc of
        Inl e \<Rightarrow> fails e
      | Inr nodes \<Rightarrow>
          if as_json then prints_json (pretty nodes)
          else prints (tabbed [''NODE'', ''MEMORY_BYTES'', ''LOGICAL_CPUS'', ''PCI_DEVICES''] # concat (map node_lines nodes)))"

subsection \<open>GPUs\<close>

definition gpu_line :: "gpu_device \<Rightarrow> string" where
  "gpu_line g =
     tabbed [vendor_label (gd_vendor g), gd_device_name g, unwrap_or (gd_uuid g) ''-'',
       show_nat (unat (gd_vram_total_bytes g) div (1024 * 1024)) @ ''MB'', gd_driver g, gd_pci_bdf g,
       (case gd_utilization_pct g of None \<Rightarrow> ''-'' | Some u \<Rightarrow> show_word u @ ''%'')
         @ (if gd_display_only g then '' [display-only]'' else [])]"

definition passes :: "string option \<Rightarrow> string \<Rightarrow> bool" where
  "passes type_filter label = (case type_filter of None \<Rightarrow> True | Some f \<Rightarrow> contains (to_lower label) f)"

definition group_shown :: "string option \<Rightarrow> string \<times> gpu_device list \<Rightarrow> bool" where
  "group_shown type_filter = (\<lambda>(vendor, devices). passes type_filter vendor \<and> vendor \<noteq> ''__display_only__'')"

definition group_lines :: "string \<times> gpu_device list \<Rightarrow> string list" where
  "group_lines = (\<lambda>(vendor, devices).
     (''=== '' @ vendor @ '' ('' @ show_nat (length devices) @ '' devices) ==='') # map gpu_line devices)"

definition flat_shown :: "string option \<Rightarrow> gpu_device \<Rightarrow> bool" where
  "flat_shown type_filter g = (\<not> gd_display_only g \<and> passes type_filter (vendor_label (gd_vendor g)))"

definition list_gpus ::
  "(gpu_device list smap \<Rightarrow> string + string) \<Rightarrow> (gpu_device list \<Rightarrow> string + string) \<Rightarrow> nvml_row smap
     \<Rightarrow> amd_telemetry smap option \<Rightarrow> host \<Rightarrow> bool \<Rightarrow> bool \<Rightarrow> string option \<Rightarrow> printed"
where
  "list_gpus pretty_groups pretty nvml rocm h as_json by_vendor type_filter =
     (case gpu_discover nvml rocm h of
        Inl e \<Rightarrow> fails e
      | Inr devices \<Rightarrow>
          (let wanted = map_option to_lower type_filter in
           if as_json then prints_json (if by_vendor then pretty_groups (grouped devices) else pretty devices)
           else if by_vendor then prints (concat (map group_lines (filter (group_shown wanted) (grouped devices))))
           else prints (map gpu_line (filter (flat_shown wanted) devices))))"

subsection \<open>Inventory\<close>

fun state_debug :: "resource_state \<Rightarrow> string" where
  "state_debug Available = ''Available''"
| "state_debug Unavailable = ''Unavailable''"

definition resource_line :: "resource \<Rightarrow> string" where
  "resource_line r = tabbed [res_id r, kind_debug (res_kind r), show_word (res_capacity r), res_unit r, res_node r,
     state_debug (res_state r)]"

definition section_of :: "string \<Rightarrow> string \<Rightarrow> string list \<Rightarrow> string list" where
  "section_of heading mark ids = (if ids = [] then [] else heading # map (\<lambda>i. mark @ i) ids)"

definition refresh_lines :: "refresh_report \<Rightarrow> string list" where
  "refresh_lines r =
     (''REPORT: added='' @ show_nat (length (rr_added r)) @ '' removed='' @ show_nat (length (rr_removed r))
        @ '' blocked_by_lease='' @ show_nat (length (rr_blocked_by_lease r)))
     # section_of ''ADDED:'' ''  + '' (rr_added r)
     @ section_of ''REMOVED:'' ''  - '' (rr_removed r)
     @ section_of ''BLOCKED_BY_LEASE (will be removed once lease expires or is released):'' ''  ! '' (rr_blocked_by_lease r)"

definition inventory ::
  "(refresh_report \<Rightarrow> string + string) \<Rightarrow> (resource list \<Rightarrow> string + string) \<Rightarrow> sys_info \<Rightarrow> nvml_row smap
     \<Rightarrow> amd_telemetry smap option \<Rightarrow> host \<Rightarrow> string \<Rightarrow> bool \<Rightarrow> bool \<Rightarrow> printed outcome"
where
  "inventory pretty_report pretty si nvml rocm h node as_json refresh =
     (if refresh
      then case fst (refresh_local si nvml rocm h node (default_fabric :: nauti_adapter fabric)) of
             Panicked \<Rightarrow> Panicked
           | Done report \<Rightarrow> Done (if as_json then prints_json (pretty_report report) else prints (refresh_lines report))
      else (let rs = list_resources (snd (discover_local si nvml rocm h node (default_fabric :: nauti_adapter fabric))) in
            Done (if as_json then prints_json (pretty rs)
                  else prints (tabbed [''ID'', ''KIND'', ''CAPACITY'', ''UNIT'', ''NODE'', ''STATE''] # map resource_line rs))))"

subsection \<open>Research memory\<close>

definition list_research :: "(research_memory_report \<Rightarrow> string + string) \<Rightarrow> host \<Rightarrow> bool \<Rightarrow> printed" where
  "list_research pretty h as_json =
     (let m = research_discover h in
      if as_json then prints_json (pretty m)
      else prints [''cxl_bus='' @ show_bool (rm_cxl_bus m) @ '' dax='' @ show_nat (length (rm_dax_nodes m))
             @ '' famfs='' @ show_nat (length (rm_famfs_mounts m)) @ '' drust='' @ show_bool (rm_drust_present m)
             @ '' claimed='' @ show_bool (rm_claimed_as_live_ram m)])"

end
