(* ===== verification/Listings_Properties.thy ===== *)
theory Listings_Properties
  imports Listings
begin

text \<open>
  What the listings show: grouping by vendor is a stable sort of the flat listing, a display-only
  controller is never listed as text, a refresh of a fresh fabric never removes anything, and the
  adapters an agent registers are among those that are listed.
\<close>

subsection \<open>Groups are a stable sort\<close>

definition class_of :: "('d \<Rightarrow> 'k) \<Rightarrow> 'd list \<Rightarrow> 'k \<Rightarrow> 'd list" where
  "class_of f ds k = filter (\<lambda>d. f d = k) ds"

definition groups_of :: "('d \<Rightarrow> 'k::linorder) \<Rightarrow> 'd list \<Rightarrow> ('k \<times> 'd list) list" where
  "groups_of f ds = fold (\<lambda>d groups. bt_insert (f d) (unwrap_or (map_of groups (f d)) [] @ [d]) groups) ds []"

lemma groups_of_snoc:
  "groups_of f (ds @ [d]) = bt_insert (f d) (unwrap_or (map_of (groups_of f ds) (f d)) [] @ [d]) (groups_of f ds)"
  by (simp add: groups_of_def)

lemma groups_of_get:
  "map_of (groups_of f ds) k = (if class_of f ds k = [] then None else Some (class_of f ds k))"
proof (induction ds rule: rev_induct)
  case Nil
  show ?case by (simp add: groups_of_def class_of_def)
next
  case (snoc d ds)
  then show ?case by (auto simp: groups_of_snoc get_bt_insert class_of_def)
qed

lemma groups_of_wf: "bt_wf (groups_of f ds)"
proof (induction ds rule: rev_induct)
  case (snoc d ds)
  then show ?case by (simp add: groups_of_snoc bt_wf_insert)
qed (simp add: groups_of_def bt_wf_def)

lemma groups_of_entry:
  "(k, v) \<in> set (groups_of f ds) \<longleftrightarrow> v \<noteq> [] \<and> v = class_of f ds k"
proof -
  have "(k, v) \<in> set (groups_of f ds) \<longleftrightarrow> map_of (groups_of f ds) k = Some v"
    using groups_of_wf [of f ds] by (simp add: bt_wf_def)
  then show ?thesis by (auto simp: groups_of_get)
qed

lemma map_same_key: "\<forall>d \<in> set v. f d = k \<Longrightarrow> map f v = replicate (length v) k"
  by (induction v) auto

lemma sorted_concat_groups:
  "sorted (map fst g) \<Longrightarrow> (\<And>k v. (k, v) \<in> set g \<Longrightarrow> \<forall>d \<in> set v. f d = k) \<Longrightarrow> sorted (map f (concat (map snd g)))"
proof (induction g)
  case (Cons kv g)
  obtain k v where kv: "kv = (k, v)" by (cases kv)
  have "sorted (map f v)"
    using map_same_key [of v f k] Cons.prems(2) [of k v] by (simp add: kv)
  moreover have "f d \<le> f e" if "d \<in> set v" "e \<in> set (concat (map snd g))" for d e
    using that Cons.prems kv by fastforce
  moreover have "sorted (map f (concat (map snd g)))"
    using Cons.prems(1) by (intro Cons.IH Cons.prems(2)) (simp_all add: kv)
  ultimately show ?case
    by (auto simp: kv sorted_append)
qed simp

lemma class_of_concat:
  assumes "distinct (map fst g)" "\<And>k v. (k, v) \<in> set g \<Longrightarrow> \<forall>d \<in> set v. f d = k"
  shows "class_of f (concat (map snd g)) k = (case map_of g k of None \<Rightarrow> [] | Some v \<Rightarrow> v)"
  using assms
proof (induction g)
  case (Cons kv g)
  obtain k' v where kv: "kv = (k', v)" by (cases kv)
  have v: "\<forall>d \<in> set v. f d = k'" using Cons.prems(2) [of k' v] kv by simp
  have "k' \<notin> fst ` set g" using Cons.prems(1) kv by simp
  then have none: "map_of g k' = None" by (simp add: map_of_eq_None_iff)
  have "class_of f v k = (if k' = k then v else [])"
    using v by (auto simp: class_of_def filter_empty_conv)
  moreover have "class_of f (concat (map snd g)) k = (case map_of g k of None \<Rightarrow> [] | Some v \<Rightarrow> v)"
    using Cons.prems(1) by (intro Cons.IH Cons.prems(2)) (simp_all add: kv)
  ultimately show ?case
    using none by (auto simp: kv class_of_def)
qed (simp add: class_of_def)

lemma mset_by_classes: "(\<And>k. class_of f xs k = class_of f ys k) \<Longrightarrow> mset xs = mset ys"
proof (rule multiset_eqI)
  fix x assume "\<And>k. class_of f xs k = class_of f ys k"
  then have "count (mset (class_of f xs (f x))) x = count (mset (class_of f ys (f x))) x" by simp
  then show "count (mset xs) x = count (mset ys) x"
    by (simp add: class_of_def mset_filter)
qed

lemma groups_are_stable_sort: "concat (map snd (groups_of f ds)) = sort_key f ds"
proof -
  let ?c = "concat (map snd (groups_of f ds))"
  have wf: "sorted (map fst (groups_of f ds))" "distinct (map fst (groups_of f ds))"
    using groups_of_wf [of f ds] by (simp_all add: bt_wf_def)
  have key: "\<And>k v. (k, v) \<in> set (groups_of f ds) \<Longrightarrow> \<forall>d \<in> set v. f d = k"
    by (auto simp: groups_of_entry class_of_def)
  have cl: "class_of f ?c k = class_of f ds k" for k
    using class_of_concat [OF wf(2) key, where k = k] by (auto simp: groups_of_get)
  show ?thesis
  proof (rule sym, rule properties_for_sort_key)
    show "mset ?c = mset ds" by (rule mset_by_classes [OF cl])
    show "sorted (map f ?c)" by (rule sorted_concat_groups [OF wf(1) key])
    show "filter (\<lambda>x. f k = f x) ?c = filter (\<lambda>x. f k = f x) ds" for k
      using cl [of "f k"] by (simp add: class_of_def eq_commute)
  qed
qed

lemma shown_groups: "concat (map snd (filter (\<lambda>(k, v). P k) g)) = concat (map (\<lambda>(k, v). filter (\<lambda>d. P k) v) g)"
  by (induction g) auto

lemma filtered_groups_sort:
  "concat (map snd (filter (\<lambda>(k, v). P k) (groups_of f ds))) = sort_key f (filter (\<lambda>d. P (f d)) ds)"
proof -
  have "map (\<lambda>(k, v). filter (\<lambda>d. P k) v) (groups_of f ds) = map (\<lambda>(k, v). filter (\<lambda>d. P (f d)) v) (groups_of f ds)"
    by (auto simp: groups_of_entry class_of_def intro!: filter_cong)
  then have "concat (map snd (filter (\<lambda>(k, v). P k) (groups_of f ds)))
      = concat (map (\<lambda>(k, v). filter (\<lambda>d. P (f d)) v) (groups_of f ds))"
    by (simp only: shown_groups)
  also have "\<dots> = filter (\<lambda>d. P (f d)) (concat (map snd (groups_of f ds)))"
    by (simp add: filter_concat case_prod_beta' comp_def)
  finally show ?thesis
    by (simp add: groups_are_stable_sort filter_sort)
qed

lemma sort_key_same: "(\<And>x. x \<in> set xs \<Longrightarrow> f x = g x) \<Longrightarrow> sort_key f xs = sort_key g xs"
proof (rule properties_for_sort_key)
  assume eq: "\<And>x. x \<in> set xs \<Longrightarrow> f x = g x"
  then have *: "x \<in> set (sort_key g xs) \<Longrightarrow> f x = g x" for x by simp
  have "map f (sort_key g xs) = map g (sort_key g xs)"
    using * by simp
  then show "sorted (map f (sort_key g xs))"
    by (simp only: sorted_sort_key)
  show "filter (\<lambda>x. f k = f x) (sort_key g xs) = filter (\<lambda>x. f k = f x) xs" if "k \<in> set (sort_key g xs)" for k
  proof -
    have "filter (\<lambda>x. f k = f x) (sort_key g xs) = filter (\<lambda>x. g k = g x) (sort_key g xs)"
      using that * by (intro filter_cong) auto
    also have "\<dots> = filter (\<lambda>x. g k = g x) xs"
      by (simp add: sort_key_stable eq_commute)
    also have "\<dots> = filter (\<lambda>x. f k = f x) xs"
      using that eq by (intro filter_cong) auto
    finally show ?thesis .
  qed
qed simp

subsection \<open>The GPU listing\<close>

lemma pci_label:
  "vendor_label (vendor_from_pci_id i) \<in> {''NVIDIA'', ''AMD'', ''Intel''} \<union> range (\<lambda>s. ''0x'' @ s)"
  by auto

lemma discovered_vendor:
  assumes "gpu_discover nvml rocm h = Inr devices" "d \<in> set devices"
  shows "\<exists>i. gd_vendor d = vendor_from_pci_id i"
proof -
  have card: "drm_card h n = Some e \<Longrightarrow> \<exists>i. gd_vendor e = vendor_from_pci_id i" for n e
    by (auto simp: drm_card_def read_drm_card_def Let_def split: if_splits option.splits simp del: vendor_from_pci_id.simps)
  have keep: "gd_vendor ((case rocm of None \<Rightarrow> id | Some t \<Rightarrow> amd_enrich t) (nvml_enrich nvml e)) = gd_vendor e" for e
    by (simp split: option.split)
  obtain n e where "drm_card h n = Some e" "gd_vendor d = gd_vendor e"
    using assms
    by (auto simp: gpu_discover_def Let_def List.map_filter_def keep comp_def simp del: nvml_enrich.simps
        split: if_splits sum.splits)
  then show ?thesis using card by metis
qed

definition is_header :: "string \<Rightarrow> bool" where
  "is_header l = starts_with l ''=== ''"

lemma gpu_line_start: "gd_vendor d = vendor_from_pci_id i \<Longrightarrow> \<not> is_header (gpu_line d)"
  using pci_label [of i]
  by (auto simp: gpu_line_def tabbed_def join_Cons is_header_def starts_with_def simp del: vendor_from_pci_id.simps)

lemma grouped_is_groups_of: "grouped devices = groups_of group_key devices"
  by (simp add: grouped_def groups_of_def)

lemma group_shown_key: "group_shown f = (\<lambda>(k, v). passes f k \<and> k \<noteq> ''__display_only__'')"
  by (simp add: group_shown_def fun_eq_iff)

lemma group_lines_no_header:
  "(\<And>d. d \<in> set v \<Longrightarrow> \<not> is_header (gpu_line d)) \<Longrightarrow> filter (\<lambda>l. \<not> is_header l) (group_lines (k, v)) = map gpu_line v"
  by (auto simp: group_lines_def is_header_def starts_with_def filter_id_conv)

text \<open>C39. Grouping the GPUs by vendor shows the same devices as the flat listing: without its headings
  the grouped listing is the flat one, stably sorted by vendor, under every \<open>--type\<close> filter.\<close>

theorem grouped_listing_sorts_flat_listing:
  assumes "gpu_discover nvml rocm h = Inr devices"
  shows "\<exists>shown. pr_out (list_gpus pg p nvml rocm h False False f) = map gpu_line shown
     \<and> filter (\<lambda>l. \<not> is_header l) (pr_out (list_gpus pg p nvml rocm h False True f))
         = map gpu_line (sort_key (\<lambda>g. vendor_label (gd_vendor g)) shown)"
proof -
  let ?f = "map_option to_lower f" let ?shown = "filter (flat_shown (map_option to_lower f)) devices"
  let ?groups = "filter (group_shown ?f) (grouped devices)"
  have vendor: "\<exists>i. gd_vendor d = vendor_from_pci_id i" if "d \<in> set devices" for d
    by (rule discovered_vendor [OF assms that])
  have label: "vendor_label (gd_vendor d) \<noteq> ''__display_only__''" if d: "d \<in> set devices" for d
  proof -
    obtain i where "gd_vendor d = vendor_from_pci_id i" using vendor [OF d] by blast
    with pci_label [of i] show ?thesis by (auto simp del: vendor_from_pci_id.simps)
  qed
  have header: "\<not> is_header (gpu_line d)" if "d \<in> set devices" for d
    using vendor [OF that] gpu_line_start by blast
  have members: "d \<in> set devices" if "(k, v) \<in> set (grouped devices)" "d \<in> set v" for k v d
    using that by (auto simp: grouped_is_groups_of groups_of_entry class_of_def)
  have "filter (\<lambda>l. \<not> is_header l) (concat (map group_lines ?groups)) = concat (map (map gpu_line \<circ> snd) ?groups)"
    unfolding filter_concat map_map
    by (intro arg_cong [where f = concat] map_cong refl)
      (auto simp: group_lines_no_header header members split_paired_all)
  also have "\<dots> = map gpu_line (concat (map snd ?groups))"
    by (simp add: map_concat comp_def)
  also have "concat (map snd ?groups)
      = sort_key group_key (filter (\<lambda>d. passes ?f (group_key d) \<and> group_key d \<noteq> ''__display_only__'') devices)"
    unfolding grouped_is_groups_of group_shown_key by (rule filtered_groups_sort)
  also have "filter (\<lambda>d. passes ?f (group_key d) \<and> group_key d \<noteq> ''__display_only__'') devices = ?shown"
    by (intro filter_cong refl) (auto simp: flat_shown_def group_key_def label)
  also have "sort_key group_key ?shown = sort_key (\<lambda>g. vendor_label (gd_vendor g)) ?shown"
    by (rule sort_key_same) (auto simp: flat_shown_def group_key_def)
  finally show ?thesis
    by (intro exI [of _ ?shown]) (simp add: list_gpus_def assms prints_def)
qed

text \<open>Two cards, found in the order that the listing reverses.\<close>

definition two_gpus :: host where
  "two_gpus = bare_host\<lparr>
     h_exists := (\<lambda>p. p \<in> {''/sys/class/drm'', ''/sys/class/drm/card0/device'', ''/sys/class/drm/card1/device''}),
     h_dir := (\<lambda>p. if p = ''/sys/class/drm'' then Inr [''card0'', ''card1''] else Inl ''no''),
     h_file := (\<lambda>p. if p = ''/sys/class/drm/card0/device/vendor'' then Some ''0x1002''
                  else if p = ''/sys/class/drm/card1/device/vendor'' then Some ''0x10de'' else None)\<rparr>"

lemma two_gpus_texts:
  "parse_u32 ''0'' = Some 0" "parse_u32 ''1'' = Some 1"
  "read_hex two_gpus ''/sys/class/drm/card0/device/vendor'' = Some 0x1002"
  "read_hex two_gpus ''/sys/class/drm/card1/device/vendor'' = Some 0x10de"
  by (simp_all add: parse_u32_def from_str_radix_def digit_val_def read_hex_def two_gpus_def trim_def trim_matches_def
      trim_end_matches_def is_ws_def strip_0x.simps starts_with_def)

lemma two_gpus_cards: "show_nat 0 = ''0''" "show_nat (Suc 0) = ''1''"
  by code_simp+

lemma no_driver: "uevent_driver [] = []"
  by (simp add: uevent_driver_def lines_def)

lemma two_gpus_answers:
  "h_exists two_gpus ''/sys/class/drm/card0/device''" "h_exists two_gpus ''/sys/class/drm/card1/device''"
  "h_file two_gpus ''/sys/class/drm/card0/device/uevent'' = None" "h_file two_gpus ''/sys/class/drm/card1/device/uevent'' = None"
  by (simp_all add: two_gpus_def)

lemma read_two_gpus:
  "\<exists>d. read_drm_card two_gpus 0 = Some d \<and> gd_vendor d = Amd \<and> \<not> gd_display_only d"
  "\<exists>d. read_drm_card two_gpus 1 = Some d \<and> gd_vendor d = Nvidia \<and> \<not> gd_display_only d"
  by (simp_all add: read_drm_card_def two_gpus_cards path_join_def starts_with_def two_gpus_answers two_gpus_texts no_driver Let_def)

lemma two_gpus_drm:
  "\<exists>d. drm_card two_gpus ''card0'' = Some d \<and> gd_vendor d = Amd \<and> \<not> gd_display_only d"
  "\<exists>d. drm_card two_gpus ''card1'' = Some d \<and> gd_vendor d = Nvidia \<and> \<not> gd_display_only d"
  by (simp_all add: drm_card_def is_card_name_def starts_with_def two_gpus_texts read_two_gpus)

lemma two_gpus_found:
  "\<exists>a b. gpu_discover [] None two_gpus = Inr [a, b] \<and> gd_vendor a = Nvidia \<and> gd_vendor b = Amd
     \<and> \<not> gd_display_only a \<and> \<not> gd_display_only b"
proof -
  obtain c d where "drm_card two_gpus ''card0'' = Some c" "gd_vendor c = Amd" "\<not> gd_display_only c"
      "drm_card two_gpus ''card1'' = Some d" "gd_vendor d = Nvidia" "\<not> gd_display_only d"
    using two_gpus_drm by blast
  moreover have "h_exists two_gpus ''/sys/class/drm''" "h_dir two_gpus ''/sys/class/drm'' = Inr [''card0'', ''card1'']"
    by (simp_all add: two_gpus_def)
  ultimately show ?thesis
    by (simp add: gpu_discover_def gpu_rank_def)
qed

theorem grouped_listing_sorts_flat_listing_witness:
  "\<exists>a b. pr_out (list_gpus (\<lambda>_. Inr []) (\<lambda>_. Inr []) [] None two_gpus False False None) = [gpu_line a, gpu_line b]
     \<and> length (filter (\<lambda>l. \<not> is_header l) (pr_out (list_gpus (\<lambda>_. Inr []) (\<lambda>_. Inr []) [] None two_gpus False True None))) = 2"
proof -
  obtain a b where found: "gpu_discover [] None two_gpus = Inr [a, b]" and v: "gd_vendor a = Nvidia" "gd_vendor b = Amd"
      "\<not> gd_display_only a" "\<not> gd_display_only b"
    using two_gpus_found by blast
  have flat: "pr_out (list_gpus (\<lambda>_. Inr []) (\<lambda>_. Inr []) [] None two_gpus False False None) = [gpu_line a, gpu_line b]"
    by (simp add: list_gpus_def found prints_def flat_shown_def passes_def v)
  obtain shown where s: "pr_out (list_gpus (\<lambda>_. Inr []) (\<lambda>_. Inr []) [] None two_gpus False False None) = map gpu_line shown"
    "filter (\<lambda>l. \<not> is_header l) (pr_out (list_gpus (\<lambda>_. Inr []) (\<lambda>_. Inr []) [] None two_gpus False True None))
       = map gpu_line (sort_key (\<lambda>g. vendor_label (gd_vendor g)) shown)"
    using grouped_listing_sorts_flat_listing [OF found, of "\<lambda>_. Inr []" "\<lambda>_. Inr []" None] by blast
  have "length (map gpu_line (sort_key (\<lambda>g. vendor_label (gd_vendor g)) shown)) = 2"
    using arg_cong [OF s(1), of length] flat by simp
  with flat show ?thesis unfolding s(2) by blast
qed

text \<open>A display-only controller is in no text listing, whatever the filter; with \<open>--json\<close> the filter is
  ignored and every device is printed.\<close>

lemma display_only_never_shown: "gd_display_only g \<Longrightarrow> \<not> flat_shown f g"
  by (simp add: flat_shown_def)

lemma json_ignores_the_filter:
  "list_gpus pg p nvml rocm h True by_vendor f = list_gpus pg p nvml rocm h True by_vendor None"
  by (simp add: list_gpus_def split: sum.split)

subsection \<open>The inventory\<close>

text \<open>The refresh of the command line compares with nothing: every run starts from an empty fabric, so it
  reports every discovered resource as added and can never report one as removed or kept by a lease.\<close>

theorem refresh_command_only_adds:
  "inventory pr p si nvml rocm h node False True =
     Done (prints (refresh_lines \<lparr>rr_added = sort (remdups (map res_id (discovered si (gpu_discover nvml rocm h) h node node))),
       rr_removed = [], rr_blocked_by_lease = []\<rparr>))"
proof -
  let ?rs = "discovered si (gpu_discover nvml rocm h) h node node" and ?F = "default_fabric :: nauti_adapter fabric"
  have "new_ids ?rs ?F = sort (remdups (map res_id ?rs))" "gone_ids ?rs ?F = []"
    by (simp_all add: new_ids_def gone_ids_def default_fabric_def has_key_def del: set_map)
  then show ?thesis
    using refresh_with_closed [of ?F ?rs]
    by (simp add: inventory_def refresh_local_def default_fabric_def)
qed

subsection \<open>The adapters\<close>

lemma listed_report_name: "rep_name (listed_report nvml rocm env a h) = listed_name a"
  by (cases a) (simp_all add: nauti_report_name lemonade_capability_def vfio_report_def Let_def)

lemma listed_ops_simps: "ad_name (listed_ops nvml rocm env op) = listed_name"
  "ad_report (listed_ops nvml rocm env op) = listed_report nvml rocm env"
  by (simp_all add: listed_ops_def)

lemma update_fresh: "k \<notin> set (keys m) \<Longrightarrow> AList.update k v m = m @ [(k, v)]"
  by (induction m) auto

lemma registered_adapters:
  "distinct (map listed_name as) \<Longrightarrow> set (map listed_name as) \<inter> set (keys (adapters F)) = {}
     \<Longrightarrow> adapters (fold (register_adapter (listed_ops nvml rocm env op)) as F) = adapters F @ map (\<lambda>a. (listed_name a, a)) as"
proof (induction as arbitrary: F)
  case (Cons a as)
  have "adapters (register_adapter (listed_ops nvml rocm env op) a F) = adapters F @ [(listed_name a, a)]"
    using Cons.prems by (simp add: register_adapter_def listed_ops_simps update_fresh)
  with Cons show ?case by simp
qed simp

lemma sorted_names:
  "sort [''local-proof'', ''local-resource'', ''network-resource'', ''lemonade'', ''fabric-store'', ''gpu-wgpu-remote'',
      ''memory-research'', ''rdma''] = [''fabric-store'', ''gpu-wgpu-remote'', ''lemonade'', ''local-proof'',
      ''local-resource'', ''memory-research'', ''network-resource'', ''rdma'']"
  "sort [''local-proof'', ''local-resource'', ''network-resource'', ''lemonade'', ''fabric-store'', ''gpu-wgpu-remote'',
      ''memory-research'', ''rdma'', ''gpu-vfio''] = [''fabric-store'', ''gpu-vfio'', ''gpu-wgpu-remote'', ''lemonade'',
      ''local-proof'', ''local-resource'', ''memory-research'', ''network-resource'', ''rdma'']"
  by code_simp+

text \<open>The listing names every adapter once, in order, and those an agent registers are among them.\<close>

lemma adapters_listed_names:
  "map rep_name (adapters_listed (listed_ops nvml rocm env op) wgpu vfio h) =
     (if vfio then [''fabric-store'', ''gpu-vfio'', ''gpu-wgpu-remote'', ''lemonade'',
        ''local-proof'', ''local-resource'', ''memory-research'', ''network-resource'', ''rdma'']
      else [''fabric-store'', ''gpu-wgpu-remote'', ''lemonade'', ''local-proof'',
        ''local-resource'', ''memory-research'', ''network-resource'', ''rdma''])"
proof -
  let ?ops = "listed_ops nvml rocm env op" and ?as = "listed_adapters wgpu vfio h"
  have "distinct (map listed_name ?as)" by (simp add: listed_adapters_def)
  then have reg: "adapters (fold (register_adapter ?ops) ?as default_fabric) = map (\<lambda>a. (listed_name a, a)) ?as"
    by (subst registered_adapters) (simp_all add: default_fabric_def)
  have "map rep_name (adapters_listed ?ops wgpu vfio h) = sort (map listed_name ?as)"
    by (simp add: adapters_listed_def adapter_reports_def map_sort_key reg comp_def case_prod_beta listed_ops_simps listed_report_name)
  then show ?thesis
    by (simp add: listed_adapters_def sorted_names del: sort_key_simps)
qed

lemma unusable_port_is_the_default:
  "(case h_env h ''LEMONADE_PORT'' of None \<Rightarrow> True | Some p \<Rightarrow> parse_u16 p = None) \<Longrightarrow> lc_port (lemonade_config_from_env h) = 13305"
  by (auto simp: lemonade_config_from_env_def split: option.splits)

end
