(* ===== verification/Reports.thy ===== *)
theory Reports
  imports Listings Fleet_Properties Http_Properties
begin

text \<open>
  What the fleet commands of \<open>bin/nauti.rs\<close> print: the report of a plan or of its refusal
  (\<open>plan_ask\<close>, \<open>plan_offline\<close>, \<open>report_plan\<close>) and the table of the fleet view. Exit status and output
  are tied to the planners and the view of the other theories.
\<close>

subsection \<open>Plan reports\<close>

text \<open>\<open>value["planner"] = ..\<close> on the fragment's object.\<close>

definition fragment_lines :: "plan_fragment \<Rightarrow> string \<Rightarrow> string list" where
  "fragment_lines f planner =
     [''plan fragment role='' @ pf_role f @ '' host='' @ pf_host_key f @ '' slot='' @ pf_slot f @ '' model='' @ pf_model_id f
        @ (case pf_rtt_ms f of Some ms \<Rightarrow> '' rtt='' @ show_f64_fixed 3 ms @ ''ms'' | None \<Rightarrow> '' rtt=not-measured''),
      ''  lease to request: '' @ unwrap_or (pf_resource_id f) ''(snapshot named none)'',
      ''  reason: '' @ pf_reason f,
      ''  planner: '' @ planner]"

fun is_escalation :: "plan_reject \<Rightarrow> bool" where
  "is_escalation (EscalateNowhere _) = True"
| "is_escalation _ = False"

definition reject_lines :: "plan_reject \<Rightarrow> string list" where
  "reject_lines e =
     [''plan rejected: '' @ (case reject_http_status e of None \<Rightarrow> [] | Some s \<Rightarrow> ''http='' @ show_word s @ '' '')
        @ plan_reject_display e,
      ''  reason token: '' @ reason_token e]
     @ (if is_escalation e then [''  no host in the fleet can take this role; not an empty plan''] else [])"

definition reject_json :: "plan_reject \<Rightarrow> string \<Rightarrow> json" where
  "reject_json e planner =
     JObj [(''status'', JStr ''rejected''), (''reason'', JStr (reason_token e)),
       (''http_status'', case reject_http_status e of None \<Rightarrow> JNull | Some s \<Rightarrow> JNum (Fin (of_nat (unat s)))),
       (''detail'', JStr (plan_reject_display e)), (''planner'', JStr planner)]"

definition report_plan ::
  "(plan_fragment \<Rightarrow> string + (string \<times> json) list) \<Rightarrow> (json \<Rightarrow> string + string) \<Rightarrow> plan_reject + plan_fragment \<Rightarrow> bool
     \<Rightarrow> string \<Rightarrow> printed"
where
  "report_plan to_value pretty result as_json planner =
     (case result of
        Inr f \<Rightarrow>
          if as_json
          then prints_json (and_then (to_value f) (\<lambda>fields. pretty (JObj (bt_insert ''planner'' (JStr planner) fields))))
          else prints (fragment_lines f planner)
      | Inl e \<Rightarrow>
          if as_json
          then case pretty (reject_json e planner) of
                 Inl e' \<Rightarrow> fails e'
               | Inr s \<Rightarrow> \<lparr>pr_out = [s], pr_err = [], pr_result = Inl (''plan rejected: '' @ reason_token e)\<rparr>
          else \<lparr>pr_out = [], pr_err = reject_lines e, pr_result = Inl (''plan rejected: '' @ reason_token e)\<rparr>)"

text \<open>The two commands up to the report; \<open>plan_ask\<close> and \<open>plan_offline\<close> of \<open>Fleet\<close> are their results.\<close>

definition plan_ask_prints ::
  "(plan_fragment \<Rightarrow> string + (string \<times> json) list) \<Rightarrow> (json \<Rightarrow> string + string) \<Rightarrow> plan_serde
     \<Rightarrow> (u64 \<Rightarrow> string \<Rightarrow> string \<Rightarrow> net_result) \<Rightarrow> host \<Rightarrow> string \<Rightarrow> string option \<Rightarrow> string option \<Rightarrow> u64 \<Rightarrow> bool \<Rightarrow> printed"
where
  "plan_ask_prints to_value pretty sd net h role head node timeout_secs as_json =
     (case (case head of Some url \<Rightarrow> Some url | None \<Rightarrow> h_env h ''NAUTI_PLAN_HEAD'') of
        None \<Rightarrow> fails ''need --head URL or NAUTI_PLAN_HEAD''
      | Some url \<Rightarrow>
          report_plan to_value pretty
            (ask_head_with_timeout sd (net (max timeout_secs 1)) url
              (plan_request_new (unwrap_or node (hostname_short h)) role))
            as_json ''head:/v1/plan'')"

definition plan_offline_prints ::
  "(plan_fragment \<Rightarrow> string + (string \<times> json) list) \<Rightarrow> (json \<Rightarrow> string + string) \<Rightarrow> (json \<Rightarrow> slot_view option)
     \<Rightarrow> (json \<Rightarrow> latency_matrix option) \<Rightarrow> (string \<Rightarrow> string + json) \<Rightarrow> (string \<Rightarrow> string + string) \<Rightarrow> host \<Rightarrow> string \<Rightarrow> string
     \<Rightarrow> string option \<Rightarrow> string \<Rightarrow> string option \<Rightarrow> string \<Rightarrow> bool \<Rightarrow> printed"
where
  "plan_offline_prints to_value pretty slot_of matrix_of parse read_to_string h role view_path node roles_spec matrix_path
       planner_kind as_json =
     (case load_snapshot slot_of matrix_of parse read_to_string view_path of
        Inl e \<Rightarrow> fails (plan_reject_display e)
      | Inr view0 \<Rightarrow>
          (case (case matrix_path of
                   None \<Rightarrow> Inr view0
                 | Some path \<Rightarrow> and_then (load_latency matrix_of parse read_to_string path) (\<lambda>m. Inr (with_latency m view0))) of
             Inl e \<Rightarrow> fails (plan_reject_display e)
           | Inr view \<Rightarrow>
               report_plan to_value pretty
                 (plan_by_kind planner_kind (plan_request_new (unwrap_or node (hostname_short h)) role) view
                   (roles_from_spec parse read_to_string roles_spec))
                 as_json planner_kind))"

subsection \<open>The fleet table\<close>

definition pad_right :: "nat \<Rightarrow> string \<Rightarrow> string" where
  "pad_right n s = s @ replicate (n - length s) (CHR '' '')"

definition pad_left :: "nat \<Rightarrow> string \<Rightarrow> string" where
  "pad_left n s = replicate (n - length s) (CHR '' '') @ s"

definition gib :: "u64 \<Rightarrow> f64" where
  "gib b = (case f_of_nat (unat b) of Fin q \<Rightarrow> f64_round (q / 2 ^ 30) | x \<Rightarrow> x)"

text \<open>\<open>as_f64().unwrap_or(0.0)\<close> on what \<open>json!\<close> made of a float.\<close>

definition finite_or_zero :: "f64 \<Rightarrow> f64" where
  "finite_or_zero x = (case x of Fin _ \<Rightarrow> x | _ \<Rightarrow> Fin 0)"

definition totals_line :: "string \<Rightarrow> fleet_totals \<Rightarrow> string" where
  "totals_line from_node t =
     ''fleet from '' @ from_node @ '': '' @ show_nat (ft_online t) @ ''/'' @ show_nat (ft_nodes t) @ '' online | ''
       @ show_word (ft_logical_cpus t) @ '' cpus | '' @ show_f64_fixed 0 (gib (ft_memory_bytes t)) @ '' GiB ram | ''
       @ show_nat (ft_gpus t) @ '' gpus '' @ show_f64_fixed 0 (gib (ft_vram_bytes t)) @ '' GiB vram | ''
       @ show_nat (ft_rdma_ports_active t) @ '' rdma ports active''"

definition heading_line :: string where
  "heading_line = join '' '' [pad_right 14 ''node'', pad_left 6 ''online'', pad_left 9 ''rpc_min'', pad_left 9 ''rpc_med'',
     pad_left 9 ''rpc_p95'', pad_left 5 ''gpus'', pad_left 5 ''rdma''] @ ''  paths''"

definition path_text :: "icmp_path \<Rightarrow> string" where
  "path_text p =
     (case ip_rtt p of
        Some (_, Fin avg, _) \<Rightarrow> ip_label p @ ''='' @ show_f64_fixed 2 (Fin avg) @ ''ms''
      | _ \<Rightarrow> ip_label p @ ''=down'')"

definition millis_text :: "(rtt_summary \<Rightarrow> f64) \<Rightarrow> node_probe \<Rightarrow> string" where
  "millis_text field p =
     pad_left 8 (show_f64_fixed 2 (case np_rtt p of None \<Rightarrow> Fin 0 | Some r \<Rightarrow> finite_or_zero (field r))) @ ''ms''"

text \<open>The row of a node; the count columns of a node without an inventory are zero.\<close>

definition probe_line :: "node_probe \<Rightarrow> string" where
  "probe_line p =
     (let count = (\<lambda>n. pad_left 5 (show_nat (case np_resources p of None \<Rightarrow> 0 | Some i \<Rightarrow> n i))) in
      join '' '' [pad_right 14 (np_node p), pad_left 6 (if np_online p then ''yes'' else ''NO''),
        millis_text rt_min p, millis_text rt_median p, millis_text rt_p95 p,
        count (\<lambda>i. length (iv_gpus i)), count (\<lambda>i. length (filter (\<lambda>q. rs_state q = ''ACTIVE'') (iv_rdma_ports i)))]
      @ ''  '' @ (if np_online p then join '' '' (map path_text (np_paths p)) else unwrap_or (np_error p) []))"

definition fleet_lines :: "string \<Rightarrow> node_probe list \<Rightarrow> string list" where
  "fleet_lines from_node nodes =
     totals_line from_node (fleet_totals_of nodes) # heading_line # map probe_line nodes"

definition fleet_nodes :: "(string \<Rightarrow> probe_env) \<Rightarrow> host \<Rightarrow> nat \<Rightarrow> bool \<Rightarrow> node_probe list" where
  "fleet_nodes env h samples with_paths =
     map (\<lambda>nr. probe_node (env (fst nr)) h samples with_paths nr) (fleet_addr_files h)"

text \<open>A view that cannot be written is a warning; the table or the JSON is printed all the same.\<close>

definition fleet_prints ::
  "(string \<Rightarrow> string option) \<Rightarrow> string option \<Rightarrow> (json \<Rightarrow> string + string) \<Rightarrow> host \<Rightarrow> bool \<Rightarrow> string option \<Rightarrow> json
     \<Rightarrow> node_probe list \<Rightarrow> (string \<Rightarrow> string option) \<Rightarrow> printed \<times> (string \<Rightarrow> string option)"
where
  "fleet_prints mkdir_error write_error pretty h as_json out view nodes fs =
     (case pretty view of
        Inl e \<Rightarrow> (fails e, fs)
      | Inr s \<Rightarrow>
          (case persist_addr_json_to mkdir_error write_error (fleet_view_path h out) s fs of
             (saved, fs') \<Rightarrow>
               (\<lparr>pr_out = (if as_json then [s] else fleet_lines (hostname_short h) nodes),
                 pr_err = (case saved of Inl e \<Rightarrow> [''warning: could not write fleet view: '' @ e] | Inr _ \<Rightarrow> []),
                 pr_result = Inr ()\<rparr>, fs')))"

subsection \<open>Exit status and output\<close>

lemma report_plan_text:
  "pr_result (report_plan to_value pretty result False planner) = map_sum (\<lambda>e. ''plan rejected: '' @ reason_token e) (\<lambda>_. ()) result"
  "pr_out (report_plan to_value pretty result False planner) =
     (case result of Inl _ \<Rightarrow> [] | Inr f \<Rightarrow> fragment_lines f planner)"
  by (cases result; simp add: report_plan_def prints_def)+

lemma report_plan_fails:
  "pr_result (report_plan to_value pretty (Inl e) as_json planner) \<noteq> Inr ()"
  by (simp add: report_plan_def fails_def split: sum.split)

lemma report_plan_json:
  assumes "to_value f = Inr kvs" "pretty (JObj (bt_insert ''planner'' (JStr planner) kvs)) = Inr s"
  shows "report_plan to_value pretty (Inr f) True planner = prints [s]"
  using assms by (simp add: report_plan_def prints_json_def)

lemma map_sum_map_err: "map_sum (\<lambda>e. e) g (map_err f r) = map_sum f g r"
  by (cases r) simp_all

text \<open>The offline command exits as \<open>plan_offline\<close> of the fleet tools says.\<close>

lemma plan_offline_prints_result:
  "pr_result (plan_offline_prints to_value pretty slot_of matrix_of parse read_to_string h role view_path node roles_spec
      matrix_path planner_kind False)
   = map_sum (\<lambda>e. e) (\<lambda>_. ())
       (plan_offline slot_of matrix_of parse read_to_string h role view_path node roles_spec matrix_path planner_kind)"
proof (cases "load_snapshot slot_of matrix_of parse read_to_string view_path")
  case (Inr view)
  then show ?thesis
    by (cases matrix_path; cases "load_latency matrix_of parse read_to_string (the matrix_path)")
      (simp_all add: plan_offline_prints_def plan_offline_def plan_exit_def fails_def report_plan_text map_sum_map_err)
qed (simp add: plan_offline_prints_def plan_offline_def fails_def)


end
