(* ===== verification/Command_Line.thy ===== *)
theory Command_Line
  imports Listings Agent_Process Vm_Launch Vhost_Rng Entropy Wgpu_Remote
begin

text \<open>
  The command line of \<open>bin/nauti.rs\<close>: the commands with the values they take when an option is left
  out, the dispatch of \<open>main\<close>, and the GPU, vhost and VM commands; the listings are in \<open>Listings\<close>, the
  reports of plans and of the fleet in \<open>Reports\<close>. Parsing the arguments is the \<open>clap\<close> crate's; a
  command is what it hands to \<open>main\<close>.
\<close>

subsection \<open>Commands\<close>

datatype plan_action =
    PlanAsk string "string option" "string option" u64 bool
  | PlanOffline string string "string option" string "string option" string bool

datatype wgpu_action = WgpuServe string | WgpuRun string nat

datatype research_action = ResearchDiscover bool

datatype vhost_action = VhostServe rng_config | VhostEntropyServe string | VhostPump string string u32

datatype vm_action = VmCapability | VmLaunchWith vm_launch_args | VmReconcile

datatype command =
    Tools bool
  | Adapters bool
  | Inventory bool string bool
  | Demo
  | AgentServe string
  | AgentConnect string
  | FabricVerb string fabric_action
  | Topology bool
  | Gpus bool bool "string option"
  | Vm vm_action
  | Vhost vhost_action
  | Wgpu wgpu_action
  | Research research_action
  | Fleet bool u32 bool "string option"
  | Plan plan_action

text \<open>The values of options that are left out.\<close>

definition inventory_command :: "bool \<Rightarrow> string option \<Rightarrow> bool \<Rightarrow> command" where
  "inventory_command json node refresh = Inventory json (unwrap_or node ''local'') refresh"

definition agent_serve_command :: "string option \<Rightarrow> command" where
  "agent_serve_command node = AgentServe (unwrap_or node ''local'')"

definition fleet_command :: "bool \<Rightarrow> u32 option \<Rightarrow> bool \<Rightarrow> string option \<Rightarrow> command" where
  "fleet_command json samples paths out = Fleet json (unwrap_or samples 10) paths out"

definition plan_ask_command :: "string \<Rightarrow> string option \<Rightarrow> string option \<Rightarrow> u64 option \<Rightarrow> bool \<Rightarrow> command" where
  "plan_ask_command role head node timeout_secs json = Plan (PlanAsk role head node (unwrap_or timeout_secs 10) json)"

definition plan_offline_command ::
  "string \<Rightarrow> string \<Rightarrow> string option \<Rightarrow> string \<Rightarrow> string option \<Rightarrow> string option \<Rightarrow> bool \<Rightarrow> command"
where
  "plan_offline_command role view node roles matrix kind json =
     Plan (PlanOffline role view node roles matrix (unwrap_or kind ''monolithic'') json)"

definition workload_n :: nat where
  "workload_n = 4096"

definition wgpu_run_command :: "string \<Rightarrow> nat option \<Rightarrow> command" where
  "wgpu_run_command connect n = Wgpu (WgpuRun connect (unwrap_or n workload_n))"

definition usize_max :: nat where
  "usize_max = 2 ^ 64 - 1"

definition vhost_serve_config :: "string \<Rightarrow> string option \<Rightarrow> nat option \<Rightarrow> nat option \<Rightarrow> rng_config" where
  "vhost_serve_config socket source period_ms max_bytes =
     \<lparr>rg_socket_path = socket, rg_source_path = unwrap_or source ''/dev/urandom'',
      rg_period_ms = unwrap_or period_ms max_period_ms, rg_max_bytes = unwrap_or max_bytes usize_max\<rparr>"

definition vhost_pump_command :: "string \<Rightarrow> string \<Rightarrow> u32 option \<Rightarrow> command" where
  "vhost_pump_command connect out chunk = Vhost (VhostPump connect out (unwrap_or chunk default_chunk))"

definition vm_launch_defaults :: "string \<Rightarrow> string \<Rightarrow> string \<Rightarrow> string \<Rightarrow> string \<Rightarrow> vm_launch_args" where
  "vm_launch_defaults rid binary api_socket krn rootfs =
     \<lparr>va_resource_id = rid, va_binary = binary, va_api_socket = api_socket, va_kernel = krn, va_rootfs = rootfs,
      va_vm_name = None, va_vcpus = ''1'', va_memory_mib = ''512'', va_virtio_blk = None, va_net = None,
      va_user_device = None, va_fs = None, va_vsock = None, va_watchdog = False, va_cmdline = None, va_initramfs = None,
      va_rng_src = None, va_shared = False, va_ttl_secs = 30\<rparr>"

subsection \<open>Dispatch\<close>

record 'r handlers =
  on_tools :: "bool \<Rightarrow> 'r"
  on_adapters :: "bool \<Rightarrow> 'r"
  on_inventory :: "string \<Rightarrow> bool \<Rightarrow> bool \<Rightarrow> 'r"
  on_demo :: 'r
  on_agent_serve :: "string \<Rightarrow> 'r"
  on_agent_connect :: "string \<Rightarrow> 'r"
  on_fabric :: "string \<Rightarrow> fabric_action \<Rightarrow> 'r"
  on_topology :: "bool \<Rightarrow> 'r"
  on_gpus :: "bool \<Rightarrow> bool \<Rightarrow> string option \<Rightarrow> 'r"
  on_vm_capability :: 'r
  on_vm_launch :: "vm_launch_args \<Rightarrow> 'r"
  on_vm_reconcile :: 'r
  on_vhost_serve :: "rng_config \<Rightarrow> 'r"
  on_entropy_serve :: "string \<Rightarrow> 'r"
  on_pump :: "string \<Rightarrow> string \<Rightarrow> u32 \<Rightarrow> 'r"
  on_wgpu_serve :: "string \<Rightarrow> 'r"
  on_wgpu_run :: "string \<Rightarrow> nat \<Rightarrow> 'r"
  on_research :: "bool \<Rightarrow> 'r"
  on_fleet :: "bool \<Rightarrow> u32 \<Rightarrow> bool \<Rightarrow> string option \<Rightarrow> 'r"
  on_plan :: "plan_action \<Rightarrow> 'r"

fun nauti_main :: "'r handlers \<Rightarrow> command \<Rightarrow> 'r" where
  "nauti_main hs (Tools json) = on_tools hs json"
| "nauti_main hs (Adapters json) = on_adapters hs json"
| "nauti_main hs (Inventory json node refresh) = on_inventory hs node json refresh"
| "nauti_main hs Demo = on_demo hs"
| "nauti_main hs (Fleet json samples paths out) = on_fleet hs json samples paths out"
| "nauti_main hs (Plan action) = on_plan hs action"
| "nauti_main hs (AgentServe node) = on_agent_serve hs node"
| "nauti_main hs (AgentConnect addr) = on_agent_connect hs addr"
| "nauti_main hs (FabricVerb addr action) = on_fabric hs addr action"
| "nauti_main hs (Topology json) = on_topology hs json"
| "nauti_main hs (Gpus json by_vendor type_filter) = on_gpus hs json by_vendor type_filter"
| "nauti_main hs (Vm VmCapability) = on_vm_capability hs"
| "nauti_main hs (Vm (VmLaunchWith args)) = on_vm_launch hs args"
| "nauti_main hs (Vm VmReconcile) = on_vm_reconcile hs"
| "nauti_main hs (Vhost (VhostServe config)) = on_vhost_serve hs config"
| "nauti_main hs (Vhost (VhostEntropyServe listen)) = on_entropy_serve hs listen"
| "nauti_main hs (Vhost (VhostPump connect out chunk)) = on_pump hs connect out chunk"
| "nauti_main hs (Wgpu (WgpuServe bind)) = on_wgpu_serve hs bind"
| "nauti_main hs (Wgpu (WgpuRun connect n)) = on_wgpu_run hs connect n"
| "nauti_main hs (Research (ResearchDiscover json)) = on_research hs json"

text \<open>\<open>plan_action\<close> hands the two plan commands on.\<close>

fun plan_dispatch ::
  "(string \<Rightarrow> string option \<Rightarrow> string option \<Rightarrow> u64 \<Rightarrow> bool \<Rightarrow> 'r)
     \<Rightarrow> (string \<Rightarrow> string \<Rightarrow> string option \<Rightarrow> string \<Rightarrow> string option \<Rightarrow> string \<Rightarrow> bool \<Rightarrow> 'r) \<Rightarrow> plan_action \<Rightarrow> 'r"
where
  "plan_dispatch ask offline (PlanAsk role head node timeout_secs json) = ask role head node timeout_secs json"
| "plan_dispatch ask offline (PlanOffline role view node roles matrix planner json) =
     offline role view node roles matrix planner json"

subsection \<open>GPU jobs\<close>

text \<open>\<open>SocketAddr::from_str\<close> for IPv4: four decimal numbers without leading zeros, and a port. The other
  form, an IPv6 address in brackets, is an argument; \<open>is_tailscale_ip\<close> refuses every address it gives.\<close>

definition decimal :: "nat \<Rightarrow> string \<Rightarrow> nat option" where
  "decimal bound s =
     (if s \<noteq> [] \<and> list_all (\<lambda>c. CHR ''0'' \<le> c \<and> c \<le> CHR ''9'') s then from_str_radix bound 10 s else None)"

definition parse_octet :: "string \<Rightarrow> u8 option" where
  "parse_octet s =
     (if 3 < length s \<or> (1 < length s \<and> hd s = CHR ''0'') then None
      else map_option of_nat (decimal (2 ^ 8) s))"

definition parse_socket_v4 :: "string \<Rightarrow> socket_addr option" where
  "parse_socket_v4 raw =
     (case split_char (CHR '':'') raw of
        [ip, port] \<Rightarrow>
          (case (map parse_octet (split_char (CHR ''.'') ip), decimal (2 ^ 16) port) of
             ([Some a, Some b, Some c, Some d], Some p) \<Rightarrow>
               Some \<lparr>sa_ip = V4 a b c d,
                 sa_display = join ''.'' (map (\<lambda>n. show_word n) [a, b, c, d]) @ '':'' @ show_nat p\<rparr>
           | _ \<Rightarrow> None)
      | _ \<Rightarrow> None)"

definition parse_bind :: "(string \<Rightarrow> socket_addr option) \<Rightarrow> string \<Rightarrow> string + socket_addr" where
  "parse_bind parse_v6 raw =
     (case parse_socket_v4 raw of
        Some addr \<Rightarrow> Inr addr
      | None \<Rightarrow> ok_or (parse_v6 raw) ''not a socket addr: invalid socket address syntax'')"

definition wgpu_serve ::
  "wgpu_env \<Rightarrow> (string \<Rightarrow> socket_addr option) \<Rightarrow> (socket_addr \<Rightarrow> string + (string + server_conn) list) \<Rightarrow> string
     \<Rightarrow> (string + unit) \<times> bytes option list"
where
  "wgpu_serve env parse_v6 bind_listener bind =
     (case parse_bind parse_v6 bind of
        Inl e \<Rightarrow> (Inl e, [])
      | Inr addr \<Rightarrow> serve env addr (bind_listener addr))"

definition wgpu_run ::
  "wgpu_env \<Rightarrow> (wgpu_result \<Rightarrow> string + string) \<Rightarrow> (string \<Rightarrow> socket_addr option) \<Rightarrow> (socket_addr \<Rightarrow> string + client_conn)
     \<Rightarrow> string \<Rightarrow> nat \<Rightarrow> printed"
where
  "wgpu_run env pretty parse_v6 tcp_connect connect n =
     (case and_then (parse_bind parse_v6 connect) (\<lambda>addr. submit env tcp_connect addr (sample_job n)) of
        Inl e \<Rightarrow> fails e
      | Inr result \<Rightarrow>
          (case pretty result of
             Inl e \<Rightarrow> fails e
           | Inr s \<Rightarrow> \<lparr>pr_out = [s], pr_err = [],
               pr_result = (if wr_status result \<noteq> ''ok'' then Inl (''wgpu-remote job status '' @ wr_status result)
                            else Inr ())\<rparr>))"

subsection \<open>vhost and VM commands\<close>

text \<open>\<open>printed\<close> by a command that announces itself and then runs.\<close>

definition announced :: "string list \<Rightarrow> string + unit \<Rightarrow> printed" where
  "announced ls result = \<lparr>pr_out = ls, pr_err = [], pr_result = result\<rparr>"

definition vhost_serve :: "rng_world \<Rightarrow> rng_config \<Rightarrow> printed" where
  "vhost_serve w config =
     announced
       [''serving virtio-rng backend on '' @ rg_socket_path config,
        ''attach with: nauti vm launch --user-device '' @ rg_socket_path config @ '' ...'']
       (map_err rng_error_display (serve_rng w config))"

definition vhost_entropy_serve ::
  "(entropy_error \<Rightarrow> string) \<Rightarrow> (string \<Rightarrow> string + (string + entropy_peer) list) \<Rightarrow> string
     \<Rightarrow> printed \<times> ((entropy_error + unit) \<times> bytes) list"
where
  "vhost_entropy_serve display bind listen =
     (case entropy_serve bind listen of
        (result, served) \<Rightarrow>
          (announced [''entropy server listening on '' @ listen @ '' (length-prefixed requests)''] (map_err display result),
           served))"

text \<open>The pump ends only with an error; while it runs that is \<open>None\<close>.\<close>

definition vhost_pump ::
  "(entropy_error \<Rightarrow> string) \<Rightarrow> pump_env \<Rightarrow> string \<Rightarrow> string \<Rightarrow> u32 \<Rightarrow> pump_round list
     \<Rightarrow> string list \<times> string option \<times> bytes list"
where
  "vhost_pump display env connect out chunk rounds =
     (case entropy_pump env connect out chunk rounds of
        (ending, written) \<Rightarrow>
          ([''pumping entropy from '' @ connect @ '' into '' @ out], map_option display ending, written))"

definition ch_default_binary :: "host \<Rightarrow> string" where
  "ch_default_binary h =
     unwrap_or (h_env h ''CH_BINARY'') (unwrap_or (h_which h ''cloud-hypervisor'') ''/usr/bin/cloud-hypervisor'')"

definition vm_capability :: "'w launcher \<Rightarrow> (adapter_report \<Rightarrow> string + string) \<Rightarrow> host \<Rightarrow> 'w \<Rightarrow> printed" where
  "vm_capability lr pretty h w =
     (let report = ch_report lr (with_launcher (ch_default_binary h)) w in
      case pretty report of
        Inl e \<Rightarrow> fails e
      | Inr s \<Rightarrow> \<lparr>pr_out = [s],
          pr_err = (if \<not> rep_healthy report
                    then [''warning: cloud-hypervisor adapter is unhealthy; `nauti vm launch` will fail until the binary is reachable'']
                    else []),
          pr_result = Inr ()\<rparr>)"

definition vm_launch_prints ::
  "'w launcher \<Rightarrow> (attachment \<Rightarrow> string + string) \<Rightarrow> vm_launch_args \<Rightarrow> instant \<times> instant \<Rightarrow> instant \<Rightarrow> 'w
     \<Rightarrow> printed outcome \<times> 'w"
where
  "vm_launch_prints lr pretty a lease_clock attach_clock w =
     (case vm_launch_main lr a lease_clock attach_clock w of
        (Panicked, w') \<Rightarrow> (Panicked, w')
      | (Done (Inl e), w') \<Rightarrow> (Done (fails (fabric_error_display e)), w')
      | (Done (Inr attachment), w') \<Rightarrow> (Done (prints_json (pretty attachment)), w'))"

definition vm_reconcile :: printed where
  "vm_reconcile =
     \<lparr>pr_out = [],
      pr_err = [''nauti vm reconcile is a no-op across processes: run reconcile from the same process that launched the VM, or use `ch-remote --api-socket <sock> remove-vm <name>` directly.''],
      pr_result = Inr ()\<rparr>"

end
