(* ===== verification/Http_Roundtrip.thy ===== *)
theory Http_Roundtrip
  imports Http_Properties
begin

text \<open>
  What a head writes is what the client reads: a response with a status line, header lines and a
  body, written as a server writes it, is parsed back into its status, its headers and its body,
  whether the body is sent as it is or in chunks.
\<close>

subsection \<open>Written responses\<close>

definition header_line :: "string \<times> string \<Rightarrow> string" where
  "header_line = (\<lambda>(k, v). k @ '': '' @ v)"

definition status_line :: "u16 \<Rightarrow> string \<Rightarrow> string" where
  "status_line status reason = ''HTTP/1.1 '' @ show_word status @ '' '' @ reason"

definition ended :: "string list \<Rightarrow> string" where
  "ended ls = concat (map (\<lambda>l. l @ crlf) ls)"

definition http_response :: "u16 \<Rightarrow> string \<Rightarrow> attrs \<Rightarrow> string \<Rightarrow> string" where
  "http_response status reason headers body =
     ended (status_line status reason # map header_line headers) @ crlf @ body"

text \<open>One line of ASCII text.\<close>

definition one_line :: "string \<Rightarrow> bool" where
  "one_line s = (ascii s \<and> CHR 0x0D \<notin> set s \<and> CHR 0x0A \<notin> set s)"

definition header_ok :: "string \<times> string \<Rightarrow> bool" where
  "header_ok = (\<lambda>(k, v). one_line k \<and> one_line v \<and> CHR '':'' \<notin> set k)"

definition header_fields :: "attrs \<Rightarrow> attrs" where
  "header_fields headers = fold (\<lambda>(k, v). bt_insert (to_lower (trim k)) (trim v)) headers []"

subsection \<open>Finding the end of the head\<close>

lemma find_skip:
  assumes "CHR 0x0D \<notin> set l" and "\<not> starts_with rest crlf" and "rest \<noteq> []"
  shows "find_subslice (l @ crlf @ rest) (crlf @ crlf) = map_option (\<lambda>i. length l + 2 + i) (find_subslice rest (crlf @ crlf))"
  using assms
proof (induction l)
  case Nil
  then show ?case
    by (cases rest) (auto simp: crlf_def starts_with_def option.map_comp comp_def)
next
  case (Cons c l)
  then show ?case
    by (auto simp: crlf_def starts_with_def option.map_comp comp_def)
qed

lemma find_blank_line:
  assumes "list_all one_line ls" "list_all (\<lambda>l. l \<noteq> []) ls" "ls \<noteq> []"
  shows "find_subslice (ended ls @ crlf @ rest) (crlf @ crlf) = Some (length (ended ls) - 2)"
  using assms
proof (induction ls)
  case (Cons l ls)
  then have no_cr: "CHR 0x0D \<notin> set l"
    by (simp add: one_line_def)
  show ?case
  proof (cases ls)
    case Nil
    have "find_subslice (l @ crlf @ crlf @ rest) (crlf @ crlf) = Some (length l)"
      using no_cr by (induction l) (auto simp: crlf_def starts_with_def)
    with Nil show ?thesis
      by (simp add: ended_def)
  next
    case (Cons l' ls')
    have "\<not> starts_with (ended ls @ crlf @ rest) crlf" "ended ls @ crlf @ rest \<noteq> []" "2 \<le> length (ended ls)"
      using Cons Cons.prems by (cases l'; auto simp: ended_def crlf_def starts_with_def one_line_def)+
    with find_skip [OF no_cr this(1,2)] Cons.IH Cons.prems Cons show ?thesis
      by (simp add: ended_def)
  qed
qed simp

lemma find_head:
  assumes "list_all one_line ls" "list_all (\<lambda>l. l \<noteq> []) ls" "ls \<noteq> []"
  shows "find_header_end (ended ls @ crlf @ body) = Some (length (ended ls @ crlf))"
proof -
  have "2 \<le> length (ended ls)"
    using assms(3) by (cases ls) (simp_all add: ended_def)
  then show ?thesis
    using find_blank_line [OF assms] by (simp add: find_header_end_def)
qed

subsection \<open>Reading the lines of the head\<close>

lemma split_ended:
  assumes "list_all one_line ls"
  shows "split_char (CHR 0x0A) (ended ls @ s) = map (\<lambda>l. l @ [CHR 0x0D]) ls @ split_char (CHR 0x0A) s"
  using assms
proof (induction ls)
  case (Cons l ls)
  have "split_char (CHR 0x0A) ((l @ [CHR 0x0D]) @ CHR 0x0A # ended ls @ s)
      = (l @ [CHR 0x0D]) # split_char (CHR 0x0A) (ended ls @ s)"
    using Cons.prems by (intro split_on_append_sep) (auto simp: one_line_def)
  with Cons show ?case
    by (simp add: ended_def crlf_def)
qed (simp add: ended_def)

lemma lines_ended:
  assumes "list_all one_line ls"
  shows "lines (ended ls @ crlf) = ls @ [[]]"
proof -
  have "split_char (CHR 0x0A) (ended ls @ crlf) = map (\<lambda>l. l @ [CHR 0x0D]) ls @ [[CHR 0x0D], []]"
    unfolding split_ended [OF assms] by (simp add: crlf_def)
  then show ?thesis
    by (simp add: lines_def Let_def butlast_append chomp_cr_def comp_def)
qed

lemma ascii_append [simp]: "ascii (s @ t) \<longleftrightarrow> ascii s \<and> ascii t"
  by (simp add: ascii_def)

lemma ascii_ended: "list_all one_line ls \<Longrightarrow> ascii (ended ls @ crlf)"
  by (induction ls) (auto simp: ended_def ascii_def one_line_def crlf_def)

lemma digits_ascii: "ascii (show_nat n)"
proof (induction "10 :: nat" n rule: show_radix.induct)
  case (1 n)
  then show ?case
    by (subst show_radix.simps) (auto simp: digit_char_def ascii_def)
qed

lemma digits_no_ws: "c \<in> set (show_nat n) \<Longrightarrow> \<not> is_ws c"
  by (rule digits_facts)

lemma one_line_status: "one_line reason \<Longrightarrow> one_line (status_line status reason)"
  using digits_no_ws [of _ "unat status"] digits_ascii [of "unat status"]
  by (auto simp: one_line_def status_line_def ascii_def is_ws_def)

lemma status_words:
  "\<exists>ws. split_whitespace (status_line status reason) = ''HTTP/1.1'' # show_word status # ws"
proof -
  have "split_on is_ws (show_word status @ CHR '' '' # reason) = show_word status # split_on is_ws reason"
    using digits_no_ws by (intro split_on_append_sep) (auto simp: is_ws_def)
  then have "split_on is_ws (''HTTP/1.1'' @ CHR '' '' # show_word status @ CHR '' '' # reason)
      = ''HTTP/1.1'' # show_word status # split_on is_ws reason"
    by (subst split_on_append_sep) (simp_all add: is_ws_def)
  then show ?thesis
    by (simp add: split_whitespace_def status_line_def)
qed

lemma parse_u16_show: "parse_u16 (show_word (n :: u16)) = Some n"
  using from_str_radix_show [of 10 "unat n" "2 ^ 16"] unsigned_less [where ?'a = nat, of n] by (simp add: parse_u16_def)

lemma header_line_ok: "header_ok h \<Longrightarrow> one_line (header_line h) \<and> header_line h \<noteq> []"
  by (auto simp: header_ok_def header_line_def one_line_def ascii_def split: prod.splits)

lemma header_insert_line:
  "header_ok (k, v) \<Longrightarrow> header_insert (header_line (k, v)) m = bt_insert (to_lower (trim k)) (trim v) m"
  using split_once_append [of "CHR '':''" k "'' '' @ v"]
  by (simp add: header_insert_def header_line_def header_ok_def trim_def trim_matches_def is_ws_def)

lemma header_insert_fields:
  "list_all header_ok headers \<Longrightarrow> fold header_insert (map header_line headers @ [[]]) m
     = fold (\<lambda>(k, v). bt_insert (to_lower (trim k)) (trim v)) headers m"
proof (induction headers arbitrary: m)
  case (Cons h headers)
  then show ?case
    by (cases h) (simp add: header_insert_line)
qed (simp add: header_insert_def)

subsection \<open>The round trip\<close>

definition is_chunked :: "attrs \<Rightarrow> bool" where
  "is_chunked headers =
     (case map_of headers ''transfer-encoding'' of Some v \<Rightarrow> contains (to_lower v) ''chunked'' | None \<Rightarrow> False)"

lemma parse_split_head:
  assumes "find_header_end (h @ body) = Some (length h)" "from_utf8 h = Some h" "lines h = l # ls"
    and "split_whitespace l = w # code # ws" "parse_u16 code = Some status"
  shows "parse_http_response (h @ body) = Some (status, fold header_insert ls [],
     if is_chunked (fold header_insert ls []) then dechunk body else from_utf8_lossy body)"
  using assms by (simp add: parse_http_response_def is_chunked_def Let_def split: option.split)

lemma parse_written_response:
  assumes "one_line reason" "list_all header_ok headers"
  shows "parse_http_response (http_response status reason headers body)
    = Some (status, header_fields headers,
        if is_chunked (header_fields headers) then dechunk body else from_utf8_lossy body)"
proof -
  let ?ls = "status_line status reason # map header_line headers"
  have ls: "list_all one_line ?ls" "list_all (\<lambda>l. l \<noteq> []) ?ls" "?ls \<noteq> []"
    using assms one_line_status header_line_ok by (auto simp: list_all_iff status_line_def)
  have "find_header_end ((ended ?ls @ crlf) @ body) = Some (length (ended ?ls @ crlf))"
    using find_head [OF ls] by simp
  moreover have "from_utf8 (ended ?ls @ crlf) = Some (ended ?ls @ crlf)"
    using ascii_valid [OF ascii_ended [OF ls(1)]] by (simp add: from_utf8_def)
  moreover have "lines (ended ?ls @ crlf) = status_line status reason # map header_line headers @ [[]]"
    using lines_ended [OF ls(1)] by simp
  moreover obtain ws where "split_whitespace (status_line status reason) = ''HTTP/1.1'' # show_word status # ws"
    using status_words by blast
  ultimately have "parse_http_response ((ended ?ls @ crlf) @ body)
      = Some (status, fold header_insert (map header_line headers @ [[]]) [],
          if is_chunked (fold header_insert (map header_line headers @ [[]]) []) then dechunk body else from_utf8_lossy body)"
    by (rule parse_split_head [OF _ _ _ _ parse_u16_show])
  then show ?thesis
    unfolding header_insert_fields [OF assms(2)] header_fields_def http_response_def append_assoc .
qed

lemma url_without_path:
  assumes "CHR ''/'' \<notin> set a" "parse_head_url (''http://'' @ a @ ''/'' @ path) = Inr u"
  shows "parse_head_url (''http://'' @ a) = Inr u"
proof -
  have hd: "hd (split_char (CHR ''/'') a) = a"
    using assms(1) split_on_no_sep [of a "\<lambda>c. c = CHR ''/''"] by force
  have read: "parse_head_url (''http://'' @ b) =
     (let authority = trim (hd (split_char (CHR ''/'') b)); e = str_debug (''http://'' @ b) in
      if authority = [] then Inl (BadHeadUrl (e @ '' has no host''))
      else and_then
        (case rsplit_once (CHR '':'') authority of
           Some (h, p) \<Rightarrow> (case parse_u16 p of Some port \<Rightarrow> Inr (h, port)
             | None \<Rightarrow> Inl (BadHeadUrl (e @ '' has a non-numeric port '' @ str_debug p)))
         | None \<Rightarrow> Inr (authority, default_head_port))
        (\<lambda>(host, port). if trim_matches (\<lambda>c. c = CHR ''['' \<or> c = CHR '']'') host = []
           then Inl (BadHeadUrl (e @ '' has an empty host'')) else Inr (host, port)))" for b
    by (simp only: parse_head_url_def strip_prefix_append option.case Let_def)
  show ?thesis
    using assms(2) unfolding read hd split_path [OF assms(1)] Let_def and_then_Inr
    by (cases "rsplit_once (CHR '':'') (trim a)") (auto simp only: option.case prod.case and_then.simps sum.simps simp_thms split: if_splits option.splits)
qed

text \<open>C29. A response that a server writes with header lines of ASCII text is read back: the status, the
  header fields with lower-case names, and the body, whether it was sent whole or, under a chunked
  transfer encoding, in chunks cut anywhere.\<close>

theorem http_response_roundtrip:
  assumes "one_line reason" "list_all header_ok headers"
    and "\<forall>c \<in> set cs. c \<noteq> [] \<and> length c < 2 ^ 64" "utf8_valid (concat cs)"
  shows "parse_http_response (http_response status reason headers
      (if is_chunked (header_fields headers) then enchunk cs else concat cs))
    = Some (status, header_fields headers, concat cs)"
  using parse_written_response [OF assms(1,2)] dechunk_enchunk [OF assms(3,4)] lossy_valid [OF assms(4)]
  by simp

theorem http_response_roundtrip_witness:
  "parse_http_response (http_response 200 ''OK'' [(''Transfer-Encoding'', ''chunked'')] (enchunk [''ab'', ''c'']))
     = Some (200, [(''transfer-encoding'', ''chunked'')], ''abc'')"
proof -
  have fields: "header_fields [(''Transfer-Encoding'', ''chunked'')] = [(''transfer-encoding'', ''chunked'')]"
    by code_simp
  have "is_chunked [(''transfer-encoding'', ''chunked'')]"
    by code_simp
  then show ?thesis
    using http_response_roundtrip [of "''OK''" "[(''Transfer-Encoding'', ''chunked'')]" "[''ab'', ''c'']" 200]
    by (simp add: fields one_line_def header_ok_def ascii_def ascii_valid)
qed

end
