(* ===== verification/Dataset_Patterns.thy ===== *)
theory Dataset_Patterns
  imports Dataset_Validate
begin

text \<open>
  The two regular expressions of \<open>tools/dataset-validate\<close>, as syntax trees with the meaning the
  \<open>regex\<close> crate documents for the constructs they use: leftmost-first alternatives, greedy repetition,
  word boundaries, case-insensitive letters. The classes are those of ASCII text. The general
  theorems about the validator keep both patterns as arguments; here they are given the source's
  patterns, and the identifier pattern is shown to select whole words.
\<close>

subsection \<open>Patterns and where they match\<close>

datatype rx =
    Eps
  | Class "char \<Rightarrow> bool"
  | Many "char \<Rightarrow> bool"
  | Word_Boundary
  | Seq rx rx
  | Alt rx rx

text \<open>A position in a text: the character before it, if any, and the text after it.\<close>

type_synonym text_pos = "char option \<times> string"

definition is_lower :: "char \<Rightarrow> bool" where
  "is_lower c = (let n = (of_char c :: nat) in 97 \<le> n \<and> n \<le> 122)"

definition is_digit_char :: "char \<Rightarrow> bool" where
  "is_digit_char c = (let n = (of_char c :: nat) in 48 \<le> n \<and> n \<le> 57)"

definition is_word_char :: "char \<Rightarrow> bool" where
  "is_word_char c = (is_lower (lower_char c) \<or> is_digit_char c \<or> c = CHR ''_'')"

text \<open>The classes on the bits of a character, which is how they are evaluated.\<close>

lemma is_lower_code [code]:
  "is_lower (Char b0 b1 b2 b3 b4 b5 b6 b7) =
     (\<not> b7 \<and> b6 \<and> b5 \<and> (b0 \<or> b1 \<or> b2 \<or> b3 \<or> b4) \<and> \<not> (b4 \<and> b3 \<and> (b2 \<or> b1 \<and> b0)))"
  by (cases b0; cases b1; cases b2; cases b3; cases b4; cases b5; cases b6; cases b7) (simp_all add: is_lower_def)

lemma is_digit_char_code [code]:
  "is_digit_char (Char b0 b1 b2 b3 b4 b5 b6 b7) = (\<not> b7 \<and> \<not> b6 \<and> b5 \<and> b4 \<and> \<not> (b3 \<and> (b2 \<or> b1)))"
  by (cases b0; cases b1; cases b2; cases b3; cases b4; cases b5; cases b6; cases b7) (simp_all add: is_digit_char_def)

lemma lower_char_code [code]:
  "lower_char (Char b0 b1 b2 b3 b4 b5 b6 b7) =
     (if \<not> b7 \<and> b6 \<and> \<not> b5 \<and> (b0 \<or> b1 \<or> b2 \<or> b3 \<or> b4) \<and> \<not> (b4 \<and> b3 \<and> (b2 \<or> b1 \<and> b0))
      then Char b0 b1 b2 b3 b4 True b6 b7 else Char b0 b1 b2 b3 b4 b5 b6 b7)"
  by (cases b0; cases b1; cases b2; cases b3; cases b4; cases b5; cases b6; cases b7)
    (simp_all add: lower_char_def char_of_eq_iff take_bit_eq_mod)

definition word_before :: "text_pos \<Rightarrow> bool" where
  "word_before p = (case fst p of None \<Rightarrow> False | Some c \<Rightarrow> is_word_char c)"

definition word_after :: "text_pos \<Rightarrow> bool" where
  "word_after p = (case snd p of [] \<Rightarrow> False | c # _ \<Rightarrow> is_word_char c)"

text \<open>A greedy repetition prefers the longest run.\<close>

fun many_ends :: "(char \<Rightarrow> bool) \<Rightarrow> char option \<Rightarrow> string \<Rightarrow> text_pos list" where
  "many_ends P prev [] = [(prev, [])]"
| "many_ends P prev (c # s) = (if P c then many_ends P (Some c) s else []) @ [(prev, c # s)]"

text \<open>The positions at which a match that begins at a position can end, the preferred one first.\<close>

fun rx_ends :: "rx \<Rightarrow> text_pos \<Rightarrow> text_pos list" where
  "rx_ends Eps p = [p]"
| "rx_ends (Class P) p = (case snd p of [] \<Rightarrow> [] | c # s \<Rightarrow> if P c then [(Some c, s)] else [])"
| "rx_ends (Many P) p = many_ends P (fst p) (snd p)"
| "rx_ends Word_Boundary p = (if word_before p \<noteq> word_after p then [p] else [])"
| "rx_ends (Seq r q) p = concat (map (rx_ends q) (rx_ends r p))"
| "rx_ends (Alt r q) p = rx_ends r p @ rx_ends q p"

fun match_at :: "rx \<Rightarrow> char option \<Rightarrow> string \<Rightarrow> bool" where
  "match_at r prev [] = (rx_ends r (prev, []) \<noteq> [])"
| "match_at r prev (c # s) = (rx_ends r (prev, c # s) \<noteq> [] \<or> match_at r (Some c) s)"

definition rx_is_match :: "rx \<Rightarrow> string \<Rightarrow> bool" where
  "rx_is_match r s = match_at r None s"

text \<open>\<open>find_iter\<close>: the non-overlapping matches from left to right, an empty match only where the
  search moves on by a character.\<close>

function find_from :: "rx \<Rightarrow> char option \<Rightarrow> string \<Rightarrow> string list" where
  "find_from r prev s =
     (case rx_ends r (prev, s) of
        (prev', s') # _ \<Rightarrow>
          if length s' < length s then take (length s - length s') s # find_from r prev' s'
          else [] # (case s of [] \<Rightarrow> [] | c # t \<Rightarrow> find_from r (Some c) t)
      | [] \<Rightarrow> (case s of [] \<Rightarrow> [] | c # t \<Rightarrow> find_from r (Some c) t))"
  by pat_completeness auto
termination
  by (relation "measure (\<lambda>(r, prev, s). length s)") auto

definition rx_find_iter :: "rx \<Rightarrow> string \<Rightarrow> string list" where
  "rx_find_iter r s = find_from r None s"

declare find_from.simps [simp del]

subsection \<open>The patterns of the source\<close>

fun rx_seq :: "rx list \<Rightarrow> rx" where
  "rx_seq [] = Eps"
| "rx_seq [r] = r"
| "rx_seq (r # rs) = Seq r (rx_seq rs)"

fun rx_alts :: "rx \<Rightarrow> rx list \<Rightarrow> rx" where
  "rx_alts r [] = r"
| "rx_alts r (q # qs) = Alt r (rx_alts q qs)"

definition rx_opt :: "rx \<Rightarrow> rx" where
  "rx_opt r = Alt r Eps"

definition no_case :: "(char \<Rightarrow> bool) \<Rightarrow> char \<Rightarrow> bool" where
  "no_case P c = (P c \<or> P (lower_char c))"

definition rx_word :: "string \<Rightarrow> rx" where
  "rx_word w = rx_seq (map (\<lambda>a. Class (no_case (\<lambda>c. c = a))) w)"

definition dash :: rx where
  "dash = rx_opt (Class (\<lambda>c. c = CHR ''_'' \<or> c = CHR ''-''))"

definition assigned :: "rx list" where
  "assigned = [Many is_ws, Class (\<lambda>c. c = CHR ''='' \<or> c = CHR '':'')]"

definition secret_marker_regex :: rx where
  "secret_marker_regex = rx_alts
     (rx_seq [Word_Boundary, rx_word ''api'', dash, rx_word ''key'', Word_Boundary])
     [rx_seq [Word_Boundary,
        rx_alts (rx_word ''auth'') (map rx_word [''access'', ''bearer'', ''refresh'', ''id'', ''client'', ''secret'']),
        dash, rx_word ''token'', Word_Boundary],
      rx_seq ([Word_Boundary, rx_alts (rx_word ''password'') (map rx_word [''passwd'', ''pwd''])] @ assigned),
      rx_seq ([Word_Boundary, rx_alts (rx_word ''secret'') [rx_word ''credential''], rx_opt (rx_word ''s'')] @ assigned),
      rx_seq ([Word_Boundary, rx_word ''akia''] @ replicate 16 (Class (\<lambda>c. is_digit_char c \<or> is_lower (lower_char c)))
        @ [Word_Boundary])]"

definition ident_tail :: "char \<Rightarrow> bool" where
  "ident_tail c = (is_lower c \<or> is_digit_char c \<or> c = CHR ''_'')"

definition ident_token_regex :: rx where
  "ident_token_regex =
     rx_seq [Word_Boundary, Class is_lower, Class ident_tail, Class ident_tail, Many ident_tail, Word_Boundary]"

definition identifier_tokens :: "string \<Rightarrow> string list" where
  "identifier_tokens txt = rx_find_iter ident_token_regex txt"

subsection \<open>The identifier pattern selects whole words\<close>

text \<open>The maximal runs of word characters, and those the validator takes for identifiers: a lower-case
  letter, then at least two lower-case letters, digits or underscores and nothing else.\<close>

function words :: "string \<Rightarrow> string list" where
  "words [] = []"
| "words (c # s) = (if is_word_char c
     then takeWhile is_word_char (c # s) # words (dropWhile is_word_char (c # s)) else words s)"
  by pat_completeness auto
termination
  by (relation "measure length") (auto simp: le_imp_less_Suc length_dropWhile_le)

definition is_identifier :: "string \<Rightarrow> bool" where
  "is_identifier w = (3 \<le> length w \<and> is_lower (hd w) \<and> list_all ident_tail w)"

lemma ident_tail_word: "ident_tail c \<Longrightarrow> is_word_char c"
  by (auto simp: ident_tail_def is_word_char_def is_lower_def lower_char_def Let_def)

lemma lower_ident_tail: "is_lower c \<Longrightarrow> ident_tail c"
  by (simp add: ident_tail_def)

lemma boundary_after:
  "rx_ends Word_Boundary (Some a, []) = (if is_word_char a then [(Some a, [])] else [])"
  "rx_ends Word_Boundary (Some a, c # s) = (if is_word_char a \<noteq> is_word_char c then [(Some a, c # s)] else [])"
  by (simp_all add: word_before_def word_after_def)

lemma many_then_boundary:
  assumes "is_word_char a"
  shows "concat (map (rx_ends Word_Boundary) (many_ends ident_tail (Some a) s)) =
    (if list_all ident_tail (takeWhile is_word_char s)
     then [(Some (last (a # takeWhile is_word_char s)), dropWhile is_word_char s)] else [])"
  using assms
proof (induction s arbitrary: a)
  case (Cons c s)
  show ?case
  proof (cases "ident_tail c")
    case True
    then have "concat (map (rx_ends Word_Boundary) (many_ends ident_tail (Some c) s)) =
        (if list_all ident_tail (takeWhile is_word_char s)
         then [(Some (last (c # takeWhile is_word_char s)), dropWhile is_word_char s)] else [])"
      by (intro Cons.IH ident_tail_word)
    moreover have "rx_ends Word_Boundary (Some a, c # s) = []"
      using True Cons.prems ident_tail_word [of c] by (simp add: boundary_after del: rx_ends.simps)
    ultimately show ?thesis
      using True ident_tail_word [of c]
      by (simp only: many_ends.simps map_append concat_append) (simp del: rx_ends.simps)
  next
    case False
    with Cons.prems show ?thesis
      by (simp add: boundary_after del: rx_ends.simps)
  qed
qed (simp add: boundary_after del: rx_ends.simps)

lemma ident_ends_inside: "is_word_char a \<Longrightarrow> rx_ends ident_token_regex (Some a, s) = []"
  using lower_ident_tail ident_tail_word
  by (cases s) (auto simp: ident_token_regex_def word_before_def word_after_def)

lemma ident_ends_before_other:
  "\<not> word_before (prev, s) \<Longrightarrow> \<not> word_after (prev, s) \<Longrightarrow> rx_ends ident_token_regex (prev, s) = []"
  by (simp add: ident_token_regex_def)

lemma ident_ends_at_word:
  assumes "\<not> word_before (prev, s)" "word_after (prev, s)"
  shows "rx_ends ident_token_regex (prev, s) =
    (if is_identifier (takeWhile is_word_char s)
     then [(Some (last (takeWhile is_word_char s)), dropWhile is_word_char s)] else [])"
proof -
  obtain c t where s: "s = c # t" and c: "is_word_char c"
    using assms(2) by (cases s) (auto simp: word_after_def)
  let ?rest = "rx_seq [Class ident_tail, Class ident_tail, Many ident_tail, Word_Boundary]"
  have start: "rx_ends ident_token_regex (prev, c # t) = (if is_lower c then rx_ends ?rest (Some c, t) else [])"
    using assms by (simp add: ident_token_regex_def s)
  show ?thesis
  proof (cases "\<exists>d e u. t = d # e # u \<and> ident_tail d \<and> ident_tail e")
    case True
    then obtain d e u where t: "t = d # e # u" "ident_tail d" "ident_tail e"
      by blast
    have "rx_ends ?rest (Some c, t) = concat (map (rx_ends Word_Boundary) (many_ends ident_tail (Some e) u))"
      using t by simp
    also have "\<dots> = (if list_all ident_tail (takeWhile is_word_char u)
        then [(Some (last (e # takeWhile is_word_char u)), dropWhile is_word_char u)] else [])"
      using t by (intro many_then_boundary ident_tail_word)
    finally show ?thesis
      using t c ident_tail_word [of d] ident_tail_word [of e] lower_ident_tail [of c]
      unfolding s start by (simp add: is_identifier_def del: rx_ends.simps)
  next
    case False
    then have "rx_ends ?rest (Some c, t) = []"
      by (auto split: list.splits)
    moreover have "\<not> is_identifier (takeWhile is_word_char (c # t))"
    proof
      assume ident: "is_identifier (takeWhile is_word_char (c # t))"
      then obtain d e u where "takeWhile is_word_char t = d # e # u"
        using c by (auto simp: is_identifier_def Suc_le_length_iff numeral_3_eq_3)
      moreover from this have "t = d # e # u @ dropWhile is_word_char t"
        using takeWhile_dropWhile_id [of is_word_char t] by simp
      ultimately show False
        using False ident c by (auto simp: is_identifier_def)
    qed
    ultimately show ?thesis
      unfolding s start by simp
  qed
qed

lemma find_from_none:
  "rx_ends r (prev, c # s) = [] \<Longrightarrow> find_from r prev (c # s) = find_from r (Some c) s"
  "rx_ends r (prev, []) = [] \<Longrightarrow> find_from r prev [] = []"
  by (simp_all add: find_from.simps [of r prev])

lemma take_run: "take (length s - length (dropWhile P s)) s = takeWhile P s"
  by (metis append_eq_conv_conj diff_diff_cancel length_append length_takeWhile_le takeWhile_dropWhile_id
      add_diff_cancel_right')

lemma find_identifiers:
  "find_from ident_token_regex prev s =
     filter is_identifier (words (if word_before (prev, s) then dropWhile is_word_char s else s))"
proof (induction s arbitrary: prev rule: length_induct)
  case (1 s)
  show ?case
  proof (cases s)
    case Nil
    then show ?thesis
      by (cases prev) (simp_all add: find_from_none ident_token_regex_def word_after_def word_before_def)
  next
    case (Cons c t)
    have next_char: "find_from ident_token_regex (Some c) t =
        filter is_identifier (words (if is_word_char c then dropWhile is_word_char t else t))"
      using 1 Cons by (simp add: word_before_def)
    show ?thesis
    proof (cases "word_before (prev, s)")
      case True
      then have "rx_ends ident_token_regex (prev, c # t) = []"
        using ident_ends_inside by (auto simp: word_before_def split: option.splits)
      then show ?thesis
        using True next_char unfolding Cons by (simp add: find_from_none word_before_def)
    next
      case False
      note before = this
      show ?thesis
      proof (cases "is_word_char c \<and> is_identifier (takeWhile is_word_char s)")
        case True
        let ?rest = "dropWhile is_word_char s"
        have after: "word_after (prev, s)"
          using True by (simp add: word_after_def Cons)
        have ends: "rx_ends ident_token_regex (prev, s) = [(Some (last (takeWhile is_word_char s)), ?rest)]"
          using True ident_ends_at_word [OF before after] by simp
        have shorter: "length ?rest < length s"
          using True Cons by (simp add: le_imp_less_Suc length_dropWhile_le)
        have "is_word_char (last (takeWhile is_word_char s))"
          using True Cons by (metis last_in_set list.distinct(1) set_takeWhileD takeWhile.simps(2))
        moreover have "dropWhile is_word_char ?rest = ?rest"
          by simp
        ultimately have "find_from ident_token_regex (Some (last (takeWhile is_word_char s))) ?rest =
            filter is_identifier (words ?rest)"
          using 1 shorter by (simp add: word_before_def)
        moreover have "words s = takeWhile is_word_char s # words ?rest"
          using True unfolding Cons words.simps by (simp only: if_True)
        ultimately show ?thesis
          using True before shorter by (simp add: find_from.simps [of _ prev s] ends take_run)
      next
        case False
        have "word_after (prev, s) = is_word_char c"
          by (simp add: word_after_def Cons)
        then have "rx_ends ident_token_regex (prev, s) = []"
          using False before ident_ends_before_other [of prev s] ident_ends_at_word [of prev s]
          by (cases "is_word_char c") simp_all
        then show ?thesis
          using False before next_char unfolding Cons
          by (auto simp: find_from_none word_before_def)
      qed
    qed
  qed
qed

lemma identifier_tokens_are_words: "identifier_tokens txt = filter is_identifier (words txt)"
  by (simp add: identifier_tokens_def rx_find_iter_def find_identifiers word_before_def)

subsection \<open>The validator with its patterns\<close>

definition source_patterns :: "dataset_env \<Rightarrow> dataset_env" where
  "source_patterns env = env\<lparr>de_tokens := identifier_tokens, de_secret := rx_is_match secret_marker_regex\<rparr>"

definition grounded_by_words :: "dataset_env \<Rightarrow> string \<Rightarrow> string \<Rightarrow> bool" where
  "grounded_by_words env path answer =
     (path = ''legacy''
      \<or> (path \<noteq> [] \<and> \<not> has_parent_dir path \<and> de_exists env path
         \<and> (\<not> de_is_file env path
            \<or> (\<exists>txt w. de_read env path = Inr txt \<and> w \<in> set (words txt) \<and> w \<in> set (words answer) \<and> is_identifier w))))"

definition good_corpus_record :: "dataset_env \<Rightarrow> json \<Rightarrow> bool" where
  "good_corpus_record env value =
     (\<exists>object sys usr asst path answer.
        value = JObj object \<and> map_of object ''messages'' = Some (JArr [sys, usr, asst])
        \<and> good_message sys ''system'' \<and> good_message usr ''user'' \<and> good_message asst ''assistant''
        \<and> map_of object ''grounding'' = Some (JStr path) \<and> msg_field asst ''content'' = Some answer
        \<and> grounded_by_words env path answer
        \<and> list_all (\<lambda>m. \<not> contains (to_lower answer) (to_lower m)) forbidden_markers
        \<and> list_all (\<lambda>m. \<not> contains answer m) forbidden_host_markers
        \<and> \<not> rx_is_match secret_marker_regex answer)"

lemma well_grounded_by_words: "well_grounded (source_patterns env) path answer \<longleftrightarrow> grounded_by_words env path answer"
  by (auto simp: well_grounded_def grounded_by_words_def source_patterns_def identifier_tokens_are_words)

lemma good_record_source: "good_record (source_patterns env) value \<longleftrightarrow> good_corpus_record env value"
proof -
  have "free_of_markers (source_patterns env) answer \<longleftrightarrow>
      list_all (\<lambda>m. \<not> contains (to_lower answer) (to_lower m)) forbidden_markers
      \<and> list_all (\<lambda>m. \<not> contains answer m) forbidden_host_markers \<and> \<not> rx_is_match secret_marker_regex answer" for answer
    by (simp add: free_of_markers_def source_patterns_def)
  moreover have "good_message asst ''assistant'' \<Longrightarrow> msg_field asst ''content'' = Some (unwrap_or (msg_field asst ''content'') [])" for asst
    by (auto simp: good_message_def)
  ultimately show ?thesis
    unfolding good_record_def good_corpus_record_def well_grounded_by_words by fastforce
qed

text \<open>C23. With the patterns of the source (read with classes of ASCII text) a corpus is accepted exactly when every line not
  blank parses to a good record, where grounded means: the marker \<open>legacy\<close>, or an existing path without
  \<open>..\<close> whose file, if it is one, has a whole word in common with the answer that is an identifier.\<close>

theorem corpus_ok_iff_good:
  "dataset_is_ok (validate_dataset_text (source_patterns env) s) \<longleftrightarrow>
     list_all (\<lambda>line. is_blank line \<or> (\<exists>v. de_parse env line = Inr v \<and> good_corpus_record env v)) (lines s)"
proof -
  have "de_parse (source_patterns env) = de_parse env"
    by (simp add: source_patterns_def)
  then show ?thesis
    by (simp add: dataset_ok_iff_good good_record_source)
qed

end
