(* ===== verification/Unit_Tests.thy ===== *)
theory Unit_Tests
  imports Rust_Strings
begin

text \<open>
  The vocabulary of the repository's own unit tests. A \<open>#[test]\<close> function passes when its body
  returns; \<open>unwrap\<close>, \<open>expect\<close> and the \<open>assert\<close> macros panic otherwise. A test is a boolean-valued
  function: the calls in the order of its body, each followed by the rest of the body.

  The clock of a timed test is a function: \<open>clock i\<close> is what the \<open>i\<close>-th \<open>Instant::now()\<close> in the text
  of the test and of the calls it makes reads, and a \<open>thread::sleep\<close> is a lower bound on the
  difference of two readings. So a theorem about every clock is a theorem about every scheduling of
  the test.
\<close>

definition returns :: "'r outcome \<times> 's \<Rightarrow> ('r \<Rightarrow> 's \<Rightarrow> bool) \<Rightarrow> bool" where
  "returns call rest = (case call of (Done r, s) \<Rightarrow> rest r s | (Panicked, s) \<Rightarrow> False)"

definition unwraps :: "('e + 'r) outcome \<times> 's \<Rightarrow> ('r \<Rightarrow> 's \<Rightarrow> bool) \<Rightarrow> bool" where
  "unwraps call rest =
     returns call (\<lambda>res s. case res of Inr r \<Rightarrow> rest r s | Inl e \<Rightarrow> False)"

definition unwrap_ok :: "'e + 'r \<Rightarrow> ('r \<Rightarrow> bool) \<Rightarrow> bool" where
  "unwrap_ok res rest = (case res of Inr r \<Rightarrow> rest r | Inl e \<Rightarrow> False)"

definition unwrap_err :: "'e + 'r \<Rightarrow> ('e \<Rightarrow> bool) \<Rightarrow> bool" where
  "unwrap_err res rest = (case res of Inl e \<Rightarrow> rest e | Inr r \<Rightarrow> False)"

definition unwrap_some :: "'r option \<Rightarrow> ('r \<Rightarrow> bool) \<Rightarrow> bool" where
  "unwrap_some x rest = (case x of Some r \<Rightarrow> rest r | None \<Rightarrow> False)"

named_theorems test_simps \<open>how a test goes on after a call\<close>

lemma returns_simps [test_simps]:
  "returns (Done r, s) rest = rest r s" "returns (Panicked, s) rest = False"
  by (simp_all add: returns_def)

lemma unwraps_simps [test_simps]:
  "unwraps (Done (Inr v), s) rest' = rest' v s" "unwraps (Done (Inl e), s) rest' = False"
  "unwraps (Panicked, s) rest' = False"
  by (simp_all add: unwraps_def returns_def)

lemma unwrap_result_simps [test_simps]:
  "unwrap_ok (Inl e) rest = False" "unwrap_ok (Inr v) rest = rest v"
  "unwrap_err (Inl e) rest' = rest' e" "unwrap_err (Inr v) rest' = False"
  "unwrap_some (Some x) rest'' = rest'' x" "unwrap_some None rest'' = False"
  by (simp_all add: unwrap_ok_def unwrap_err_def unwrap_some_def)

lemma returns_if [test_simps]:
  "returns (if c then x else y) rest = (if c then returns x rest else returns y rest)"
  by simp

lemma unwraps_if [test_simps]:
  "unwraps (if c then x else y) rest = (if c then unwraps x rest else unwraps y rest)"
  by simp

lemma contains_appendI: "contains ys p \<Longrightarrow> contains (xs @ ys) p"
  by (induction xs) simp_all

lemma contains_empty [simp]: "contains s []"
  by (cases s) (simp_all add: starts_with_def)

lemma contains_here: "contains (p @ s) p"
proof (cases "p @ s")
  case (Cons c r)
  then show ?thesis
    using starts_with_append [of p s] unfolding Cons by simp
qed simp

text \<open>Looking for words and for pairs of adjacent words in a joined command line.\<close>

fun has_pair :: "string \<Rightarrow> string \<Rightarrow> string list \<Rightarrow> bool" where
  "has_pair a b (x # y # ws) = (x = a \<and> y = b \<or> has_pair a b (y # ws))"
| "has_pair a b ws = False"

lemma contains_joined_tail: "contains (join sep ws) p \<Longrightarrow> contains (join sep (w # ws)) p"
  by (cases ws) (auto simp: contains_appendI intro: contains_empty)

lemma joined_pair: "has_pair a b ws \<Longrightarrow> contains (join sep ws) (a @ sep @ b)"
proof (induction a b ws rule: has_pair.induct)
  case (1 a b x y ws)
  show ?case
  proof (cases "x = a \<and> y = b")
    case True
    obtain t where "join sep (b # ws) = b @ t"
      by (cases ws) auto
    with True show ?thesis
      using contains_here [of "a @ sep @ b" t] by simp
  next
    case False
    with 1 have "contains (join sep (y # ws)) (a @ sep @ b)"
      by simp
    then show ?thesis
      by (rule contains_joined_tail)
  qed
qed simp_all

lemma starts_with_before_sep:
  "c \<notin> set p \<Longrightarrow> starts_with (x @ c # y) p \<longleftrightarrow> starts_with x p"
proof (induction p arbitrary: x)
  case (Cons a p)
  then show ?case
    by (cases x) (auto simp: starts_with_def)
qed (simp add: starts_with_def)

lemma contains_around_sep:
  assumes "c \<notin> set p" "p \<noteq> []"
  shows "contains (x @ c # y) p \<longleftrightarrow> contains x p \<or> contains y p"
proof (induction x)
  case Nil
  then show ?case
    using assms by (cases p) (auto simp: starts_with_def)
next
  case (Cons a x)
  then show ?case
    using starts_with_before_sep [OF assms(1), of "a # x" y] by simp
qed

lemma joined_word:
  assumes "CHR '' '' \<notin> set p" "p \<noteq> []"
  shows "contains (join '' '' ws) p \<longleftrightarrow> list_ex (\<lambda>w. contains w p) ws"
proof (induction ws)
  case (Cons w ws)
  then show ?case
    using contains_around_sep [OF assms, of w "join '' '' ws"] assms(2) by (cases ws) auto
qed (simp add: assms(2))

end
