(* ===== verification/Adapter_Tests.thy ===== *)
theory Adapter_Tests
  imports Adapters Unit_Tests
begin

text \<open>
  The test modules of \<open>adapters.rs\<close>, \<open>store.rs\<close>, \<open>gpu/adapter.rs\<close> and \<open>memory.rs\<close>, run on the model
  of the adapters. A temporary directory and the host are arguments.
\<close>

subsection \<open>Fixtures\<close>

definition test_resource :: "string \<Rightarrow> resource_kind \<Rightarrow> string \<Rightarrow> string \<Rightarrow> attrs \<Rightarrow> resource" where
  "test_resource rid kind unit node attributes =
     \<lparr>res_id = rid, res_kind = kind, res_capacity = 1, res_unit = unit, res_node = node,
      res_state = Available, res_exclusive = True, res_attributes = attributes\<rparr>"

definition test_lease :: "u64 \<Rightarrow> string \<Rightarrow> lease" where
  "test_lease n rid = \<lparr>lease_id = n, lease_resource = rid, lease_owner = ''test''\<rparr>"

subsection \<open>The descriptor adapters\<close>

definition descriptor_resource :: "string \<Rightarrow> attrs \<Rightarrow> resource" where
  "descriptor_resource node attributes = test_resource ''gpu.0'' Gpu ''device'' node attributes"

definition local_adapter_only_accepts_local_resources :: bool where
  "local_adapter_only_accepts_local_resources =
     (is_ok (local_attach (descriptor_resource ''local'' []) (test_lease 1 ''gpu.0''))
      \<and> \<not> is_ok (local_attach (descriptor_resource ''node-b'' []) (test_lease 1 ''gpu.0'')))"

definition network_adapter_requires_a_remote_endpoint_and_protocol :: bool where
  "network_adapter_requires_a_remote_endpoint_and_protocol =
     (let remote = descriptor_resource ''node-b''
        (bt_from [(''network.endpoint'', ''node-b.example:4433''), (''network.protocol'', ''quic'')])
      in unwrap_ok (network_attach remote (test_lease 1 ''gpu.0''))
           (\<lambda>att. map_of (att_details att) ''attachment.scope'' = Some ''network''
              \<and> map_of (att_details att) ''protocol'' = Some ''quic''))"

definition local_adapter_reports_healthy_local_scope :: bool where
  "local_adapter_reports_healthy_local_scope =
     (rep_name local_report = ''local-resource'' \<and> rep_scope local_report = ''local-host'' \<and> rep_healthy local_report)"

definition network_adapter_reports_healthy_remote_scope :: bool where
  "network_adapter_reports_healthy_remote_scope =
     (rep_name network_report = ''network-resource'' \<and> rep_scope network_report = ''remote-descriptor''
      \<and> rep_healthy network_report)"

subsection \<open>The store\<close>

definition store_live_count :: "store_live \<Rightarrow> nat" where
  "store_live_count objs = length objs"

definition store_resource :: "string \<Rightarrow> string \<Rightarrow> string \<Rightarrow> resource" where
  "store_resource rid kind path =
     (let attributes = bt_from [(''store.kind'', kind), (''store.path'', path), (''store.tag'', ''nauti'')];
          attributes = (if kind = ''virtio-fs'' then bt_insert ''store.socket'' (path @ ''.sock'') attributes else attributes);
          attributes = (if kind = ''nfs'' then bt_insert ''store.nfs_export'' ''t440:/var/lib/nauti/store'' attributes
                        else attributes)
      in test_resource rid Storage ''store'' ''local'' attributes)"

definition bind_and_virtiofs_resolve_the_same_job_path :: "string \<Rightarrow> bool" where
  "bind_and_virtiofs_resolve_the_same_job_path dir =
     unwrap_ok (store_from_resource (store_resource ''store.0'' ''bind'' dir))
       (\<lambda>bind. unwrap_ok (store_from_resource (store_resource ''store.0'' ''virtio-fs'' dir))
       (\<lambda>fs. job_path bind = job_path fs \<and> sr_resource bind = sr_resource fs
          \<and> unwrap_some (virtio_fs_spec fs) (\<lambda>spec. contains spec ''tag=nauti'')
          \<and> virtio_fs_spec bind = None))"

definition nfs_requires_an_export_and_uses_it_as_the_job_path :: bool where
  "nfs_requires_an_export_and_uses_it_as_the_job_path =
     (let missing = test_resource ''store.nfs'' Storage ''store'' ''c2''
            (bt_from [(''store.kind'', ''nfs''), (''store.path'', ''/mnt/nauti'')])
      in unwrap_err (store_from_resource missing) (\<lambda>e. e = MissingResourceAttribute ''store.nfs_export'')
         \<and> unwrap_ok (store_from_resource (store_resource ''store.nfs'' ''nfs'' ''/mnt/nauti''))
             (\<lambda>s. job_path s = ''t440:/var/lib/nauti/store''))"

definition attach_then_release_detaches_cleanly :: "host \<Rightarrow> string \<Rightarrow> bool" where
  "attach_then_release_detaches_cleanly h dir =
     (let r = store_resource ''store.0'' ''bind'' dir; l = test_lease 7 ''store.0'' in
      case store_attach [] r l h of
        (Inl _, objs, h) \<Rightarrow> False
      | (Inr att, objs, h) \<Rightarrow>
          att_adapter att = ''fabric-store'' \<and> map_of (att_details att) ''store.path'' = Some dir
          \<and> store_live_count objs = 1 \<and> MkDir dir \<in> set (h_effects h)
          \<and> (case store_detach objs r l of
               (Inl _, objs) \<Rightarrow> False
             | (Inr _, objs) \<Rightarrow> store_live_count objs = 0))"

definition virtio_fs_without_socket_is_a_typed_error :: bool where
  "virtio_fs_without_socket_is_a_typed_error =
     (let r = test_resource ''store.fs'' Storage ''store'' ''local''
            (bt_from [(''store.kind'', ''virtio-fs''), (''store.path'', ''/var/lib/nauti/store'')])
      in unwrap_err (store_from_resource r) (\<lambda>e. e = MissingResourceAttribute ''store.socket''))"

subsection \<open>GPU reservations\<close>

definition reservation_count :: "gpu_reservation smap \<Rightarrow> nat" where
  "reservation_count res = length res"

definition gpu_resource :: "string \<Rightarrow> resource" where
  "gpu_resource rid = test_resource rid Gpu ''device'' ''local'' (bt_from
     [(''gpu.name'', ''Test GPU''), (''gpu.uuid'', ''GPU-deadbeef-0000-0000-0000-000000000000''),
      (''gpu.pci_bus_id'', ''0000:01:00.0''), (''gpu.free_memory_bytes'', ''16106127360'')])"

definition attach_rejects_non_gpu_resource :: "host \<Rightarrow> bool" where
  "attach_rejects_non_gpu_resource h =
     unwrap_err (fst (gpu_local_attach [] ((gpu_resource ''gpu.0'')\<lparr>res_kind := Storage\<rparr>) (test_lease 1 ''gpu.0'') h))
       (\<lambda>e. e = IncompatibleResourceKind ''gpu-local'' Gpu Storage)"

definition attach_rejects_resource_without_uuid_or_bdf :: "host \<Rightarrow> bool" where
  "attach_rejects_resource_without_uuid_or_bdf h =
     (let r = gpu_resource ''gpu.0'';
          r = r\<lparr>res_attributes := AList.delete ''gpu.pci_bus_id'' (AList.delete ''gpu.uuid'' (res_attributes r))\<rparr>
      in unwrap_err (fst (gpu_local_attach [] r (test_lease 1 ''gpu.0'') h))
           (\<lambda>e. case e of MissingResourceAttribute _ \<Rightarrow> True | _ \<Rightarrow> False))"

definition attach_accepts_resource_with_only_pci_bus_id :: "host \<Rightarrow> bool" where
  "attach_accepts_resource_with_only_pci_bus_id h =
     (let r = gpu_resource ''gpu.0''; r = r\<lparr>res_attributes := AList.delete ''gpu.uuid'' (res_attributes r)\<rparr>
      in unwrap_ok (fst (gpu_local_attach [] r (test_lease 1 ''gpu.0'') h))
           (\<lambda>att. att_adapter att = ''gpu-local'' \<and> map_of (att_details att) ''gpu.id'' = Some ''0000:01:00.0''))"

definition attach_is_idempotent_on_repeat_for_same_lease :: "host \<Rightarrow> bool" where
  "attach_is_idempotent_on_repeat_for_same_lease h =
     (let r = gpu_resource ''gpu.0'';
          (out1, res1) = gpu_local_attach [] r (test_lease 1 ''gpu.0'') h;
          (out2, res2) = gpu_local_attach res1 r (test_lease 1 ''gpu.0'') h
      in unwrap_ok out1 (\<lambda>first. unwrap_ok out2 (\<lambda>second.
           reservation_count res2 = 1 \<and> \<not> has_key (att_details first) ''gpu.reattach''
           \<and> map_of (att_details second) ''gpu.reattach'' = Some ''true'')))"

definition attach_separate_resources_each_get_a_reservation :: "host \<Rightarrow> bool" where
  "attach_separate_resources_each_get_a_reservation h =
     (let (out1, res1) = gpu_local_attach [] (gpu_resource ''gpu.0'') (test_lease 1 ''gpu.0'') h;
          (out2, res2) = gpu_local_attach res1 (gpu_resource ''gpu.1'') (test_lease 2 ''gpu.1'') h
      in is_ok out1 \<and> is_ok out2 \<and> reservation_count res2 = 2)"

definition capability_report_is_honest :: "nvml_row smap \<Rightarrow> amd_telemetry smap option \<Rightarrow> host \<Rightarrow> bool" where
  "capability_report_is_honest nvml rocm h =
     (let report = gpu_local_report nvml rocm [] h in
      rep_name report = ''gpu-local'' \<and> rep_scope report = ''gpu-host-local'' \<and> rep_healthy report
      \<and> has_key (rep_detail report) ''gpu.attachment_mode''
      \<and> unwrap_some (map_of (rep_detail report) ''gpu.attachment_mode'')
          (\<lambda>mode. contains mode ''no hardware binding''))"

definition capability_report_reflects_current_reservation_count ::
  "nvml_row smap \<Rightarrow> amd_telemetry smap option \<Rightarrow> host \<Rightarrow> bool"
where
  "capability_report_reflects_current_reservation_count nvml rocm h =
     (let (out, res) = gpu_local_attach [] (gpu_resource ''gpu.0'') (test_lease 1 ''gpu.0'') h in
      is_ok out
      \<and> map_of (rep_detail (gpu_local_report nvml rocm res h)) ''reservations.current'' = Some ''1'')"

subsection \<open>Research memory\<close>

definition discover_never_claims_live_ram :: "host \<Rightarrow> bool" where
  "discover_never_claims_live_ram h =
     (\<not> rm_claimed_as_live_ram (research_discover h)
      \<and> res_state (research_as_resource (research_discover h) ''t440'') = Unavailable)"

definition attach_is_typed_refuse :: "host \<Rightarrow> bool" where
  "attach_is_typed_refuse h =
     (let r = research_as_resource (research_discover h) ''t440'' in
      unwrap_err (research_attach r (test_lease 1 (res_id r)) h)
        (\<lambda>e. case e of
           AdapterBackendUnavailable adapter reason \<Rightarrow> adapter = ''memory-research'' \<and> contains reason ''never claimed''
         | _ \<Rightarrow> False))"

subsection \<open>They pass\<close>

lemmas descriptor_test_defs =
  local_adapter_only_accepts_local_resources_def network_adapter_requires_a_remote_endpoint_and_protocol_def
  local_adapter_reports_healthy_local_scope_def network_adapter_reports_healthy_remote_scope_def
  descriptor_resource_def

lemmas store_test_defs =
  bind_and_virtiofs_resolve_the_same_job_path_def nfs_requires_an_export_and_uses_it_as_the_job_path_def
  attach_then_release_detaches_cleanly_def virtio_fs_without_socket_is_a_typed_error_def
  store_resource_def store_live_count_def

lemmas gpu_test_defs =
  attach_rejects_non_gpu_resource_def attach_rejects_resource_without_uuid_or_bdf_def
  attach_accepts_resource_with_only_pci_bus_id_def attach_is_idempotent_on_repeat_for_same_lease_def
  attach_separate_resources_each_get_a_reservation_def capability_report_is_honest_def
  capability_report_reflects_current_reservation_count_def gpu_resource_def reservation_count_def

lemma descriptor_tests_pass:
  "local_adapter_only_accepts_local_resources" "network_adapter_requires_a_remote_endpoint_and_protocol"
  "local_adapter_reports_healthy_local_scope" "network_adapter_reports_healthy_remote_scope"
  by (simp_all add: descriptor_test_defs test_simps test_resource_def local_attach_def network_attach_def
      attachment_of_def local_report_def network_report_def lookup_simps)

lemma store_tests_pass:
  "bind_and_virtiofs_resolve_the_same_job_path dir" "nfs_requires_an_export_and_uses_it_as_the_job_path"
  "virtio_fs_without_socket_is_a_typed_error"
  by (simp_all add: store_test_defs test_simps test_resource_def store_from_resource_def store_kind_parse_def
      virtio_fs_spec_def job_path_def lookup_simps Let_def starts_with_def)

lemma store_lease_test_passes:
  assumes "h_mkdir h dir = None"
  shows "attach_then_release_detaches_cleanly h dir"
  using assms by (simp add: store_test_defs test_simps test_resource_def test_lease_def store_from_resource_def
      store_kind_parse_def store_attach_def store_detach_def ensure_dir_def store_attachment_def
      job_path_def lookup_simps Let_def)

lemma show_nat_one: "show_nat (Suc 0) = ''1''"
  by code_simp

lemma gpu_tests_pass:
  "attach_rejects_non_gpu_resource h" "attach_rejects_resource_without_uuid_or_bdf h"
  "attach_accepts_resource_with_only_pci_bus_id h" "attach_is_idempotent_on_repeat_for_same_lease h"
  "attach_separate_resources_each_get_a_reservation h" "capability_report_is_honest nvml rocm h"
  "capability_report_reflects_current_reservation_count nvml rocm h"
  by (simp_all add: gpu_test_defs test_simps test_resource_def test_lease_def gpu_local_attach_def
      gpu_local_id_def gpu_local_details_def copy_attr_def gpu_local_report_def lookup_simps Let_def
      has_key_def starts_with_def show_nat_one)

lemma refusal_says_so:
  "contains (a @ rid @ b @ c @ d @ e @ f @ g @ i @ j @ ''); research bucket is typed, never claimed'') ''never claimed''"
  by (rule contains_appendI)+ (simp add: starts_with_def)

lemma research_tests_pass: "discover_never_claims_live_ram h" "attach_is_typed_refuse h"
proof -
  show "discover_never_claims_live_ram h"
    by (simp add: discover_never_claims_live_ram_def research_as_resource_def research_discover_def)
  show "attach_is_typed_refuse h"
    unfolding attach_is_typed_refuse_def research_attach_def Let_def unwrap_err_def sum.case fabric_error.case
    by (intro conjI refl refusal_says_so)
qed

end
