(* ===== verification/Fabric_Tests.thy ===== *)
theory Fabric_Tests
  imports Inventory Adapter_Tests
begin

text \<open>
  The test module of \<open>nauti-fabric/src/lib.rs\<close>, one boolean function per \<open>#[test]\<close>, run on the
  model of the fabric. What the tests take from the machine they run on is an argument: the clock
  readings, the host with its inventory, the temporary directory of the store test.
\<close>

subsection \<open>Fixtures\<close>

abbreviation empty_fabric :: "nauti_adapter fabric" where
  "empty_fabric \<equiv> default_fabric"

definition register_gpu :: "'a fabric \<Rightarrow> 'a fabric" where
  "register_gpu F = register (test_resource ''gpu.local.0'' Gpu ''device'' ''local'' []) F"

definition register_test_resource :: "string \<Rightarrow> 'a fabric \<Rightarrow> 'a fabric" where
  "register_test_resource rid F = register (test_resource rid Device ''device'' ''test-node'' []) F"

subsection \<open>Leases\<close>

definition exclusive_resource_cannot_be_double_booked_and_can_be_released ::
  "(nauti_adapter, 'w) adapter_ops \<Rightarrow> 'w \<Rightarrow> (nat \<Rightarrow> instant) \<Rightarrow> bool"
where
  "exclusive_resource_cannot_be_double_booked_and_can_be_released ops w clock =
     (let F = register (test_resource ''gpu.local.0'' Gpu ''device'' ''local'' []) empty_fabric in
      unwraps (lease_exclusive ''gpu.local.0'' ''mission-a'' (from_secs 30) (clock 0) (clock 1) F)
        (\<lambda>l F. returns (lease_exclusive ''gpu.local.0'' ''mission-b'' (from_secs 30) (clock 2) (clock 3) F)
        (\<lambda>second F. second = Inl ResourceAlreadyLeased
        \<and> unwraps (release ops l F w)
        (\<lambda>_ (F, w). returns (lease_exclusive ''gpu.local.0'' ''mission-b'' (from_secs 30) (clock 4) (clock 5) F)
        (\<lambda>third _. is_ok third)))))"

definition registered_adapter_requires_an_active_lease ::
  "(nauti_adapter, 'w) adapter_ops \<Rightarrow> 'w \<Rightarrow> (nat \<Rightarrow> instant) \<Rightarrow> bool"
where
  "registered_adapter_requires_an_active_lease ops w clock =
     (let F = register_adapter ops LocalProofAdapter
                (register (test_resource ''device.local.0'' Device ''device'' ''local'' []) empty_fabric) in
      unwraps (lease_exclusive ''device.local.0'' ''mission-a'' (from_secs 30) (clock 0) (clock 1) F)
        (\<lambda>l F. unwraps (attach ops ''local-proof'' l (clock 2) F w)
        (\<lambda>att _. att_lease att = lease_id l)))"

definition expired_lease_is_pruned_and_resource_becomes_available_again ::
  "(nat \<Rightarrow> instant) \<Rightarrow> bool"
where
  "expired_lease_is_pruned_and_resource_becomes_available_again clock =
     (let F = register_gpu empty_fabric in
      unwraps (lease_exclusive ''gpu.local.0'' ''mission-a'' (from_millis 20) (clock 0) (clock 1) F)
        (\<lambda>_ F. returns (lease_exclusive ''gpu.local.0'' ''mission-b'' (from_secs 30) (clock 2) (clock 3) F)
        (\<lambda>second _. is_ok second)))"

definition attach_rejects_a_lease_that_has_already_expired ::
  "(nauti_adapter, 'w) adapter_ops \<Rightarrow> 'w \<Rightarrow> (nat \<Rightarrow> instant) \<Rightarrow> bool"
where
  "attach_rejects_a_lease_that_has_already_expired ops w clock =
     (let F = register_adapter ops LocalProofAdapter (register_gpu empty_fabric) in
      unwraps (lease_exclusive ''gpu.local.0'' ''mission-a'' (from_millis 20) (clock 0) (clock 1) F)
        (\<lambda>l F. returns (attach ops ''local-proof'' l (clock 2) F w)
        (\<lambda>att _. att = Inl LeaseNotFound)))"

definition renewing_a_lease_extends_it_past_its_original_ttl ::
  "(nauti_adapter, 'w) adapter_ops \<Rightarrow> 'w \<Rightarrow> (nat \<Rightarrow> instant) \<Rightarrow> bool"
where
  "renewing_a_lease_extends_it_past_its_original_ttl ops w clock =
     (let F = register_adapter ops LocalProofAdapter (register_gpu empty_fabric) in
      unwraps (lease_exclusive ''gpu.local.0'' ''mission-a'' (from_millis 40) (clock 0) (clock 1) F)
        (\<lambda>l F. unwraps (renew_lease l (from_millis 200) (clock 2) (clock 3) F)
        (\<lambda>renewed F. lease_id renewed = lease_id l
        \<and> returns (attach ops ''local-proof'' l (clock 4) F w)
        (\<lambda>att (F, w). is_ok att
        \<and> returns (lease_exclusive ''gpu.local.0'' ''mission-b'' (from_secs 30) (clock 5) (clock 6) F)
        (\<lambda>second _. second = Inl ResourceAlreadyLeased)))))"

definition renewing_an_expired_lease_fails :: "(nat \<Rightarrow> instant) \<Rightarrow> bool" where
  "renewing_an_expired_lease_fails clock =
     (let F = register_gpu empty_fabric in
      unwraps (lease_exclusive ''gpu.local.0'' ''mission-a'' (from_millis 20) (clock 0) (clock 1) F)
        (\<lambda>l F. returns (renew_lease l (from_secs 30) (clock 2) (clock 3) F)
        (\<lambda>renewed _. renewed = Inl LeaseNotFound)))"

definition renewing_an_unknown_lease_fails :: "(nat \<Rightarrow> instant) \<Rightarrow> bool" where
  "renewing_an_unknown_lease_fails clock =
     (let F = register_gpu empty_fabric;
          bogus = \<lparr>lease_id = 999, lease_resource = ''gpu.local.0'', lease_owner = ''nobody''\<rparr> in
      returns (renew_lease bogus (from_secs 30) (clock 0) (clock 1) F)
        (\<lambda>renewed _. renewed = Inl LeaseNotFound))"

subsection \<open>Liveness\<close>

definition heartbeat_keeps_a_node_fresh_and_eviction_reaps_only_the_stale ::
  "(nat \<Rightarrow> instant) \<Rightarrow> bool"
where
  "heartbeat_keeps_a_node_fresh_and_eviction_reaps_only_the_stale clock =
     (let F = heartbeat ''cesarops4'' (clock 1) (heartbeat ''cesarops2'' (clock 0) empty_fabric) in
      returns (evict_stale_nodes (from_secs 60) (clock 2) F)
        (\<lambda>stale F. stale = []
        \<and> returns (evict_stale_nodes (from_millis 10) (clock 4) (heartbeat ''cesarops4'' (clock 3) F))
        (\<lambda>stale _. stale = [''cesarops2''])))"

definition evicting_a_stale_node_unregisters_its_resources_but_never_orphans_a_lease ::
  "(nat \<Rightarrow> instant) \<Rightarrow> bool"
where
  "evicting_a_stale_node_unregisters_its_resources_but_never_orphans_a_lease clock =
     (let F = register (test_resource ''gpu.ghost.1'' Gpu ''device'' ''ghost-node'' [])
                (register (test_resource ''gpu.ghost.0'' Gpu ''device'' ''ghost-node'' [])
                  (heartbeat ''ghost-node'' (clock 0) empty_fabric)) in
      unwraps (lease_exclusive ''gpu.ghost.0'' ''mission-a'' (from_secs 300) (clock 1) (clock 2) F)
        (\<lambda>_ F. returns (evict_stale_nodes (from_millis 10) (clock 3) F)
        (\<lambda>stale F. stale = [''ghost-node'']
        \<and> (let remaining = map res_id (list_resources F) in
           ''gpu.ghost.0'' \<in> set remaining \<and> ''gpu.ghost.1'' \<notin> set remaining))))"

subsection \<open>Registration and adapters\<close>

definition local_cpu_discovery_registers_a_usable_resource :: "u64 option \<Rightarrow> bool" where
  "local_cpu_discovery_registers_a_usable_resource parallelism =
     (let r = local_cpu parallelism ''local'' in res_kind r = Cpu \<and> 1 \<le> res_capacity r)"

definition adapter_attachment_carries_the_authorized_lease :: bool where
  "adapter_attachment_carries_the_authorized_lease =
     (let r = test_resource ''storage.local.0'' Storage ''device'' ''local'' [];
          l = \<lparr>lease_id = 42, lease_resource = res_id r, lease_owner = ''mission-a''\<rparr>
      in case local_proof_attach r l of
           Inl _ \<Rightarrow> False
         | Inr att \<Rightarrow> att_lease att = lease_id l \<and> att_adapter att = ''local-proof'' \<and> att_details att = [])"

definition host_inventory_includes_cpu_and_memory_resources :: "sys_info \<Rightarrow> host \<Rightarrow> bool" where
  "host_inventory_includes_cpu_and_memory_resources si h =
     (let rs = host_inventory si h ''test-host''
      in list_ex (\<lambda>r. res_kind r = Cpu) rs \<and> list_ex (\<lambda>r. res_kind r = Memory) rs)"

definition host_inventory_includes_fabric_store :: "sys_info \<Rightarrow> host \<Rightarrow> bool" where
  "host_inventory_includes_fabric_store si h =
     unwrap_some (find (\<lambda>r. res_id r = ''local.store.fabric'') (host_inventory si h ''test-host''))
       (\<lambda>store. res_kind store = Storage \<and> res_exclusive store = True
          \<and> map_of (res_attributes store) ''store.kind'' = Some ''bind''
          \<and> map_of (res_attributes store) ''store.path'' = Some ''/var/lib/nauti/store'')"

definition fabric_live_count :: "nauti_adapter fabric \<Rightarrow> nat" where
  "fabric_live_count F =
     (case map_of (adapters F) ''fabric-store'' of Some (FabricStoreAdapter objs) \<Rightarrow> store_live_count objs | _ \<Rightarrow> 0)"

definition fabric_store_attach_then_release_detaches ::
  "(nauti_adapter, host) adapter_ops \<Rightarrow> host \<Rightarrow> string \<Rightarrow> (nat \<Rightarrow> instant) \<Rightarrow> bool"
where
  "fabric_store_attach_then_release_detaches ops h dir clock =
     (let F = register
          \<lparr>res_id = ''store.0'', res_kind = Storage, res_capacity = 1, res_unit = ''store'', res_node = ''local'',
           res_state = Available, res_exclusive = True,
           res_attributes = bt_from [(''store.kind'', ''bind''), (''store.path'', dir), (''store.tag'', ''nauti'')]\<rparr>
          (register_adapter ops (FabricStoreAdapter []) empty_fabric) in
      unwraps (lease_exclusive ''store.0'' ''mission-store'' (from_secs 30) (clock 0) (clock 1) F)
        (\<lambda>l F. unwraps (attach ops ''fabric-store'' l (clock 2) F h)
        (\<lambda>att (F, h). att_adapter att = ''fabric-store'' \<and> fabric_live_count F = 1
        \<and> unwraps (release ops l F h)
        (\<lambda>_ (F, h). fabric_live_count F = 0))))"

definition resources_are_returned_in_stable_order :: "u64 option \<Rightarrow> bool" where
  "resources_are_returned_in_stable_order parallelism =
     (let F = register (local_memory ''local'' 1024) (register (local_cpu parallelism ''local'') empty_fabric)
      in map res_id (list_resources F) = [''local.cpu.logical'', ''local.memory''])"

definition scheduler_filters_on_resource_capabilities :: bool where
  "scheduler_filters_on_resource_capabilities =
     (let F = register
          \<lparr>res_id = ''gpu.local.0'', res_kind = Gpu, res_capacity = 24, res_unit = ''GiB'', res_node = ''local'',
           res_state = Available, res_exclusive = True, res_attributes = bt_from [(''vendor'', ''nvidia'')]\<rparr>
          empty_fabric
      in case find_available
           (default_request\<lparr>req_kind := Some Gpu, req_minimum_capacity := Some 16,
              req_required_attributes := bt_from [(''vendor'', ''nvidia'')], req_exclusive := True\<rparr>) F of
           Done matches \<Rightarrow> length matches = 1
         | Panicked \<Rightarrow> False)"

definition adapter_reports_are_sorted_and_include_default_scope ::
  "(nauti_adapter, 'w) adapter_ops \<Rightarrow> 'w \<Rightarrow> bool"
where
  "adapter_reports_are_sorted_and_include_default_scope ops w =
     (let F = fold (register_adapter ops) [LocalProofAdapter, LocalResourceAdapter, NetworkResourceAdapter]
                empty_fabric;
          reports = adapter_reports ops F w
      in map rep_name reports = [''local-proof'', ''local-resource'', ''network-resource'']
         \<and> list_all rep_healthy reports
         \<and> unwrap_some (find (\<lambda>r. rep_name r = ''local-proof'') reports) (\<lambda>r. rep_scope r = ''unspecified''))"

definition rust_vmm_guest_memory_allocation_is_usable ::
  "((u64 \<times> u64) list \<Rightarrow> string + 'm) \<Rightarrow> bool"
where
  "rust_vmm_guest_memory_allocation_is_usable from_ranges =
     is_ok (allocate_guest_memory from_ranges (1024 * 1024))"

subsection \<open>Unregistering and refreshing\<close>

definition unregister_of_nonexistent_resource_returns_false :: bool where
  "unregister_of_nonexistent_resource_returns_false =
     unwraps (unregister ''nope'' empty_fabric) (\<lambda>gone _. gone = False)"

definition unregister_removes_a_registered_resource :: bool where
  "unregister_removes_a_registered_resource =
     (let F = register_test_resource ''device.0'' empty_fabric in
      resource ''device.0'' F \<noteq> None
      \<and> unwraps (unregister ''device.0'' F)
        (\<lambda>gone F. gone = True \<and> resource ''device.0'' F = None))"

definition unregister_rejects_a_leased_resource ::
  "(nauti_adapter, 'w) adapter_ops \<Rightarrow> 'w \<Rightarrow> (nat \<Rightarrow> instant) \<Rightarrow> bool"
where
  "unregister_rejects_a_leased_resource ops w clock =
     (let F = register_test_resource ''device.0'' empty_fabric in
      unwraps (lease_exclusive ''device.0'' ''mission-a'' (from_secs 30) (clock 0) (clock 1) F)
        (\<lambda>l F. returns (unregister ''device.0'' F)
        (\<lambda>refused F. unwrap_err refused (\<lambda>e. e = ResourceAlreadyLeased)
        \<and> resource ''device.0'' F \<noteq> None
        \<and> unwraps (release ops l F w)
        (\<lambda>_ (F, w). unwraps (unregister ''device.0'' F) (\<lambda>gone _. gone = True)))))"

definition refresh_local_on_empty_fabric_reports_no_changes ::
  "sys_info \<Rightarrow> nvml_row smap \<Rightarrow> amd_telemetry smap option \<Rightarrow> host \<Rightarrow> bool"
where
  "refresh_local_on_empty_fabric_reports_no_changes si nvml rocm h =
     returns (refresh_local si nvml rocm h ''test-node'' empty_fabric)
       (\<lambda>report F. set (map res_id (list_resources F)) = set (rr_added report))"

definition refresh_local_is_idempotent_on_a_second_call ::
  "sys_info \<Rightarrow> nvml_row smap \<Rightarrow> amd_telemetry smap option \<Rightarrow> host \<Rightarrow> bool"
where
  "refresh_local_is_idempotent_on_a_second_call si nvml rocm h =
     returns (refresh_local si nvml rocm h ''test-node'' empty_fabric)
       (\<lambda>first F. returns (refresh_local si nvml rocm h ''test-node'' F)
       (\<lambda>second _. rr_added second = [] \<and> rr_removed second = [] \<and> rr_blocked_by_lease second = []
          \<and> rr_added first \<noteq> []))"

subsection \<open>The untimed tests pass on every machine\<close>

lemmas registration_test_defs =
  adapter_attachment_carries_the_authorized_lease_def scheduler_filters_on_resource_capabilities_def
  unregister_of_nonexistent_resource_returns_false_def unregister_removes_a_registered_resource_def
  register_test_resource_def renewing_an_unknown_lease_fails_def resources_are_returned_in_stable_order_def
  register_gpu_def test_resource_def

lemmas fabric_method_defs =
  default_fabric_def register_def resource_def list_resources_def unregister_def find_available_def
  register_adapter_def lease_exclusive_def renew_lease_def attach_def release_def release_detach_def
  release_finish_def holds_def authorized_def prune_def heartbeat_def

lemma registration_tests_pass:
  "adapter_attachment_carries_the_authorized_lease" "scheduler_filters_on_resource_capabilities"
  "unregister_of_nonexistent_resource_returns_false" "unregister_removes_a_registered_resource"
  "renewing_an_unknown_lease_fails clock" "resources_are_returned_in_stable_order parallelism"
  by (simp_all add: registration_test_defs fabric_method_defs test_simps lookup_simps has_key_def Let_def
      local_proof_attach_def request_matches_def default_request_def is_none_or_def local_cpu_def local_memory_def
      bt_from_def)

lemma report_and_unregister_tests_pass:
  "adapter_reports_are_sorted_and_include_default_scope (nauti_ops nvml rocm) h"
  by (simp add: adapter_reports_are_sorted_and_include_default_scope_def fabric_method_defs adapter_reports_def
      default_capability_report_def local_report_def network_report_def test_simps)

lemma host_inventory_tests_pass:
  "host_inventory_includes_cpu_and_memory_resources si h" "host_inventory_includes_fabric_store si h"
proof -
  show "host_inventory_includes_cpu_and_memory_resources si h"
    by (simp add: host_inventory_includes_cpu_and_memory_resources_def host_inventory_def local_cpu_def local_memory_def)
  have no_disk: "find (\<lambda>r. res_id r = ''local.store.fabric'') (map (disk_resource n) ds @ rs)
      = find (\<lambda>r. res_id r = ''local.store.fabric'') rs" for n ds rs
    by (induction ds) (auto simp: disk_resource_def split: prod.splits)
  show "host_inventory_includes_fabric_store si h"
    unfolding host_inventory_includes_fabric_store_def host_inventory_def
    by (simp add: local_cpu_def local_memory_def no_disk default_store_resource_def test_simps lookup_simps)
qed

text \<open>
  Whatever the machine holds, a first refresh of an empty fabric adds every resource it finds, and
  a second one finds nothing left to do.
\<close>

lemma refresh_empty:
  "refresh_with rs empty_fabric =
     (Done \<lparr>rr_added = sort (remdups (map res_id rs)), rr_removed = [], rr_blocked_by_lease = []\<rparr>,
      fold register rs empty_fabric)"
proof -
  have "fold (\<lambda>r G. if res_id r \<in> res_id ` set rs then register r G else G) rs F = fold register rs F"
    for F :: "nauti_adapter fabric"
    by (rule fold_cong) auto
  then show ?thesis
    by (simp add: refresh_with_def default_fabric_def Let_def)
qed

lemma listed_ids:
  "resources_wf (resources F) \<Longrightarrow> res_id ` set (list_resources F) = set (keys (resources F))"
  by (auto simp: list_resources_def resources_wf_def list_all_iff image_image intro!: image_cong)

lemma resources_wf_registered: "resources_wf (resources (fold register rs empty_fabric))"
proof -
  have "resources_wf (resources (fold register rs F))" if "resources_wf (resources F)" for F :: "nauti_adapter fabric"
    using that by (induction rs arbitrary: F) (simp_all add: register_def resources_wf_update)
  then show ?thesis
    by (simp add: default_fabric_def resources_wf_def)
qed

lemma discovered_nonempty: "discovered si gpus h node g \<noteq> []"
proof
  assume "discovered si gpus h node g = []"
  then have "map res_id (discovered si gpus h node g) = []"
    by simp
  then show False
    by (simp add: discovered_def discover_hardware_def Let_def map_res_id_enrich_gpu map_res_id_enrich_network
        host_inventory_def del: map_is_Nil_conv)
qed

lemma refresh_tests_pass:
  "refresh_local_on_empty_fabric_reports_no_changes si nvml rocm h"
  "refresh_local_is_idempotent_on_a_second_call si nvml rocm h"
proof -
  let ?rs = "discovered si (gpu_discover nvml rocm h) h ''test-node'' ''test-node''"
  let ?F = "fold register ?rs empty_fabric"
  have keys: "set (keys (resources ?F)) = res_id ` set ?rs"
    using fold_register_keys [of ?rs empty_fabric] by (simp add: default_fabric_def)
  have "\<not> leases_poisoned ?F"
    by (simp add: fold_register_leases default_fabric_def)
  then have second: "refresh_with ?rs ?F = (Done \<lparr>rr_added = [], rr_removed = [], rr_blocked_by_lease = []\<rparr>, ?F)"
    using keys by (intro refresh_same_ids) simp_all
  have "set (sort (remdups (map res_id ?rs))) \<noteq> {}"
    using discovered_nonempty by simp
  then have "sort (remdups (map res_id ?rs)) \<noteq> []"
    by (metis set_empty)
  then show "refresh_local_is_idempotent_on_a_second_call si nvml rocm h"
    by (simp add: refresh_local_is_idempotent_on_a_second_call_def refresh_local_def refresh_empty second test_simps)
  show "refresh_local_on_empty_fabric_reports_no_changes si nvml rocm h"
    by (simp add: refresh_local_on_empty_fabric_reports_no_changes_def refresh_local_def refresh_empty test_simps
        listed_ids [OF resources_wf_registered] keys [unfolded set_map])
qed

subsection \<open>The timed tests\<close>

text \<open>
  A clock is in range when it reads a time after the epoch of the monotonic clock and far enough
  from the end of the range of \<open>Instant\<close> for the five minutes the tests lease for.
\<close>

definition clock_in_range :: "(nat \<Rightarrow> instant) \<Rightarrow> bool" where
  "clock_in_range clock \<longleftrightarrow> (\<forall>i. 0 \<le> clock i \<and> clock i + 300000000000 < instant_limit)"

lemma test_durations [test_simps]:
  "from_secs 30 = 30000000000" "from_secs 60 = 60000000000" "from_secs 300 = 300000000000"
  "from_millis 10 = 10000000" "from_millis 20 = 20000000" "from_millis 40 = 40000000"
  "from_millis 200 = 200000000"
  by (simp_all add: from_secs_def from_millis_def nanos_per_sec_def)

lemma clock_adds:
  assumes "clock_in_range clock" and "numeral n \<le> (300000000000 :: int)"
  shows "instant_add (clock i) (numeral n) = Some (clock i + numeral n)"
    "instant_sub (clock i) (numeral n) = Some (clock i - numeral n)"
proof -
  have range: "0 \<le> clock i" "clock i + 300000000000 < instant_limit"
    using assms(1) unfolding clock_in_range_def by blast+
  then have "0 \<le> clock i" "clock i + numeral n < instant_limit"
    using le_less_trans [OF add_left_mono [OF assms(2)]] by blast+
  moreover have "(300000000000 :: int) < instant_limit"
    by (simp add: instant_limit_def nanos_per_sec_def)
  then have "(numeral n :: int) < instant_limit"
    using assms(2) by linarith
  ultimately have "0 \<le> clock i" "clock i + numeral n < instant_limit" "(numeral n :: int) < instant_limit"
    by auto
  then show "instant_add (clock i) (numeral n) = Some (clock i + numeral n)"
    "instant_sub (clock i) (numeral n) = Some (clock i - numeral n)"
    by (simp_all add: instant_add_def instant_sub_def)
qed

lemmas timed_simps = fabric_method_defs test_simps lookup_simps has_key_def Let_def test_resource_def
  register_gpu_def local_proof_attach_def

lemma double_booking_test_iff:
  assumes "clock_in_range clock"
  shows "exclusive_resource_cannot_be_double_booked_and_can_be_released ops w clock \<longleftrightarrow>
     clock 2 < clock 1 + 30000000000"
  by (simp add: exclusive_resource_cannot_be_double_booked_and_can_be_released_def timed_simps clock_adds [OF assms])

lemma expiry_tests_iff:
  assumes "clock_in_range clock"
  shows "expired_lease_is_pruned_and_resource_becomes_available_again clock \<longleftrightarrow> clock 1 + 20000000 \<le> clock 2"
    and "attach_rejects_a_lease_that_has_already_expired (nauti_ops nvml rocm) h clock \<longleftrightarrow> clock 1 + 20000000 \<le> clock 2"
    and "renewing_an_expired_lease_fails clock \<longleftrightarrow> clock 1 + 20000000 \<le> clock 2"
  by (auto simp add: expired_lease_is_pruned_and_resource_becomes_available_again_def
      attach_rejects_a_lease_that_has_already_expired_def renewing_an_expired_lease_fails_def timed_simps clock_adds [OF assms])

lemma renewal_test_iff:
  assumes "clock_in_range clock"
  shows "renewing_a_lease_extends_it_past_its_original_ttl (nauti_ops nvml rocm) h clock \<longleftrightarrow>
     clock 2 < clock 1 + 40000000 \<and> clock 4 < clock 3 + 200000000 \<and> clock 5 < clock 3 + 200000000"
  by (simp add: renewing_a_lease_extends_it_past_its_original_ttl_def timed_simps clock_adds [OF assms])

lemma eviction_tests_iff:
  assumes "clock_in_range clock"
  shows "heartbeat_keeps_a_node_fresh_and_eviction_reaps_only_the_stale clock \<longleftrightarrow>
      clock 2 - 60000000000 \<le> clock 0 \<and> clock 2 - 60000000000 \<le> clock 1
      \<and> clock 0 < clock 4 - 10000000 \<and> clock 4 - 10000000 \<le> clock 3"
    and "evicting_a_stale_node_unregisters_its_resources_but_never_orphans_a_lease clock \<longleftrightarrow>
      clock 0 < clock 3 - 10000000"
  by (auto simp add: heartbeat_keeps_a_node_fresh_and_eviction_reaps_only_the_stale_def
      evicting_a_stale_node_unregisters_its_resources_but_never_orphans_a_lease_def
      evict_stale_nodes_def stale_nodes_def owned_by_def timed_simps clock_adds [OF assms])

lemma untimed_lease_tests_pass:
  assumes "clock_in_range clock"
  shows "unregister_rejects_a_leased_resource ops w clock"
    and "registered_adapter_requires_an_active_lease (nauti_ops nvml rocm) h clock \<longleftrightarrow> clock 2 < clock 1 + 30000000000"
  by (simp_all add: unregister_rejects_a_leased_resource_def registered_adapter_requires_an_active_lease_def
      register_test_resource_def timed_simps clock_adds [OF assms])

lemma store_test_iff:
  assumes "clock_in_range clock" and "h_mkdir h dir = None"
  shows "fabric_store_attach_then_release_detaches (nauti_ops nvml rocm) h dir clock \<longleftrightarrow> clock 2 < clock 1 + 30000000000"
  by (simp add: fabric_store_attach_then_release_detaches_def timed_simps clock_adds [OF assms(1)] assms(2)
      store_attach_def store_detach_def store_from_resource_def store_kind_parse_def ensure_dir_def store_attachment_def
      fabric_live_count_def store_live_count_def)

end
