(* ===== verification/Lemonade_Tests.thy ===== *)
theory Lemonade_Tests
  imports Lemonade Adapter_Tests
begin

text \<open>
  The tests of the Lemonade adapter: the second test module of \<open>adapters.rs\<close> and the integration
  tests of \<open>tests/lemonade_detail.rs\<close>. A decimal literal is the double nearest to it. The parser of
  \<open>serde_json\<close> is an argument: what it makes of the two JSON texts of the tests is \<open>live_status\<close> and
  \<open>idle_status\<close>.
\<close>

subsection \<open>The module of \<open>adapters.rs\<close>\<close>

definition default_config_points_at_localhost_13305 :: bool where
  "default_config_points_at_localhost_13305 =
     (lc_host default_lemonade_config = ''127.0.0.1'' \<and> lc_port default_lemonade_config = 13305)"

definition report_untouched_by_fixture :: bool where
  "report_untouched_by_fixture =
     (let report = default_lemonade_report\<lparr>lr_reachable := True, lr_version := Some ''11.9.0'',
            lr_models := [\<lparr>lm_id = ''Qwen3-0.6B-GGUF'', lm_backend = ''llamacpp'', lm_downloaded = True,
              lm_size_gb = Some (f64_round (36 / 100))\<rparr>],
            lr_amd_gpus := [''AMD GPU (0000:3b:00.0)'']\<rparr>
      in lr_reachable report \<and> lr_version report = Some ''11.9.0''
         \<and> length (lr_models report) = 1 \<and> length (lr_amd_gpus report) = 1)"

definition attach_does_not_invent_health :: "lemonade_env \<Rightarrow> host \<Rightarrow> bool" where
  "attach_does_not_invent_health env h =
     (let config = \<lparr>lc_host = ''127.0.0.1'', lc_port = 1, lc_api_key = None\<rparr>;
          r = test_resource ''lemonade.0'' Device ''slot'' ''local'' []
      in unwrap_ok (fst (lemonade_attach env config r (test_lease 1 ''lemonade.0'') h))
           (\<lambda>att. map_of (att_details att) ''lemonade.reachable'' = Some ''false''))"

definition live_status :: json where
  "live_status = JObj
     [(''models'', JArr [JObj
        [(''model_name'', JStr ''Phi-3-mini-4k-instruct-Q4_K_M''), (''recipe'', JStr ''llamacpp''),
         (''device'', JStr ''gpu''), (''status'', JStr ''ready''), (''type'', JStr ''llm''),
         (''checkpoint'', JStr ''bartowski/Phi-3-mini-4k-instruct-GGUF:Q4_K_M''),
         (''backend_url'', JStr ''http://127.0.0.1:8004/v1''), (''pid'', JNum (f_of_nat 3570209)),
         (''pinned'', JBool False)]]),
      (''port'', JNum (f_of_nat 13410)), (''version'', JStr ''11.9.0''),
      (''websocket_port'', JNum (f_of_nat 9001))]"

definition idle_status :: json where
  "idle_status = JObj [(''models'', JArr []), (''version'', JStr ''11.9.0'')]"

definition parse_status_json_live_sample :: "(string \<Rightarrow> json option) \<Rightarrow> string \<Rightarrow> bool" where
  "parse_status_json_live_sample parse s =
     (case parse_status_json parse s of
        (version, loaded) \<Rightarrow>
          version = Some ''11.9.0'' \<and> length loaded = 1
          \<and> ll_id (loaded ! 0) = ''Phi-3-mini-4k-instruct-Q4_K_M'' \<and> ll_recipe (loaded ! 0) = ''llamacpp''
          \<and> ll_device (loaded ! 0) = ''gpu'' \<and> ll_status (loaded ! 0) = ''ready'')"

definition parse_status_json_idle_server :: "(string \<Rightarrow> json option) \<Rightarrow> string \<Rightarrow> bool" where
  "parse_status_json_idle_server parse s =
     (case parse_status_json parse s of (version, loaded) \<Rightarrow> version = Some ''11.9.0'' \<and> loaded = [])"

definition parse_status_json_invalid :: "(string \<Rightarrow> json option) \<Rightarrow> bool" where
  "parse_status_json_invalid parse =
     (case parse_status_json parse ''not json'' of (version, loaded) \<Rightarrow> version = None \<and> loaded = [])"

definition backend_from_launch_command_reads_the_real_backend :: bool where
  "backend_from_launch_command_reads_the_real_backend =
     (backend_from_launch_command (JObj
        [(''model_name'', JStr ''Phi-3-mini-4k-instruct-Q4_K_M''), (''recipe'', JStr ''llamacpp''),
         (''device'', JStr ''gpu''),
         (''launch_command'', JArr
            [JStr ''/home/cesarops/iced-lemcake/cache/bin/llamacpp/vulkan/llama-server'',
             JStr ''-m'', JStr ''/m.gguf'', JStr ''--ctx-size'', JStr ''4096''])])
      = Some ''vulkan'')"

definition backend_from_launch_command_handles_windows_separators :: bool where
  "backend_from_launch_command_handles_windows_separators =
     (let sep = [CHR 0x5C] in
      backend_from_launch_command (JObj [(''launch_command'', JArr [JStr
        (''C:'' @ sep @ ''Users'' @ sep @ ''x'' @ sep @ ''lemonade'' @ sep @ ''bin'' @ sep @ ''llamacpp'' @ sep
         @ ''rocm'' @ sep @ ''llama-server.exe'')])])
      = Some ''rocm'')"

definition backend_from_launch_command_without_launch_command_is_none :: bool where
  "backend_from_launch_command_without_launch_command_is_none =
     (backend_from_launch_command (JObj [(''model_name'', JStr ''Phi-3-mini-4k-instruct-Q4_K_M'')]) = None)"

definition health_entry :: "string \<Rightarrow> json" where
  "health_entry backend =
     JObj [(''launch_command'', JArr [JStr (''/bin/llamacpp/'' @ backend @ ''/llama-server'')])]"

definition backends_from_health_distinct_in_first_seen_order :: bool where
  "backends_from_health_distinct_in_first_seen_order =
     (let health = (\<lambda>entries. JObj [(''all_models_loaded'', JArr entries)]) in
      backends_from_health (health [health_entry ''vulkan'', health_entry ''vulkan'']) = [''vulkan'']
      \<and> backends_from_health (health [health_entry ''vulkan'', health_entry ''cpu'']) = [''vulkan'', ''cpu'']
      \<and> backends_from_health (health []) = [])"

subsection \<open>The detail map\<close>

definition downloaded_fixture :: "string \<Rightarrow> f64 \<Rightarrow> lemonade_model" where
  "downloaded_fixture i gb =
     \<lparr>lm_id = i, lm_backend = ''llamacpp'', lm_downloaded = True, lm_size_gb = Some gb\<rparr>"

definition loaded_fixture :: "string \<Rightarrow> lemonade_loaded" where
  "loaded_fixture i = \<lparr>ll_id = i, ll_recipe = ''llamacpp'', ll_device = ''gpu'', ll_status = ''ready''\<rparr>"

definition live_report :: lemonade_report where
  "live_report = \<lparr>lr_reachable = True, lr_version = Some ''2026.41.1'',
     lr_models = [downloaded_fixture ''Qwen3-0.6B-GGUF'' (f64_round (36 / 100)),
       downloaded_fixture ''Qwen3-VL-4B-Instruct-GGUF'' (f64_round (310 / 100)),
       downloaded_fixture ''nomic-embed-text-v1-GGUF'' (f64_round (7 / 100))],
     lr_amd_gpus = [''Radeon RX 7900 XTX (0000:03:00.0)'', ''Radeon RX 7900 XTX (0000:83:00.0)''],
     lr_loaded = [loaded_fixture ''Qwen3-VL-4B-Instruct-GGUF'', loaded_fixture ''nomic-embed-text-v1-GGUF''],
     lr_backends = [''vulkan'']\<rparr>"

definition lemonade_detail_live_report :: bool where
  "lemonade_detail_live_report =
     (let d = map_of (lemonade_detail live_report) in
      d ''lemonade.reachable'' = Some ''true'' \<and> d ''lemonade.version'' = Some ''2026.41.1''
      \<and> d ''lemonade.models'' = Some ''Qwen3-VL-4B-Instruct-GGUF,nomic-embed-text-v1-GGUF''
      \<and> d ''lemonade.downloaded'' = Some ''Qwen3-0.6B-GGUF,Qwen3-VL-4B-Instruct-GGUF,nomic-embed-text-v1-GGUF''
      \<and> d ''lemonade.backend'' = Some ''vulkan''
      \<and> d ''lemonade.amd_gpus'' = Some ''Radeon RX 7900 XTX (0000:03:00.0); Radeon RX 7900 XTX (0000:83:00.0)'')"

definition lemonade_detail_idle_server_is_none_loaded_and_has_no_recipe_backend :: bool where
  "lemonade_detail_idle_server_is_none_loaded_and_has_no_recipe_backend =
     (let d = lemonade_detail (live_report\<lparr>lr_loaded := [], lr_backends := []\<rparr>) in
      map_of d ''lemonade.models'' = Some ''none-loaded''
      \<and> unwrap_some (map_of d ''lemonade.downloaded'') (\<lambda>s. contains s ''Qwen3-0.6B-GGUF'')
      \<and> \<not> has_key d ''lemonade.backend'' \<and> ''llamacpp'' \<notin> set (map snd d))"

definition lemonade_detail_omits_empty_lists_and_unknown_version :: bool where
  "lemonade_detail_omits_empty_lists_and_unknown_version =
     (let d = lemonade_detail (default_lemonade_report\<lparr>lr_reachable := False\<rparr>) in
      map_of d ''lemonade.reachable'' = Some ''false'' \<and> map_of d ''lemonade.models'' = Some ''none-loaded''
      \<and> \<not> has_key d ''lemonade.version'' \<and> \<not> has_key d ''lemonade.downloaded''
      \<and> \<not> has_key d ''lemonade.backend'' \<and> \<not> has_key d ''lemonade.amd_gpus'')"

definition lemonade_detail_backends_joined_in_order :: bool where
  "lemonade_detail_backends_joined_in_order =
     (map_of (lemonade_detail (live_report\<lparr>lr_backends := [''vulkan'', ''cpu'']\<rparr>)) ''lemonade.backend''
      = Some ''vulkan,cpu'')"

subsection \<open>They pass\<close>

lemma lemonade_config_tests_pass: "default_config_points_at_localhost_13305" "report_untouched_by_fixture"
  by (simp_all add: default_config_points_at_localhost_13305_def report_untouched_by_fixture_def
      default_lemonade_config_def default_lemonade_report_def)

lemma detail_reachable: "map_of (lemonade_detail r) ''lemonade.reachable'' = Some (show_bool (lr_reachable r))"
  by (simp add: lemonade_detail_def lookup_simps Let_def split: option.split)

text \<open>With nothing listening, the program \<open>lemonade\<close> cannot say that the server is running: it fails,
  or is not installed. The other calls may answer anything.\<close>

lemma attach_test_passes:
  assumes "run_lemonade h ''status'' ''127.0.0.1:1'' None = None"
  shows "attach_does_not_invent_health env h"
proof -
  let ?c = "\<lparr>lc_host = ''127.0.0.1'', lc_port = 1, lc_api_key = None\<rparr>"
  have "lemonade_base ?c = ''127.0.0.1:1''"
    using show_nat_one by (simp add: lemonade_base_def)
  then have "\<not> lr_reachable (lemonade_status env ?c h)"
    using assms by (simp add: lemonade_status_def Let_def default_lemonade_report_def split: option.split prod.split)
  then show ?thesis
    by (simp add: attach_does_not_invent_health_def lemonade_attach_def attachment_of_def detail_reachable
        test_simps lookup_simps test_resource_def show_bool_def)
qed

lemma status_json_tests_pass:
  "parse s = Some live_status \<Longrightarrow> parse_status_json_live_sample parse s"
  "parse s = Some idle_status \<Longrightarrow> parse_status_json_idle_server parse s"
  "parse ''not json'' = None \<Longrightarrow> parse_status_json_invalid parse"
  by (simp_all add: parse_status_json_live_sample_def parse_status_json_idle_server_def parse_status_json_invalid_def
      parse_status_json_def live_status_def idle_status_def j_text_def j_items_def loaded_model_def)

lemma launch_command_tests_pass:
  "backend_from_launch_command_reads_the_real_backend" "backend_from_launch_command_handles_windows_separators"
  "backend_from_launch_command_without_launch_command_is_none" "backends_from_health_distinct_in_first_seen_order"
  by code_simp+

lemmas detail_fixtures = live_report_def downloaded_fixture_def loaded_fixture_def default_lemonade_report_def

lemma lemonade_detail_tests_pass:
  "lemonade_detail_live_report" "lemonade_detail_idle_server_is_none_loaded_and_has_no_recipe_backend"
  "lemonade_detail_omits_empty_lists_and_unknown_version" "lemonade_detail_backends_joined_in_order"
  by (simp_all add: lemonade_detail_live_report_def lemonade_detail_idle_server_is_none_loaded_and_has_no_recipe_backend_def
      lemonade_detail_omits_empty_lists_and_unknown_version_def lemonade_detail_backends_joined_in_order_def
      lemonade_detail_def detail_fixtures lookup_simps has_key_def test_simps bt_from_def starts_with_def Let_def
      show_bool_def)

end
