(* ===== verification/Plan_Tests.thy ===== *)
theory Plan_Tests
  imports Plan_Properties F64_Rounding Unit_Tests
begin

text \<open>
  The test module of \<open>plan.rs\<close> up to the client: the decision order, the two planners, the scoring
  term and the loaders, run on the model. A decimal literal is the double nearest to it. The derived
  deserializers of \<open>serde\<close> are arguments of the tests that read JSON.
\<close>

subsection \<open>Fixtures\<close>

definition test_slot :: "string \<Rightarrow> string \<Rightarrow> string list \<Rightarrow> bool \<Rightarrow> f64 \<Rightarrow> slot_view" where
  "test_slot name model roles healthy free_mb =
     \<lparr>sv_slot = name, sv_model_id = model, sv_roles = roles, sv_healthy = healthy, sv_free_mb = free_mb,
      sv_resource_id = None\<rparr>"

definition test_host :: "slot_view list \<Rightarrow> host_view" where
  "test_host slots = \<lparr>hv_slots = slots, hv_locked = False\<rparr>"

definition view_with :: "(string \<times> host_view) list \<Rightarrow> fleet_view" where
  "view_with hosts = \<lparr>fv_hosts = bt_from hosts, fv_latency = []\<rparr>"

definition test_catalogue :: "string list" where
  "test_catalogue = [''coder'', ''thinker'', ''reviewer'']"

definition test_matrix :: "(string \<times> (string \<times> f64 option) list) list \<Rightarrow> latency_matrix" where
  "test_matrix rows = bt_from (map (\<lambda>(src, dsts). (src, bt_from dsts)) rows)"

definition millis :: "nat \<Rightarrow> f64" where
  "millis n = f64_round (of_nat n / 1000)"

text \<open>The fleet most of the tests ask about: the asker \<open>t440cesarops\<close> and a remote coder.\<close>

definition asker_and :: "slot_view list \<Rightarrow> (string \<times> host_view) list \<Rightarrow> fleet_view" where
  "asker_and own others = view_with ((''t440cesarops'', test_host own) # others)"

definition remote_coder :: "string \<times> host_view" where
  "remote_coder = (''cesarops4om'', test_host [test_slot ''coder-lane-c4'' ''KAT'' [''coder''] True (Fin 12000)])"

definition local_coder :: slot_view where
  "local_coder = test_slot ''coder-lane-a'' ''Ornith-35B'' [''coder''] True (Fin 4000)"

abbreviation ask_coder :: plan_request where
  "ask_coder \<equiv> plan_request_new ''t440cesarops'' ''coder''"

subsection \<open>The decision order\<close>

definition unknown_role_is_a_typed_404_not_a_shrug :: bool where
  "unknown_role_is_a_typed_404_not_a_shrug =
     (let view = view_with [(''cesarops4om'',
            test_host [test_slot ''coder-lane-c4'' ''KAT'' [''coder''] True (Fin 8000)])]
      in unwrap_err (head_plan (plan_request_new ''t440cesarops'' ''bard'') view test_catalogue)
           (\<lambda>e. e = UnknownRole ''bard'' \<and> reason_token e = ''bad-enum'' \<and> reject_http_status e = Some 404))"

definition empty_node_or_role_is_missing_field :: bool where
  "empty_node_or_role_is_missing_field =
     (unwrap_err (head_plan (plan_request_new [] ''coder'') (view_with []) test_catalogue)
        (\<lambda>e. e = MissingField ''node_id'' \<and> reject_http_status e = Some 422)
      \<and> unwrap_err (head_plan (plan_request_new ''t440cesarops'' '' '') (view_with []) test_catalogue)
        (\<lambda>e. e = MissingField ''role''))"

definition local_plan_is_preferred_and_names_the_asking_node :: bool where
  "local_plan_is_preferred_and_names_the_asking_node =
     unwrap_ok (head_plan ask_coder (asker_and [local_coder] [remote_coder]) test_catalogue)
       (\<lambda>f. pf_host_key f = ''t440cesarops'' \<and> pf_slot f = ''coder-lane-a''
          \<and> pf_reason f = ''local plan satisfies this role'')"

definition remote_fragment_names_a_different_host_and_never_the_asker :: bool where
  "remote_fragment_names_a_different_host_and_never_the_asker =
     unwrap_ok (head_plan ask_coder (asker_and [] [remote_coder]) test_catalogue)
       (\<lambda>f. pf_host_key f = ''cesarops4om'' \<and> pf_host_key f \<noteq> pf_node_id f
          \<and> contains (pf_reason f) ''fleet-wide'')"

definition locked_host_is_never_offered :: bool where
  "locked_host_is_never_offered =
     (let locked = (test_host [test_slot ''coder-lane-c4'' ''KAT'' [''coder''] True (Fin 12000)])\<lparr>hv_locked := True\<rparr>
      in unwrap_err (head_plan ask_coder (asker_and [] [(''cesarops2'', locked)]) test_catalogue)
           (\<lambda>e. reason_token e = ''escalate-nowhere'' \<and> reject_http_status e = Some 403
              \<and> (case e of EscalateNowhere (Some c) \<Rightarrow> contains c ''cesarops2'' \<and> contains c ''locked'' | _ \<Rightarrow> False)))"

definition unhealthy_slot_is_never_offered :: bool where
  "unhealthy_slot_is_never_offered =
     unwrap_err (head_plan ask_coder
       (asker_and [] [(''cesarops4om'', test_host [test_slot ''coder-lane-c4'' ''KAT'' [''coder''] False (Fin 12000)])])
       test_catalogue)
       (\<lambda>e. reason_token e = ''escalate-nowhere'')"

definition unsatisfiable_role_is_403_never_an_empty_fragment :: bool where
  "unsatisfiable_role_is_403_never_an_empty_fragment =
     unwrap_err (head_plan ask_coder (view_with []) test_catalogue)
       (\<lambda>e. e = EscalateNowhere None \<and> reject_http_status e = Some 403
          \<and> starts_with (plan_reject_display e) ''escalate-nowhere'')"

subsection \<open>The planners\<close>

definition federated_declines_when_only_a_remote_host_could_serve :: bool where
  "federated_declines_when_only_a_remote_host_could_serve =
     (let view = asker_and [] [remote_coder] in
      unwrap_ok (get_planner ''federated'') (\<lambda>p. planner_plan p ask_coder view = None)
      \<and> unwrap_ok (get_planner ''monolithic'') (\<lambda>p. planner_plan p ask_coder view \<noteq> None))"

definition monolithic_never_returns_the_asking_node :: bool where
  "monolithic_never_returns_the_asking_node =
     unwrap_ok (get_planner ''monolithic'') (\<lambda>p. planner_plan p ask_coder (asker_and [local_coder] []) = None)"

definition get_planner_rejects_an_unknown_kind_rather_than_defaulting :: bool where
  "get_planner_rejects_an_unknown_kind_rather_than_defaulting =
     unwrap_err (get_planner ''moe-magic'')
       (\<lambda>e. e = UnknownPlanner ''moe-magic'' \<and> reason_token e = ''bad-enum'')"

definition serves_mirrors_the_python_rule :: bool where
  "serves_mirrors_the_python_rule =
     (\<not> serves (test_slot ''s'' ''KAT'' [''coder''] False (Fin 9000)) ''coder''
      \<and> serves (test_slot ''s'' ''KAT'' [] True (Fin 1)) ''anything''
      \<and> \<not> serves (test_slot ''s'' [] [] True (Fin 1)) ''anything''
      \<and> serves (test_slot ''s'' ''KAT'' [''coder'', ''reviewer''] True (Fin 1)) ''reviewer''
      \<and> \<not> serves (test_slot ''s'' ''KAT'' [''coder''] True (Fin 1)) ''thinker'')"

definition monolithic_kind_is_local_first_like_the_head :: bool where
  "monolithic_kind_is_local_first_like_the_head =
     (let view = asker_and [local_coder] [remote_coder] in
      unwrap_some (planner_plan MonolithicMoEPlanner ask_coder view) (\<lambda>direct. pf_host_key direct = ''cesarops4om'')
      \<and> unwrap_ok (plan_by_kind ''monolithic'' ask_coder view test_catalogue)
          (\<lambda>f. pf_host_key f = ''t440cesarops'' \<and> pf_reason f = ''local plan satisfies this role''))"

definition federated_kind_has_no_remote_step :: bool where
  "federated_kind_has_no_remote_step =
     (let view = asker_and [] [remote_coder] in
      unwrap_err (plan_by_kind ''federated'' ask_coder view test_catalogue)
        (\<lambda>e. reason_token e = ''escalate-nowhere''
           \<and> (case e of EscalateNowhere (Some c) \<Rightarrow> starts_with c ''federated: '' | _ \<Rightarrow> False))
      \<and> unwrap_ok (plan_by_kind ''monolithic'' ask_coder view test_catalogue)
          (\<lambda>mono. pf_host_key mono = ''cesarops4om''))"

definition plan_by_kind_validates_before_planning_and_rejects_unknown_kinds :: bool where
  "plan_by_kind_validates_before_planning_and_rejects_unknown_kinds =
     (let view = view_with [(''cesarops4om'',
            test_host [test_slot ''coder-lane-c4'' ''KAT'' [''coder''] True (Fin 1)])]
      in unwrap_err (plan_by_kind ''federated'' (plan_request_new ''cesarops4om'' ''bard'') view test_catalogue)
           (\<lambda>e. reject_http_status e = Some 404)
         \<and> unwrap_err (plan_by_kind ''moe-magic'' (plan_request_new ''cesarops4om'' ''coder'') view test_catalogue)
           (\<lambda>e. e = UnknownPlanner ''moe-magic'')
         \<and> unwrap_err (plan_by_kind ''monolithic'' (plan_request_new [] ''coder'') view test_catalogue)
           (\<lambda>e. e = MissingField ''node_id''))"

subsection \<open>The scoring term\<close>

definition two_coders :: "f64 \<Rightarrow> f64 \<Rightarrow> (string \<times> f64 option) list \<Rightarrow> fleet_view" where
  "two_coders free3 free4 row =
     with_latency (test_matrix [(''t440cesarops'', row)])
       (asker_and [] [(''cesarops3'', test_host [test_slot ''coder-lane-c3'' ''KAT'' [''coder''] True free3]),
          (''cesarops4om'', test_host [test_slot ''coder-lane-c4'' ''KAT'' [''coder''] True free4])])"

definition latency_term_breaks_a_headroom_tie :: bool where
  "latency_term_breaks_a_headroom_tie =
     unwrap_ok (head_plan ask_coder
       (two_coders (Fin 8000) (Fin 8000)
         [(''cesarops3'', Some (millis 3004)), (''cesarops4om'', Some (millis 501))])
       test_catalogue)
       (\<lambda>f. pf_host_key f = ''cesarops4om'' \<and> pf_rtt_ms f = Some (millis 501)
          \<and> contains (pf_reason f) ''rtt 0.501 ms'')"

definition a_far_host_still_wins_when_it_has_enough_more_headroom :: bool where
  "a_far_host_still_wins_when_it_has_enough_more_headroom =
     (unwrap_ok (head_plan ask_coder
        (two_coders (Fin 10000) (Fin 8000) [(''cesarops3'', Some (Fin 3)), (''cesarops4om'', Some (Fin (1 / 2)))])
        test_catalogue)
        (\<lambda>f. pf_host_key f = ''cesarops3'')
      \<and> fleet_score (Fin 10000) (Some (Fin 3)) = f_add (Fin 10000) (f_neg (f_mul (Fin 3) latency_mb_per_ms))
      \<and> fleet_score (Fin 8000) None = Fin 8000)"

definition an_unmeasured_link_is_never_given_an_invented_rtt :: bool where
  "an_unmeasured_link_is_never_given_an_invented_rtt =
     (let view = with_latency
            (test_matrix [(''t440cesarops'', [(''cesarops2'', None), (''cesarops4om'', Some (Fin (1 / 2)))])])
            (asker_and [] [(''cesarops2'', test_host [test_slot ''reviewer-c2'' ''Gemma-26B'' [''reviewer''] True (Fin 7000)])])
      in rtt_ms (fv_latency view) ''t440cesarops'' ''cesarops2'' = None
         \<and> unwrap_ok (head_plan (plan_request_new ''t440cesarops'' ''reviewer'') view test_catalogue)
             (\<lambda>f. pf_host_key f = ''cesarops2'' \<and> pf_rtt_ms f = None \<and> contains (pf_reason f) ''rtt not measured''))"

subsection \<open>They pass\<close>

lemmas plan_fixtures = test_slot_def test_host_def view_with_def test_catalogue_def test_matrix_def
  asker_and_def remote_coder_def local_coder_def two_coders_def plan_request_new_def bt_from_def

lemmas plan_steps = head_plan_def plan_by_kind_def plan_with_def validate_ask_def catalogue_contains_def
  best_slot_def best_slot_scored_def monolithic_plan_def federated_plan_def mono_best_def mono_step_def
  mono_candidate_def fragment_for_def serves_def rtt_ms_def with_latency_def get_planner_def
  escalate_constraint_def Let_def trim_def trim_end_matches_def trim_matches_def is_ws_def max_step_def

declare show_f64.simps [simp del] show_f64_fixed.simps [simp del]

lemma refused_asks_pass:
  "unknown_role_is_a_typed_404_not_a_shrug" "empty_node_or_role_is_missing_field"
  "unsatisfiable_role_is_403_never_an_empty_fragment" "get_planner_rejects_an_unknown_kind_rather_than_defaulting"
  "serves_mirrors_the_python_rule" "monolithic_never_returns_the_asking_node"
  "local_plan_is_preferred_and_names_the_asking_node" "unhealthy_slot_is_never_offered"
  by (simp_all add: unknown_role_is_a_typed_404_not_a_shrug_def empty_node_or_role_is_missing_field_def
      unsatisfiable_role_is_403_never_an_empty_fragment_def
      get_planner_rejects_an_unknown_kind_rather_than_defaulting_def serves_mirrors_the_python_rule_def
      monolithic_never_returns_the_asking_node_def local_plan_is_preferred_and_names_the_asking_node_def
      unhealthy_slot_is_never_offered_def plan_fixtures plan_steps test_simps starts_with_def)

lemma planner_tests_pass:
  "plan_by_kind_validates_before_planning_and_rejects_unknown_kinds"
  "remote_fragment_names_a_different_host_and_never_the_asker"
  "federated_declines_when_only_a_remote_host_could_serve"
  "monolithic_kind_is_local_first_like_the_head"
  by (simp_all add: plan_by_kind_validates_before_planning_and_rejects_unknown_kinds_def
      remote_fragment_names_a_different_host_and_never_the_asker_def
      federated_declines_when_only_a_remote_host_could_serve_def monolithic_kind_is_local_first_like_the_head_def
      plan_fixtures plan_steps fleet_score_def test_simps starts_with_def)

lemma locked_test_passes: "locked_host_is_never_offered"
  by (simp add: locked_host_is_never_offered_def plan_fixtures plan_steps fleet_score_def test_simps starts_with_def contains_appendI)

lemma federated_test_passes: "federated_kind_has_no_remote_step"
  by (simp add: federated_kind_has_no_remote_step_def plan_fixtures plan_steps fleet_score_def test_simps starts_with_def)

text \<open>Evaluating the scoring arithmetic.\<close>

lemma millis_values:
  "millis 3004 = Fin (6764406640310485 / 2 ^ 51)" "millis 501 = Fin (4512606826625237 / 2 ^ 53)"
  using f64_round_units [of "3004 / 1000" 51 6764406640310485] f64_round_units [of "501 / 1000" 53 4512606826625237]
  by (simp_all add: millis_def)

lemma score_values:
  "fleet_score (Fin 8000) (Some (millis 3004)) = Fin (7104991362130379 / 2 ^ 40)"
  "fleet_score (Fin 8000) (Some (millis 501)) = Fin (8514055095543923 / 2 ^ 40)"
  "fleet_score (Fin 10000) (Some (Fin 3)) = Fin 8464" "fleet_score (Fin 8000) (Some (Fin (1 / 2))) = Fin 7744"
  "f_mul (Fin 3) latency_mb_per_ms = Fin 1536"
  using f64_round_units [of "512 * (6764406640310485 / 2 ^ 51)" 42 6764406640310485]
    f64_round_units [of "8000 - 6764406640310485 / 2 ^ 42" 40 7104991362130379]
    f64_round_units [of "512 * (4512606826625237 / 2 ^ 53)" 44 4512606826625237]
    f64_round_units [of "8000 - 4512606826625237 / 2 ^ 44" 40 8514055095543923]
    f_of_nat_exact [of 1536] f_of_nat_exact [of 8464] f_of_nat_exact [of 256] f_of_nat_exact [of 7744]
  by (simp_all add: millis_values fleet_score_def latency_mb_per_ms_def f_neg_def f_of_nat_def)

lemma later_host_wins:
  "f_lt (fleet_score (Fin 8000) (Some (millis 3004))) (fleet_score (Fin 8000) (Some (millis 501)))"
  "\<not> f_lt (fleet_score (Fin 10000) (Some (Fin 3))) (fleet_score (Fin 8000) (Some (Fin (1 / 2))))"
  by (simp_all add: score_values f_lt_def)

lemma millis_text: "show_f64_fixed 3 (millis 501) = ''0.501''"
proof -
  have "round_half_even (4512606826625237 / 2 ^ 53 * 10 ^ 3) = 501"
    by (rule round_half_even_near) simp
  moreover have "show_scaled 3 501 = ''0.501''"
    by code_simp
  ultimately show ?thesis
    by (simp add: millis_values show_f64_fixed.simps)
qed

text \<open>Reading a reason up to its last part does not depend on how the headroom is printed.\<close>

lemma reason_tail: "contains tail p \<Longrightarrow> contains (show_f64 x @ tail) p"
  by (rule contains_appendI)

lemma latency_test_passes: "latency_term_breaks_a_headroom_tie"
  by (simp add: later_host_wins latency_term_breaks_a_headroom_tie_def plan_fixtures plan_steps test_simps starts_with_def
      latency_text_def reason_tail millis_text)

lemma far_host_test_passes: "a_far_host_still_wins_when_it_has_enough_more_headroom"
proof -
  have "fleet_score (Fin 10000) (Some (Fin 3)) = f_add (Fin 10000) (f_neg (f_mul (Fin 3) latency_mb_per_ms))"
    using f_of_nat_exact [of 8464] by (simp add: score_values f_neg_def f_of_nat_def)
  moreover have "fleet_score (Fin 8000) None = Fin 8000"
    by (simp add: fleet_score_def)
  ultimately show ?thesis
    using later_host_wins(2)
    by (simp add: a_far_host_still_wins_when_it_has_enough_more_headroom_def plan_fixtures plan_steps test_simps
        score_values)
qed

lemma unmeasured_test_passes: "an_unmeasured_link_is_never_given_an_invented_rtt"
  by (simp add: an_unmeasured_link_is_never_given_an_invented_rtt_def plan_fixtures plan_steps test_simps starts_with_def
      latency_text_def reason_tail)

end
