(* ===== verification/Head_Tests.thy ===== *)
theory Head_Tests
  imports Plan_Tests Http_Roundtrip
begin

text \<open>
  The rest of the test module of \<open>plan.rs\<close>: the loaders of snapshots, matrices and role catalogues,
  the client against a server that answers once, and the committed fixtures. The JSON values of the
  tests are written out; what the derived deserializers and the parser of \<open>serde_json\<close> make of them is
  stated where a test is shown to pass; \<open>Wire_Tests\<close> puts the derived readers in their place.
\<close>

subsection \<open>Loaders\<close>

definition j_ms :: "nat \<Rightarrow> json" where
  "j_ms n = JNum (millis n)"

definition fleet_matrix_rows :: latency_matrix where
  "fleet_matrix_rows = [(''t440cesarops'', [(''cesarops2'', None), (''cesarops3'', Some (millis 3004)),
     (''cesarops4om'', Some (millis 501)), (''t440cesarops'', Some (millis 203))])]"

definition matrix_loader_reads_the_live_nauti_fleet_matrix_shape ::
  "(json \<Rightarrow> latency_matrix option) \<Rightarrow> (string \<Rightarrow> string + json) \<Rightarrow> (string \<Rightarrow> string + string) \<Rightarrow> string \<Rightarrow> bool"
where
  "matrix_loader_reads_the_live_nauti_fleet_matrix_shape matrix_of parse read_to_string path =
     unwrap_ok (load_latency matrix_of parse read_to_string path)
       (\<lambda>m. rtt_ms m ''t440cesarops'' ''cesarops4om'' = Some (millis 501)
          \<and> rtt_ms m ''t440cesarops'' ''cesarops3'' = Some (millis 3004)
          \<and> rtt_ms m ''t440cesarops'' ''cesarops2'' = None
          \<and> rtt_ms m ''cesarops2'' ''t440cesarops'' = None)"

definition nauti_fleet_view_value :: json where
  "nauti_fleet_view_value = JObj
     [(''kind'', JStr ''nauti_fleet_view''), (''from'', JStr ''t440cesarops''),
      (''nodes'', JArr
        [JObj [(''node'', JStr ''cesarops4om''), (''online'', JBool True),
           (''rpc_rtt_ms'', JObj [(''samples'', j_ms 10000), (''min'', j_ms 400), (''median'', j_ms 501), (''p95'', j_ms 700)])],
         JObj [(''node'', JStr ''cesarops2''), (''online'', JBool False),
           (''rpc_rtt_ms'', JObj [(''samples'', j_ms 0)])]])]"

definition fleet_view_flattens_a_nauti_fleet_view_into_a_matrix_row ::
  "(json \<Rightarrow> latency_matrix option) \<Rightarrow> bool"
where
  "fleet_view_flattens_a_nauti_fleet_view_into_a_matrix_row matrix_of =
     (let m = latency_from_json matrix_of nauti_fleet_view_value in
      rtt_ms m ''t440cesarops'' ''cesarops4om'' = Some (millis 501)
      \<and> rtt_ms m ''t440cesarops'' ''cesarops2'' = None)"

definition coder_c4_item :: json where
  "coder_c4_item = JObj [(''model_id'', JStr ''KAT''), (''roles'', JArr [JStr ''coder'']), (''free_mb'', JNum (Fin 12000))]"

definition reviewer_e4b_item :: json where
  "reviewer_e4b_item = JObj [(''slot'', JStr ''reviewer-e4b''), (''model_id'', JStr ''E4B''),
     (''roles'', JArr [JStr ''reviewer'']), (''healthy'', JBool False), (''free_mb'', JNum (Fin 6000))]"

definition enveloped_snapshot :: json where
  "enveloped_snapshot = JObj [(''nodes'', JObj
     [(''cesarops2'', JObj [(''locked'', JBool True), (''slots'', JArr [])]),
      (''cesarops3'', JObj [(''slots'', JArr [reviewer_e4b_item])]),
      (''cesarops4om'', JObj [(''slots'', JObj [(''coder-lane-c4'', coder_c4_item)])])])]"

definition snapshot_normalisation_accepts_envelope_and_dict_slots ::
  "(json \<Rightarrow> slot_view option) \<Rightarrow> (json \<Rightarrow> latency_matrix option) \<Rightarrow> bool"
where
  "snapshot_normalisation_accepts_envelope_and_dict_slots slot_of matrix_of =
     (let view = from_snapshot_json slot_of matrix_of enveloped_snapshot;
          locked = (test_host [test_slot ''coder-lane-a'' ''Ornith'' [''coder''] True (Fin 4000)])\<lparr>hv_locked := True\<rparr>
      in length (fv_hosts view) = 3
         \<and> map_option sv_slot (best_slot view ''cesarops4om'' ''coder'') = Some ''coder-lane-c4''
         \<and> best_slot view ''cesarops3'' ''reviewer'' = None
         \<and> unwrap_some (map_of (fv_hosts view) ''cesarops2'') hv_locked
         \<and> best_slot (view_with [(''t440cesarops'', locked)]) ''t440cesarops'' ''coder'' = None)"

definition lone_slot_item :: json where
  "lone_slot_item = JObj [(''slot'', JStr ''coder-lane-c4''), (''model_id'', JStr ''KAT''),
     (''roles'', JArr [JStr ''coder'']), (''free_mb'', JNum (Fin 1))]"

definition a_snapshot_without_slots_does_not_become_the_envelope ::
  "(json \<Rightarrow> slot_view option) \<Rightarrow> (json \<Rightarrow> latency_matrix option) \<Rightarrow> bool"
where
  "a_snapshot_without_slots_does_not_become_the_envelope slot_of matrix_of =
     (let view = from_snapshot_json slot_of matrix_of (JObj [(''nodes'', JObj
            [(''cesarops4om'', JObj [(''slots'', JArr [lone_slot_item])]),
             (''t440cesarops'', JObj [(''locked'', JBool False)])])])
      in unwrap_some (map_of (fv_hosts view) ''t440cesarops'') (\<lambda>h. hv_slots h = [])
         \<and> unwrap_some (map_of (fv_hosts view) ''cesarops4om'') (\<lambda>h. length (hv_slots h) = 1))"

definition role_catalogue_skips_underscore_comment_keys :: bool where
  "role_catalogue_skips_underscore_comment_keys =
     (let cat = role_catalogue_from_json (JObj
            [(''_provenance'', JArr [JStr ''a note, not a role'']),
             (''coder'', JArr [JStr ''coder-lane-a'', JStr ''injector'']),
             (''thinker'', JArr [JStr ''thinker'', JStr ''thinker-nim''])])
      in catalogue_contains cat ''coder'' \<and> catalogue_contains cat ''thinker''
         \<and> \<not> catalogue_contains cat ''_provenance'' \<and> length cat = 2
         \<and> role_catalogue_from_json (JArr [JStr ''_comment'', JStr ''coder'']) = [''coder''])"

subsection \<open>The client\<close>

text \<open>
  \<open>serve_once\<close>: a head that accepts one connection and writes a canned response. What the test
  asserts about the request it received is asserted where the request arrives.
\<close>

definition canned_response :: "u16 \<Rightarrow> attrs \<Rightarrow> string \<Rightarrow> string" where
  "canned_response status headers body =
     ''HTTP/1.1 '' @ show_word status @ '' OK'' @ crlf
     @ concat (map (\<lambda>(k, v). k @ '': '' @ v @ crlf) headers)
     @ ''Content-Length: '' @ show_nat (length body) @ crlf
     @ ''Content-Type: application/json'' @ crlf @ ''Connection: close'' @ crlf @ crlf @ body"

definition serve_once :: "(string \<Rightarrow> bool) \<Rightarrow> u16 \<Rightarrow> attrs \<Rightarrow> string \<Rightarrow> string \<Rightarrow> string \<Rightarrow> net_result" where
  "serve_once check status headers body authority request =
     (if check request then Answered (canned_response status headers body) else ReadError ''assertion failed'')"

definition served_url :: "u16 \<Rightarrow> string" where
  "served_url port = ''http://127.0.0.1:'' @ show_word port"

definition posts_the_contract :: "string \<Rightarrow> bool" where
  "posts_the_contract request =
     (starts_with request (''POST /v1/plan HTTP/1.1'' @ crlf)
      \<and> contains request ''Content-Type: application/json''
      \<and> contains request ''\"node_id\":\"t440cesarops\"'' \<and> contains request ''\"role\":\"coder\"''
      \<and> contains request ''Connection: close'')"

definition live_fragment_body :: string where
  "live_fragment_body =
     (let next_line = CHR 0x0A # replicate 23 (CHR '' '') in
      ''{\"node_id\":\"t440cesarops\",\"role\":\"coder\",\"host_key\":\"cesarops4om\",'' @ next_line
      @ ''\"slot\":\"coder-lane-c4\",\"model_id\":\"KAT-Coder-V2.5-Dev-Q8_0\",'' @ next_line
      @ ''\"reason\":\"no local slot for coder; remote host cesarops4om can take it\"}'')"

definition ask_head_parses_a_live_fragment_and_posts_the_contract :: "plan_serde \<Rightarrow> u16 \<Rightarrow> bool" where
  "ask_head_parses_a_live_fragment_and_posts_the_contract sd port =
     unwrap_ok (ask_head_with_timeout sd (serve_once posts_the_contract 200 [] live_fragment_body)
       (served_url port) ask_coder)
       (\<lambda>f. pf_host_key f = ''cesarops4om'' \<and> pf_slot f = ''coder-lane-c4'')"

definition nowhere_body :: string where
  "nowhere_body = ''{\"detail\":\"escalate-nowhere\"}''"

definition ask_head_maps_403_to_escalate_nowhere_with_the_constraint_header :: "plan_serde \<Rightarrow> u16 \<Rightarrow> bool" where
  "ask_head_maps_403_to_escalate_nowhere_with_the_constraint_header sd port =
     unwrap_err (ask_head_with_timeout sd
       (serve_once (\<lambda>_. True) 403 [(''X-Escalate-Constraint'', ''no VRAM estimate for model X'')] nowhere_body)
       (served_url port) (plan_request_new ''t440cesarops'' ''reviewer''))
       (\<lambda>e. e = EscalateNowhere (Some ''no VRAM estimate for model X'')
          \<and> reason_token e = ''escalate-nowhere'' \<and> reject_http_status e = Some 403)"

definition ask_head_falls_back_to_the_json_detail_when_the_header_is_absent :: "plan_serde \<Rightarrow> u16 \<Rightarrow> bool" where
  "ask_head_falls_back_to_the_json_detail_when_the_header_is_absent sd port =
     unwrap_err (ask_head_with_timeout sd (serve_once (\<lambda>_. True) 403 [] nowhere_body) (served_url port) ask_coder)
       (\<lambda>e. e = EscalateNowhere (Some ''escalate-nowhere''))"

definition ask_head_maps_404_to_unknown_role :: "plan_serde \<Rightarrow> u16 \<Rightarrow> bool" where
  "ask_head_maps_404_to_unknown_role sd port =
     unwrap_err (ask_head_with_timeout sd
       (serve_once (\<lambda>_. True) 404 [] ''{\"detail\":\"unknown role 'bard'\"}'')
       (served_url port) (plan_request_new ''t440cesarops'' ''bard''))
       (\<lambda>e. e = UnknownRole ''bard'' \<and> reject_http_status e = Some 404)"

definition ask_head_reads_a_500_as_backend_down_and_a_200_junk_body_as_missing_field :: "plan_serde \<Rightarrow> u16 \<Rightarrow> bool" where
  "ask_head_reads_a_500_as_backend_down_and_a_200_junk_body_as_missing_field sd port =
     (unwrap_err (ask_head_with_timeout sd (serve_once (\<lambda>_. True) 503 [] ''head is booting'') (served_url port) ask_coder)
        (\<lambda>e. reason_token e = ''backend-down'' \<and> reject_http_status e = Some 503)
      \<and> unwrap_err (ask_head_with_timeout sd
          (serve_once (\<lambda>_. True) 200 [] ''{\"plan\":\"all of it\"}'') (served_url port) ask_coder)
        (\<lambda>e. reason_token e = ''missing-field''))"

definition chunked_part :: string where
  "chunked_part = ''{\"node_id\":\"t440cesarops\",\"role\":\"coder\",\"host_key\":\"c4\",''"

definition chunked_rest :: string where
  "chunked_rest = ''\"slot\":\"coder-lane-c4\",\"model_id\":\"KAT\",\"reason\":\"fleet-wide\"}''"

definition chunked_response :: string where
  "chunked_response =
     ''HTTP/1.1 200 OK'' @ crlf @ ''Transfer-Encoding: chunked'' @ crlf @ ''Connection: close'' @ crlf @ crlf
     @ show_radix 16 (length chunked_part) @ crlf @ chunked_part @ crlf
     @ show_radix 16 (length chunked_rest) @ crlf @ chunked_rest @ crlf @ ''0'' @ crlf @ crlf"

definition ask_head_reads_a_chunked_body :: "plan_serde \<Rightarrow> u16 \<Rightarrow> bool" where
  "ask_head_reads_a_chunked_body sd port =
     unwrap_ok (ask_head_with_timeout sd (\<lambda>_ _. Answered chunked_response) (served_url port) ask_coder)
       (\<lambda>f. pf_host_key f = ''c4'' \<and> pf_model_id f = ''KAT'')"

text \<open>Nothing listens on port 1: the connection is refused, after the time \<open>elapsed\<close>.\<close>

definition an_unreachable_head_is_backend_down_not_a_hang ::
  "plan_serde \<Rightarrow> (string \<Rightarrow> string \<Rightarrow> net_result) \<Rightarrow> duration \<Rightarrow> bool"
where
  "an_unreachable_head_is_backend_down_not_a_hang sd net elapsed =
     (unwrap_err (ask_head_with_timeout sd net ''http://127.0.0.1:1'' ask_coder)
        (\<lambda>e. (case e of HeadUnreachable _ \<Rightarrow> True | _ \<Rightarrow> False)
           \<and> reason_token e = ''backend-down'' \<and> reject_http_status e = None)
      \<and> elapsed < from_secs 5)"

definition a_non_http_head_url_is_refused_before_dialing ::
  "plan_serde \<Rightarrow> (string \<Rightarrow> string \<Rightarrow> net_result) \<Rightarrow> bool"
where
  "a_non_http_head_url_is_refused_before_dialing sd net =
     (list_all (\<lambda>bad. unwrap_err (ask_head_with_timeout sd net bad ask_coder)
        (\<lambda>e. (case e of BadHeadUrl _ \<Rightarrow> True | _ \<Rightarrow> False) \<and> reason_token e = ''bad-enum''))
        [''https://head:8080'', ''head:8080'', ''http://'', ''http://head:notaport'']
      \<and> unwrap_ok (parse_head_url ''http://head'') (\<lambda>u. u = (''head'', default_head_port))
      \<and> unwrap_ok (parse_head_url ''http://10.44.0.12:9106/'') (\<lambda>u. snd u = 9106))"

subsection \<open>The committed fixtures\<close>

definition m11_slot :: "string \<Rightarrow> string \<Rightarrow> string \<Rightarrow> json" where
  "m11_slot name model role = JObj [(''healthy'', JBool True), (''model_id'', JStr model),
     (''roles'', JArr [JStr role]), (''slot'', JStr name)]"

definition m11_head_slots :: json where
  "m11_head_slots = JObj
     [(''_provenance'', JArr []),
      (''nodes'', JObj
        [(''cesarops2'', JObj [(''locked'', JBool True),
           (''slots'', JArr [m11_slot ''reviewer-c2'' ''Gemma-4-26B-MoE-IQ4_XS'' ''reviewer''])]),
         (''cesarops4om'', JObj [(''slots'', JArr
           [m11_slot ''thinker'' ''QwQ-32B-IQ2_XXS'' ''thinker'', m11_slot ''reviewer'' ''Gemma-4-E4B-it-IQ4_XS'' ''reviewer'',
            m11_slot ''reviewer-e4b'' ''Gemma-4-E4B-it-IQ4_XS'' ''reviewer''])]),
         (''t440cesarops'', JObj [(''slots'', JArr [m11_slot ''coder-lane-a'' ''Ornith-1.0-35B-Q4_K_M'' ''coder''])])])]"

definition m11_fallback_chain :: json where
  "m11_fallback_chain = JObj
     [(''_provenance'', JArr []), (''coder'', JArr [JStr ''coder-lane-a'', JStr ''injector'']),
      (''reviewer'', JArr [JStr ''reviewer-c2'', JStr ''reviewer'', JStr ''reviewer-e4b'', JStr ''coder-lane-a'']),
      (''thinker'', JArr [JStr ''thinker'', JStr ''thinker-nim'']),
      (''translator+reviewer+judge'', JArr [JStr ''coder-lane-c4'', JStr ''coder-lane-a''])]"

definition committed_m11_fixtures_drive_a_real_fragment ::
  "(json \<Rightarrow> slot_view option) \<Rightarrow> (json \<Rightarrow> latency_matrix option) \<Rightarrow> (string \<Rightarrow> string + json)
     \<Rightarrow> (string \<Rightarrow> string + string) \<Rightarrow> string \<Rightarrow> json \<Rightarrow> bool"
where
  "committed_m11_fixtures_drive_a_real_fragment slot_of matrix_of parse read_to_string path chain =
     unwrap_ok (load_snapshot slot_of matrix_of parse read_to_string path) (\<lambda>view.
       let roles = role_catalogue_from_json chain in
       catalogue_contains roles ''coder'' \<and> \<not> catalogue_contains roles ''_provenance''
       \<and> unwrap_ok (head_plan (plan_request_new ''cesarops4om'' ''coder'') view roles)
           (\<lambda>remote. pf_host_key remote = ''t440cesarops'' \<and> pf_slot remote = ''coder-lane-a''
              \<and> pf_model_id remote = ''Ornith-1.0-35B-Q4_K_M'')
       \<and> unwrap_ok (head_plan (plan_request_new ''t440cesarops'' ''coder'') view roles)
           (\<lambda>here. pf_host_key here = ''t440cesarops'' \<and> pf_reason here = ''local plan satisfies this role'')
       \<and> unwrap_err (head_plan (plan_request_new ''t440cesarops'' ''translator+reviewer+judge'') view roles)
           (\<lambda>e. reason_token e = ''escalate-nowhere'' \<and> reject_http_status e = Some 403)
       \<and> unwrap_ok (head_plan (plan_request_new ''cesarops3'' ''reviewer'') view roles)
           (\<lambda>reviewer. pf_host_key reviewer \<noteq> ''cesarops2'' \<and> pf_host_key reviewer = ''cesarops4om'')
       \<and> unwrap_err (head_plan (plan_request_new ''cesarops4om'' ''bard'') view roles)
           (\<lambda>e. reason_token e = ''bad-enum'' \<and> reject_http_status e = Some 404))"

definition the_live_latency_matrix_shape_attaches_real_rtts_to_the_fixture ::
  "(json \<Rightarrow> slot_view option) \<Rightarrow> (json \<Rightarrow> latency_matrix option) \<Rightarrow> (string \<Rightarrow> string + json)
     \<Rightarrow> (string \<Rightarrow> string + string) \<Rightarrow> string \<Rightarrow> json \<Rightarrow> bool"
where
  "the_live_latency_matrix_shape_attaches_real_rtts_to_the_fixture slot_of matrix_of parse read_to_string path chain =
     unwrap_ok (load_snapshot slot_of matrix_of parse read_to_string path) (\<lambda>snapshot.
       let view = with_latency
             (test_matrix [(''cesarops4om'', [(''t440cesarops'', Some (millis 501)), (''cesarops2'', None)])]) snapshot
       in unwrap_ok (head_plan (plan_request_new ''cesarops4om'' ''coder'') view (role_catalogue_from_json chain))
            (\<lambda>f. pf_rtt_ms f = Some (millis 501) \<and> contains (pf_reason f) ''rtt 0.501 ms''))"

subsection \<open>They pass\<close>

text \<open>The derived deserializer reads an item that leaves out \<open>slot\<close>, \<open>healthy\<close> or \<open>free_mb\<close> with the
  defaults of the struct: no name, healthy, no headroom.\<close>

definition reads_slots :: "(json \<Rightarrow> slot_view option) \<Rightarrow> (json \<times> slot_view) list \<Rightarrow> bool" where
  "reads_slots slot_of items = list_all (\<lambda>(v, s). slot_of v = Some s) items"

definition m11_slots :: "(json \<times> slot_view) list" where
  "m11_slots = map (\<lambda>(name, model, role). (m11_slot name model role, test_slot name model [role] True (Fin 0)))
     [(''reviewer-c2'', ''Gemma-4-26B-MoE-IQ4_XS'', ''reviewer''), (''thinker'', ''QwQ-32B-IQ2_XXS'', ''thinker''),
      (''reviewer'', ''Gemma-4-E4B-it-IQ4_XS'', ''reviewer''), (''reviewer-e4b'', ''Gemma-4-E4B-it-IQ4_XS'', ''reviewer''),
      (''coder-lane-a'', ''Ornith-1.0-35B-Q4_K_M'', ''coder'')]"

lemma loader_test_passes:
  assumes "read_to_string path = Inr raw" "parse raw = Inr value" "matrix_of value = Some fleet_matrix_rows"
  shows "matrix_loader_reads_the_live_nauti_fleet_matrix_shape matrix_of parse read_to_string path"
  using assms by (simp add: matrix_loader_reads_the_live_nauti_fleet_matrix_shape_def load_latency_def load_json_def
      latency_from_json_def fleet_matrix_rows_def rtt_ms_def test_simps)

lemma flattening_test_passes:
  assumes "matrix_of nauti_fleet_view_value \<in> {None, Some []}"
  shows "fleet_view_flattens_a_nauti_fleet_view_into_a_matrix_row matrix_of"
proof -
  have "latency_from_view nauti_fleet_view_value
      = [(''t440cesarops'', [(''cesarops2'', None), (''cesarops4om'', Some (millis 501))])]"
    by (simp add: latency_from_view_def view_row_def nauti_fleet_view_value_def j_index_def j_ms_def bt_from_def
        List.map_filter_def)
  moreover have "latency_from_json matrix_of nauti_fleet_view_value = latency_from_view nauti_fleet_view_value"
    using assms by (auto simp: latency_from_json_def)
  ultimately show ?thesis
    by (simp add: fleet_view_flattens_a_nauti_fleet_view_into_a_matrix_row_def rtt_ms_def)
qed

lemmas snapshot_steps = from_snapshot_json_def snapshot_hosts_def host_from_json_def slot_items_def slot_from_item_def
  j_index_def bt_from_def List.map_filter_def

lemma normalisation_test_passes:
  assumes "reads_slots slot_of [(coder_c4_item, test_slot [] ''KAT'' [''coder''] True (Fin 12000)),
      (reviewer_e4b_item, test_slot ''reviewer-e4b'' ''E4B'' [''reviewer''] False (Fin 6000))]"
  shows "snapshot_normalisation_accepts_envelope_and_dict_slots slot_of matrix_of"
  using assms
  by (simp add: snapshot_normalisation_accepts_envelope_and_dict_slots_def reads_slots_def enveloped_snapshot_def
      snapshot_steps plan_fixtures best_slot_def serves_def test_simps)

lemma envelope_test_passes:
  assumes "reads_slots slot_of [(lone_slot_item, test_slot ''coder-lane-c4'' ''KAT'' [''coder''] True (Fin 1))]"
    and "slot_of (JBool False) = None"
  shows "a_snapshot_without_slots_does_not_become_the_envelope slot_of matrix_of"
  using assms
  by (simp add: a_snapshot_without_slots_does_not_become_the_envelope_def reads_slots_def snapshot_steps
      plan_fixtures test_simps)

lemma catalogue_test_passes: "role_catalogue_skips_underscore_comment_keys"
  by code_simp

lemma show_one: "show_nat (Suc 0) = ''1''"
  by code_simp

lemma numbers_in_urls:
  "parse_u16 ''notaport'' = None" "parse_u16 ''9106'' = Some 9106" "parse_u16 ''1'' = Some 1"
  by (simp_all add: parse_u16_def from_str_radix_def digit_val_def)

lemmas url_steps = parse_head_url_def strip_prefix_def starts_with_def rsplit_once_def trim_def trim_matches_def
  trim_end_matches_def is_ws_def numbers_in_urls

lemma url_test_passes: "a_non_http_head_url_is_refused_before_dialing sd net"
  by (simp add: a_non_http_head_url_is_refused_before_dialing_def ask_head_with_timeout_def url_steps
      default_head_port_def test_simps)

subsection \<open>The client passes\<close>

definition canned_headers :: "attrs \<Rightarrow> string \<Rightarrow> attrs" where
  "canned_headers headers body = headers @
     [(''Content-Length'', show_nat (length body)), (''Content-Type'', ''application/json''), (''Connection'', ''close'')]"

lemma canned_is_written: "canned_response status headers body = http_response status ''OK'' (canned_headers headers body) body"
  by (simp add: canned_response_def http_response_def status_line_def ended_def header_line_def canned_headers_def
      comp_def split_def)

lemma served_url_read: "parse_head_url (served_url port) = Inr (''127.0.0.1'', port)"
proof -
  let ?a = "''127.0.0.1'' @ '':'' @ show_word port"
  have "CHR ''/'' \<notin> set ?a"
    using digits_facts(1) [of "CHR ''/''" "unat port"] by auto
  moreover have "parse_head_url (''http://'' @ ?a @ ''/'' @ []) = Inr (''127.0.0.1'', port)"
    using head_url_roundtrip [of "''127.0.0.1''" port "[]"] by (simp add: plain_host_def is_ws_def)
  ultimately show ?thesis
    unfolding served_url_def using url_without_path [of ?a "[]"] by simp
qed

lemma canned_headers_ok: "list_all header_ok headers \<Longrightarrow> list_all header_ok (canned_headers headers body)"
  using digits_ascii [of "length body"] digits_no_ws [of _ "length body"]
  by (auto simp: canned_headers_def header_ok_def one_line_def ascii_def is_ws_def)

definition plain_answer :: "attrs \<Rightarrow> string \<Rightarrow> bool" where
  "plain_answer headers body =
     (list_all header_ok headers \<and> ascii body \<and> \<not> is_chunked (header_fields (canned_headers headers body)))"

lemma ask_served:
  assumes "ps_encode_request sd req = Inr w" "plain_answer headers body"
    and "check (http_request (''127.0.0.1:'' @ show_word port) ''/v1/plan'' w)"
  shows "ask_head_with_timeout sd (serve_once check status headers body) (served_url port) req
     = interpret_answer sd req (status, header_fields (canned_headers headers body), body)"
  using assms parse_written_response [of "''OK''" "canned_headers headers body" status body]
    canned_headers_ok [of headers body] lossy_valid [OF ascii_valid, of body]
  by (simp add: ask_head_with_timeout_def served_url_read http_post_def serve_once_def canned_is_written plain_answer_def
      one_line_def ascii_def)

lemma header_fields_bt: "header_fields headers = bt_from (map (\<lambda>(k, v). (to_lower (trim k), trim v)) headers)"
  by (simp add: header_fields_def bt_from_def fold_map comp_def split_def)

lemma canned_names:
  "to_lower (trim ''Content-Length'') = ''content-length''" "to_lower (trim ''Content-Type'') = ''content-type''"
  "to_lower (trim ''Connection'') = ''connection''"
  "to_lower (trim ''X-Escalate-Constraint'') = ''x-escalate-constraint''"
  "trim ''no VRAM estimate for model X'' = ''no VRAM estimate for model X''"
  by code_simp+

lemma list_all_replicate: "list_all P (replicate n x) \<longleftrightarrow> n = 0 \<or> P x"
  by (induction n) auto

lemma answers_of_the_tests:
  "plain_answer [] live_fragment_body" "plain_answer [] nowhere_body" "plain_answer [] ''head is booting''"
  "plain_answer [] ''{\"detail\":\"unknown role 'bard'\"}''" "plain_answer [] ''{\"plan\":\"all of it\"}''"
  "plain_answer [(''X-Escalate-Constraint'', ''no VRAM estimate for model X'')] nowhere_body"
  by (simp_all add: plain_answer_def is_chunked_def header_fields_bt canned_headers_def lookup_simps canned_names
      header_ok_def one_line_def ascii_def live_fragment_body_def nowhere_body_def list_all_replicate)

lemma posted_request:
  assumes "contains w ''\"node_id\":\"t440cesarops\"''" "contains w ''\"role\":\"coder\"''"
  shows "posts_the_contract (http_request authority ''/v1/plan'' w)"
proof -
  have "starts_with (http_request authority ''/v1/plan'' w) (''POST /v1/plan HTTP/1.1'' @ crlf)"
    by (simp add: http_request_def starts_with_def crlf_def)
  moreover have "contains (http_request authority ''/v1/plan'' w) ''Content-Type: application/json''"
      "contains (http_request authority ''/v1/plan'' w) ''Connection: close''"
    unfolding http_request_def by (rule contains_here | rule contains_appendI)+
  moreover have "contains (http_request authority ''/v1/plan'' w) p" if "contains w p" for p
    unfolding http_request_def by (rule contains_appendI)+ (rule that)
  ultimately show ?thesis
    using assms by (simp add: posts_the_contract_def)
qed

lemma client_tests_pass:
  assumes "ps_encode_request sd ask_coder = Inr w"
    "contains w ''\"node_id\":\"t440cesarops\"''" "contains w ''\"role\":\"coder\"''"
    and "ps_decode_fragment sd live_fragment_body = Inr f" "pf_host_key f = ''cesarops4om''" "pf_slot f = ''coder-lane-c4''"
    and "ps_parse sd nowhere_body = Inr (JObj [(''detail'', JStr ''escalate-nowhere'')])"
    and "ps_decode_fragment sd ''{\"plan\":\"all of it\"}'' = Inl err"
  shows "ask_head_parses_a_live_fragment_and_posts_the_contract sd port"
    and "ask_head_falls_back_to_the_json_detail_when_the_header_is_absent sd port"
    and "ask_head_reads_a_500_as_backend_down_and_a_200_junk_body_as_missing_field sd port"
  using assms
  by (simp_all add: ask_head_parses_a_live_fragment_and_posts_the_contract_def
      ask_head_falls_back_to_the_json_detail_when_the_header_is_absent_def
      ask_head_reads_a_500_as_backend_down_and_a_200_junk_body_as_missing_field_def
      ask_served answers_of_the_tests posted_request interpret_answer_def json_detail_def j_index_def
      header_fields_bt canned_headers_def lookup_simps canned_names test_simps)

lemma refusing_head_tests_pass:
  assumes "ps_encode_request sd (plan_request_new ''t440cesarops'' ''reviewer'') = Inr w"
    "ps_encode_request sd (plan_request_new ''t440cesarops'' ''bard'') = Inr w'"
  shows "ask_head_maps_403_to_escalate_nowhere_with_the_constraint_header sd port"
    and "ask_head_maps_404_to_unknown_role sd port"
  using assms
  by (simp_all add: ask_head_maps_403_to_escalate_nowhere_with_the_constraint_header_def
      ask_head_maps_404_to_unknown_role_def
      ask_served answers_of_the_tests interpret_answer_def plan_request_new_def
      header_fields_bt canned_headers_def lookup_simps canned_names test_simps)

lemma unreachable_test_passes:
  assumes "ps_encode_request sd ask_coder = Inr w" "\<And>request. net ''127.0.0.1:1'' request = ConnectError e"
    "elapsed < from_secs 5"
  shows "an_unreachable_head_is_backend_down_not_a_hang sd net elapsed"
  using assms show_one
  by (simp add: an_unreachable_head_is_backend_down_not_a_hang_def ask_head_with_timeout_def url_steps http_post_def
      test_simps)

lemma show_200: "show_nat 200 = ''200''"
  by code_simp

lemma chunked_test_passes:
  assumes "ps_encode_request sd ask_coder = Inr w"
    and "ps_decode_fragment sd (chunked_part @ chunked_rest) = Inr f" "pf_host_key f = ''c4''" "pf_model_id f = ''KAT''"
  shows "ask_head_reads_a_chunked_body sd port"
proof -
  let ?h = "[(''Transfer-Encoding'', ''chunked''), (''Connection'', ''close'')]"
  have body: "chunked_response = http_response 200 ''OK'' ?h (enchunk [chunked_part, chunked_rest])"
    by (simp add: chunked_response_def http_response_def enchunk_def chunk_def ended_def header_line_def status_line_def
        show_200)
  have "is_chunked (header_fields ?h)"
    by code_simp
  moreover have "dechunk (enchunk [chunked_part, chunked_rest]) = chunked_part @ chunked_rest"
    using dechunk_enchunk [of "[chunked_part, chunked_rest]"]
    by (simp add: ascii_valid chunked_part_def chunked_rest_def ascii_def)
  ultimately have "parse_http_response chunked_response = Some (200, header_fields ?h, chunked_part @ chunked_rest)"
    using parse_written_response [of "''OK''" ?h 200 "enchunk [chunked_part, chunked_rest]"]
    by (simp add: body one_line_def header_ok_def ascii_def)
  then show ?thesis
    using assms
    by (simp add: ask_head_reads_a_chunked_body_def ask_head_with_timeout_def served_url_read http_post_def
        interpret_answer_def test_simps)
qed

lemmas m11_fixture_defs = m11_slots_def m11_head_slots_def m11_fallback_chain_def m11_slot_def

lemma m11_view:
  assumes "reads_slots slot_of m11_slots" "read_to_string path = Inr raw" "parse raw = Inr m11_head_slots"
  shows "load_snapshot slot_of matrix_of parse read_to_string path = Inr
    \<lparr>fv_hosts =
       [(''cesarops2'', \<lparr>hv_slots = [test_slot ''reviewer-c2'' ''Gemma-4-26B-MoE-IQ4_XS'' [''reviewer''] True (Fin 0)], hv_locked = True\<rparr>),
        (''cesarops4om'', \<lparr>hv_slots =
           [test_slot ''thinker'' ''QwQ-32B-IQ2_XXS'' [''thinker''] True (Fin 0),
            test_slot ''reviewer'' ''Gemma-4-E4B-it-IQ4_XS'' [''reviewer''] True (Fin 0),
            test_slot ''reviewer-e4b'' ''Gemma-4-E4B-it-IQ4_XS'' [''reviewer''] True (Fin 0)], hv_locked = False\<rparr>),
        (''t440cesarops'', \<lparr>hv_slots = [test_slot ''coder-lane-a'' ''Ornith-1.0-35B-Q4_K_M'' [''coder''] True (Fin 0)], hv_locked = False\<rparr>)],
     fv_latency = latency_from_json matrix_of m11_head_slots\<rparr>"
  using assms
  by (simp add: load_snapshot_def load_json_def reads_slots_def m11_fixture_defs snapshot_steps test_slot_def)

lemma m11_latency:
  "matrix_of m11_head_slots \<in> {None, Some []} \<Longrightarrow> latency_from_json matrix_of m11_head_slots = []"
  by (auto simp: latency_from_json_def latency_from_view_def j_index_def m11_head_slots_def)

lemma m11_roles: "role_catalogue_from_json m11_fallback_chain = [''coder'', ''reviewer'', ''thinker'', ''translator+reviewer+judge'']"
  by code_simp

lemma m11_fixture_test_passes:
  assumes "reads_slots slot_of m11_slots" "read_to_string path = Inr raw" "parse raw = Inr m11_head_slots"
    and "matrix_of m11_head_slots \<in> {None, Some []}"
  shows "committed_m11_fixtures_drive_a_real_fragment slot_of matrix_of parse read_to_string path m11_fallback_chain"
  unfolding committed_m11_fixtures_drive_a_real_fragment_def m11_view [where raw = raw and parse = parse and path = path and read_to_string = read_to_string
        and slot_of = slot_of and matrix_of = matrix_of, OF assms(1-3)] m11_latency [of matrix_of, OF assms(4)] m11_roles
  by (simp add: plan_fixtures plan_steps test_simps fleet_score_def f_lt_def)

lemma m11_latency_test_passes:
  assumes "reads_slots slot_of m11_slots" "read_to_string path = Inr raw" "parse raw = Inr m11_head_slots"
    and "matrix_of m11_head_slots \<in> {None, Some []}"
  shows "the_live_latency_matrix_shape_attaches_real_rtts_to_the_fixture slot_of matrix_of parse read_to_string path
    m11_fallback_chain"
  unfolding the_live_latency_matrix_shape_attaches_real_rtts_to_the_fixture_def m11_view [where raw = raw and parse = parse and path = path and read_to_string = read_to_string
        and slot_of = slot_of and matrix_of = matrix_of, OF assms(1-3)]
    m11_latency [of matrix_of, OF assms(4)] m11_roles
  by (simp add: plan_fixtures plan_steps test_simps starts_with_def latency_text_def reason_tail millis_text)

end
