(* ===== verification/Vmm_Tests.thy ===== *)
theory Vmm_Tests
  imports Cloud_Hypervisor Unit_Tests
begin

text \<open>
  The test module of \<open>vmm/cloud_hypervisor.rs\<close>. Its two mocks are another implementation of the
  traits \<open>Launcher\<close> and \<open>NetProvisioner\<close>: a record of operations on a world that logs the calls. The
  adapter runs over it unchanged, so the tests are runs of the same \<open>ch_attach\<close>, \<open>reconcile\<close> and
  \<open>build_argv\<close> that run over \<open>process_launcher\<close>.
\<close>

subsection \<open>The mocks\<close>

record mock_world =
  mk_launches :: "(string \<times> string list) list"
  mk_removes :: "(string \<times> string) list"
  mk_binary_present :: bool
  mk_running :: "bool smap"
  mk_net_fail :: bool
  mk_net_calls :: "string list"

definition mock_new :: "bool \<Rightarrow> mock_world" where
  "mock_new binary_present = \<lparr>mk_launches = [], mk_removes = [], mk_binary_present = binary_present,
     mk_running = [], mk_net_fail = False, mk_net_calls = []\<rparr>"

definition mock_set_running :: "string \<Rightarrow> bool \<Rightarrow> mock_world \<Rightarrow> mock_world" where
  "mock_set_running socket running w = w\<lparr>mk_running := bt_insert socket running (mk_running w)\<rparr>"

definition mock_provision :: "attrs \<Rightarrow> mock_world \<Rightarrow> (string + unit) \<times> mock_world" where
  "mock_provision attrs w =
     (let w = w\<lparr>mk_net_calls := mk_net_calls w @ [unwrap_or (map_of attrs ''vmm.net'') []]\<rparr>
      in (if mk_net_fail w then Inl ''tap0: bridge br-fabric missing'' else Inr (), w))"

definition mock_locate_binary :: "string \<Rightarrow> mock_world \<Rightarrow> string option" where
  "mock_locate_binary configured_path w =
     (if mk_binary_present w then Some ''/mock/cloud-hypervisor'' else None)"

fun find_prefixed :: "string \<Rightarrow> string list \<Rightarrow> string option" where
  "find_prefixed p [] = None"
| "find_prefixed p (arg # args) =
     (case strip_prefix arg p of Some rest \<Rightarrow> Some rest | None \<Rightarrow> find_prefixed p args)"

definition mock_launch_vm :: "string \<Rightarrow> string list \<Rightarrow> mock_world \<Rightarrow> (string + unit) \<times> mock_world" where
  "mock_launch_vm binary argv w =
     (let socket = find_prefixed ''socket='' argv;
          w = w\<lparr>mk_launches := mk_launches w @ [(binary, argv)]\<rparr>
      in (Inr (), case socket of None \<Rightarrow> w | Some s \<Rightarrow> mock_set_running s True w))"

definition mock_remove_vm :: "string \<Rightarrow> string \<Rightarrow> mock_world \<Rightarrow> (string + unit) \<times> mock_world" where
  "mock_remove_vm api_socket vm_name w =
     (Inr (), mock_set_running api_socket False (w\<lparr>mk_removes := mk_removes w @ [(api_socket, vm_name)]\<rparr>))"

definition mock_vm_is_running :: "string \<Rightarrow> mock_world \<Rightarrow> bool \<times> mock_world" where
  "mock_vm_is_running api_socket w = (unwrap_or (map_of (mk_running w) api_socket) False, w)"

definition mock_launcher :: "mock_world launcher" where
  "mock_launcher =
     \<lparr>ln_type_name = ''nauti_fabric::vmm::cloud_hypervisor::net_tests::MockLauncher'',
      ln_locate_binary = mock_locate_binary, ln_launch_vm = mock_launch_vm, ln_remove_vm = mock_remove_vm,
      ln_vm_is_running = mock_vm_is_running, ln_provision = mock_provision\<rparr>"

interpretation mock_ch: adapter_contract "ch_ops mock_launcher"
  by (rule ch.adapter_contract_axioms)

subsection \<open>Fixtures\<close>

definition device_resource :: "string \<Rightarrow> resource" where
  "device_resource rid =
     \<lparr>res_id = rid, res_kind = Device, res_capacity = 1, res_unit = ''vm'', res_node = ''local'',
      res_state = Available, res_exclusive = True,
      res_attributes = bt_from
        [(''vmm.binary'', ''/does/not/exist/cloud-hypervisor''),
         (''vmm.api_socket'', ''/tmp/nauti-test-'' @ rid @ ''.sock''),
         (''vmm.kernel'', ''/tmp/kernel''), (''vmm.rootfs'', ''/tmp/rootfs'')]\<rparr>"

definition with_attr :: "string \<Rightarrow> string \<Rightarrow> resource \<Rightarrow> resource" where
  "with_attr k v r = r\<lparr>res_attributes := bt_insert k v (res_attributes r)\<rparr>"

definition vm_lease :: "string \<Rightarrow> lease" where
  "vm_lease rid = \<lparr>lease_id = 1, lease_resource = rid, lease_owner = ''test''\<rparr>"

definition mock_adapter :: ch_adapter where
  "mock_adapter = with_launcher ''/mock/cloud-hypervisor''"

definition managed_count :: "ch_adapter \<Rightarrow> nat" where
  "managed_count a = length (ch_managed a)"

abbreviation mock_attach where
  "mock_attach a r l w \<equiv> ch_attach mock_launcher a r l w"

subsection \<open>Attaching\<close>

definition adapter_rejects_non_device_kind_resource :: bool where
  "adapter_rejects_non_device_kind_resource =
     unwrap_err (fst (mock_attach mock_adapter ((device_resource ''vm.0'')\<lparr>res_kind := Storage\<rparr>) (vm_lease ''vm.0'')
         (mock_new True)))
       (\<lambda>e. e = IncompatibleResourceKind ''cloud-hypervisor'' Device Storage)"

definition adapter_requires_vmm_attributes :: bool where
  "adapter_requires_vmm_attributes =
     (let r = device_resource ''vm.0''; r = r\<lparr>res_attributes := AList.delete ''vmm.kernel'' (res_attributes r)\<rparr>
      in unwrap_err (fst (mock_attach mock_adapter r (vm_lease ''vm.0'') (mock_new True)))
           (\<lambda>e. e = MissingResourceAttribute ''vmm.kernel''))"

definition attach_rejects_when_binary_is_missing :: bool where
  "attach_rejects_when_binary_is_missing =
     unwrap_err (fst (mock_attach mock_adapter (device_resource ''vm.0'') (vm_lease ''vm.0'') (mock_new False)))
       (\<lambda>e. case e of AdapterBackendUnavailable adapter _ \<Rightarrow> adapter = ''cloud-hypervisor'' | _ \<Rightarrow> False)"

definition capability_report_is_unhealthy_when_binary_missing :: bool where
  "capability_report_is_unhealthy_when_binary_missing =
     (let report = ch_report mock_launcher mock_adapter (mock_new False) in
      rep_name report = ''cloud-hypervisor'' \<and> rep_scope report = ''vmm-runtime''
      \<and> \<not> rep_healthy report \<and> has_key (rep_detail report) ''vmm.binary'')"

definition capability_report_is_healthy_when_binary_present :: bool where
  "capability_report_is_healthy_when_binary_present =
     rep_healthy (ch_report mock_launcher mock_adapter (mock_new True))"

definition attach_launches_vm_on_first_call_and_no_ops_on_repeat :: bool where
  "attach_launches_vm_on_first_call_and_no_ops_on_repeat =
     (let r = device_resource ''vm.0'';
          (out1, a, w) = mock_attach mock_adapter r (vm_lease ''vm.0'') (mock_new True);
          (out2, a, w) = mock_attach a r (vm_lease ''vm.0'') w
      in unwrap_ok out1 (\<lambda>first. unwrap_ok out2 (\<lambda>second.
           length (mk_launches w) = 1 \<and> managed_count a = 1
           \<and> att_adapter first = ''cloud-hypervisor'' \<and> att_adapter second = ''cloud-hypervisor''
           \<and> map_of (att_details first) ''vmm.launched_by_adapter'' = Some ''true''
           \<and> map_of (att_details second) ''vmm.launched_by_adapter'' = Some ''false'')))"

definition attach_no_ops_when_api_socket_already_reports_running :: bool where
  "attach_no_ops_when_api_socket_already_reports_running =
     (let w = mock_set_running ''/tmp/nauti-test-vm.0.sock'' True (mock_new True);
          (out, a, w) = mock_attach mock_adapter (device_resource ''vm.0'') (vm_lease ''vm.0'') w
      in unwrap_ok out (\<lambda>att. mk_launches w = []
           \<and> map_of (att_details att) ''vmm.launched_by_adapter'' = Some ''false''))"

definition reconcile_after_release_issues_exactly_one_remove_per_managed_vm :: bool where
  "reconcile_after_release_issues_exactly_one_remove_per_managed_vm =
     (let (out1, a, w) = mock_attach mock_adapter (device_resource ''vm.0'') (vm_lease ''vm.0'') (mock_new True);
          (out2, a, w) = mock_attach a (device_resource ''vm.1'') (vm_lease ''vm.1'') w;
          (outcomes, a', w') = reconcile mock_launcher a w;
          (second, a'', w'') = reconcile mock_launcher a' w'
      in is_ok out1 \<and> is_ok out2 \<and> managed_count a = 2 \<and> length (mk_launches w) = 2
         \<and> length outcomes = 2 \<and> list_all is_ok outcomes
         \<and> length (mk_removes w') = 2 \<and> managed_count a' = 0 \<and> second = [])"

definition attach_provisions_net_before_launch_and_argv_carries_it :: bool where
  "attach_provisions_net_before_launch_and_argv_carries_it =
     (let r = with_attr ''vmm.net'' ''tap=nauti0,mac=52:54:00:12:34:56'' (device_resource ''vm.net0'');
          (out, a, w) = mock_attach mock_adapter r (vm_lease ''vm.net0'') (mock_new True)
      in is_ok out \<and> mk_net_calls w = [''tap=nauti0,mac=52:54:00:12:34:56'']
         \<and> contains (join '' '' (snd (hd (mk_launches w)))) ''--net tap=nauti0,mac=52:54:00:12:34:56'')"

definition attach_fails_synchronously_when_net_provisioning_fails :: bool where
  "attach_fails_synchronously_when_net_provisioning_fails =
     (let r = with_attr ''vmm.net'' ''tap=missing0'' (device_resource ''vm.net1'');
          (out, a, w) = mock_attach mock_adapter r (vm_lease ''vm.net1'') ((mock_new True)\<lparr>mk_net_fail := True\<rparr>)
      in unwrap_err out (\<lambda>e. case e of
           AdapterBackendUnavailable adapter reason \<Rightarrow> adapter = ''cloud-hypervisor'' \<and> contains reason ''br-fabric missing''
         | _ \<Rightarrow> False)
         \<and> mk_launches w = [])"

subsection \<open>The command line\<close>

text \<open>Every one of these tests joins the arguments and looks for pieces of the line.\<close>

definition joined_argv :: "resource \<Rightarrow> (string \<Rightarrow> bool) \<Rightarrow> bool" where
  "joined_argv r check = unwrap_ok (build_argv r) (\<lambda>argv. check (join '' '' argv))"

definition build_argv_carries_required_flags_and_overrides :: bool where
  "build_argv_carries_required_flags_and_overrides =
     joined_argv
       (with_attr ''vmm.virtio_blk'' ''/tmp/extra.raw'' (with_attr ''vmm.memory_mib'' ''2048''
         (with_attr ''vmm.vcpus'' ''4'' (device_resource ''vm.0''))))
       (\<lambda>joined. contains joined ''--api-socket path=/tmp/nauti-test-vm.0.sock''
          \<and> contains joined ''--cpus boot=4'' \<and> contains joined ''--memory size=2048M''
          \<and> contains joined ''--kernel /tmp/kernel'' \<and> contains joined ''--disk path=/tmp/rootfs''
          \<and> contains joined ''--disk path=/tmp/extra.raw''
          \<and> \<not> contains joined ''--name'' \<and> \<not> contains joined ''--boot'')"

definition build_argv_emits_one_device_flag_per_vfio_path :: bool where
  "build_argv_emits_one_device_flag_per_vfio_path =
     joined_argv
       (with_attr ''vmm.device'' ''/sys/bus/pci/devices/0000:d8:00.0, /sys/bus/pci/devices/0000:d8:00.1''
         (device_resource ''vm.gpu0''))
       (\<lambda>joined. contains joined ''--device path=/sys/bus/pci/devices/0000:d8:00.0''
          \<and> contains joined ''--device path=/sys/bus/pci/devices/0000:d8:00.1'')"

definition build_argv_emits_generic_vhost_user_for_vhost_user_socket :: bool where
  "build_argv_emits_generic_vhost_user_for_vhost_user_socket =
     joined_argv (with_attr ''vmm.user_device'' ''/tmp/nauti-vhu-rng.sock'' (device_resource ''vm.vhu0''))
       (\<lambda>joined. contains joined ''--generic-vhost-user'' \<and> contains joined ''device_type=rng''
          \<and> contains joined ''socket=/tmp/nauti-vhu-rng.sock'' \<and> contains joined ''queue_sizes=1024'')"

definition build_argv_emits_custom_vhost_user_params :: bool where
  "build_argv_emits_custom_vhost_user_params =
     joined_argv
       (with_attr ''vmm.user_device_queue_sizes'' ''2048'' (with_attr ''vmm.user_device_type'' ''4''
         (with_attr ''vmm.user_device'' ''/tmp/custom.sock'' (device_resource ''vm.vhu1''))))
       (\<lambda>joined. contains joined ''--generic-vhost-user'' \<and> contains joined ''device_type=4''
          \<and> contains joined ''socket=/tmp/custom.sock'' \<and> contains joined ''queue_sizes=2048'')"

definition build_argv_emits_fs_and_forces_shared_memory :: bool where
  "build_argv_emits_fs_and_forces_shared_memory =
     joined_argv (with_attr ''vmm.fs'' ''tag=nauti,socket=/tmp/virtiofs.sock'' (device_resource ''vm.fs0''))
       (\<lambda>joined. contains joined ''--fs tag=nauti,socket=/tmp/virtiofs.sock''
          \<and> contains joined ''--memory size=512M,shared=on''
          \<and> contains joined ''--rng src=/dev/urandom,id=ch-builtin-rng'')"

definition build_argv_emits_vsock_and_forces_shared_memory :: bool where
  "build_argv_emits_vsock_and_forces_shared_memory =
     joined_argv (with_attr ''vmm.vsock'' ''cid=3,socket=/tmp/nauti-vsock.sock'' (device_resource ''vm.vs0''))
       (\<lambda>joined. contains joined ''--vsock cid=3,socket=/tmp/nauti-vsock.sock''
          \<and> contains joined ''--memory size=512M,shared=on'')"

definition build_argv_watchdog_and_plain_memory_without_shared :: bool where
  "build_argv_watchdog_and_plain_memory_without_shared =
     joined_argv (with_attr ''vmm.watchdog'' ''on'' (device_resource ''vm.wd0''))
       (\<lambda>joined. contains joined ''--watchdog'' \<and> contains joined ''--memory size=512M''
          \<and> \<not> contains joined ''shared=on'')"

subsection \<open>They pass\<close>

lemmas fixture_steps = device_resource_def with_attr_def bt_from_def has_key_def

lemmas argv_steps = joined_argv_def build_argv_def require_attr_def needs_shared_def flag_on_def opt_arg_def
  device_args_def user_device_args_def trim_def trim_matches_def trim_end_matches_def is_ws_def Let_def

text \<open>The pieces a test looks for are words, or flags with their value, of the list of arguments.\<close>

lemmas argv_pieces = joined_word starts_with_def
  joined_pair [of "''--api-socket''" "''path=/tmp/nauti-test-vm.0.sock''" _ "'' ''", simplified]
  joined_pair [of "''--cpus''" "''boot=4''" _ "'' ''", simplified]
  joined_pair [of "''--memory''" "''size=2048M''" _ "'' ''", simplified]
  joined_pair [of "''--memory''" "''size=512M''" _ "'' ''", simplified]
  joined_pair [of "''--memory''" "''size=512M,shared=on''" _ "'' ''", simplified]
  joined_pair [of "''--kernel''" "''/tmp/kernel''" _ "'' ''", simplified]
  joined_pair [of "''--disk''" "''path=/tmp/rootfs''" _ "'' ''", simplified]
  joined_pair [of "''--disk''" "''path=/tmp/extra.raw''" _ "'' ''", simplified]
  joined_pair [of "''--device''" "''path=/sys/bus/pci/devices/0000:d8:00.0''" _ "'' ''", simplified]
  joined_pair [of "''--device''" "''path=/sys/bus/pci/devices/0000:d8:00.1''" _ "'' ''", simplified]
  joined_pair [of "''--fs''" "''tag=nauti,socket=/tmp/virtiofs.sock''" _ "'' ''", simplified]
  joined_pair [of "''--vsock''" "''cid=3,socket=/tmp/nauti-vsock.sock''" _ "'' ''", simplified]
  joined_pair [of "''--rng''" "''src=/dev/urandom,id=ch-builtin-rng''" _ "'' ''", simplified]
  joined_pair [of "''--net''" "''tap=nauti0,mac=52:54:00:12:34:56''" _ "'' ''", simplified]

lemma argv_tests_pass:
  "build_argv_carries_required_flags_and_overrides" "build_argv_emits_one_device_flag_per_vfio_path"
  "build_argv_emits_generic_vhost_user_for_vhost_user_socket" "build_argv_emits_custom_vhost_user_params"
  "build_argv_emits_fs_and_forces_shared_memory" "build_argv_emits_vsock_and_forces_shared_memory"
  "build_argv_watchdog_and_plain_memory_without_shared"
  by (simp_all add: build_argv_carries_required_flags_and_overrides_def build_argv_emits_one_device_flag_per_vfio_path_def
      build_argv_emits_generic_vhost_user_for_vhost_user_socket_def build_argv_emits_custom_vhost_user_params_def
      build_argv_emits_fs_and_forces_shared_memory_def build_argv_emits_vsock_and_forces_shared_memory_def
      build_argv_watchdog_and_plain_memory_without_shared_def fixture_steps argv_steps argv_pieces test_simps
      del: join.simps)

text \<open>What an attach over the mock does when the machine is not managed yet.\<close>

lemma mock_first_attach:
  assumes "res_kind r = Device" "map_of (res_attributes r) ''vmm.api_socket'' = Some s" "build_argv r = Inr argv"
    and "mk_binary_present w" "\<not> already_managed r a" "map_of (mk_running w) s \<noteq> Some True"
    and "\<not> has_key (res_attributes r) ''vmm.net''" "find_prefixed ''socket='' argv = None"
  shows "mock_attach a r l w =
     (Inr (ch_attached r l ''/mock/cloud-hypervisor'' s False), record_managed r s (ch_vm_name r) a,
      w\<lparr>mk_launches := mk_launches w @ [(''/mock/cloud-hypervisor'', argv)]\<rparr>)"
  using assms by (cases "map_of (mk_running w) s")
    (auto simp: ch_attach_def ch_launch_def mock_launcher_def mock_locate_binary_def mock_vm_is_running_def
      mock_launch_vm_def require_attr_def)

definition base_argv :: "string \<Rightarrow> string list" where
  "base_argv rid = [''--api-socket'', ''path=/tmp/nauti-test-'' @ rid @ ''.sock'', ''--cpus'', ''boot=1'', ''--memory'',
     ''size=512M'', ''--kernel'', ''/tmp/kernel'', ''--disk'', ''path=/tmp/rootfs'', ''--serial'', ''tty'',
     ''--console'', ''off'', ''--rng'', ''src=/dev/urandom,id=ch-builtin-rng'']"

lemma device_resource_facts:
  "res_kind (device_resource rid) = Device" "res_id (device_resource rid) = rid"
  "map_of (res_attributes (device_resource rid)) ''vmm.api_socket'' = Some (''/tmp/nauti-test-'' @ rid @ ''.sock'')"
  "build_argv (device_resource rid) = Inr (base_argv rid)" "find_prefixed ''socket='' (base_argv rid) = None"
  "\<not> has_key (res_attributes (device_resource rid)) ''vmm.net''" "ch_vm_name (device_resource rid) = rid"
  by (simp_all add: fixture_steps argv_steps base_argv_def ch_vm_name_def strip_prefix_def starts_with_def)

lemmas mock_steps = mock_new_def mock_set_running_def mock_provision_def mock_locate_binary_def mock_launch_vm_def
  mock_remove_vm_def mock_vm_is_running_def mock_launcher_def vm_lease_def mock_adapter_def managed_count_def
  with_launcher_def

lemmas ch_steps = ch_attach_def ch_launch_def ch_attached_def ch_unavailable_def already_managed_def
  record_managed_def require_attr_def detail_map_def ch_report_def reconcile_def show_bool_def

lemma attach_tests_pass:
  "adapter_rejects_non_device_kind_resource" "adapter_requires_vmm_attributes" "attach_rejects_when_binary_is_missing"
  "capability_report_is_unhealthy_when_binary_missing" "capability_report_is_healthy_when_binary_present"
  "attach_no_ops_when_api_socket_already_reports_running" "attach_fails_synchronously_when_net_provisioning_fails"
  by (simp_all add: adapter_rejects_non_device_kind_resource_def adapter_requires_vmm_attributes_def
      attach_rejects_when_binary_is_missing_def capability_report_is_unhealthy_when_binary_missing_def
      capability_report_is_healthy_when_binary_present_def attach_no_ops_when_api_socket_already_reports_running_def
      attach_fails_synchronously_when_net_provisioning_fails_def
      fixture_steps mock_steps ch_steps ch_vm_name_def build_argv_def test_simps starts_with_def Let_def)

lemma mock_repeated_attach:
  assumes "res_kind r = Device" "map_of (res_attributes r) ''vmm.api_socket'' = Some s"
    and "mk_binary_present w" "already_managed r a"
  shows "mock_attach a r l w = (Inr (ch_attached r l ''/mock/cloud-hypervisor'' s True), a, w)"
  using assms by (simp add: ch_attach_def mock_launcher_def mock_locate_binary_def require_attr_def)

lemmas run_steps = mock_first_attach mock_repeated_attach device_resource_facts mock_new_def mock_adapter_def
  with_launcher_def already_managed_def record_managed_def managed_count_def ch_attached_def detail_map_def
  show_bool_def lookup_simps test_simps Let_def

lemma repeat_test_passes: "attach_launches_vm_on_first_call_and_no_ops_on_repeat"
  by (simp add: attach_launches_vm_on_first_call_and_no_ops_on_repeat_def run_steps)

lemma mock_removes: "ln_remove_vm mock_launcher = mock_remove_vm"
  by (simp add: mock_launcher_def)

lemma reconcile_test_passes: "reconcile_after_release_issues_exactly_one_remove_per_managed_vm"
  by (simp add: reconcile_after_release_issues_exactly_one_remove_per_managed_vm_def run_steps
      reconcile_def mock_removes mock_remove_vm_def mock_set_running_def)

lemma net_test_passes: "attach_provisions_net_before_launch_and_argv_carries_it"
  by (simp add: attach_provisions_net_before_launch_and_argv_carries_it_def ch_attach_def ch_launch_def mock_launcher_def
      mock_locate_binary_def mock_vm_is_running_def mock_provision_def mock_launch_vm_def find_prefixed.simps strip_prefix_def
      fixture_steps argv_steps argv_pieces mock_new_def mock_adapter_def with_launcher_def already_managed_def test_simps
      del: join.simps)

text \<open>
  The mock looks for an argument \<open>socket=<path>\<close>, while the command line names the API socket as
  \<open>path=<path>\<close>: the mock never learns the socket of the machine it launched, and the second attach of
  the test is refused a launch by the map of managed machines alone.
\<close>

lemma mock_misses_the_socket:
  "fst (mock_vm_is_running ''/tmp/nauti-test-vm.0.sock''
     (snd (snd (mock_attach mock_adapter (device_resource ''vm.0'') (vm_lease ''vm.0'') (mock_new True))))) = False"
  by (simp add: mock_first_attach device_resource_facts mock_new_def mock_adapter_def with_launcher_def
      already_managed_def mock_vm_is_running_def)

end
