(* ===== verification/Vfio_Tests.thy ===== *)
theory Vfio_Tests
  imports Vfio Unit_Tests
begin

text \<open>
  The test module of \<open>vmm/vfio.rs\<close>. The host is an argument: the tests that look at the machine they
  run on are shown to pass on every machine, those that need a device or its absence on every machine
  that has it or lacks it.
\<close>

subsection \<open>Fixtures\<close>

text \<open>The mock answers with the injected result once, then with the path of the group; no test opens
  twice.\<close>

definition mock_open_passthrough :: "(string + string) option \<Rightarrow> string \<Rightarrow> u32 \<Rightarrow> host \<Rightarrow> string + string" where
  "mock_open_passthrough next_result bdf g h = unwrap_or next_result (Inr (''/dev/vfio/'' @ show_word g))"

definition vfio_gpu_resource :: "string \<Rightarrow> resource" where
  "vfio_gpu_resource bdf =
     \<lparr>res_id = ''local.gpu.'' @ bdf, res_kind = Gpu, res_capacity = 1, res_unit = ''device'', res_node = ''test-node'',
      res_state = Available, res_exclusive = True,
      res_attributes = bt_insert ''gpu.pci_bus_id'' bdf
        (bt_insert ''gpu.uuid'' ''GPU-test-uuid'' (bt_insert ''gpu.name'' ''Test GPU'' []))\<rparr>"

definition vfio_lease :: "u64 \<Rightarrow> lease" where
  "vfio_lease n = \<lparr>lease_id = n, lease_resource = ''local.gpu.x'', lease_owner = ''test''\<rparr>"

text \<open>A device directory that holds nothing but a class and a vendor file.\<close>

definition fake_device :: "string \<Rightarrow> string \<Rightarrow> string \<Rightarrow> host \<Rightarrow> host" where
  "fake_device dir cls vendor h =
     h\<lparr>h_file := (h_file h)(path_join dir ''class'' \<mapsto> cls @ [CHR 0x0A], path_join dir ''vendor'' \<mapsto> vendor @ [CHR 0x0A]),
       h_link := (\<lambda>p. if starts_with p (dir @ ''/'') then None else h_link h p)\<rparr>"

subsection \<open>Tests\<close>

definition is_gpu_reads_sysfs_hex_class :: "string \<Rightarrow> host \<Rightarrow> bool" where
  "is_gpu_reads_sysfs_hex_class dir h =
     (is_gpu (fake_device dir ''0x030000'' ''0x10de'' h) dir
      \<and> is_gpu (fake_device dir ''0x030200'' ''0x10de'' h) dir
      \<and> \<not> is_gpu (fake_device dir ''0x020000'' ''0x8086'' h) dir)"

definition classify_reports_missing_iommu_before_binding :: "string \<Rightarrow> host \<Rightarrow> bool" where
  "classify_reports_missing_iommu_before_binding dir h =
     ((case classify_gpu (fake_device dir ''0x030000'' ''0x10de'' h) dir ''0000:03:00.0'' of VNoIommu _ \<Rightarrow> True | _ \<Rightarrow> False)
      \<and> (case classify_gpu (fake_device dir ''0x030000'' ''0xffff'' h) dir ''0000:04:00.0'' of
           VNotPresent _ \<Rightarrow> True | _ \<Rightarrow> False))"

definition normalize_bdf_accepts_nvml_and_short_forms :: bool where
  "normalize_bdf_accepts_nvml_and_short_forms =
     (vfio_normalize_bdf ''00000000:03:00.0'' = ''0000:03:00.0''
      \<and> vfio_normalize_bdf ''0000:3B:00.0'' = ''0000:3b:00.0''
      \<and> vfio_normalize_bdf ''03:00.0'' = ''0000:03:00.0'')"

definition attach_accepts_pci_bdf_attribute :: "host \<Rightarrow> bool" where
  "attach_accepts_pci_bdf_attribute h =
     (let r = vfio_gpu_resource ''ffff:ff:1f.7'';
          r = r\<lparr>res_attributes := bt_insert ''gpu.pci_bdf'' ''ffff:ff:1f.7''
                  (AList.delete ''gpu.pci_bus_id'' (res_attributes r))\<rparr>
      in unwrap_err (vfio_attach (mock_open_passthrough None) r (vfio_lease 1) h)
           (\<lambda>e. case e of AdapterBackendUnavailable _ _ \<Rightarrow> True | _ \<Rightarrow> False))"

definition vfio_attach_rejects_non_gpu_resource :: "host \<Rightarrow> bool" where
  "vfio_attach_rejects_non_gpu_resource h =
     unwrap_err (vfio_attach (mock_open_passthrough None)
         ((vfio_gpu_resource ''0000:01:00.0'')\<lparr>res_kind := Storage\<rparr>) (vfio_lease 1) h)
       (\<lambda>e. e = IncompatibleResourceKind ''gpu-vfio'' Gpu Storage)"

definition attach_rejects_resource_without_pci_bus_id :: "host \<Rightarrow> bool" where
  "attach_rejects_resource_without_pci_bus_id h =
     (let r = vfio_gpu_resource ''0000:01:00.0'';
          r = r\<lparr>res_attributes := AList.delete ''gpu.pci_bus_id'' (res_attributes r)\<rparr>
      in unwrap_err (vfio_attach (mock_open_passthrough None) r (vfio_lease 1) h)
           (\<lambda>e. case e of MissingResourceAttribute _ \<Rightarrow> True | _ \<Rightarrow> False))"

definition attach_returns_unavailable_when_device_not_present :: "host \<Rightarrow> bool" where
  "attach_returns_unavailable_when_device_not_present h =
     unwrap_err (vfio_attach (mock_open_passthrough None) (vfio_gpu_resource ''ffff:ff:1f.7'') (vfio_lease 1) h)
       (\<lambda>e. case e of
          AdapterBackendUnavailable name reason \<Rightarrow>
            name = ''gpu-vfio'' \<and> (contains reason ''ffff:ff:1f.7'' \<or> contains reason ''hot-removed'')
        | _ \<Rightarrow> False)"

definition discover_on_this_host_runs_without_panic :: "host \<Rightarrow> bool" where
  "discover_on_this_host_runs_without_panic h =
     (let discovery = discover_vfio_state h; report = vfio_report h in
      length (vd_gpus discovery) \<le> vd_total_pci_devices discovery
      \<and> rep_name report = ''gpu-vfio'' \<and> rep_scope report = ''gpu-vfio-passthrough''
      \<and> has_key (rep_detail report) ''vfio.devices_available'')"

definition launcher_open_failure_surfaces_as_backend_unavailable :: "host \<Rightarrow> bool" where
  "launcher_open_failure_surfaces_as_backend_unavailable h =
     (case find is_available (vd_gpus (discover_vfio_state h)) of
        None \<Rightarrow> True
      | Some state \<Rightarrow>
          unwrap_err (vfio_attach (mock_open_passthrough (Some (Inl ''permission denied'')))
              (vfio_gpu_resource (vs_bdf state)) (vfio_lease 1) h)
            (\<lambda>e. case e of AdapterBackendUnavailable _ reason \<Rightarrow> contains reason ''permission denied'' | _ \<Rightarrow> False))"

subsection \<open>They pass\<close>

lemma path_join_inj: "path_join dir ''class'' \<noteq> path_join dir ''vendor''"
  by (auto simp: path_join_def starts_with_def)

lemma hex_digits:
  "parse_digits 16 0 ''030000'' = Some 0x030000" "parse_digits 16 0 ''030200'' = Some 0x030200"
  "parse_digits 16 0 ''020000'' = Some 0x020000" "parse_digits 16 0 ''10de'' = Some 0x10de"
  "parse_digits 16 0 ''ffff'' = Some 0xffff"
  by (simp_all add: digit_val_def)

lemma trimmed_prefixed:
  "trim ''0x030000'' = ''0x030000''" "trim ''0x030200'' = ''0x030200''"
  "trim ''0x020000'' = ''0x020000''" "trim ''0x10de'' = ''0x10de''"
  "trim ''0xffff'' = ''0xffff''"
  by (simp_all add: trim_def trim_matches_def trim_end_matches_def is_ws_def)

lemma hex_prefixed:
  "parse_digits 16 0 s = Some n \<Longrightarrow> n < 2 ^ 32 \<Longrightarrow> s \<noteq> [] \<Longrightarrow> hd s \<noteq> CHR ''+'' \<Longrightarrow> trim (''0x'' @ s) = ''0x'' @ s \<Longrightarrow>
   parse_hex (''0x'' @ s) = Some (of_nat n)"
  by (simp add: parse_hex_def from_str_radix_digits Let_def strip_prefix_def starts_with_def)

lemma vendor_and_class:
  "parse_hex ''0x030000'' = Some 0x030000" "parse_hex ''0x030200'' = Some 0x030200" "parse_hex ''0x020000'' = Some 0x020000"
  "parse_hex ''0x10de'' = Some 0x10de" "parse_hex ''0xffff'' = Some 0xffff"
  using hex_digits [THEN hex_prefixed] trimmed_prefixed by simp_all

lemma fake_device_reads:
  "h_file (fake_device dir cls vendor h) (path_join dir ''class'') = Some (cls @ [CHR 0x0A])"
  "h_file (fake_device dir cls vendor h) (path_join dir ''vendor'') = Some (vendor @ [CHR 0x0A])"
  using path_join_inj by (simp_all add: fake_device_def)

lemma trimmed_lines:
  "trim (''0x030000'' @ [CHR 0x0A]) = ''0x030000''" "trim (''0x030200'' @ [CHR 0x0A]) = ''0x030200''"
  "trim (''0x020000'' @ [CHR 0x0A]) = ''0x020000''" "trim (''0x10de'' @ [CHR 0x0A]) = ''0x10de''"
  "trim (''0xffff'' @ [CHR 0x0A]) = ''0xffff''"
  by (simp_all add: trim_def trim_matches_def trim_end_matches_def is_ws_def)

lemma class_test_passes: "is_gpu_reads_sysfs_hex_class dir h"
  by (simp add: is_gpu_reads_sysfs_hex_class_def is_gpu_def read_first_line_def fake_device_reads
      trimmed_lines [unfolded append.simps] vendor_and_class)

lemma classify_test_passes:
  assumes "dir \<noteq> []" "last dir \<noteq> CHR ''/''"
  shows "classify_reports_missing_iommu_before_binding dir h"
proof -
  have "h_link (fake_device dir cls vendor h) (path_join dir ''iommu_group'') = None" for cls vendor
    using assms starts_with_append [of "dir @ ''/''" "''iommu_group''"]
    by (simp add: fake_device_def path_join_def starts_with_def)
  then show ?thesis
    by (simp add: classify_reports_missing_iommu_before_binding_def classify_gpu_def read_first_line_def
        fake_device_reads trimmed_lines [unfolded append.simps] vendor_and_class iommu_group_of_def)
qed

lemma bdf_test_passes: "normalize_bdf_accepts_nvml_and_short_forms"
proof -
  have "trim ''00000000:03:00.0'' = ''00000000:03:00.0''" "trim ''0000:3B:00.0'' = ''0000:3B:00.0''" "trim ''03:00.0'' = ''03:00.0''"
    by (simp_all add: trim_def trim_matches_def trim_end_matches_def is_ws_def)
  moreover have "to_lower ''00000000:03:00.0'' = ''00000000:03:00.0''" "to_lower ''0000:3B:00.0'' = ''0000:3b:00.0''" "to_lower ''03:00.0'' = ''03:00.0''"
    by code_simp+
  moreover have "show_hex_padded 4 0 = ''0000''" by code_simp
  moreover have "from_str_radix 4294967296 16 ''00000000'' = Some 0" "from_str_radix 4294967296 16 ''0000'' = Some 0"
    by (simp_all add: from_str_radix_digits digit_val_def)
  ultimately show ?thesis
    by (simp add: normalize_bdf_accepts_nvml_and_short_forms_def vfio_normalize_bdf_def Let_def)
qed
lemma refusing_tests_pass:
  "vfio_attach_rejects_non_gpu_resource h" "attach_rejects_resource_without_pci_bus_id h"
  by (simp_all add: vfio_attach_rejects_non_gpu_resource_def attach_rejects_resource_without_pci_bus_id_def
      vfio_gpu_resource_def vfio_attach_def requested_bdf_def test_simps)

lemma discovery_test_passes: "discover_on_this_host_runs_without_panic h"
proof -
  have "length (vd_gpus (discover_vfio_state h)) \<le> vd_total_pci_devices (discover_vfio_state h)"
    by (simp add: vd_gpus_discover discover_vfio_state_def discover_fold)
  then show ?thesis
    by (simp add: discover_on_this_host_runs_without_panic_def vfio_report_def has_key_def lookup_simps Let_def)
qed

lemma absent_device_tests_pass:
  assumes "''ffff:ff:1f.7'' \<notin> set (read_names h pci_devices)"
  shows "attach_accepts_pci_bdf_attribute h" "attach_returns_unavailable_when_device_not_present h"
proof -
  have "trim ''ffff:ff:1f.7'' = ''ffff:ff:1f.7''"
    by (simp add: trim_def trim_matches_def trim_end_matches_def is_ws_def)
  moreover have "to_lower ''ffff:ff:1f.7'' = ''ffff:ff:1f.7''"
    by code_simp
  moreover have "digit_char 15 = CHR ''f''"
    by code_simp
  then have "show_hex_padded 4 0xffff = ''ffff''"
    by (simp add: show_hex_padded_def show_radix.simps)
  moreover have "from_str_radix 4294967296 16 ''ffff'' = Some 0xffff"
    using hex_digits by (simp add: from_str_radix_digits)
  ultimately have bdf: "vfio_normalize_bdf ''ffff:ff:1f.7'' = ''ffff:ff:1f.7''"
    by (simp add: vfio_normalize_bdf_def Let_def)
  show "attach_accepts_pci_bdf_attribute h" "attach_returns_unavailable_when_device_not_present h"
    using assms
    by (simp_all add: attach_accepts_pci_bdf_attribute_def attach_returns_unavailable_when_device_not_present_def
        vfio_gpu_resource_def vfio_attach_def requested_bdf_def bdf current_state_eq vfio_unavailable_def
        contains_appendI starts_with_def test_simps)
qed

lemma open_failure_test_passes:
  assumes "\<And>bdf. bdf \<in> set (read_names h pci_devices) \<Longrightarrow> vfio_normalize_bdf bdf = bdf"
  shows "launcher_open_failure_surfaces_as_backend_unavailable h"
proof (cases "find is_available (vd_gpus (discover_vfio_state h))")
  case None
  then show ?thesis
    by (simp add: launcher_open_failure_surfaces_as_backend_unavailable_def)
next
  case (Some state)
  then have "is_available state" "state \<in> set (vd_gpus (discover_vfio_state h))"
    by (auto simp: find_Some_iff)
  then obtain b where b: "b \<in> set (read_names h pci_devices)" "is_gpu h (path_join pci_devices b)"
      "state = classify_gpu h (path_join pci_devices b) b"
    by (auto simp: vd_gpus_discover)
  obtain b' g path where state: "state = VAvailable b' g path"
    using \<open>is_available state\<close> by (cases state) auto
  moreover have "b' = b"
    using state b(3) vs_bdf_classify [of h "path_join pci_devices b" b] by simp
  ultimately have "current_state h b = VAvailable b g path"
    using b by (simp add: current_state_eq)
  moreover have "requested_bdf (vfio_gpu_resource b) = Some b"
    using assms [OF b(1)] by (simp add: requested_bdf_def vfio_gpu_resource_def)
  ultimately show ?thesis
    using Some state \<open>b' = b\<close>
    by (simp add: launcher_open_failure_surfaces_as_backend_unavailable_def vfio_attach_def
        mock_open_passthrough_def vfio_unavailable_def test_simps starts_with_def vfio_gpu_resource_def)
qed

end
