(* ===== verification/Rpc_Tests.thy ===== *)
theory Rpc_Tests
  imports Config Peer Unit_Tests
begin

text \<open>
  The unit tests of the authorization layer, of the agent configuration and of the peer envelope
  (\<open>rpc_auth.rs\<close>, \<open>config.rs\<close> and \<open>peer.rs\<close>), with the \<open>Display\<close> of an \<open>AuthError\<close>,
  which only the tests look at. What \<open>serde\<close> makes of a \<open>PeerResult\<close> is an argument.
\<close>

subsection \<open>The providers\<close>

definition auth_ctx :: request_context where
  "auth_ctx = \<lparr>rc_remote_endpoint_id = ''remote-peer'', rc_local_endpoint_id = ''local-agent''\<rparr>"

definition auth_lease_request :: "u64 \<Rightarrow> rpc_request" where
  "auth_lease_request ttl_secs = LeaseExclusive ''gpu.0'' ''test'' ttl_secs"

fun auth_rejection_debug :: "auth_rejection \<Rightarrow> string" where
  "auth_rejection_debug (PolicyViolation reason) = ''PolicyViolation { reason: '' @ str_debug reason @ '' }''"
| "auth_rejection_debug (NotConfigured adapter hint) =
     ''NotConfigured { adapter: '' @ str_debug adapter @ '', hint: '' @ str_debug hint @ '' }''"
| "auth_rejection_debug (InvalidCredential reason) = ''InvalidCredential { reason: '' @ str_debug reason @ '' }''"

definition auth_error_display :: "auth_rejection \<Rightarrow> string" where
  "auth_error_display e = ''auth rejected: '' @ auth_rejection_debug e"

definition no_auth_accepts_every_request :: bool where
  "no_auth_accepts_every_request =
     (auth_name NoAuth = ''none''
      \<and> unwrap_ok (authorize NoAuth auth_ctx Ping) (\<lambda>_.
        unwrap_ok (authorize NoAuth auth_ctx (auth_lease_request 0)) (\<lambda>_.
        unwrap_ok (authorize NoAuth auth_ctx (auth_lease_request (- 1))) (\<lambda>_. True))))"

definition auth_error_displays_usefully :: bool where
  "auth_error_displays_usefully =
     (let err = PolicyViolation ''ttl too long''; rendered = auth_rejection_display err
      in auth_error_display err = ''auth rejected: PolicyViolation { reason: '' @ [CHR 0x22] @ ''ttl too long'' @ [CHR 0x22] @ '' }''
         \<and> contains rendered ''policy violation'' \<and> contains rendered ''ttl too long'')"

definition auth_rejection_distinguishes_not_configured_from_invalid_credential :: bool where
  "auth_rejection_distinguishes_not_configured_from_invalid_credential =
     (let not_cfg = NotConfigured ''oauth2-bearer'' ''set jwks_url''; invalid = InvalidCredential ''expired''
      in (case not_cfg of NotConfigured _ _ \<Rightarrow> True | _ \<Rightarrow> False)
         \<and> (case invalid of InvalidCredential _ \<Rightarrow> True | _ \<Rightarrow> False))"

definition is_policy_violation :: "auth_rejection \<Rightarrow> bool" where
  "is_policy_violation e = (case e of PolicyViolation _ \<Rightarrow> True | _ \<Rightarrow> False)"

definition ttl_bound_default_rejects_zero_and_huge :: bool where
  "ttl_bound_default_rejects_zero_and_huge =
     (auth_name default_ttl_bound = ''ttl-bound''
      \<and> unwrap_err (authorize default_ttl_bound auth_ctx (auth_lease_request 0)) (\<lambda>err.
        is_policy_violation err
        \<and> unwrap_err (authorize default_ttl_bound auth_ctx (auth_lease_request (24 * 60 * 60))) is_policy_violation))"

definition ttl_bound_default_accepts_a_normal_request :: bool where
  "ttl_bound_default_accepts_a_normal_request =
     unwrap_ok (authorize default_ttl_bound auth_ctx (auth_lease_request 60)) (\<lambda>_.
     unwrap_ok (authorize default_ttl_bound auth_ctx (auth_lease_request 1)) (\<lambda>_.
     unwrap_ok (authorize default_ttl_bound auth_ctx (auth_lease_request 3600)) (\<lambda>_. True)))"

definition ttl_bound_ignores_non_lease_requests :: bool where
  "ttl_bound_ignores_non_lease_requests =
     (let auth = TtlBound (from_secs 60) (from_secs 60) in
      unwrap_ok (authorize auth auth_ctx Ping) (\<lambda>_.
      unwrap_ok (authorize auth auth_ctx ReqInventory) (\<lambda>_.
      unwrap_ok (authorize auth auth_ctx (Release \<lparr>lease_id = 1, lease_resource = ''x'', lease_owner = ''y''\<rparr>))
        (\<lambda>_. True))))"

definition ttl_bound_configured_window_is_respected :: bool where
  "ttl_bound_configured_window_is_respected =
     (let auth = TtlBound (from_secs 5) (from_secs 30) in
      isl (authorize auth auth_ctx (auth_lease_request 4))
      \<and> unwrap_ok (authorize auth auth_ctx (auth_lease_request 5)) (\<lambda>_.
        unwrap_ok (authorize auth auth_ctx (auth_lease_request 30)) (\<lambda>_.
        isl (authorize auth auth_ctx (auth_lease_request 31)))))"

definition oauth_stub_rejects_every_request_when_not_configured :: bool where
  "oauth_stub_rejects_every_request_when_not_configured =
     (let auth = OAuth2Bearer None None in
      auth_name auth = ''oauth2-bearer''
      \<and> unwrap_err (authorize auth auth_ctx Ping) (\<lambda>err. case err of
          NotConfigured adapter hint \<Rightarrow> adapter = ''oauth2-bearer'' \<and> contains hint ''jwks_url''
        | _ \<Rightarrow> False))"

definition oauth_stub_with_partial_config_still_rejects :: bool where
  "oauth_stub_with_partial_config_still_rejects =
     (let auth = OAuth2Bearer (Some ''https://example.invalid/.well-known/jwks.json'') None in
      unwrap_err (authorize auth auth_ctx Ping) (\<lambda>err. case err of
          NotConfigured _ hint \<Rightarrow> contains hint ''audience''
        | _ \<Rightarrow> False))"

definition shared_secret_stub_rejects_every_request_when_token_missing :: bool where
  "shared_secret_stub_rejects_every_request_when_token_missing =
     (let auth = SharedSecret None in
      auth_name auth = ''shared-secret''
      \<and> unwrap_err (authorize auth auth_ctx Ping) (\<lambda>err. case err of
          NotConfigured adapter hint \<Rightarrow> adapter = ''shared-secret'' \<and> contains hint ''file''
        | _ \<Rightarrow> False))"

definition shared_secret_stub_with_token_set_still_rejects_as_unimplemented :: bool where
  "shared_secret_stub_with_token_set_still_rejects_as_unimplemented =
     (let auth = SharedSecret (Some ''hunter2'') in
      unwrap_err (authorize auth auth_ctx Ping) (\<lambda>err. case err of
          NotConfigured _ hint \<Rightarrow> contains hint ''not yet implemented'' \<or> contains hint ''RpcRequest''
        | _ \<Rightarrow> False))"

lemma provider_tests_pass:
  no_auth_accepts_every_request auth_error_displays_usefully
  auth_rejection_distinguishes_not_configured_from_invalid_credential
  by (simp add: no_auth_accepts_every_request_def test_simps) (code_simp, code_simp)

lemma ttl_bound_tests_pass:
  ttl_bound_default_rejects_zero_and_huge ttl_bound_default_accepts_a_normal_request
  ttl_bound_ignores_non_lease_requests ttl_bound_configured_window_is_respected
  by (simp_all add: ttl_bound_default_rejects_zero_and_huge_def ttl_bound_default_accepts_a_normal_request_def
      ttl_bound_ignores_non_lease_requests_def ttl_bound_configured_window_is_respected_def default_ttl_bound_def
      auth_lease_request_def is_policy_violation_def from_secs_def nanos_per_sec_def Let_def test_simps)

lemma stub_tests_pass:
  oauth_stub_rejects_every_request_when_not_configured oauth_stub_with_partial_config_still_rejects
  shared_secret_stub_rejects_every_request_when_token_missing
  shared_secret_stub_with_token_set_still_rejects_as_unimplemented
  by code_simp+

subsection \<open>The configuration\<close>

text \<open>\<open>NamedTempFile\<close>: a path of the host that holds what was written to it.\<close>

definition host_with_file :: "string \<Rightarrow> string \<Rightarrow> host" where
  "host_with_file path txt = bare_host\<lparr>h_file := [path \<mapsto> txt], h_exists := (\<lambda>p. p = path)\<rparr>"

definition load_missing_file_returns_default :: "(string \<Rightarrow> string + agent_config) \<Rightarrow> host \<Rightarrow> bool" where
  "load_missing_file_returns_default toml_from_str h =
     unwrap_ok (from_file toml_from_str h ''/nonexistent/path.toml'') (\<lambda>config.
       ac_method (cfg_auth config) = ''none'')"

definition valid_toml :: string where
  "valid_toml = ''node = '' @ [CHR 0x22] @ ''test-node'' @ [CHR 0x22] @ [CHR 10]
     @ ''fabric.auto-refresh-interval = 300'' @ [CHR 10] @ [CHR 10]
     @ ''auth.method = '' @ [CHR 0x22] @ ''none'' @ [CHR 0x22] @ [CHR 10]"

definition load_valid_toml :: "(string \<Rightarrow> string + agent_config) \<Rightarrow> string \<Rightarrow> bool" where
  "load_valid_toml toml_from_str path =
     unwrap_ok (from_file toml_from_str (host_with_file path valid_toml) path) (\<lambda>config.
       cfg_node config = ''test-node''
       \<and> fc_auto_refresh_interval (cfg_fabric config) = 300
       \<and> ac_method (cfg_auth config) = ''none'')"

definition invalid_toml_returns_error :: "(string \<Rightarrow> string + agent_config) \<Rightarrow> string \<Rightarrow> bool" where
  "invalid_toml_returns_error toml_from_str path =
     unwrap_err (from_file toml_from_str (host_with_file path ''invalid toml [[['') path) (\<lambda>err.
       case err of InvalidToml _ \<Rightarrow> True | _ \<Rightarrow> False)"

definition build_auth_provider_noauth_always_works :: "features \<Rightarrow> host \<Rightarrow> bool" where
  "build_auth_provider_noauth_always_works ft h =
     (let provider = build_auth_provider ft h agent_config_default;
          ctx = \<lparr>rc_remote_endpoint_id = ''test'', rc_local_endpoint_id = ''local''\<rparr>
      in auth_name provider = ''none'' \<and> unwrap_ok (authorize provider ctx Ping) (\<lambda>_. True))"

lemma missing_config_test_iff:
  "load_missing_file_returns_default toml h \<longleftrightarrow>
     \<not> h_exists h ''/nonexistent/path.toml''
     \<or> (\<exists>str c. h_file h ''/nonexistent/path.toml'' = Some str \<and> toml str = Inr c \<and> ac_method (cfg_auth c) = ''none'')"
proof (cases "h_file h ''/nonexistent/path.toml''")
  case (Some str)
  then show ?thesis
    by (cases "toml str") (simp_all add: load_missing_file_returns_default_def from_file_def agent_config_default_def
        auth_config_default_def default_auth_method_def test_simps)
qed (simp add: load_missing_file_returns_default_def from_file_def agent_config_default_def
    auth_config_default_def default_auth_method_def test_simps)

lemma toml_tests_iff:
  "load_valid_toml toml path \<longleftrightarrow>
     (\<exists>c. toml valid_toml = Inr c \<and> cfg_node c = ''test-node'' \<and> fc_auto_refresh_interval (cfg_fabric c) = 300
        \<and> ac_method (cfg_auth c) = ''none'')"
  "invalid_toml_returns_error toml path \<longleftrightarrow> (\<exists>e. toml ''invalid toml [[['' = Inl e)"
  by (cases "toml valid_toml"; cases "toml ''invalid toml [[[''";
      simp add: load_valid_toml_def invalid_toml_returns_error_def from_file_def host_with_file_def bare_host_def
        test_simps)+

lemma default_provider_test_passes: "build_auth_provider_noauth_always_works ft h"
  by (simp add: build_auth_provider_noauth_always_works_def build_auth_provider_def agent_config_default_def
      auth_config_default_def default_auth_method_def Let_def test_simps)

subsection \<open>The peer envelope\<close>

definition object_keys :: "json \<Rightarrow> string list option" where
  "object_keys v = (case v of JObj m \<Rightarrow> Some (map fst m) | _ \<Rightarrow> None)"

definition peer_domain :: "peer_kind \<Rightarrow> string \<Rightarrow> peer_identity" where
  "peer_domain kind node =
     \<lparr>pi_node = node, pi_kind = kind,
      pi_endpoint = (case kind of
          Bare \<Rightarrow> ''{'' @ [CHR 0x22] @ ''nodeId'' @ [CHR 0x22] @ '':'' @ [CHR 0x22] @ ''bare'' @ [CHR 0x22] @ ''}''
        | Vm \<Rightarrow> ''cid=3,socket=/tmp/nauti-vsock.sock'')\<rparr>"

definition echo_job :: "peer_identity \<Rightarrow> peer_job" where
  "echo_job domain =
     \<lparr>pj_job_id = ''job-1'', pj_domain = domain, pj_op = ''echo'', pj_store_input = Some ''local.store.fabric'',
      pj_payload = JObj [(''store.input'', JStr ''local.store.fabric'')]\<rparr>"

definition bare_and_vm_result_envelopes_are_the_same_shape :: "(peer_result \<Rightarrow> json) \<Rightarrow> f64 \<Rightarrow> bool" where
  "bare_and_vm_result_envelopes_are_the_same_shape to_value one =
     (let bare = run_peer_job (echo_job (peer_domain Bare ''t440'')) (JObj [(''n'', JNum one)]);
          vm = run_peer_job (echo_job (peer_domain Vm ''t440-vm0'')) (JObj [(''n'', JNum one)])
      in unwrap_some (object_keys (to_value bare)) (\<lambda>bare_keys.
         unwrap_some (object_keys (to_value vm)) (\<lambda>vm_keys.
         bare_keys = vm_keys \<and> pe_job_id bare = pe_job_id vm \<and> pe_status bare = pe_status vm
         \<and> pe_output bare = pe_output vm \<and> pi_kind (pe_domain bare) \<noteq> pi_kind (pe_domain vm))))"

definition killing_the_vm_does_not_change_the_bare_envelope :: bool where
  "killing_the_vm_does_not_change_the_bare_envelope =
     (let bare = run_peer_job
            \<lparr>pj_job_id = ''job-2'', pj_domain = peer_domain Bare ''t440'', pj_op = ''ping'', pj_store_input = None,
             pj_payload = JObj []\<rparr> (JObj [(''alive'', JBool True)])
      in pe_status bare = ''ok'' \<and> pi_kind (pe_domain bare) = Bare)"

definition default_vsock_spec_is_ch_v53_shape :: bool where
  "default_vsock_spec_is_ch_v53_shape =
     (default_vsock_spec ''/tmp/nauti-vsock.sock'' = ''cid=3,socket=/tmp/nauti-vsock.sock'')"

text \<open>What \<open>serde\<close> derives for a structure is an object whose keys are the names of the fields.\<close>

lemma peer_envelope_test_passes:
  assumes "\<And>r. object_keys (to_value r) = Some [''job_id'', ''domain'', ''status'', ''output'']"
  shows "bare_and_vm_result_envelopes_are_the_same_shape to_value one"
  using assms by (simp add: bare_and_vm_result_envelopes_are_the_same_shape_def run_peer_job_def echo_job_def
      peer_domain_def Let_def test_simps)

lemma peer_tests_pass: killing_the_vm_does_not_change_the_bare_envelope default_vsock_spec_is_ch_v53_shape
  by (simp_all add: run_peer_job_def peer_domain_def killing_the_vm_does_not_change_the_bare_envelope_def
      default_vsock_spec_is_ch_v53_shape_def default_vsock_spec_def Let_def)

end
