(* ===== verification/Vhost_Tests.thy ===== *)
theory Vhost_Tests
  imports Vhost_Device Entropy Unit_Tests
begin

text \<open>
  The unit tests of the virtio-rng backend and of the remote entropy stub (\<open>vhost/rng.rs\<close> and
  \<open>vhost/entropy.rs\<close>). The clock readings, the draws of the entropy server and the network are
  arguments, so each lemma says for which of them a test passes.
\<close>

subsection \<open>The backend\<close>

definition config_validation :: bool where
  "config_validation =
     (let base = \<lparr>rg_socket_path = ''/tmp/x.sock'', rg_source_path = ''/dev/urandom'', rg_period_ms = 1000, rg_max_bytes = 512\<rparr>
      in rng_validate base = Inr ()
         \<and> isl (rng_validate (base\<lparr>rg_period_ms := 0\<rparr>))
         \<and> isl (rng_validate (base\<lparr>rg_period_ms := max_period_ms + 1\<rparr>)))"

text \<open>\<open>MockRng\<close>: one byte per read, or no access.\<close>

definition mock_rng :: "bool \<Rightarrow> nat \<Rightarrow> nat option" where
  "mock_rng permission_denied = (\<lambda>_. if permission_denied then None else Some 1)"

definition mock_round :: "bool \<Rightarrow> instant \<times> instant \<Rightarrow> serve_round" where
  "mock_round permission_denied clocks =
     \<lparr>rd_now = fst clocks, rd_awake = snd clocks, rd_source_poisoned = False, rd_read = mock_rng permission_denied\<rparr>"

definition build_desc_chain :: "nat \<Rightarrow> bool \<Rightarrow> chain" where
  "build_desc_chain num write_only =
     \<lparr>ch_head_index = 0, ch_descriptors = replicate num \<lparr>d_len = 0x200, d_write_only = write_only\<rparr>\<rparr>"

definition set_quota :: "nat \<Rightarrow> timer_config \<Rightarrow> timer_config" where
  "set_quota quota tc = tc\<lparr>tc_quota_remaining := quota\<rparr>"

text \<open>\<open>clocks i\<close> is what the clock reads at the \<open>i\<close>-th request and, if it sleeps, after the sleep.\<close>

definition verify_process_requests :: "instant \<Rightarrow> instant \<Rightarrow> (nat \<Rightarrow> instant \<times> instant) \<Rightarrow> bool" where
  "verify_process_requests start denied_start clocks =
     unwrap_ok (backend_new True 1000 512 start :: rng_error + unit rng_backend) (\<lambda>backend.
       case process_requests [] (rb_timer backend) of (r0, tc0, _) \<Rightarrow>
         r0 = Inr True \<and>
       (case process_requests [(mock_round False (clocks 0), build_desc_chain 1 True)] (set_quota 0x100 tc0) of (r1, tc1, _) \<Rightarrow>
         r1 = Inr True \<and>
       (case process_requests [(mock_round False (clocks 1), build_desc_chain 1 False)] (set_quota 0x100 tc1) of (r2, tc2, _) \<Rightarrow>
         r2 = Inl UnexpectedReadDescriptor \<and>
       (case process_requests [(mock_round False (clocks 2), build_desc_chain 2 True)] tc2 of (r3, tc3, _) \<Rightarrow>
         r3 = Inl (UnexpectedDescriptorCount 2) \<and>
       unwrap_ok (backend_new True 1000 512 denied_start :: rng_error + unit rng_backend) (\<lambda>denied.
       case process_requests [(mock_round True (clocks 3), build_desc_chain 1 True)] (set_quota 0x100 (rb_timer denied)) of (r4, _) \<Rightarrow>
         r4 = Inl SourceRead)))))"

definition quiet_pass :: queue_pass where
  "quiet_pass = \<lparr>qp_chains = Some [], qp_signal_ok = True, qp_more = False\<rparr>"

definition fails_with_io_error :: "((rng_error + unit) outcome \<times> completion list \<times> unit rng_backend) option \<Rightarrow> bool" where
  "fails_with_io_error r = (case r of Some (Done (Inl _), _) \<Rightarrow> True | _ \<Rightarrow> False)"

definition verify_handle_event :: "instant \<Rightarrow> bool" where
  "verify_handle_event now =
     unwrap_ok (backend_new True 1000 512 now) (\<lambda>b0.
       let backend = update_memory () b0 in
       fails_with_io_error (device_event 0 False [quiet_pass] backend)
       \<and> fails_with_io_error (device_event 1 True [quiet_pass] backend)
       \<and> (case device_event 0 True [quiet_pass] backend of
            Some (Done (Inr _), _, b1) \<Rightarrow>
              (case device_event 0 True [quiet_pass] (set_event_idx True b1) of
                 Some (Done (Inr _), _) \<Rightarrow> True
               | _ \<Rightarrow> False)
          | _ \<Rightarrow> False))"

text \<open>\<open>queues_per_thread\<close> and \<open>get_config\<close> are the defaults of the library's trait.\<close>

definition verify_backend_contract :: "u64 list \<Rightarrow> u8 list \<Rightarrow> instant \<Rightarrow> bool" where
  "verify_backend_contract queues_per_thread get_config now =
     unwrap_ok (backend_new True 1000 512 now) (\<lambda>backend.
       num_queues = 1 \<and> queue_size = 1024 \<and> rng_features = 0x171000000 \<and> protocol_features = 1
       \<and> queues_per_thread = [0xffffffff] \<and> get_config = []
       \<and> rb_event_idx (set_event_idx True (update_memory () backend)))"

definition fifo_source_opens_read_write :: "rng_world \<Rightarrow> string \<Rightarrow> bool" where
  "fifo_source_opens_read_write w fifo = unwrap_ok (open_source w fifo) (\<lambda>_. rw_is_fifo w fifo)"

definition missing_source_is_typed_error :: "rng_world \<Rightarrow> bool" where
  "missing_source_is_typed_error w =
     unwrap_err (open_source w ''/nonexistent/urandom'') (\<lambda>err. case err of SourceOpen _ \<Rightarrow> True | _ \<Rightarrow> False)"

lemma config_validation_passes: config_validation
  by (simp add: config_validation_def rng_validate_def max_period_ms_def Let_def)

text \<open>However long the requests take, the test passes as long as the clock does not run backwards.\<close>

lemma process_requests_test_passes:
  assumes "start \<le> fst (clocks 0)" "denied_start \<le> fst (clocks 3)"
  shows "verify_process_requests start denied_start clocks"
  using assms
  by (simp add: verify_process_requests_def backend_new_def timer_new_def set_quota_def build_desc_chain_def mock_round_def
      mock_rng_def serve_chain_def tick_def numeral_2_eq_2 Let_def test_simps)

lemma backend_tests_pass:
  "verify_handle_event now" "verify_backend_contract [0xffffffff] [] now"
  by (simp_all add: verify_handle_event_def verify_backend_contract_def backend_new_def update_memory_def set_event_idx_def
      fails_with_io_error_def device_event_def handle_event_def process_queue_def quiet_pass_def num_queues_def
      queue_size_def protocol_features_def rng_features_def virtio_f_notify_on_empty_def virtio_ring_f_indirect_desc_def
      virtio_ring_f_event_idx_def vhost_user_f_protocol_features_def virtio_f_version_1_def Let_def test_simps)

lemma source_tests_iff:
  "fifo_source_opens_read_write w fifo \<longleftrightarrow> rw_is_fifo w fifo \<and> rw_open_error w True fifo = None"
  "missing_source_is_typed_error w \<longleftrightarrow>
     rw_open_error w (rw_is_fifo w ''/nonexistent/urandom'') ''/nonexistent/urandom'' \<noteq> None"
  by (auto simp: fifo_source_opens_read_write_def missing_source_is_typed_error_def open_source_def test_simps
      split: option.splits)

subsection \<open>The entropy stub\<close>

text \<open>\<open>spawn_server\<close>: every connection reaches a serving loop of its own; the argument is the server's
  behaviour on it.\<close>

definition spawn_server :: "entropy_env \<Rightarrow> string \<Rightarrow> string + entropy_conn" where
  "spawn_server env addr =
     Inr \<lparr>ec_timeout_error = None, ec_write_error = None,
          ec_reply = (\<lambda>req. \<lparr>rs_bytes = snd (entropy_serve_conn None env \<lparr>rs_bytes = req, rs_end = Eof\<rparr>), rs_end = Eof\<rparr>)\<rparr>"

definition roundtrip_returns_exact_length :: "entropy_env \<Rightarrow> entropy_env \<Rightarrow> string \<Rightarrow> bool" where
  "roundtrip_returns_exact_length env1 env2 addr =
     unwrap_ok (entropy_fetch (spawn_server env1) addr 64) (\<lambda>a.
     unwrap_ok (entropy_fetch (spawn_server env2) addr 64) (\<lambda>b.
       length a = 64 \<and> length b = 64 \<and> a \<noteq> b))"

definition is_protocol_error :: "entropy_error + bytes \<Rightarrow> bool" where
  "is_protocol_error r = (case r of Inl (Protocol _) \<Rightarrow> True | _ \<Rightarrow> False)"

definition rejects_bad_lengths :: "(string \<Rightarrow> string + entropy_conn) \<Rightarrow> string \<Rightarrow> bool" where
  "rejects_bad_lengths net addr =
     (is_protocol_error (entropy_fetch net addr 0) \<and> is_protocol_error (entropy_fetch net addr (max_request_bytes + 1)))"

definition dead_server_is_typed_connect_error :: "(string \<Rightarrow> string + entropy_conn) \<Rightarrow> string \<Rightarrow> bool" where
  "dead_server_is_typed_connect_error net gone =
     (case entropy_fetch net gone 16 of Inl (EntropyConnect _ _) \<Rightarrow> True | _ \<Rightarrow> False)"

text \<open>The test keeps its side open and reads until the server's side ends; a server that is still waiting for
  a request has not ended it.\<close>

definition server_closes_on_protocol_violation :: "entropy_env \<Rightarrow> string \<Rightarrow> bool" where
  "server_closes_on_protocol_violation env still_open =
     (fst (entropy_serve_conn None env \<lparr>rs_bytes = u32_to_be_bytes 0, rs_end = Broken still_open\<rparr>)
        \<noteq> Inl (EntropyIo still_open))"

definition pump_writes_fifo_from_server :: "pump_env \<Rightarrow> entropy_env \<Rightarrow> string \<Rightarrow> string \<Rightarrow> bool" where
  "pump_writes_fifo_from_server pe env addr fifo =
     (case entropy_pump pe addr fifo 256 [(spawn_server env, None)] of
        (None, buf # _) \<Rightarrow> list_ex (\<lambda>b. b \<noteq> 0) buf
      | _ \<Rightarrow> False)"

lemma fetch_from_spawned:
  assumes "size_ok len" "en_draw env 0 (unat len) = Inr buf" "length buf = unat len" "\<forall>i. en_write_error env i = None"
  shows "entropy_fetch (spawn_server env) addr len = Inr buf"
  using assms by (intro entropy_fetch_from_server) (simp_all add: spawn_server_def)

text \<open>With a healthy random device the round trip passes exactly when the two draws differ.\<close>

lemma roundtrip_test_iff:
  assumes "en_draw env1 0 64 = Inr a" "length a = 64" "\<forall>i. en_write_error env1 i = None"
    and "en_draw env2 0 64 = Inr b" "length b = 64" "\<forall>i. en_write_error env2 i = None"
  shows "roundtrip_returns_exact_length env1 env2 addr \<longleftrightarrow> a \<noteq> b"
proof -
  have "size_ok 64"
    by (simp add: size_ok_def max_request_bytes_def)
  then show ?thesis
    using assms fetch_from_spawned [of 64 env1 a addr] fetch_from_spawned [of 64 env2 b addr]
    by (simp add: roundtrip_returns_exact_length_def test_simps)
qed

lemma entropy_refusal_tests_pass:
  "rejects_bad_lengths net addr" "net gone = Inl e \<Longrightarrow> dead_server_is_typed_connect_error net gone"
  "server_closes_on_protocol_violation env still_open"
proof -
  have "\<not> size_ok 0" "\<not> size_ok (max_request_bytes + 1)" "size_ok 16"
    by (simp_all add: size_ok_def max_request_bytes_def)
  then show "rejects_bad_lengths net addr" "net gone = Inl e \<Longrightarrow> dead_server_is_typed_connect_error net gone"
    by (simp_all add: rejects_bad_lengths_def is_protocol_error_def entropy_fetch_def bad_size_def
        dead_server_is_typed_connect_error_def)
  show "server_closes_on_protocol_violation env still_open"
    unfolding server_closes_on_protocol_violation_def entropy_serve_conn_def
    using \<open>\<not> size_ok 0\<close> by (subst serve_requests.simps) (simp add: read_exact_def bad_size_def)
qed

lemma pump_test_iff:
  assumes "en_draw env 0 256 = Inr buf" "length buf = 256" "\<forall>i. en_write_error env i = None"
    and "pe_out_exists pe \<or> (\<exists>s. pe_mkfifo pe = Inr (True, s))" "pe_open_error pe = None"
  shows "pump_writes_fifo_from_server pe env addr fifo \<longleftrightarrow> (\<exists>b \<in> set buf. b \<noteq> 0)"
proof -
  have "size_ok 256"
    by (simp add: size_ok_def max_request_bytes_def)
  then show ?thesis
    using assms fetch_from_spawned [of 256 env buf addr]
    by (auto simp: pump_writes_fifo_from_server_def entropy_pump_def list_ex_iff split: if_splits)
qed

end
