(* ===== verification/Command_Tests.thy ===== *)
theory Command_Tests
  imports Fleet_Statistics Unit_Tests
begin

text \<open>
  The unit tests of \<open>bin/nauti.rs\<close>: the ping summary, the path labels, the inventory summary, the
  percentiles, the agent's key and address files. The directories and files the tests make start out
  empty; what the system says is an argument.
\<close>

subsection \<open>The tests\<close>

definition iputils_summary :: string where
  "iputils_summary =
     ''5 packets transmitted, 5 received, 0% packet loss, time 804ms'' @ [CHR 0x0A]
     @ ''rtt min/avg/max/mdev = 0.112/0.145/0.201/0.031 ms'' @ [CHR 0x0A]"

definition ping_rtt_parses_iputils_summary :: bool where
  "ping_rtt_parses_iputils_summary =
     (parse_ping_rtt iputils_summary
        = Some (f64_round (112 / 1000), f64_round (145 / 1000), f64_round (201 / 1000))
      \<and> parse_ping_rtt ''100% packet loss'' = None)"

definition path_labels_cover_fleet_prefixes :: bool where
  "path_labels_cover_fleet_prefixes =
     (path_label ''10.0.10.204'' = Some ''25g''
      \<and> path_label ''10.44.0.12'' = Some ''lan-10.44''
      \<and> path_label ''192.168.4.29'' = Some ''lan''
      \<and> path_label ''100.72.182.77'' = Some ''tailscale''
      \<and> path_label ''172.17.0.1'' = None
      \<and> path_label ''64.131.14.25'' = None)"

definition mk_resource :: "string \<Rightarrow> resource_kind \<Rightarrow> u64 \<Rightarrow> (string \<times> string) list \<Rightarrow> resource" where
  "mk_resource rid kind cap attributes =
     \<lparr>res_id = rid, res_kind = kind, res_capacity = cap, res_unit = ''x'', res_node = ''n'', res_state = Available,
      res_exclusive = False, res_attributes = bt_from attributes\<rparr>"

definition summarized_resources :: "resource list" where
  "summarized_resources =
     [mk_resource ''local.cpu.logical'' Cpu 48 [],
      mk_resource ''local.memory'' Memory 64 [],
      mk_resource ''local.numa.0'' Memory 32 [],
      mk_resource ''local.numa.1'' Memory 32 [],
      mk_resource ''local.gpu.0000_5e_00_0'' Gpu 16 [(''gpu.device_name'', ''P100'')],
      mk_resource ''gpu.virtual.0'' Gpu 1 [],
      mk_resource ''local.gpu.wgpu-remote'' Gpu 1 [(''gpu.transport'', ''tailscale'')],
      mk_resource ''local.rdma.rocep1s0f0.1'' Network 25 [(''rdma.state'', ''ACTIVE'')],
      mk_resource ''local.network.enp1s0f0np0'' Network 25 [(''interface'', ''enp1s0f0np0''), (''net.operstate'', ''up'')],
      mk_resource ''local.network.docker0'' Network 0 [(''net.operstate'', ''up''), (''net.virtual'', ''true'')]]"

definition inventory_summary_counts_gpus_rdma_and_links :: bool where
  "inventory_summary_counts_gpus_rdma_and_links =
     (let s = summarize_inventory summarized_resources
      in iv_logical_cpus s = 48 \<and> iv_numa_nodes s = 2 \<and> length (iv_gpus s) = 1
         \<and> length (iv_rdma_ports s) = 1 \<and> length (iv_links_up s) = 1)"

definition percentile_edges :: bool where
  "percentile_edges =
     (percentile [] (f64_round (1 / 2)) = Fin 0
      \<and> percentile [Fin 1, Fin 2, Fin 3] (f64_round (1 / 2)) = Fin 2
      \<and> percentile [Fin 1, Fin 2, Fin 3] (f64_round (95 / 100)) = Fin 3)"

text \<open>The second call finds the file of the first; then the test replaces it by one of five bytes. The
  keys drawn and the mode of the file are arguments, and the bytes of a key stand for its public key.\<close>

definition agent_key_is_created_once_and_reloaded :: "key_env \<Rightarrow> nat \<Rightarrow> bytes \<Rightarrow> bytes \<Rightarrow> bytes \<Rightarrow> string \<Rightarrow> bool" where
  "agent_key_is_created_once_and_reloaded env mode fresh1 fresh2 fresh3 path =
     (case load_or_create_key_at env fresh1 path Map.empty of (r1, fs1) \<Rightarrow>
        unwrap_ok r1 (\<lambda>first.
        case load_or_create_key_at env fresh2 path fs1 of (r2, fs2) \<Rightarrow>
          unwrap_ok r2 (\<lambda>second.
            first = second \<and> fs2 path \<noteq> None \<and> mode = 6 * 8 * 8
            \<and> isl (fst (load_or_create_key_at env fresh3 path (fs2(path \<mapsto> [115, 104, 111, 114, 116])))))))"

definition probe_addr :: string where
  "probe_addr = ''{'' @ [CHR 0x22] @ ''probe'' @ [CHR 0x22] @ '':true}''"

definition persist_addr_json_writes_file_and_creates_parents ::
  "(string \<Rightarrow> string option) \<Rightarrow> string option \<Rightarrow> string \<Rightarrow> bool"
where
  "persist_addr_json_writes_file_and_creates_parents mkdir_error write_error path =
     (case persist_addr_json_to mkdir_error write_error path probe_addr Map.empty of (r, fs) \<Rightarrow>
        unwrap_ok r (\<lambda>written. unwrap_some (fs written) (\<lambda>read. read = probe_addr)))"

definition addr_file_path_uses_node_name_in_default_dir :: "host \<Rightarrow> bool" where
  "addr_file_path_uses_node_name_in_default_dir h =
     (h_env h ''NAUTI_AGENT_ADDR_DIR'' = None \<longrightarrow>
        addr_file_path h ''t440'' = ''/var/lib/nauti/t440-addr.json''
        \<and> addr_file_path h ''cesarops2'' = ''/var/lib/nauti/cesarops2-addr.json'')"

subsection \<open>They pass\<close>

lemmas decimal_eval =
  parse_f64_def split_sign_def to_lower_def lower_char_def parse_mantissa_def all_digits_def digit_val_def Let_def

lemma ping_test_passes: ping_rtt_parses_iputils_summary
proof -
  have "parse_ping_rtt ''100% packet loss'' = None"
    by code_simp
  have line: "find (\<lambda>l. contains l ''min/avg/max'') (lines iputils_summary) = Some ''rtt min/avg/max/mdev = 0.112/0.145/0.201/0.031 ms''"
    by code_simp
  have nums: "split_char (CHR ''='') ''rtt min/avg/max/mdev = 0.112/0.145/0.201/0.031 ms'' = [''rtt min/avg/max/mdev '', '' 0.112/0.145/0.201/0.031 ms'']"
    "split_whitespace (trim '' 0.112/0.145/0.201/0.031 ms'') = [''0.112/0.145/0.201/0.031'', ''ms'']"
    "split_char (CHR ''/'') ''0.112/0.145/0.201/0.031'' = [''0.112'', ''0.145'', ''0.201'', ''0.031'']"
    by code_simp+
  have "parse_f64 ''0.112'' = Some (f64_round (112 / 1000))" "parse_f64 ''0.145'' = Some (f64_round (145 / 1000))"
    "parse_f64 ''0.201'' = Some (f64_round (201 / 1000))" "parse_f64 ''0.031'' = Some (f64_round (31 / 1000))"
    by (simp_all add: decimal_eval)
  then show ?thesis
    unfolding ping_rtt_parses_iputils_summary_def parse_ping_rtt_def line
    using \<open>parse_ping_rtt ''100% packet loss'' = None\<close>
    by (simp add: nums parse_ping_rtt_def)
qed

lemma path_label_test_passes: path_labels_cover_fleet_prefixes
  by code_simp

lemma inventory_summary_test_passes: inventory_summary_counts_gpus_rdma_and_links
  by (simp add: inventory_summary_counts_gpus_rdma_and_links_def summarized_resources_def summarize_inventory_def
      mk_resource_def capacity_of_def is_hardware_gpu_def is_link_up_def starts_with_def bt_from_def has_key_def Let_def)

lemma rank_one_half: "rank_of 2 (Fin (1 / 2)) = 1"
proof -
  have "f64_round 1 = Fin 1"
    using f_of_nat_exact [of 1] by (simp add: f_of_nat_def)
  moreover have "\<lfloor>3 / 2 :: rat\<rfloor> = 1"
    by (simp add: floor_eq_iff)
  ultimately show ?thesis
    by (simp add: rank_of_def f_of_nat_exact)
qed

lemma rank_ninety_five: "rank_of 2 (Fin (4278419646001971 / 4503599627370496)) = 2"
proof -
  have "f64_round (4278419646001971 / 2251799813685248) = Fin (4278419646001971 / 2251799813685248)"
    using f64_round_units [of "4278419646001971 / 2251799813685248" 52 8556839292003942] by simp
  moreover have "\<lfloor>5404319552844595 / 2251799813685248 :: rat\<rfloor> = 2"
    by (simp add: floor_eq_iff)
  ultimately show ?thesis
    by (simp add: rank_of_def f_of_nat_exact)
qed

lemma percentile_test_passes: percentile_edges
  unfolding percentile_edges_def half_exact ninety_five
  using rank_one_half rank_ninety_five
  by (simp add: percentile_rank percentile_def [of "[]"] numeral_2_eq_2)

text \<open>The key test passes on every system that lets the agent make the directory and write and read the
  file, whatever keys are drawn.\<close>

lemma agent_key_test_passes:
  assumes "length fresh1 = 32" "\<not> ke_unreadable env path" "ke_open_error env = None" "ke_write_error env = None"
    and "\<And>parent. ke_mkdir_error env parent = None"
  shows "agent_key_is_created_once_and_reloaded env 384 fresh1 fresh2 fresh3 path"
proof -
  have "load_or_create_key_at env fresh1 path Map.empty = (Inr fresh1, [path \<mapsto> fresh1])"
    "load_or_create_key_at env fresh2 path [path \<mapsto> fresh1] = (Inr fresh1, [path \<mapsto> fresh1])"
    using assms by (simp_all add: load_or_create_key_at_def split: option.split)
  then show ?thesis
    using assms(2) by (simp add: agent_key_is_created_once_and_reloaded_def load_or_create_key_at_def test_simps)
qed

lemma addr_file_tests_pass:
  "(\<And>parent. mkdir_error parent = None) \<Longrightarrow> persist_addr_json_writes_file_and_creates_parents mkdir_error None path"
  "addr_file_path_uses_node_name_in_default_dir h"
  by (simp_all add: persist_addr_json_writes_file_and_creates_parents_def persist_addr_json_to_def
      addr_file_path_uses_node_name_in_default_dir_def addr_file_path_def addr_file_dir_def trim_slashes_def
      trim_end_matches_def test_simps split: option.split)

end
