(* ===== verification/Gpu_Tests.thy ===== *)
theory Gpu_Tests
  imports Gpu_Enrichment Wgpu_Remote_Properties Topology Command_Tests
begin

text \<open>
  The unit tests of the GPU modules and of the NUMA topology (\<open>gpu/discover.rs\<close>, \<open>gpu/rocm.rs\<close>,
  \<open>gpu/mod.rs\<close>, \<open>gpu/wgpu_remote.rs\<close> and \<open>topology.rs\<close>). Several of them inspect the machine they run
  on: here they take what that machine answers, and the lemmas say on which machines they pass.
\<close>

subsection \<open>Discovery\<close>

definition discover_is_infallible :: "nvml_row smap \<Rightarrow> amd_telemetry smap option \<Rightarrow> host \<Rightarrow> bool" where
  "discover_is_infallible nvml rocm h = unwrap_ok (gpu_discover nvml rocm h) (\<lambda>_. True)"

definition discover_finds_nvidia_and_enriches_name ::
  "nvml_row smap \<Rightarrow> amd_telemetry smap option \<Rightarrow> host \<Rightarrow> bool"
where
  "discover_finds_nvidia_and_enriches_name nvml rocm h =
     unwrap_ok (gpu_discover nvml rocm h) (\<lambda>devices.
       let nvidia = filter (\<lambda>d. gd_vendor d = Nvidia) devices
       in devices \<noteq> [] \<and> nvidia \<noteq> []
          \<and> list_all (\<lambda>g. gd_device_name g \<noteq> [] \<and> \<not> starts_with (gd_device_name g) ''NVIDIA GPU (0000:00:00''
               \<and> gd_uuid g \<noteq> None \<and> 0 < gd_vram_total_bytes g) nvidia)"

definition vendor_from_pci_id_test :: bool where
  "vendor_from_pci_id_test =
     (vendor_from_pci_id 0x10de = Nvidia \<and> vendor_from_pci_id 0x1002 = Amd \<and> vendor_from_pci_id 0x8086 = Intel
      \<and> (case vendor_from_pci_id 0x1234 of Unknown _ \<Rightarrow> True | _ \<Rightarrow> False))"

definition normalize_bdf_handles_nvml_padding :: bool where
  "normalize_bdf_handles_nvml_padding =
     (normalize_bdf ''00000000:03:00.0'' = ''0000:03:00.0''
      \<and> normalize_bdf ''0000:03:00.0'' = ''0000:03:00.0''
      \<and> normalize_bdf [] = [])"

definition rtx_2060 :: gpu_device where
  "rtx_2060 = \<lparr>gd_stable_id = ''0000:03:00.0'', gd_vendor = Nvidia, gd_device_name = ''RTX 2060 SUPER'',
     gd_vram_total_bytes = push_bit 30 8, gd_vram_used_bytes = 0, gd_driver = ''nvidia'', gd_drm_card = Some 0,
     gd_pci_bdf = ''0000:03:00.0'', gd_uuid = Some ''GPU-abc'', gd_nvml_index = Some 0, gd_temperature_c = None,
     gd_utilization_pct = None, gd_display_only = False\<rparr>"

definition aspeed_bmc :: gpu_device where
  "aspeed_bmc = \<lparr>gd_stable_id = ''0000:01:00.0'', gd_vendor = Unknown ''0x1a03'', gd_device_name = ''ASPEED BMC'',
     gd_vram_total_bytes = 0, gd_vram_used_bytes = 0, gd_driver = ''ast'', gd_drm_card = Some 1,
     gd_pci_bdf = ''0000:01:00.0'', gd_uuid = None, gd_nvml_index = None, gd_temperature_c = None,
     gd_utilization_pct = None, gd_display_only = True\<rparr>"

definition as_resources_skips_display_only :: bool where
  "as_resources_skips_display_only =
     (let resources = gpu_as_resources ''test-node'' [rtx_2060, aspeed_bmc]
      in length resources = 1
         \<and> map_of (res_attributes (resources ! 0)) ''gpu.device_name'' = Some ''RTX 2060 SUPER'')"

text \<open>Discovery fails only when the directory of the graphics cards exists and cannot be read.\<close>

lemma discover_is_infallible_iff:
  "discover_is_infallible nvml rocm h \<longleftrightarrow>
     \<not> h_exists h ''/sys/class/drm'' \<or> (\<exists>names. h_dir h ''/sys/class/drm'' = Inr names)"
  by (auto simp: discover_is_infallible_def gpu_discover_def test_simps Let_def split: sum.splits)

lemma discovery_tests_pass:
  vendor_from_pci_id_test normalize_bdf_handles_nvml_padding as_resources_skips_display_only
proof -
  show vendor_from_pci_id_test
    by (simp add: vendor_from_pci_id_test_def)
  show normalize_bdf_handles_nvml_padding
    by code_simp
  show as_resources_skips_display_only
    by (simp add: as_resources_skips_display_only_def gpu_as_resources_def gpu_resource_attribute rtx_2060_def
        aspeed_bmc_def)
qed

subsection \<open>AMD telemetry\<close>

text \<open>The tree of a fake card: the link of its device, and the files below the link, which resolve to the
  directory it points to.\<close>

definition fake_amdgpu :: "string \<Rightarrow> host" where
  "fake_amdgpu vendor = bare_host
     \<lparr>h_dir := (\<lambda>d. if d = ''/t/class/drm'' then Inr [''card1'']
         else if d = ''/t/class/drm/card1/device/hwmon'' then Inr [''hwmon0''] else Inl ''not found''),
      h_link := [''/t/class/drm/card1/device'' \<mapsto> ''/t/devices/0000:03:00.0''],
      h_file := map_of
        [(''/t/class/drm/card1/device/vendor'', vendor),
         (''/t/class/drm/card1/device/product_name'', ''Radeon Pro WX 5100'' @ [CHR 0x0A]),
         (''/t/class/drm/card1/device/unique_id'', ''876543210987654'' @ [CHR 0x0A]),
         (''/t/class/drm/card1/device/mem_info_vram_total'', ''8589934592'' @ [CHR 0x0A]),
         (''/t/class/drm/card1/device/mem_info_vram_used'', ''640000000'' @ [CHR 0x0A]),
         (''/t/class/drm/card1/device/hwmon/hwmon0/temp1_input'', ''45500'' @ [CHR 0x0A])]\<rparr>"

definition sysfs_enrichment_reads_amdgpu_tree :: bool where
  "sysfs_enrichment_reads_amdgpu_tree =
     (unwrap_some (map_of (sysfs_enrichment (fake_amdgpu ''0x1002'') ''/t/class/drm'') ''0000:03:00.0'') (\<lambda>t.
        at_product_name t = Some ''Radeon Pro WX 5100''
        \<and> at_unique_id t = Some ''876543210987654''
        \<and> at_vram_total_bytes t = Some 8589934592
        \<and> at_vram_used_bytes t = Some 640000000
        \<and> at_temperature_c t = Some 45
        \<and> at_source t = ''rocm-sysfs'')
      \<and> \<not> has_key (sysfs_enrichment (fake_amdgpu ''0x10de'') ''/t/class/drm'') ''0000:03:00.0'')"

definition human_bytes_parsing :: bool where
  "human_bytes_parsing =
     (parse_human_bytes ''16368.0 MB'' = Some (16368 * 1024 * 1024)
      \<and> parse_human_bytes ''8.0 GB'' = Some (8 * 1024 * 1024 * 1024)
      \<and> parse_human_bytes ''garbage'' = None)"

definition pct_parsing :: bool where
  "pct_parsing =
     (parse_pct ''12'' = Some 12 \<and> parse_pct ''44.0'' = Some 44 \<and> parse_pct ''0%'' = Some 0 \<and> parse_pct [] = None)"

lemma f64_round_nat: "n < 2 ^ 53 \<Longrightarrow> f64_round (of_nat n) = Fin (of_nat n)"
  using f_of_nat_exact [of n] by (simp add: f_of_nat_def)

lemma telemetry_parsing_tests_pass: human_bytes_parsing pct_parsing
proof -
  have ints: "f64_round 16368 = Fin 16368" "f64_round 8 = Fin 8" "f64_round 12 = Fin 12" "f64_round 44 = Fin 44"
    "f64_round 0 = Fin 0" "f64_round 1048576 = Fin 1048576" "f64_round 1073741824 = Fin 1073741824" "f64_round 17163091968 = Fin 17163091968"
    "f64_round 8589934592 = Fin 8589934592"
    using f64_round_nat [of 0] f64_round_nat [of 16368] f64_round_nat [of 8] f64_round_nat [of 12] f64_round_nat [of 44]
      f64_round_nat [of 1048576] f64_round_nat [of 1073741824] f64_round_nat [of 17163091968] f64_round_nat [of 8589934592]
    by simp_all
  have parsed: "parse_f64 ''16368.0'' = Some (f64_round 16368)" "parse_f64 ''8.0'' = Some (f64_round 8)"
    "parse_f64 ''12'' = Some (f64_round 12)" "parse_f64 ''44.0'' = Some (f64_round 44)" "parse_f64 ''0'' = Some (f64_round 0)"
    "parse_f64 [] = None"
    by (simp_all add: decimal_eval)
  have units: "CHR ''G'' \<notin> set (to_upper ''MB'')" "CHR ''G'' \<in> set (to_upper ''GB'')"
    by code_simp+
  have splits: "split_once_ws (trim ''16368.0 MB'') = Some (''16368.0'', ''MB'')" "trim ''16368.0'' = ''16368.0''"
    "split_once_ws (trim ''8.0 GB'') = Some (''8.0'', ''GB'')" "trim ''8.0'' = ''8.0''"
    "split_once_ws (trim ''garbage'') = None"
    by code_simp+
  show human_bytes_parsing
    unfolding human_bytes_parsing_def parse_human_bytes_def splits
    using units by (simp add: splits parsed ints f_of_nat_def)
  have trims: "trim (trim_end_matches (\<lambda>c. c = CHR ''%'') (trim ''12'')) = ''12''"
    "trim (trim_end_matches (\<lambda>c. c = CHR ''%'') (trim ''44.0'')) = ''44.0''"
    "trim (trim_end_matches (\<lambda>c. c = CHR ''%'') (trim ''0%'')) = ''0''"
    "trim (trim_end_matches (\<lambda>c. c = CHR ''%'') (trim [])) = []"
    by code_simp+
  show pct_parsing
    unfolding pct_parsing_def parse_pct_def trims by (simp add: parsed ints)
qed

lemma amdgpu_tree_test_passes: sysfs_enrichment_reads_amdgpu_tree
proof -
  have nums: "parse_u64 ''8589934592'' = Some 8589934592" "parse_u64 ''640000000'' = Some 640000000" "parse_u64 ''45500'' = Some 45500"
    by (simp_all add: parse_u64_def from_str_radix_digits digit_val_def)
  have vendors: "from_str_radix (2 ^ 32) 16 (strip_0x (trim ''0x1002'')) = Some 4098"
    "from_str_radix (2 ^ 32) 16 (strip_0x (trim ''0x10de'')) = Some 4318"
    by (simp_all add: strip_0x.simps trim_def trim_matches_def trim_end_matches_def is_ws_def starts_with_def
        from_str_radix_digits digit_val_def)
  have trims: "trim (''Radeon Pro WX 5100'' @ [CHR 0x0A]) = ''Radeon Pro WX 5100''"
    "trim (''876543210987654'' @ [CHR 0x0A]) = ''876543210987654''" "trim (''8589934592'' @ [CHR 0x0A]) = ''8589934592''"
    "trim (''640000000'' @ [CHR 0x0A]) = ''640000000''" "trim (''45500'' @ [CHR 0x0A]) = ''45500''"
    by code_simp+
  have paths: "path_join ''/t/class/drm'' (''card1'' @ ''/device'') = ''/t/class/drm/card1/device''"
    "path_join ''/t/class/drm/card1/device'' ''vendor'' = ''/t/class/drm/card1/device/vendor''"
    "path_join ''/t/class/drm/card1/device'' ''product_name'' = ''/t/class/drm/card1/device/product_name''"
    "path_join ''/t/class/drm/card1/device'' ''unique_id'' = ''/t/class/drm/card1/device/unique_id''"
    "path_join ''/t/class/drm/card1/device'' ''mem_info_vram_total'' = ''/t/class/drm/card1/device/mem_info_vram_total''"
    "path_join ''/t/class/drm/card1/device'' ''mem_info_vram_used'' = ''/t/class/drm/card1/device/mem_info_vram_used''"
    "path_join ''/t/class/drm/card1/device'' ''hwmon'' = ''/t/class/drm/card1/device/hwmon''"
    "path_join ''/t/class/drm/card1/device/hwmon'' ''hwmon0'' = ''/t/class/drm/card1/device/hwmon/hwmon0''"
    "path_join ''/t/class/drm/card1/device/hwmon/hwmon0'' ''temp1_input'' = ''/t/class/drm/card1/device/hwmon/hwmon0/temp1_input''"
    "file_name ''/t/devices/0000:03:00.0'' = Some ''0000:03:00.0''" "is_card_name ''card1''"
    by code_simp+
  have card: "sysfs_card (fake_amdgpu ''0x1002'') ''/t/class/drm'' ''card1'' = Some (''0000:03:00.0'',
      \<lparr>at_product_name = Some ''Radeon Pro WX 5100'', at_unique_id = Some ''876543210987654'',
       at_vram_total_bytes = Some 8589934592, at_vram_used_bytes = Some 640000000, at_utilization_pct = None,
       at_temperature_c = Some 45, at_source = ''rocm-sysfs''\<rparr>)"
    "sysfs_card (fake_amdgpu ''0x10de'') ''/t/class/drm'' ''card1'' = None"
    unfolding sysfs_card_def Let_def paths
    using nums vendors trims
    by (simp_all add: link_target_name_def read_hex_def read_nonempty_def read_u64_def hwmon_temperature_def
        read_names_def fake_amdgpu_def paths)
  have "read_names (fake_amdgpu v) ''/t/class/drm'' = [''card1'']" for v
    by (simp add: read_names_def fake_amdgpu_def)
  then show ?thesis
    by (simp add: sysfs_enrichment_reads_amdgpu_tree_def sysfs_enrichment_def card bt_from_def has_key_def test_simps)
qed

subsection \<open>The legacy NVML enumeration\<close>

definition discover_finds_at_least_one_gpu_on_this_host :: "string + nvml_library \<Rightarrow> bool" where
  "discover_finds_at_least_one_gpu_on_this_host init =
     unwrap_ok (gpu_topology_discover init) (\<lambda>devices.
       devices \<noteq> [] \<and> list_all (\<lambda>g. gl_name g \<noteq> [] \<and> gl_uuid g \<noteq> [] \<and> 0 < gl_total_memory_bytes g) devices)"

definition as_resources_projects_one_gpu_resource_per_device :: "string + nvml_library \<Rightarrow> bool" where
  "as_resources_projects_one_gpu_resource_per_device init =
     unwrap_ok (gpu_topology_discover init) (\<lambda>devices.
       let resources = gpu_topology_as_resources ''test-node'' devices
       in length resources = length devices
          \<and> list_all (\<lambda>r. res_kind r = Gpu \<and> res_exclusive r \<and> has_key (res_attributes r) ''gpu.uuid'') resources)"

text \<open>The second test needs no GPU: it passes wherever the library can be loaded and read.\<close>

lemma legacy_projection_test_iff:
  "as_resources_projects_one_gpu_resource_per_device init \<longleftrightarrow> (\<exists>devices. gpu_topology_discover init = Inr devices)"
  by (cases "gpu_topology_discover init")
    (auto simp: as_resources_projects_one_gpu_resource_per_device_def gpu_topology_as_resources_def list_all_iff
      bt_from_def has_key_def test_simps Let_def)

subsection \<open>Remote jobs\<close>

definition tailscale_cgnat_is_accepted_lan_is_not :: bool where
  "tailscale_cgnat_is_accepted_lan_is_not =
     (is_tailscale_ip (V4 100 109 55 22) \<and> is_tailscale_ip (V4 100 76 255 40)
      \<and> \<not> is_tailscale_ip (V4 192 168 4 38) \<and> \<not> is_tailscale_ip (V4 10 0 0 1))"

definition cpu_reference_meets_correctness_bar :: bool where
  "cpu_reference_meets_correctness_bar =
     (let job = sample_job 64; out = cpu_add (wj_a job) (wj_b job)
      in correctness_ok job out \<and> \<not> correctness_ok job (replicate 64 (Fin 0)))"

definition require_tailscale_rejects_lan_bind :: bool where
  "require_tailscale_rejects_lan_bind =
     (let lan = \<lparr>sa_ip = V4 192 168 4 38, sa_display = ''192.168.4.38:9110''\<rparr>;
          ts = \<lparr>sa_ip = V4 100 109 55 22, sa_display = ''100.109.55.22:9110''\<rparr>
      in isl (require_tailscale lan ''bind'') \<and> require_tailscale ts ''bind'' = Inr ())"

text \<open>Rounding to single precision leaves the numbers of a sample job far from the overflow limit.\<close>

lemma f32_round_moderate:
  assumes "0 \<le> q" "q \<le> b" "2 * b + 1 < 2 ^ 128"
  obtains r where "f32_round q = Fin r" "0 \<le> r" "r \<le> 2 * b + 1"
proof (cases "q = 0")
  case False
  then have q: "0 < q" using assms(1) by simp
  have "pow2 (- 126) \<le> pow2 0" by (simp only: pow2_le_iff)
  then have "rounded 23 (- 126) q \<le> 2 * b + 1"
    using rounded_bound [OF q, of 23 "- 126"] assms(2) by simp
  moreover from this have "f32_round q = Fin (rounded 23 (- 126) q)"
    using q assms(3) by (simp add: f32_round_def rounded_def Let_def)
  ultimately show thesis
    using that rounded_nonneg [of q 23 "- 126"] assms(1) by blast
next
  case True
  show thesis
    using that [of 0] assms(1,2) by (simp add: True)
qed

lemma sample_sum_finite:
  assumes "n < 2 ^ 32"
  shows "\<exists>q. f32_add (f32_of_nat n) (f32_half (f32_of_nat n)) = Fin q"
proof -
  have "(of_nat n :: rat) < of_nat (2 ^ 32)"
    using assms by (simp only: of_nat_less_iff)
  then have "(of_nat n :: rat) \<le> 2 ^ 32" by simp
  then obtain a where a: "f32_round (of_nat n) = Fin a" "0 \<le> a" "a \<le> 2 * 2 ^ 32 + 1"
    by (rule f32_round_moderate [rotated]) simp_all
  from a(2,3) obtain b where b: "f32_round (a * (1 / 2)) = Fin b" "0 \<le> b" "b \<le> 2 * (2 * 2 ^ 32 + 1) + 1"
    by (elim f32_round_moderate [of "a * (1 / 2)" "2 * 2 ^ 32 + 1", rotated 3]) simp_all
  have "0 \<le> a + b" "a + b \<le> 2 ^ 40"
    using a b by simp_all
  then obtain c where "f32_round (a + b) = Fin c"
    by (rule f32_round_moderate) simp_all
  then show ?thesis
    using a b by (simp add: f32_of_nat_def)
qed

lemma cpu_reference_test_passes: cpu_reference_meets_correctness_bar
proof -
  have fin: "list_all (\<lambda>x. \<exists>q. x = Fin q) (cpu_add (wj_a (sample_job 64)) (wj_b (sample_job 64)))"
    by (auto simp: cpu_add_def sample_job_def list_all_iff set_zip sample_sum_finite)
  have "list_all (\<lambda>(x, y). close_enough x y) (zip xs xs)" if "list_all (\<lambda>x. \<exists>q. x = Fin q) xs" for xs
    using that by (induction xs) (auto simp: close_to_itself)
  from this [OF fin] have "correctness_ok (sample_job 64) (cpu_add (wj_a (sample_job 64)) (wj_b (sample_job 64)))"
    by (simp add: correctness_ok_def cpu_add_def sample_job_def)
  moreover have "\<not> correctness_ok (sample_job 64) (replicate 64 (Fin 0))"
  proof -
    have "[0..<64] = 0 # 1 # [2..<64]" "replicate 64 (Fin 0) = Fin 0 # Fin 0 # replicate 62 (Fin 0)"
      by (simp_all add: upt_conv_Cons numeral_eq_Suc)
    moreover have "\<not> close_enough (f32_add (f32_of_nat 1) (f32_half (f32_of_nat 1))) (Fin 0)"
      by code_simp
    ultimately show ?thesis
      by (simp add: correctness_ok_def cpu_add_def sample_job_def)
  qed
  ultimately show ?thesis
    by (simp add: cpu_reference_meets_correctness_bar_def Let_def)
qed

lemma overlay_tests_pass: tailscale_cgnat_is_accepted_lan_is_not require_tailscale_rejects_lan_bind
  by (simp_all add: tailscale_cgnat_is_accepted_lan_is_not_def require_tailscale_rejects_lan_bind_def
      require_tailscale_def)

subsection \<open>The NUMA topology\<close>

definition discover_does_not_error_on_this_host :: "string + (hwloc_pci list \<times> hwloc_numa list) \<Rightarrow> bool" where
  "discover_does_not_error_on_this_host hwloc =
     unwrap_ok (topology_discover hwloc) (\<lambda>nodes.
       let resources = topology_as_resources ''local'' nodes
       in length resources = length nodes
          \<and> list_all (\<lambda>r. res_kind r = Memory \<and> res_node r = ''local'' \<and> has_key (res_attributes r) ''numa.os_index'')
              resources)"

definition pci_devices_are_distributed_across_numa_nodes_not_dropped ::
  "string + (hwloc_pci list \<times> hwloc_numa list) \<Rightarrow> bool"
where
  "pci_devices_are_distributed_across_numa_nodes_not_dropped hwloc =
     unwrap_ok (topology_discover hwloc) (\<lambda>nodes.
       case hwloc of
         Inl e \<Rightarrow> False
       | Inr (pci, _) \<Rightarrow> sum_list (map (\<lambda>n. length (nn_pci_devices n)) nodes) = length pci)"

lemma topology_conversion_test_iff: "discover_does_not_error_on_this_host hwloc \<longleftrightarrow> (\<exists>report. hwloc = Inr report)"
  by (cases hwloc)
    (auto simp: discover_does_not_error_on_this_host_def topology_discover_def topology_as_resources_def list_all_iff
      bt_from_def has_key_def test_simps Let_def split: prod.splits)

lemma topology_count_test_iff:
  "pci_devices_are_distributed_across_numa_nodes_not_dropped hwloc \<longleftrightarrow> (\<exists>report. hwloc = Inr report)"
proof (cases hwloc)
  case (Inr report)
  obtain pci numa where r: "report = (pci, numa)" by (cases report)
  have "\<exists>nodes. topology_discover hwloc = Inr nodes"
    by (simp add: Inr r topology_discover_def split: prod.split)
  then obtain nodes where n: "topology_discover hwloc = Inr nodes" ..
  have "length pci = size (node_devices nodes)"
    using topology_devices [of pci numa nodes] n by (simp add: Inr r)
  also have "\<dots> = sum_list (map (\<lambda>x. length (nn_pci_devices x)) nodes)"
    by (simp add: node_devices_def length_concat comp_def)
  finally show ?thesis
    using n by (simp add: pci_devices_are_distributed_across_numa_nodes_not_dropped_def Inr r test_simps)
qed (simp add: pci_devices_are_distributed_across_numa_nodes_not_dropped_def topology_discover_def test_simps)

end
