(* ===== verification/Hardware_Tests.thy ===== *)
theory Hardware_Tests
  imports Hardware Command_Tests Adapter_Tests
begin

text \<open>
  The unit tests of \<open>hwinfo.rs\<close> on the sysfs tree they build: two NUMA nodes, a physical and a virtual
  network interface, and an RDMA port that shares the PCI device of the physical one. The three
  symbolic links to that device are resolved by the host's readers.
\<close>

subsection \<open>The tree\<close>

definition pci_dir :: string where
  "pci_dir = ''/t/devices/pci0000:00/0000:01:00.0''"

definition device_links :: "string list" where
  "device_links =
     [''/t/bus/pci/devices/0000:01:00.0'', ''/t/class/net/enp1s0f0np0/device'', ''/t/class/infiniband/rocep1s0f0/device'']"

definition resolve :: "string \<Rightarrow> string" where
  "resolve p =
     (case find (\<lambda>l. p = l \<or> starts_with p (l @ ''/'')) device_links of
        None \<Rightarrow> p
      | Some l \<Rightarrow> pci_dir @ drop (length l) p)"

definition port_dir :: string where
  "port_dir = ''/t/class/infiniband/rocep1s0f0/ports/1''"

definition sys_files :: "(string \<times> string) list" where
  "sys_files =
     [(''/t/devices/system/node/node0/cpulist'', ''0-23'' @ [CHR 0x0A]),
      (''/t/devices/system/node/node0/meminfo'', ''Node 0 MemTotal:       1048576 kB'' @ [CHR 0x0A]
         @ ''Node 0 MemFree:         524288 kB'' @ [CHR 0x0A]),
      (''/t/devices/system/node/node1/cpulist'', ''24-47'' @ [CHR 0x0A]),
      (''/t/devices/system/node/node1/meminfo'', ''Node 1 MemTotal:       2097152 kB'' @ [CHR 0x0A]),
      (''/t/devices/system/node/possible'', ''0-1'' @ [CHR 0x0A]),
      (pci_dir @ ''/numa_node'', ''1'' @ [CHR 0x0A]),
      (''/t/class/net/enp1s0f0np0/operstate'', ''up'' @ [CHR 0x0A]),
      (''/t/class/net/enp1s0f0np0/speed'', ''25000'' @ [CHR 0x0A]),
      (''/t/class/net/enp1s0f0np0/mtu'', ''9000'' @ [CHR 0x0A]),
      (''/t/class/net/docker0/operstate'', ''down'' @ [CHR 0x0A]),
      (''/t/class/net/docker0/speed'', ''-1'' @ [CHR 0x0A]),
      (port_dir @ ''/state'', ''4: ACTIVE'' @ [CHR 0x0A]),
      (port_dir @ ''/rate'', ''25 Gb/sec (1X EDR)'' @ [CHR 0x0A]),
      (port_dir @ ''/link_layer'', ''Ethernet'' @ [CHR 0x0A]),
      (port_dir @ ''/gids/0'', ''fe80:0000:0000:0000:b026:28ff:fe3d:22d0'' @ [CHR 0x0A])]"

definition sys_dirs :: "(string \<times> string list) list" where
  "sys_dirs =
     [(''/t/devices/system/node'', [''node0'', ''node1'', ''possible'']),
      (''/t/class/net'', [''enp1s0f0np0'', ''docker0'']),
      (''/t/class/net/enp1s0f0np0'', [''operstate'', ''speed'', ''mtu'', ''device'']),
      (''/t/class/net/docker0'', [''operstate'', ''speed'']),
      (''/t/class/infiniband'', [''rocep1s0f0'']),
      (''/t/class/infiniband/rocep1s0f0/ports'', [''1'']),
      (port_dir @ ''/gids'', [''0'']),
      (pci_dir, [''numa_node'', ''driver'', ''net'']),
      (pci_dir @ ''/net'', [''enp1s0f0np0''])]"

definition fake_sys :: host where
  "fake_sys = bare_host
     \<lparr>h_file := (\<lambda>p. map_of sys_files (resolve p)),
      h_dir := (\<lambda>d. case map_of sys_dirs (resolve d) of None \<Rightarrow> Inl ''not found'' | Some names \<Rightarrow> Inr names),
      h_exists := (\<lambda>p. has_key sys_files (resolve p) \<or> has_key sys_dirs (resolve p)),
      h_link := (\<lambda>p. if resolve p = pci_dir @ ''/driver'' then Some ''/t/bus/pci/drivers/bnxt_en'' else None),
      h_canonical := (\<lambda>p. Some (resolve p))\<rparr>"

text \<open>Writing a file puts its name into the directory too.\<close>

definition write_file :: "string \<Rightarrow> string \<Rightarrow> string \<Rightarrow> host \<Rightarrow> host" where
  "write_file d n body h = h
     \<lparr>h_file := (h_file h)(d @ ''/'' @ n \<mapsto> body),
      h_dir := (h_dir h)(d := Inr (let names = read_names h d in if n \<in> set names then names else names @ [n]))\<rparr>"

definition net_resource :: "string \<Rightarrow> resource" where
  "net_resource iface =
     \<lparr>res_id = ''local.network.'' @ iface, res_kind = Network, res_capacity = 0, res_unit = ''unknown-bandwidth'',
      res_node = ''n'', res_state = Available, res_exclusive = False, res_attributes = bt_from [(''interface'', iface)]\<rparr>"

definition attribute :: "resource \<Rightarrow> string \<Rightarrow> string option" where
  "attribute r k = map_of (res_attributes r) k"

subsection \<open>The tests\<close>

definition numa_nodes_become_memory_resources :: bool where
  "numa_nodes_become_memory_resources =
     (let numa = numa_resources fake_sys ''/t'' ''n''
      in length numa = 2 \<and> res_id (numa ! 0) = ''local.numa.0'' \<and> res_capacity (numa ! 0) = 1024 * 1024 * 1024
         \<and> attribute (numa ! 0) ''numa.cpulist'' = Some ''0-23''
         \<and> attribute (numa ! 0) ''numa.free_bytes'' = Some (show_word (512 * 1024 * 1024 :: u64))
         \<and> attribute (numa ! 1) ''numa.node'' = Some ''1'')"

definition network_gets_speed_pci_numa_and_rdma :: bool where
  "network_gets_speed_pci_numa_and_rdma =
     (let res = enrich_network fake_sys ''/t'' [net_resource ''enp1s0f0np0'', net_resource ''docker0'']
            (bt_from [(''enp1s0f0np0'', [''10.0.10.61/24''])]);
          a = res ! 0; v = res ! 1
      in res_capacity a = 25000000000 \<and> res_unit a = ''bits/s''
         \<and> attribute a ''net.speed_mbps'' = Some ''25000''
         \<and> attribute a ''net.pci_bdf'' = Some ''0000:01:00.0''
         \<and> attribute a ''net.driver'' = Some ''bnxt_en''
         \<and> attribute a ''net.numa_node'' = Some ''1''
         \<and> attribute a ''net.ipv4'' = Some ''10.0.10.61/24''
         \<and> attribute a ''net.rdma_device'' = Some ''rocep1s0f0''
         \<and> res_capacity v = 0 \<and> attribute v ''net.virtual'' = Some ''true'')"

definition rdma_ports_are_typed_resources :: bool where
  "rdma_ports_are_typed_resources =
     (let rdma = rdma_resources fake_sys ''/t'' ''n''; r = rdma ! 0
      in length rdma = 1 \<and> res_id r = ''local.rdma.rocep1s0f0.1'' \<and> res_capacity r = 25000000000
         \<and> res_state r = Available \<and> res_exclusive r
         \<and> attribute r ''rdma.state'' = Some ''ACTIVE''
         \<and> attribute r ''rdma.transport'' = Some ''roce''
         \<and> attribute r ''rdma.link_layer'' = Some ''Ethernet''
         \<and> attribute r ''rdma.netdev'' = Some ''enp1s0f0np0''
         \<and> attribute r ''rdma.numa_node'' = Some ''1'')"

definition down_port :: "host \<Rightarrow> host" where
  "down_port = write_file port_dir ''state'' (''1: DOWN'' @ [CHR 0x0A])"

definition slow_down_port :: host where
  "slow_down_port = write_file port_dir ''rate'' (''2.5 Gb/sec (1X SDR)'' @ [CHR 0x0A]) (down_port fake_sys)"

definition down_rdma_port_is_unavailable :: bool where
  "down_rdma_port_is_unavailable =
     (let r = rdma_resources slow_down_port ''/t'' ''n'' ! 0
      in res_state r = Unavailable \<and> res_capacity r = 2500000000 \<and> attribute r ''rdma.state'' = Some ''DOWN'')"

definition gpu_numa_from_pci_device :: bool where
  "gpu_numa_from_pci_device =
     (let gpu = \<lparr>res_id = ''local.gpu.x'', res_kind = Gpu, res_capacity = 1, res_unit = ''bytes'', res_node = ''n'',
            res_state = Available, res_exclusive = True, res_attributes = bt_from [(''gpu.pci_bdf'', ''0000:01:00.0'')]\<rparr>
      in attribute (enrich_gpu_numa fake_sys ''/t'' [gpu] ! 0) ''gpu.numa_node'' = Some ''1'')"

definition lease_for :: "string \<Rightarrow> lease" where
  "lease_for rid = \<lparr>lease_id = 7, lease_resource = rid, lease_owner = ''test''\<rparr>"

definition roce_v2_sys :: host where
  "roce_v2_sys =
     write_file (port_dir @ ''/gid_attrs/types'') ''3'' (''RoCE v2'' @ [CHR 0x0A])
      (write_file (port_dir @ ''/gid_attrs/types'') ''0'' (''IB/RoCE v1'' @ [CHR 0x0A])
        (write_file (port_dir @ ''/gids'') ''3'' (''0000:0000:0000:0000:0000:ffff:0a00:0a3d'' @ [CHR 0x0A]) fake_sys))"

definition rdma_adapter_attaches_active_port_with_roce_v2_gid :: bool where
  "rdma_adapter_attaches_active_port_with_roce_v2_gid =
     (let h = roce_v2_sys; res = rdma_resources h ''/t'' ''n'' ! 0
      in unwrap_ok (rdma_attach ''/t'' res (lease_for (res_id res)) h) (\<lambda>att.
           att_adapter att = ''rdma''
           \<and> map_of (att_details att) ''rdma.roce_v2_gid_index'' = Some ''3''
           \<and> map_of (att_details att) ''attachment.scope'' = Some ''rdma-port''
           \<and> rep_healthy (rdma_report ''/t'' h)))"

definition rdma_adapter_refuses_port_that_went_down :: bool where
  "rdma_adapter_refuses_port_that_went_down =
     (let res = rdma_resources fake_sys ''/t'' ''n'' ! 0; h = down_port fake_sys
      in unwrap_err (rdma_attach ''/t'' res (lease_for (res_id res)) h) (\<lambda>err.
           (case err of AdapterBackendUnavailable _ _ \<Rightarrow> True | _ \<Rightarrow> False)
           \<and> \<not> rep_healthy (rdma_report ''/t'' h)))"

definition rdma_adapter_rejects_non_rdma_resource :: bool where
  "rdma_adapter_rejects_non_rdma_resource =
     (let res = net_resource ''enp1s0f0np0'' in isl (rdma_attach ''/t'' res (lease_for (res_id res)) fake_sys))"

definition transport_names :: bool where
  "transport_names =
     (rdma_transport ''rocep134s0f0'' = ''roce'' \<and> rdma_transport ''iwo1'' = ''iwarp''
      \<and> rdma_transport ''mlx5_0'' = ''roce'' \<and> rdma_transport ''ibp1s0'' = ''infiniband'')"

subsection \<open>They pass\<close>

lemma hardware_names_tests_pass: transport_names rdma_adapter_rejects_non_rdma_resource
  by code_simp+

lemma gpu_numa_test_passes: gpu_numa_from_pci_device
  by code_simp

text \<open>What the tests read of the port, as it is and when it is down.\<close>

definition port_resource :: "string \<Rightarrow> string \<Rightarrow> string \<Rightarrow> resource" where
  "port_resource node state rate =
     \<lparr>res_id = ''local.rdma.rocep1s0f0.1'', res_kind = Network, res_capacity = rate_bits rate, res_unit = ''bits/s'',
      res_node = node, res_state = (if state = ''ACTIVE'' then Available else Unavailable), res_exclusive = True,
      res_attributes = bt_from
        [(''rdma.device'', ''rocep1s0f0''), (''rdma.driver'', ''bnxt_en''),
         (''rdma.gid0'', ''fe80:0000:0000:0000:b026:28ff:fe3d:22d0''), (''rdma.link_layer'', ''Ethernet''),
         (''rdma.netdev'', ''enp1s0f0np0''), (''rdma.numa_node'', ''1''), (''rdma.port'', ''1''),
         (''rdma.rate'', rate), (''rdma.state'', state), (''rdma.transport'', ''roce'')]\<rparr>"

lemma port_rates: "rate_bits ''25 Gb/sec (1X EDR)'' = 25000000000" "rate_bits ''2.5 Gb/sec (1X SDR)'' = 2500000000"
proof -
  have words: "split_whitespace ''25 Gb/sec (1X EDR)'' = [''25'', ''Gb/sec'', ''(1X'', ''EDR)'']"
    "split_whitespace ''2.5 Gb/sec (1X SDR)'' = [''2.5'', ''Gb/sec'', ''(1X'', ''SDR)'']"
    by code_simp+
  have "parse_f64 ''25'' = Some (f64_round 25)" "parse_f64 ''2.5'' = Some (f64_round (5 / 2))"
    by (simp_all add: decimal_eval)
  moreover have "f64_round 25 = Fin 25" "f64_round 25000000000 = Fin 25000000000" "f64_round 2500000000 = Fin 2500000000"
    using f_of_nat_exact [of 25] f_of_nat_exact [of 25000000000] f_of_nat_exact [of 2500000000]
    by (simp_all add: f_of_nat_def)
  moreover have "f64_round (5 / 2) = Fin (5 / 2)"
    using f64_round_units [of "5 / 2" 51 5629499534213120] by simp
  ultimately show "rate_bits ''25 Gb/sec (1X EDR)'' = 25000000000" "rate_bits ''2.5 Gb/sec (1X SDR)'' = 2500000000"
    by (simp_all add: rate_bits_def words)
qed

definition same_port :: "host \<Rightarrow> string \<Rightarrow> bool" where
  "same_port h rate =
     (entries h (path_join ''/t'' ''class/infiniband'') = [(''rocep1s0f0'', ''/t/class/infiniband/rocep1s0f0'')]
      \<and> entries h (path_join ''/t/class/infiniband/rocep1s0f0'' ''ports'') = [(''1'', port_dir)]
      \<and> map fst (entries h (path_join (path_join ''/t/class/infiniband/rocep1s0f0'' ''device'') ''net'')) = [''enp1s0f0np0'']
      \<and> pci_numa h (path_join ''/t/class/infiniband/rocep1s0f0'' ''device'') = Some ''1''
      \<and> link_target_name h (path_join (path_join ''/t/class/infiniband/rocep1s0f0'' ''device'') ''driver'') = Some ''bnxt_en''
      \<and> read_trim h (path_join port_dir ''rate'') = Some rate
      \<and> read_trim h (path_join port_dir ''link_layer'') = Some ''Ethernet''
      \<and> read_trim h (path_join port_dir ''gids/0'') = Some ''fe80:0000:0000:0000:b026:28ff:fe3d:22d0'')"

lemma same_ports:
  "same_port fake_sys ''25 Gb/sec (1X EDR)''" "same_port roce_v2_sys ''25 Gb/sec (1X EDR)''"
  "same_port (down_port fake_sys) ''25 Gb/sec (1X EDR)''" "same_port slow_down_port ''2.5 Gb/sec (1X SDR)''"
  by code_simp+

lemma port_states:
  "read_trim fake_sys (path_join port_dir ''state'') = Some ''4: ACTIVE''"
  "read_trim roce_v2_sys (path_join port_dir ''state'') = Some ''4: ACTIVE''"
  "read_trim (down_port fake_sys) (path_join port_dir ''state'') = Some ''1: DOWN''"
  "read_trim slow_down_port (path_join port_dir ''state'') = Some ''1: DOWN''"
  "trim '' ACTIVE'' = ''ACTIVE''" "trim '' DOWN'' = ''DOWN''"
  "contains ''4: ACTIVE'' ''ACTIVE''" "\<not> contains ''1: DOWN'' ''ACTIVE''"
  by code_simp+

lemma transport_of_port: "rdma_transport ''rocep1s0f0'' = ''roce''"
  by code_simp

lemma rdma_ports:
  "rdma_resources fake_sys ''/t'' node = [port_resource node ''ACTIVE'' ''25 Gb/sec (1X EDR)'']"
  "rdma_resources roce_v2_sys ''/t'' node = [port_resource node ''ACTIVE'' ''25 Gb/sec (1X EDR)'']"
  "rdma_resources (down_port fake_sys) ''/t'' node = [port_resource node ''DOWN'' ''25 Gb/sec (1X EDR)'']"
  "rdma_resources slow_down_port ''/t'' node = [port_resource node ''DOWN'' ''2.5 Gb/sec (1X SDR)'']"
  using same_ports
  by (simp_all add: same_port_def rdma_resources_def rdma_port_resource_def port_states transport_of_port
      port_resource_def insert_some_def bt_from_def Let_def del: contains.simps)

lemma rdma_tests_pass: rdma_ports_are_typed_resources down_rdma_port_is_unavailable
  by (simp_all add: rdma_ports_are_typed_resources_def down_rdma_port_is_unavailable_def rdma_ports port_resource_def
      port_rates attribute_def bt_from_def)

lemma roce_gid: "roce_v2_gid_index roce_v2_sys ''/t'' ''rocep1s0f0'' ''1'' = Some ''3''"
proof -
  have dir: "path_join (path_join (path_join (path_join ''/t'' ''class/infiniband'') ''rocep1s0f0'') ''ports'') ''1'' = port_dir"
    by code_simp
  have "entries roce_v2_sys (path_join port_dir ''gids'') = [(''0'', port_dir @ ''/gids/0''), (''3'', port_dir @ ''/gids/3'')]"
    by code_simp
  moreover have "parse_u32 ''0'' = Some 0" "parse_u32 ''3'' = Some 3"
    by (simp_all add: parse_u32_def from_str_radix_digits digit_val_def)
  moreover have "show_nat 0 = ''0''" "show_nat 3 = ''3''"
    by code_simp+
  ultimately have indices: "map show_word (sort (List.map_filter (\<lambda>(n, _). parse_u32 n) (entries roce_v2_sys (path_join port_dir ''gids''))))
      = [''0'', ''3'']"
    by (simp add: List.map_filter_def)
  have "unwrap_or (read_trim roce_v2_sys (path_join (path_join port_dir ''gid_attrs/types'') ''0'')) [] = ''IB/RoCE v1''"
    "unwrap_or (read_trim roce_v2_sys (path_join (path_join port_dir ''gid_attrs/types'') ''3'')) [] = ''RoCE v2''"
    "starts_with (unwrap_or (read_trim roce_v2_sys (path_join (path_join port_dir ''gids'') ''3'')) [])
       ''0000:0000:0000:0000:0000:ffff:''"
    by code_simp+
  then show ?thesis
    unfolding roce_v2_gid_index_def dir Let_def indices by simp
qed

lemma rdma_adapter_tests_pass:
  rdma_adapter_attaches_active_port_with_roce_v2_gid rdma_adapter_refuses_port_that_went_down
proof -
  have "starts_with ''local.rdma.rocep1s0f0.1'' ''local.rdma.''"
    by code_simp
  moreover have "ipv4_by_interface roce_v2_sys = []"
    by (simp add: ipv4_by_interface_def roce_v2_sys_def write_file_def fake_sys_def bare_host_def)
  ultimately show rdma_adapter_attaches_active_port_with_roce_v2_gid
    "rdma_adapter_refuses_port_that_went_down"
    by (simp_all add: rdma_adapter_attaches_active_port_with_roce_v2_gid_def rdma_adapter_refuses_port_that_went_down_def
        rdma_attach_def rdma_report_def rdma_ports port_resource_def bt_from_def insert_some_def roce_gid test_simps Let_def)
qed

lemma numa_test_passes: numa_nodes_become_memory_resources
proof -
  have dirs: "entries fake_sys (path_join ''/t'' ''devices/system/node'') =
      [(''node0'', ''/t/devices/system/node/node0''), (''node1'', ''/t/devices/system/node/node1''),
       (''possible'', ''/t/devices/system/node/possible'')]"
    by code_simp
  have names: "strip_prefix ''node0'' ''node'' = Some ''0''" "strip_prefix ''node1'' ''node'' = Some ''1''"
    "strip_prefix ''possible'' ''node'' = None"
    by code_simp+
  have nums: "parse_u32 ''0'' = Some 0" "parse_u32 ''1'' = Some 1"
    "parse_u64 ''1048576'' = Some 1048576" "parse_u64 ''524288'' = Some 524288" "parse_u64 ''2097152'' = Some 2097152"
    by (simp_all add: parse_u32_def parse_u64_def from_str_radix_digits digit_val_def)
  have texts: "map split_whitespace (lines (unwrap_or (read_trim fake_sys (path_join ''/t/devices/system/node/node0'' ''meminfo'')) [])) =
      [[''Node'', ''0'', ''MemTotal:'', ''1048576'', ''kB''], [''Node'', ''0'', ''MemFree:'', ''524288'', ''kB'']]"
    "map split_whitespace (lines (unwrap_or (read_trim fake_sys (path_join ''/t/devices/system/node/node1'' ''meminfo'')) [])) =
      [[''Node'', ''1'', ''MemTotal:'', ''2097152'', ''kB'']]"
    "read_trim fake_sys (path_join ''/t/devices/system/node/node0'' ''cpulist'') = Some ''0-23''"
    by code_simp+
  have "node_meminfo fake_sys ''/t/devices/system/node/node0'' = (1048576 * 1024, 524288 * 1024)"
    "node_meminfo fake_sys ''/t/devices/system/node/node1'' = (2097152 * 1024, 0)"
    using texts nums by (auto simp: node_meminfo_def map_eq_Cons_conv Let_def)
  moreover have "show_nat 0 = ''0''" "show_nat (Suc 0) = ''1''"
    by code_simp+
  ultimately show ?thesis
    using texts(3)
    by (simp add: numa_nodes_become_memory_resources_def numa_resources_def dirs numa_resource_def names nums
        List.map_filter_def attribute_def bt_from_def)
qed

lemma network_test_passes: network_gets_speed_pci_numa_and_rdma
proof -
  have dirs: "path_join (path_join ''/t'' ''class/net'') ''enp1s0f0np0'' = ''/t/class/net/enp1s0f0np0''"
    "path_join (path_join ''/t'' ''class/net'') ''docker0'' = ''/t/class/net/docker0''"
    "path_join ''/t/class/net/enp1s0f0np0'' ''device'' = ''/t/class/net/enp1s0f0np0/device''"
    "path_join ''/t/class/net/docker0'' ''device'' = ''/t/class/net/docker0/device''"
    by code_simp+
  have facts: "rdma_by_netdev fake_sys ''/t'' = [(''enp1s0f0np0'', (''rocep1s0f0'', ''1''))]"
    "h_exists fake_sys ''/t/class/net/enp1s0f0np0''" "h_exists fake_sys ''/t/class/net/docker0''"
    "h_exists fake_sys ''/t/class/net/enp1s0f0np0/device''" "\<not> h_exists fake_sys ''/t/class/net/docker0/device''"
    "pci_numa fake_sys ''/t/class/net/enp1s0f0np0/device'' = Some ''1''"
    "link_target_name fake_sys (path_join ''/t/class/net/enp1s0f0np0/device'' ''driver'') = Some ''bnxt_en''"
    "file_name (resolve ''/t/class/net/enp1s0f0np0/device'') = Some ''0000:01:00.0''"
    "read_trim fake_sys (path_join ''/t/class/net/enp1s0f0np0'' ''speed'') = Some ''25000''"
    "read_trim fake_sys (path_join ''/t/class/net/docker0'' ''speed'') = Some ''-1''"
    "read_trim fake_sys (path_join ''/t/class/net/enp1s0f0np0'' ''operstate'') = Some ''up''"
    "read_trim fake_sys (path_join ''/t/class/net/docker0'' ''operstate'') = Some ''down''"
    "read_trim fake_sys (path_join ''/t/class/net/enp1s0f0np0'' ''mtu'') = Some ''9000''"
    "read_trim fake_sys (path_join ''/t/class/net/docker0'' ''mtu'') = None"
    by code_simp+
  have canonical: "h_canonical fake_sys p = Some (resolve p)" for p
    by (simp add: fake_sys_def)
  have "from_str_radix (2 ^ 63) 10 ''25000'' = Some 25000" "from_str_radix (2 ^ 63) 10 ''-1'' = None"
    by (simp_all add: from_str_radix_digits digit_val_def)
  then have speeds: "net_speed fake_sys ''/t/class/net/enp1s0f0np0'' = Some 25000" "net_speed fake_sys ''/t/class/net/docker0'' = None"
    by (simp_all add: net_speed_def parse_positive_i64_def facts)
  have "digit_char 0 = CHR ''0''" "digit_char 2 = CHR ''2''" "digit_char 5 = CHR ''5''"
    by code_simp+
  then have speed_text: "show_nat 25000 = ''25000''"
    by (simp add: show_radix.simps [of 10 25000] show_radix.simps [of 10 2500] show_radix.simps [of 10 250]
        show_radix.simps [of 10 25] show_radix.simps [of 10 2])
  show ?thesis
    by (simp add: network_gets_speed_pci_numa_and_rdma_def enrich_network_def net_resource_def dirs facts speeds canonical
        enrich_interface_def net_device_attrs_def insert_some_def bt_from_def attribute_def speed_text)
qed

end
