(* ===== verification/Plan_Wire.thy ===== *)
theory Plan_Wire
  imports Plan_Properties Fleet
begin

text \<open>
  The wire form of asks, fragments, slots, hosts and matrices in \<open>plan.rs\<close>: what the derived \<open>Serialize\<close>
  and \<open>Deserialize\<close> of \<open>serde\<close> make of the field attributes of the source (\<open>default\<close>,
  \<open>default = "default_true"\<close>, \<open>skip_serializing_if\<close>) on the values of \<open>serde_json\<close>. A reader that fails
  gives no value; its message is not modelled. The other theories keep the readers as arguments; here
  they are instantiated, and what is written is shown to be read back.
\<close>

subsection \<open>Writing\<close>

definition plan_endpoint_path :: string where
  "plan_endpoint_path = ''/v1/plan''"

definition fragment_fields :: "string list" where
  "fragment_fields = [''node_id'', ''role'', ''host_key'', ''slot'', ''model_id'', ''reason'']"

text \<open>A \<open>Value\<close> keeps the fields of an object sorted by name.\<close>

definition value_object :: "(string \<times> json) list \<Rightarrow> json" where
  "value_object kvs = JObj (bt_from kvs)"

definition skip_none :: "('a \<Rightarrow> json) \<Rightarrow> string \<Rightarrow> 'a option \<Rightarrow> (string \<times> json) list" where
  "skip_none write k x = (case x of None \<Rightarrow> [] | Some v \<Rightarrow> [(k, write v)])"

definition null_none :: "('a \<Rightarrow> json) \<Rightarrow> 'a option \<Rightarrow> json" where
  "null_none write x = (case x of None \<Rightarrow> JNull | Some v \<Rightarrow> write v)"

definition request_entries :: "plan_request \<Rightarrow> (string \<times> json) list" where
  "request_entries r = [(''node_id'', JStr (pr_node_id r)), (''role'', JStr (pr_role r))]
     @ (if pr_local_snapshot r = JNull then [] else [(''local_snapshot'', pr_local_snapshot r)])"

definition fragment_entries :: "plan_fragment \<Rightarrow> (string \<times> json) list" where
  "fragment_entries f = [(''node_id'', JStr (pf_node_id f)), (''role'', JStr (pf_role f)),
       (''host_key'', JStr (pf_host_key f)), (''slot'', JStr (pf_slot f)), (''model_id'', JStr (pf_model_id f)),
       (''reason'', JStr (pf_reason f))]
     @ skip_none JStr ''resource_id'' (pf_resource_id f) @ skip_none json_f64 ''rtt_ms'' (pf_rtt_ms f)"

definition slot_entries :: "slot_view \<Rightarrow> (string \<times> json) list" where
  "slot_entries s = [(''slot'', JStr (sv_slot s)), (''model_id'', JStr (sv_model_id s)),
     (''roles'', JArr (map JStr (sv_roles s))), (''healthy'', JBool (sv_healthy s)),
     (''free_mb'', json_f64 (sv_free_mb s)), (''resource_id'', null_none JStr (sv_resource_id s))]"

definition host_entries :: "host_view \<Rightarrow> (string \<times> json) list" where
  "host_entries h = [(''slots'', JArr (map (\<lambda>s. value_object (slot_entries s)) (hv_slots h))),
     (''locked'', JBool (hv_locked h))]"

definition matrix_entries :: "latency_matrix \<Rightarrow> (string \<times> json) list" where
  "matrix_entries m = [(''rpc_median_ms'',
     value_object (map (\<lambda>(src, row). (src, value_object (map (\<lambda>(dst, x). (dst, null_none json_f64 x)) row))) m))]"

definition view_entries :: "fleet_view \<Rightarrow> (string \<times> json) list" where
  "view_entries v = [(''hosts'', value_object (map (\<lambda>(k, h). (k, value_object (host_entries h))) (fv_hosts v))),
     (''latency'', value_object (matrix_entries (fv_latency v)))]"

text \<open>The compact text of a value: the escapes of JSON strings, the text of a number as an argument. A struct is
  written with its fields in the order of their declaration.\<close>

definition hex_digit :: "nat \<Rightarrow> char" where
  "hex_digit n = ''0123456789abcdef'' ! n"

definition json_escape :: "char \<Rightarrow> string" where
  "json_escape c =
     (if c = CHR 0x22 \<or> c = CHR 0x5C then [CHR 0x5C, c]
      else if c = CHR 0x08 then CHR 0x5C # ''b''
      else if c = CHR 0x09 then CHR 0x5C # ''t''
      else if c = CHR 0x0A then CHR 0x5C # ''n''
      else if c = CHR 0x0C then CHR 0x5C # ''f''
      else if c = CHR 0x0D then CHR 0x5C # ''r''
      else let n = (of_char c :: nat) in
        if n < 0x20 then CHR 0x5C # ''u00'' @ [hex_digit (n div 16), hex_digit (n mod 16)] else [c])"

definition json_string :: "string \<Rightarrow> string" where
  "json_string s = [CHR 0x22] @ concat (map json_escape s) @ [CHR 0x22]"

fun json_text :: "(f64 \<Rightarrow> string) \<Rightarrow> json \<Rightarrow> string" where
  "json_text num JNull = ''null''"
| "json_text num (JBool b) = (if b then ''true'' else ''false'')"
| "json_text num (JNum x) = num x"
| "json_text num (JStr s) = json_string s"
| "json_text num (JArr xs) = ''['' @ join '','' (map (json_text num) xs) @ '']''"
| "json_text num (JObj m) =
     ''{'' @ join '','' (map (\<lambda>kv. json_string (fst kv) @ '':'' @ json_text num (snd kv)) m) @ ''}''"

subsection \<open>Reading\<close>

fun read_string :: "json \<Rightarrow> string option" where
  "read_string (JStr s) = Some s"
| "read_string _ = None"

fun read_bool :: "json \<Rightarrow> bool option" where
  "read_bool (JBool b) = Some b"
| "read_bool _ = None"

fun read_f64 :: "json \<Rightarrow> f64 option" where
  "read_f64 (JNum x) = Some x"
| "read_f64 _ = None"

fun read_option :: "(json \<Rightarrow> 'a option) \<Rightarrow> json \<Rightarrow> 'a option option" where
  "read_option read JNull = Some None"
| "read_option read v = map_option Some (read v)"

fun read_vec :: "(json \<Rightarrow> 'a option) \<Rightarrow> json \<Rightarrow> 'a list option" where
  "read_vec read (JArr xs) = those (map read xs)"
| "read_vec read _ = None"

fun read_map :: "(json \<Rightarrow> 'a option) \<Rightarrow> json \<Rightarrow> 'a smap option" where
  "read_map read (JObj m) = map_option bt_from (those (map (\<lambda>(k, v). map_option (Pair k) (read v)) m))"
| "read_map read _ = None"

text \<open>A struct is read from an object, whose unknown keys are ignored, or from an array that holds the
  fields in the order of their declaration and may stop early when the rest have defaults.\<close>

fun read_struct :: "string list \<Rightarrow> ((string \<Rightarrow> json option) \<Rightarrow> 'a option) \<Rightarrow> json \<Rightarrow> 'a option" where
  "read_struct names read (JObj m) = read (map_of m)"
| "read_struct names read (JArr xs) = (if length xs \<le> length names then read (map_of (zip names xs)) else None)"
| "read_struct names read _ = None"

definition required :: "(json \<Rightarrow> 'a option) \<Rightarrow> (string \<Rightarrow> json option) \<Rightarrow> string \<Rightarrow> 'a option" where
  "required read get k = Option.bind (get k) read"

definition defaulted :: "'a \<Rightarrow> (json \<Rightarrow> 'a option) \<Rightarrow> (string \<Rightarrow> json option) \<Rightarrow> string \<Rightarrow> 'a option" where
  "defaulted d read get k = (case get k of None \<Rightarrow> Some d | Some v \<Rightarrow> read v)"

definition default_true :: bool where
  "default_true = True"

definition read_request :: "json \<Rightarrow> plan_request option" where
  "read_request = read_struct [''node_id'', ''role'', ''local_snapshot''] (\<lambda>get.
     Option.bind (required read_string get ''node_id'') (\<lambda>node.
     Option.bind (required read_string get ''role'') (\<lambda>role.
     Option.bind (defaulted JNull Some get ''local_snapshot'') (\<lambda>snapshot.
     Some \<lparr>pr_node_id = node, pr_role = role, pr_local_snapshot = snapshot\<rparr>))))"

definition read_fragment :: "json \<Rightarrow> plan_fragment option" where
  "read_fragment = read_struct (fragment_fields @ [''resource_id'', ''rtt_ms'']) (\<lambda>get.
     Option.bind (required read_string get ''node_id'') (\<lambda>node.
     Option.bind (required read_string get ''role'') (\<lambda>role.
     Option.bind (required read_string get ''host_key'') (\<lambda>host.
     Option.bind (required read_string get ''slot'') (\<lambda>slot.
     Option.bind (required read_string get ''model_id'') (\<lambda>model.
     Option.bind (required read_string get ''reason'') (\<lambda>reason.
     Option.bind (defaulted None (read_option read_string) get ''resource_id'') (\<lambda>rid.
     Option.bind (defaulted None (read_option read_f64) get ''rtt_ms'') (\<lambda>rtt.
     Some \<lparr>pf_node_id = node, pf_role = role, pf_host_key = host, pf_slot = slot, pf_model_id = model,
           pf_reason = reason, pf_resource_id = rid, pf_rtt_ms = rtt\<rparr>)))))))))"

definition read_slot :: "json \<Rightarrow> slot_view option" where
  "read_slot = read_struct [''slot'', ''model_id'', ''roles'', ''healthy'', ''free_mb'', ''resource_id''] (\<lambda>get.
     Option.bind (defaulted [] read_string get ''slot'') (\<lambda>slot.
     Option.bind (defaulted [] read_string get ''model_id'') (\<lambda>model.
     Option.bind (defaulted [] (read_vec read_string) get ''roles'') (\<lambda>roles.
     Option.bind (defaulted default_true read_bool get ''healthy'') (\<lambda>healthy.
     Option.bind (defaulted (Fin 0) read_f64 get ''free_mb'') (\<lambda>free_mb.
     Option.bind (defaulted None (read_option read_string) get ''resource_id'') (\<lambda>rid.
     Some \<lparr>sv_slot = slot, sv_model_id = model, sv_roles = roles, sv_healthy = healthy, sv_free_mb = free_mb,
           sv_resource_id = rid\<rparr>)))))))"

definition read_matrix :: "json \<Rightarrow> latency_matrix option" where
  "read_matrix = read_struct [''rpc_median_ms''] (\<lambda>get.
     defaulted [] (read_map (read_map (read_option read_f64))) get ''rpc_median_ms'')"

lemmas read_defs = read_request_def read_fragment_def read_slot_def read_matrix_def required_def defaulted_def
  default_true_def fragment_fields_def

subsection \<open>What is written is read back\<close>

text \<open>The part of a double JSON can hold: a number that is not finite is written as null.\<close>

definition finite_part :: "f64 option \<Rightarrow> f64 option" where
  "finite_part x = (case x of Some (Fin q) \<Rightarrow> Some (Fin q) | _ \<Rightarrow> None)"

lemma read_json_f64: "read_option read_f64 (json_f64 x) = Some (finite_part (Some x))"
  by (cases x) (simp_all add: json_f64_def finite_part_def)

lemma read_null_f64: "read_option read_f64 (null_none json_f64 x) = Some (finite_part x)"
  by (cases x) (simp_all add: null_none_def finite_part_def read_json_f64)

lemma read_null_string: "read_option read_string (null_none JStr x) = Some x"
  by (cases x) (simp_all add: null_none_def)

lemma those_map: "list_all (\<lambda>x. f x = Some (g x)) xs \<Longrightarrow> those (map f xs) = Some (map g xs)"
  by (induction xs) auto

lemma read_strings: "those (map (read_string \<circ> JStr) xs) = Some xs"
  by (induction xs) simp_all

text \<open>The result of reading a fragment back: an infinite or undefined round trip is taken as not
  measured, everything else is unchanged.\<close>

lemma fragment_wire_roundtrip:
  "read_fragment (value_object (fragment_entries f)) = Some (f\<lparr>pf_rtt_ms := finite_part (pf_rtt_ms f)\<rparr>)"
  by (cases "pf_resource_id f"; cases "pf_rtt_ms f")
    (simp_all add: read_defs value_object_def fragment_entries_def skip_none_def get_bt_from read_json_f64 finite_part_def)

lemma request_wire_roundtrip: "read_request (value_object (request_entries r)) = Some r"
  by (simp add: read_defs value_object_def request_entries_def get_bt_from)

text \<open>A null snapshot is never sent.\<close>

lemma request_sends_no_null: "map_of (request_entries r) k \<noteq> Some JNull"
  by (auto simp: request_entries_def)

lemma slot_wire_roundtrip:
  "read_slot (value_object (slot_entries s)) = (case sv_free_mb s of Fin _ \<Rightarrow> Some s | _ \<Rightarrow> None)"
  by (cases "sv_free_mb s")
    (simp_all add: read_defs value_object_def slot_entries_def get_bt_from read_strings read_null_string json_f64_def)

subsection \<open>Maps\<close>

lemma bt_insert_last: "\<forall>k' \<in> set (keys m). k' < k \<Longrightarrow> bt_insert k v m = m @ [(k, v)]"
  by (induction m) (auto simp: order.asym)

lemma bt_from_wf:
  assumes "bt_wf m"
  shows "bt_from m = m"
  using assms
proof (induction m rule: rev_induct)
  case (snoc kv m)
  obtain k v where kv: "kv = (k, v)" by fastforce
  have "bt_wf m" "\<forall>k' \<in> set (keys m). k' < k"
    using snoc.prems unfolding kv bt_wf_def by (force simp: sorted_append order.strict_iff_order)+
  then show ?case
    using snoc.IH by (simp add: kv bt_from_def bt_insert_last)
qed (simp add: bt_from_def)

definition map_values :: "('v \<Rightarrow> 'w) \<Rightarrow> ('k \<times> 'v) list \<Rightarrow> ('k \<times> 'w) list" where
  "map_values g m = map (\<lambda>(k, v). (k, g v)) m"

lemma keys_map_values [simp]: "keys (map_values g m) = keys m"
  by (simp add: map_values_def case_prod_unfold)

lemma bt_wf_map_values [simp]: "bt_wf (map_values g m) = bt_wf m"
  by (simp add: bt_wf_def)

lemma map_of_map_values: "map_of (map_values g m) k = map_option g (map_of m k)"
  by (simp add: map_values_def map_of_map)

lemma map_values_cong: "(\<And>k v. (k, v) \<in> set m \<Longrightarrow> g v = h v) \<Longrightarrow> map_values g m = map_values h m"
  by (auto simp: map_values_def)

lemma map_values_id: "(\<And>k v. (k, v) \<in> set m \<Longrightarrow> g v = v) \<Longrightarrow> map_values g m = m"
  by (auto simp: map_values_def intro: map_idI)

lemma map_filter_map_values:
  "(\<And>k v. (k, v) \<in> set m \<Longrightarrow> f (k, g v) = Some (k, v)) \<Longrightarrow> List.map_filter f (map_values g m) = m"
  by (induction m) (auto simp: map_values_def List.map_filter_def)

text \<open>A map is read back entry by entry.\<close>

lemma read_map_values:
  assumes "bt_wf m" and "\<And>k v. (k, v) \<in> set m \<Longrightarrow> read (write v) = Some (g v)"
  shows "read_map read (value_object (map_values write m)) = Some (map_values g m)"
proof -
  have "those (map (\<lambda>(k, v). map_option (Pair k) (read v)) (map_values write m)) = Some (map_values g m)"
    using assms(2) unfolding map_values_def
    by (auto simp: case_prod_unfold comp_def list_all_iff intro!: those_map)
  then show ?thesis
    using assms(1) by (simp add: value_object_def bt_from_wf)
qed

definition finite_matrix :: "latency_matrix \<Rightarrow> latency_matrix" where
  "finite_matrix = map_values (map_values finite_part)"

definition matrix_wf :: "latency_matrix \<Rightarrow> bool" where
  "matrix_wf m = (bt_wf m \<and> list_all (\<lambda>(src, row). bt_wf row) m)"

lemma matrix_wire_roundtrip:
  assumes "matrix_wf m"
  shows "read_matrix (value_object (matrix_entries m)) = Some (finite_matrix m)"
proof -
  have "matrix_entries m =
      [(''rpc_median_ms'', value_object (map_values (\<lambda>row. value_object (map_values (null_none json_f64) row)) m))]"
    by (simp add: matrix_entries_def map_values_def)
  moreover have "read_map (read_map (read_option read_f64)) (value_object
      (map_values (\<lambda>row. value_object (map_values (null_none json_f64) row)) m)) = Some (finite_matrix m)"
    unfolding finite_matrix_def using assms
    by (auto simp: matrix_wf_def list_all_iff read_null_f64 intro!: read_map_values)
  ultimately show ?thesis
    by (simp add: read_defs value_object_def bt_from_def)
qed

lemma rtt_ms_finite: "rtt_ms (finite_matrix m) src dst = finite_part (rtt_ms m src dst)"
  by (simp add: rtt_ms_def finite_matrix_def map_of_map_values finite_part_def split: option.split)

text \<open>A matrix that was written is loaded as it was, up to round trips that are no numbers.\<close>

lemma written_matrix_is_loaded:
  assumes "matrix_wf m" "m \<noteq> []"
  shows "latency_from_json read_matrix (value_object (matrix_entries m)) = finite_matrix m"
  using assms by (simp add: latency_from_json_def matrix_wire_roundtrip finite_matrix_def map_values_def)

subsection \<open>Snapshots\<close>

text \<open>A view that can be written: its hosts form a map, each slot has a name and a finite headroom.\<close>

definition writable_slot :: "slot_view \<Rightarrow> bool" where
  "writable_slot s = (sv_slot s \<noteq> [] \<and> (case sv_free_mb s of Fin _ \<Rightarrow> True | _ \<Rightarrow> False))"

definition writable_view :: "fleet_view \<Rightarrow> bool" where
  "writable_view v = (bt_wf (fv_hosts v) \<and> list_all (\<lambda>(k, h). list_all writable_slot (hv_slots h)) (fv_hosts v))"

lemma written_slot_is_read:
  "writable_slot s \<Longrightarrow> slot_from_item read_slot (key, value_object (slot_entries s)) = Some s"
  by (auto simp: slot_from_item_def slot_wire_roundtrip writable_slot_def split: f64.splits)

lemma map_filter_enumerate:
  "(\<And>x key. x \<in> set xs \<Longrightarrow> f (key, g x) = Some x) \<Longrightarrow>
     List.map_filter f (map (\<lambda>(i, v). (show_nat i, v)) (List.enumerate n (map g xs))) = xs"
  by (induction xs arbitrary: n) (simp_all add: List.map_filter_def)

lemma written_host_is_read:
  assumes "list_all writable_slot (hv_slots h)"
  shows "host_from_json read_slot host_value (bt_from (host_entries h)) = h"
  using assms
  by (simp add: host_from_json_def host_entries_def get_bt_from slot_items_def list_all_iff
      map_filter_enumerate written_slot_is_read)

text \<open>The hosts of a view that is written out are read back by the loader of snapshots. Its latency matrix
  is not: the loader looks for it at the top of the value, where the derived writer puts \<open>latency\<close>.\<close>

lemma written_view_is_loaded_without_latency:
  assumes "writable_view v"
  shows "from_snapshot_json read_slot read_matrix (value_object (view_entries v)) = v\<lparr>fv_latency := []\<rparr>"
proof -
  let ?hosts = "map_values (\<lambda>h. value_object (host_entries h)) (fv_hosts v)"
  have top: "value_object (view_entries v) = JObj [(''hosts'', JObj ?hosts), (''latency'', value_object (matrix_entries (fv_latency v)))]"
    using assms by (simp add: writable_view_def view_entries_def value_object_def bt_from_wf flip: map_values_def)
      (simp add: bt_from_def)
  have "List.map_filter (\<lambda>(k, x). map_option (\<lambda>info. (k, host_from_json read_slot x info)) (j_as_object x)) ?hosts = fv_hosts v"
    using assms unfolding writable_view_def
    by (intro map_filter_map_values) (auto simp: value_object_def written_host_is_read list_all_iff)
  moreover have "latency_from_json read_matrix (value_object (view_entries v)) = []"
    by (simp add: top latency_from_json_def read_defs latency_from_view_def j_index_def)
  ultimately show ?thesis
    using assms by (simp add: from_snapshot_json_def top snapshot_hosts_def j_index_def bt_from_wf writable_view_def)
qed

lemma written_view_is_loaded_without_latency_witness:
  "from_snapshot_json read_slot read_matrix (value_object (view_entries
      \<lparr>fv_hosts = [(''c4'', \<lparr>hv_slots = [\<lparr>sv_slot = ''lane'', sv_model_id = ''KAT'', sv_roles = [''coder''],
         sv_healthy = False, sv_free_mb = Fin 4000, sv_resource_id = None\<rparr>], hv_locked = True\<rparr>)],
       fv_latency = [(''c3'', [(''c4'', Some (Fin 1))])]\<rparr>))
     = \<lparr>fv_hosts = [(''c4'', \<lparr>hv_slots = [\<lparr>sv_slot = ''lane'', sv_model_id = ''KAT'', sv_roles = [''coder''],
         sv_healthy = False, sv_free_mb = Fin 4000, sv_resource_id = None\<rparr>], hv_locked = True\<rparr>)], fv_latency = []\<rparr>"
  by (subst written_view_is_loaded_without_latency) (simp_all add: writable_view_def writable_slot_def bt_wf_def)

subsection \<open>Lists that are taken for slots\<close>

text \<open>The loader means to drop what is no object. An array of one or two strings is a struct all the same,
  read in the order of the fields, and a host without \<open>slots\<close> is searched itself. So a host that lists two
  names under any key has a slot that is not there, and it serves every role.\<close>

lemma two_strings_are_a_slot:
  "read_slot (JArr [JStr a, JStr b]) =
     Some \<lparr>sv_slot = a, sv_model_id = b, sv_roles = [], sv_healthy = True, sv_free_mb = Fin 0, sv_resource_id = None\<rparr>"
  by (simp add: read_defs)

lemma phantom_slot:
  assumes "k \<notin> {''slots'', ''locked''}" "a \<noteq> []" "b \<noteq> []"
  shows "\<exists>s. best_slot (from_snapshot_json read_slot read_matrix
           (JObj [(''nodes'', JObj [(host, JObj [(k, JArr [JStr a, JStr b])])])])) host role = Some s
         \<and> sv_slot s = a \<and> sv_model_id s = b"
  using assms
  by (auto simp: from_snapshot_json_def snapshot_hosts_def j_index_def host_from_json_def slot_items_def
      slot_from_item_def two_strings_are_a_slot bt_from_def best_slot_def serves_def List.map_filter_def)

lemma phantom_slot_witness:
  "\<exists>s. best_slot (from_snapshot_json read_slot read_matrix
           (JObj [(''nodes'', JObj [(''c2'', JObj [(''gpus'', JArr [JStr ''RTX 3090'', JStr ''RTX A4000''])])])])) ''c2'' ''coder'' = Some s
         \<and> sv_slot s = ''RTX 3090'' \<and> sv_model_id s = ''RTX A4000''"
  by (rule phantom_slot) simp_all

end
