(* ===== verification/Wire_Tests.thy ===== *)
theory Wire_Tests
  imports Plan_Wire Head_Tests
begin

text \<open>
  The tests of \<open>plan.rs\<close> about the wire form of asks and fragments, run on the model of the derived
  readers and writers, and the tests of the loaders with the derived readers in the place of their
  arguments.
\<close>

subsection \<open>Fixtures\<close>

definition wire_keys :: "json \<Rightarrow> (string list \<Rightarrow> bool) \<Rightarrow> bool" where
  "wire_keys value rest = unwrap_some (j_as_object value) (\<lambda>m. rest (sort (keys m)))"

definition expected_fragment_keys :: "string list" where
  "expected_fragment_keys = sort fragment_fields"

subsection \<open>The tests\<close>

definition fragment_serializes_to_exactly_the_python_field_names :: bool where
  "fragment_serializes_to_exactly_the_python_field_names =
     (let f = \<lparr>pf_node_id = ''t440cesarops'', pf_role = ''coder'', pf_host_key = ''cesarops4om'',
                pf_slot = ''coder-lane-c4'', pf_model_id = ''KAT-Coder-V2.5'', pf_reason = ''fleet-wide'',
                pf_resource_id = None, pf_rtt_ms = None\<rparr>
      in wire_keys (value_object (fragment_entries f)) (\<lambda>ks. ks = expected_fragment_keys))"

definition python_shaped_fragment :: json where
  "python_shaped_fragment = JObj [(''node_id'', JStr ''t440cesarops''), (''role'', JStr ''coder''),
     (''host_key'', JStr ''cesarops4om''), (''slot'', JStr ''coder-lane-c4''), (''model_id'', JStr ''KAT-Coder-V2.5''),
     (''reason'', JStr ''no local slot for coder; remote host cesarops4om can take it'')]"

definition python_shaped_fragment_deserializes_without_the_extensions :: bool where
  "python_shaped_fragment_deserializes_without_the_extensions =
     unwrap_some (read_fragment python_shaped_fragment)
       (\<lambda>f. pf_host_key f = ''cesarops4om'' \<and> pf_resource_id f = None \<and> pf_rtt_ms f = None)"

definition a_null_snapshot_is_omitted_not_sent_as_null :: "(f64 \<Rightarrow> string) \<Rightarrow> bool" where
  "a_null_snapshot_is_omitted_not_sent_as_null num =
     (let value = value_object (request_entries ask_coder) in
      j_index value ''node_id'' = JStr ''t440cesarops'' \<and> j_index value ''role'' = JStr ''coder''
      \<and> j_get value ''local_snapshot'' = None
      \<and> \<not> contains (json_text num (JObj (request_entries ask_coder))) ''null''
      \<and> (let req = ask_coder\<lparr>pr_local_snapshot :=
               JObj [(''slots'', JArr [JObj [(''slot'', JStr ''coder-lane-a'')]])]\<rparr>;
             value = value_object (request_entries req)
         in j_as_object (j_index value ''local_snapshot'') \<noteq> None
            \<and> unwrap_some (read_request value) (\<lambda>r. r = req)))"

definition four_nodes :: fleet_view where
  "four_nodes = asker_and [] [remote_coder,
     (''cesarops3'', test_host [test_slot ''reviewer-e4b'' ''E4B'' [''reviewer''] True (Fin 6000)]),
     (''cesarops2'', test_host [test_slot ''thinker-nim'' ''NIM'' [''thinker''] True (Fin 2000)])]"

definition fragment_does_not_leak_the_rest_of_the_fleet :: "(f64 \<Rightarrow> string) \<Rightarrow> bool" where
  "fragment_does_not_leak_the_rest_of_the_fleet num =
     unwrap_ok (head_plan ask_coder four_nodes test_catalogue) (\<lambda>f.
       list_all (\<lambda>other. \<not> contains (json_text num (JObj (fragment_entries f))) other)
         [''cesarops3'', ''cesarops2'', ''reviewer-e4b'', ''thinker-nim'', ''E4B'']
       \<and> unwrap_some (j_as_object (value_object (fragment_entries f))) (\<lambda>m. length m = length fragment_fields))"

definition planned_keys :: "fleet_view \<Rightarrow> string \<Rightarrow> (string list \<Rightarrow> bool) \<Rightarrow> bool" where
  "planned_keys view kind rest =
     unwrap_ok (get_planner kind) (\<lambda>p. unwrap_some (planner_plan p ask_coder view)
       (\<lambda>f. wire_keys (value_object (fragment_entries f)) rest))"

definition both_planners_satisfy_the_same_fragment_contract :: bool where
  "both_planners_satisfy_the_same_fragment_contract =
     (let view = asker_and [local_coder] [remote_coder] in
      planned_keys view ''monolithic'' (\<lambda>m. planned_keys view ''federated'' (\<lambda>f. m = f))
      \<and> planned_keys view ''monolithic'' (\<lambda>m. m = expected_fragment_keys)
      \<and> unwrap_ok (get_planner ''monolithic'') (\<lambda>p. planner_name p = ''monolithic'')
      \<and> unwrap_ok (get_planner ''federated'') (\<lambda>p. planner_name p = ''federated''))"

subsection \<open>They pass\<close>

lemma fragment_names_test_passes: "fragment_serializes_to_exactly_the_python_field_names"
  by code_simp

lemma python_fragment_test_passes: "python_shaped_fragment_deserializes_without_the_extensions"
  by code_simp

text \<open>Text without quotes, backslashes and control characters is written as it is.\<close>

definition plain_char :: "char \<Rightarrow> bool" where
  "plain_char c = (32 \<le> (of_char c :: nat) \<and> c \<noteq> CHR 0x22 \<and> c \<noteq> CHR 0x5C)"

lemma plain_json_string: "list_all plain_char s \<Longrightarrow> json_string s = [CHR 0x22] @ s @ [CHR 0x22]"
proof -
  have "json_escape c = [c]" if "plain_char c" for c
    using that by (auto simp: plain_char_def json_escape_def Let_def)
  then show "list_all plain_char s \<Longrightarrow> json_string s = [CHR 0x22] @ s @ [CHR 0x22]"
    unfolding json_string_def by (induction s) auto
qed

lemma null_snapshot_test_passes: "a_null_snapshot_is_omitted_not_sent_as_null num"
  by (simp add: a_null_snapshot_is_omitted_not_sent_as_null_def request_entries_def plan_request_new_def
      value_object_def bt_from_def j_index_def read_defs test_simps plain_json_string plain_char_def starts_with_def)

declare show_f64.simps [simp del] show_f64_fixed.simps [simp del]

text \<open>The decimal exponent of the leading digit.\<close>

lemma ilog10_between:
  assumes "10 ^ k \<le> a" "a < 10 ^ Suc k" "k \<le> 308"
  shows "ilog10 a = int k"
proof -
  have above: "\<not> pow10 (308 - int j) \<le> a" if "j < 308 - k" for j
  proof -
    have "(10 :: rat) ^ Suc k \<le> 10 ^ (308 - j)"
      using that by (intro power_increasing) auto
    moreover have "pow10 (308 - int j) = 10 ^ (308 - j)"
      using that by (simp add: pow10_def nat_diff_distrib')
    ultimately show ?thesis
      using assms(2) by linarith
  qed
  have "pow10 (308 - int (308 - k)) \<le> a"
    using assms(1,3) by (simp add: pow10_def of_nat_diff)
  then have "find (\<lambda>p. pow10 p \<le> a) (map (\<lambda>i. 308 - int i) [0..<633]) = Some (int k)"
    unfolding find_Some_iff using above assms(3) by (intro exI [of _ "308 - k"]) (auto simp: of_nat_diff)
  then show ?thesis
    by (simp add: ilog10_def)
qed

lemma shown_headroom: "show_f64 (Fin 12000) = ''12000''"
proof -
  have e: "ilog10 12000 = 4"
    using ilog10_between [of 4 12000] by simp
  have r: "f64_round 10000 = Fin 10000" "f64_round 20000 = Fin 20000" "f64_round 12000 = Fin 12000"
      "f64_round 13000 = Fin 13000"
    using f_of_nat_exact [of 10000] f_of_nat_exact [of 20000] f_of_nat_exact [of 12000] f_of_nat_exact [of 13000]
    by (simp_all add: f_of_nat_def)
  have fl: "\<lfloor>12000 / 10000 :: rat\<rfloor> = 1" "\<lfloor>12000 / 1000 :: rat\<rfloor> = 12"
    by (simp_all add: floor_eq_iff)
  have one: "shortest 12000 1 = None" and two: "shortest 12000 2 = Some (12, 3)"
    using r fl by (simp_all add: shortest_def e pow10_def Let_def)
  have "[1..<18] = 1 # 2 # [3..<18]"
    by (simp add: upt_rec)
  then have "List.map_filter (shortest 12000) [1..<18] = (12, 3) # List.map_filter (shortest 12000) [3..<18]"
    by (simp only: List.map_filter_simps one two option.case)
  moreover have "show_decimal (12, 3) = ''12000''"
    by code_simp
  ultimately show ?thesis
    by (simp add: show_f64.simps)
qed

definition planned_fragment :: plan_fragment where
  "planned_fragment = \<lparr>pf_node_id = ''t440cesarops'', pf_role = ''coder'', pf_host_key = ''cesarops4om'',
     pf_slot = ''coder-lane-c4'', pf_model_id = ''KAT'',
     pf_reason = ''fleet-wide: cesarops4om has a healthy coder slot (12000 MiB free, rtt not measured)'',
     pf_resource_id = None, pf_rtt_ms = None\<rparr>"

lemma planned_for_coder: "head_plan ask_coder four_nodes test_catalogue = Inr planned_fragment"
  by (simp add: four_nodes_def plan_fixtures plan_steps fleet_score_def shown_headroom latency_text_def
      planned_fragment_def)

lemma planned_text:
  "json_text num (JObj (fragment_entries planned_fragment)) =
     ''{\"node_id\":\"t440cesarops\",\"role\":\"coder\",\"host_key\":\"cesarops4om\",\"slot\":\"coder-lane-c4\",'' @
     ''\"model_id\":\"KAT\",\"reason\":\"fleet-wide: cesarops4om has a healthy coder slot (12000 MiB free, rtt not measured)\"}''"
  by (simp add: fragment_entries_def planned_fragment_def skip_none_def plain_json_string plain_char_def)

lemma starts_with_step:
  "starts_with s []" "\<not> starts_with [] (d # p)"
  "starts_with (c # s) (d # p) = (if c = d then starts_with s p else False)"
  by (simp_all add: starts_with_def)

lemma leak_test_passes: "fragment_does_not_leak_the_rest_of_the_fleet num"
proof -
  have "list_all (\<lambda>other. \<not> contains (json_text num (JObj (fragment_entries planned_fragment))) other)
      [''cesarops3'', ''cesarops2'', ''reviewer-e4b'', ''thinker-nim'', ''E4B'']"
    unfolding planned_text by (simp add: starts_with_step)
  moreover have "unwrap_some (j_as_object (value_object (fragment_entries planned_fragment))) (\<lambda>m. length m = length fragment_fields)"
    by (simp add: value_object_def fragment_entries_def planned_fragment_def skip_none_def bt_from_def fragment_fields_def test_simps)
  ultimately show ?thesis
    by (simp add: fragment_does_not_leak_the_rest_of_the_fleet_def planned_for_coder test_simps)
qed

lemma sorted_fragment_keys:
  "pf_resource_id f = None \<Longrightarrow> pf_rtt_ms f = None \<Longrightarrow>
     wire_keys (value_object (fragment_entries f)) rest = rest expected_fragment_keys"
  by (simp add: wire_keys_def expected_fragment_keys_def value_object_def fragment_entries_def skip_none_def bt_from_def
      fragment_fields_def test_simps)

lemma same_contract_test_passes: "both_planners_satisfy_the_same_fragment_contract"
  by (simp add: both_planners_satisfy_the_same_fragment_contract_def planned_keys_def plan_fixtures plan_steps
      fleet_score_def sorted_fragment_keys test_simps)

subsection \<open>The loaders with the derived readers\<close>

lemma derived_slots:
  "reads_slots read_slot [(coder_c4_item, test_slot [] ''KAT'' [''coder''] True (Fin 12000)),
     (reviewer_e4b_item, test_slot ''reviewer-e4b'' ''E4B'' [''reviewer''] False (Fin 6000)),
     (lone_slot_item, test_slot ''coder-lane-c4'' ''KAT'' [''coder''] True (Fin 1))]"
  by (simp add: reads_slots_def coder_c4_item_def reviewer_e4b_item_def lone_slot_item_def read_defs test_slot_def)

lemma m11_slots_are_read: "reads_slots read_slot m11_slots"
  by (simp add: reads_slots_def m11_slots_def m11_slot_def read_defs test_slot_def)

lemma derived_readers_pass_the_loader_tests:
  "snapshot_normalisation_accepts_envelope_and_dict_slots read_slot read_matrix"
  "a_snapshot_without_slots_does_not_become_the_envelope read_slot read_matrix"
  "fleet_view_flattens_a_nauti_fleet_view_into_a_matrix_row read_matrix"
proof -
  show "snapshot_normalisation_accepts_envelope_and_dict_slots read_slot read_matrix"
    using derived_slots by (intro normalisation_test_passes) (simp add: reads_slots_def)
  show "a_snapshot_without_slots_does_not_become_the_envelope read_slot read_matrix"
    using derived_slots by (intro envelope_test_passes) (simp_all add: reads_slots_def read_slot_def)
  show "fleet_view_flattens_a_nauti_fleet_view_into_a_matrix_row read_matrix"
    by (rule flattening_test_passes) (simp add: read_defs nauti_fleet_view_value_def)
qed

end
