(* ===== verification/Spec2Isabelle.thy ===== *)
theory Spec2Isabelle
  imports Fabric_Properties Fabric_Concurrency Rpc_Properties Agent_Server_Properties Config Plan_Properties Http_Properties
    Cloud_Hypervisor_Properties Vfio Vhost_Rng_Properties Vhost_Device_Properties Topology Wgpu_Remote_Properties
    Wgpu_Kernel_Properties Entropy Lemonade_Properties Dataset_Validate Agent_Tools_Properties Gpu_Enrichment Gpu_Nvml
    Fleet_Statistics Agent_Process Vm_Launch Peer Listings_Properties Reports Command_Line_Properties Http_Roundtrip Dataset_Patterns
    Fabric_Tests Lemonade_Tests Head_Tests Vmm_Tests Vfio_Tests Rpc_Tests Dataset_Tests Vhost_Tests Command_Tests Gpu_Tests
    Hardware_Tests Plan_Wire Wire_Tests
begin

text \<open>
  A verification development for Nauti, a resource fabric: agents on the machines of a fleet publish
  what they have (processors, memory, disks, GPUs, network ports, stores, virtual machines) as
  resources; a controller asks an agent for a resource, takes an exclusive lease that expires by
  itself, attaches the resource through an adapter and releases it; a planner decides which machine
  should serve a role. The Rust sources are under \<open>src/nauti-fabric/src\<close> and \<open>src/tools\<close>.

  \<^bold>\<open>How the parts interact.\<close> \<open>Fabric\<close> (\<open>lib.rs\<close>) keeps the resources, the leases, the adapters, the
  attachments and the heartbeats, each behind a lock of its own. Discovery (\<open>hwinfo.rs\<close>,
  \<open>gpu/discover.rs\<close>, \<open>gpu/rocm.rs\<close>, \<open>topology.rs\<close>, \<open>memory.rs\<close>) fills the resources. An attach calls
  an adapter through the trait \<open>ResourceAdapter\<close>; adapters act on the machine. The agent
  (\<open>rpc.rs\<close>) reads requests from a stream, lets an \<open>AuthProvider\<close> (\<open>rpc_auth.rs\<close>, chosen by
  \<open>config.rs\<close>) decide, and dispatches them to the fabric. \<open>bin/nauti.rs\<close> holds the programs: the agent,
  the client's verbs, the VM launch, and the fleet tool whose view the planner of \<open>plan.rs\<close> reads.

  \<^bold>\<open>Conventions\<close> (\<open>Prelude\<close>, \<open>Rust_Strings\<close>, \<open>F64\<close>, \<open>Host_Os\<close>). A \<open>Result\<close> is a sum with the error on the
  left, a panic is the value \<open>Panicked\<close>, machine integers are words, strings are byte strings with the
  functions of \<open>str\<close> written out for ASCII, maps are association lists (a \<open>BTreeMap\<close> is kept in key order),
  \<open>f64\<close> is an exact rational with rounding after every operation (\<open>F64_Rounding\<close>: to nearest, within half a unit in
  the last place, exact on integers that fit). Time is an argument: every
  \<open>Instant::now()\<close> of the sources is a parameter. Third-party code (\<open>serde_json\<close>, \<open>toml\<close>, \<open>iroh\<close>, \<open>hwloc\<close>,
  NVML, \<open>wgpu\<close>, the rust-vmm crates) and the machine are arguments of the definitions that use
  them; a property assumes of them what is written in its statement, and nothing else.

  \<^bold>\<open>The theories\<close>, in the order in which they build on each other.

  \<^item> \<open>Resource_Model\<close>, \<open>Adapter_Contract\<close>, \<open>Fabric\<close>: the data of \<open>lib.rs\<close>, the trait as a record of operations,
    and one function per method of \<open>Fabric\<close> on the record of its registries. The locale
    \<open>adapter_contract\<close> says what the fabric relies on in an adapter.
  \<^item> \<open>Fabric_Invariant\<close>, \<open>Fabric_History\<close>, \<open>Fabric_Behaviour\<close>, \<open>Fabric_Properties\<close>: well-formedness of every
    reachable state; the promises made to lease holders, read off a log of what the fabric answered;
    the refinement of a lease table without expired entries; what refresh, eviction and release do.
  \<^item> \<open>Fabric_Concurrency\<close>: the same methods as sequences of critical sections, run by any number of threads in
    any order. Promises survive every schedule, no schedule deadlocks, uninterrupted sections are the methods;
    two races are shown by runs.
  \<^item> \<open>Store\<close>, \<open>Research_Memory\<close>, \<open>Gpu_Discovery\<close>, \<open>Gpu_Adapters\<close>, \<open>Gpu_Enrichment\<close>, \<open>Gpu_Nvml\<close>,
    \<open>Hardware\<close>, \<open>Topology\<close>, \<open>Inventory\<close>: discovery and the adapters of the agent; \<open>Adapters\<close> collects the agent's adapters in a sum type and
    interprets the contract for them. \<open>Lemonade\<close>, \<open>Cloud_Hypervisor\<close> and \<open>Vfio\<close> interpret it for the adapters with a
    world of their own. \<open>Vm_Launch\<close> runs the hypervisor's adapter through the fabric.
  \<^item> \<open>Rpc_Auth\<close>, \<open>Rpc\<close>, \<open>Config\<close>, \<open>Rpc_Properties\<close>: requests, providers, frames, dispatch, the loop over a connection,
    the configuration that picks the provider. \<open>Agent_Tools\<close> puts agent and client together.
  \<^item> \<open>Agent_Server\<close>, \<open>Agent_Server_Properties\<close>: the agent as it runs, any number of connections served at the same
    time against one fabric; \<open>Rpc\<close> and \<open>Fabric_Concurrency\<close> composed. A run of the server is an interleaving of
    fabric calls, and the accept loop of one connection is a run of the server. \<open>Agent_Process\<close>: the process
    around it, its identity and its address file, and connecting to it.
  \<^item> \<open>Plan\<close>, \<open>Http\<close> and their properties: the fleet view, both planners (the locale \<open>fleet_planner\<close> is what the trait
    promises), the head's decision order, the hand-written HTTP client. \<open>Fleet\<close> is the tool that measures
    the fleet for them, \<open>Fleet_Statistics\<close> shows its statistics in order; \<open>Reports\<close> is what it and the plan commands print, and when they fail.
    \<open>Plan_Wire\<close> is the JSON that the field attributes of the planner's messages ask for, written and read back.
  \<^item> \<open>Vhost_Rng\<close>, \<open>Vhost_Device\<close>, \<open>Entropy\<close>, \<open>Wgpu_Remote\<close>, \<open>Wgpu_Kernel\<close>, \<open>Peer\<close>: the device backends and remote
    jobs. A run of the virtio-rng device is paced (\<open>paced\<close> of \<open>Vhost_Rng_Properties\<close>), and paced runs compose: over
    a queue, over an event, over the messages of a connection. A GPU job is followed from the client through
    frames, server and shader and back.
  \<^item> \<open>Listings\<close>, \<open>Listings_Properties\<close>, \<open>Command_Line\<close>: the listings of \<open>bin/nauti.rs\<close>, its commands with their
    defaults, the dispatch of \<open>main\<close>, and the GPU, vhost and VM commands. The adapters that a listing registers
    together are one more interpretation of \<open>adapter_contract\<close>.
  \<^item> \<open>Dataset_Validate\<close>, \<open>Dataset_Patterns\<close>: the corpus validator of \<open>src/tools\<close> and its two regular expressions, as
    syntax trees with a matcher; the identifier pattern selects whole words, so the rules of the corpus can be
    stated without it.
  \<^item> \<open>Http_Roundtrip\<close>: what a head writes is what the client reads, from the status line to the chunks of the body.
  \<^item> \<open>Unit_Tests\<close> and the theories whose names end in \<open>_Tests\<close>: the unit tests of the repository, each a boolean-valued function
    with the calls of the test in their order, run on the model. \<open>Adapter_Tests\<close>, \<open>Lemonade_Tests\<close>, \<open>Gpu_Tests\<close>,
    \<open>Hardware_Tests\<close>, \<open>Vfio_Tests\<close>, \<open>Vmm_Tests\<close>, \<open>Vhost_Tests\<close> (devices and adapters), \<open>Fabric_Tests\<close>, \<open>Rpc_Tests\<close>,
    \<open>Plan_Tests\<close>, \<open>Head_Tests\<close>, \<open>Wire_Tests\<close>, \<open>Command_Tests\<close>, \<open>Dataset_Tests\<close>. A test that reads the clock or the machine takes
    it as an argument, and its lemma says for which readings it passes. They show that the model answers as the
    program is expected to, on the inputs its authors chose.

  \<^bold>\<open>What is shown.\<close> Leases: exclusive, kept until their last told expiry under every interleaving, needed for
  every attach, ended by a release; the lease table refines its specification. Peers of one agent are never told
  two leases for one resource that are both in force, and none of their requests waits for ever. Agents: requests are
  answered in order, a restarted agent is the same agent, unfinished auth providers never let anything through, the controller's proof
  session succeeds on every machine. Planner: answers are backed by a healthy unlocked slot, complete, optimal for the
  score, and measured round trips arrive unchanged from the fleet tool. Parsers and printers (frames,
  HTTP responses, VM specs) are inverse. Rates and windows are kept, for the life of a device. A GPU job
  over the network is the sum the client would compute itself, and the command that sends it succeeds. Several theorems
  state what the code does where it does not do what its documentation says: a huge ttl, the race of
  unregister with a lease, a list of two names that is taken for a slot, a silent node that counts as measured at zero, a job server that one peer ends.

  \<^bold>\<open>Bounds and fuel.\<close> Loops that consume input recurse on it (\<open>function\<close> with a measure on the bytes left). Loops that
  the outside drives (the virtqueue, the pump, the accept loops) take the list of what the outside does;
  where the list ends before the loop does, the result is \<open>None\<close>, and a theorem says exactly when that
  happens. No fuel is used.

  \<^bold>\<open>Not modelled.\<close> The argument parser (\<open>clap\<close>), the async runtime and the log of \<open>tracing\<close>; the buffers, bind
  groups and pipelines \<open>gpu/wgpu_kernel.rs\<close> builds (plumbing of the \<open>wgpu\<close> crate) and the limits of a device;
  the JSON \<open>serde\<close> derives for other messages than the planner's (the derived code is an argument there) and
  assertions about a thread that is joined or a file that is removed. Character classes outside
  ASCII are not modelled, nor is the sign of a floating-point zero. IPv6 socket addresses are parsed by an
  argument.

  \<^bold>\<open>Plan.\<close> Every part of the sources with logic of its own is modelled. What could be added: the JSON that
  \<open>serde\<close> derives for the agent's messages, in the way of \<open>Plan_Wire\<close>, so that the theorems about frames need not assume its round trips.
\<close>

end
